(* ===== verification/Go_Prelude.thy ===== *)
theory Go_Prelude
  imports Complex_Main "HOL-Library.Word" "HOL-Library.Signed_Division"
    "HOL-Library.List_Lexorder" "HOL-Library.Char_ord" "HOL-Library.AList"
    "HOL-Library.Multiset"
begin

text \<open>
  The part of the Go language and its standard library that the components share:
  results with an error value, early return and loops over slices, machine integers,
  arbitrary precision integers (\<^verbatim>\<open>math/big\<close>), maps, and strings as byte lists.

  The collections declared here carry the automation of the component theories:
  \<^item> \<open>go_result\<close>: rules that invert or evaluate a computation that may return an error;
  \<^item> \<open>go_word\<close>: rules that read machine integers as mathematical integers;
  \<^item> \<open>go_map\<close>: lookup rules of the map operations.
\<close>

named_theorems go_result "evaluation and inversion of computations with an error value"
named_theorems go_word "machine integers read as integers"
named_theorems go_map_simps "lookup after an update of a Go map"

section \<open>Results with an error value\<close>

text \<open>
  A Go function that returns \<open>(T, error)\<close> is a value of a sum type: \<open>Inl\<close> carries the
  error, \<open>Inr\<close> the result. \<open>andThen\<close> is the code's pattern
  \<^verbatim>\<open>x, err := f(); if err != nil { return err }\<close>, and \<open>orError\<close> its variant that
  replaces the error.
\<close>

definition andThen :: "'e + 'a \<Rightarrow> ('a \<Rightarrow> 'e + 'b) \<Rightarrow> 'e + 'b" where
  "andThen m f = (case m of Inl e \<Rightarrow> Inl e | Inr x \<Rightarrow> f x)"

definition orError :: "'e \<Rightarrow> 'd + 'a \<Rightarrow> 'e + 'a" where
  "orError e m = (case m of Inl _ \<Rightarrow> Inl e | Inr x \<Rightarrow> Inr x)"

definition isOk :: "'e + 'a \<Rightarrow> bool" where
  "isOk m = (case m of Inl _ \<Rightarrow> False | Inr _ \<Rightarrow> True)"

text \<open>A value that may be absent: a pointer that may be nil, a call whose only error is fixed.\<close>

definition someOr :: "'e \<Rightarrow> 'a option \<Rightarrow> 'e + 'a" where
  "someOr e p = (case p of None \<Rightarrow> Inl e | Some x \<Rightarrow> Inr x)"

text \<open>A loop over a slice that threads a state and returns at the first error.\<close>

primrec forEach :: "('a \<Rightarrow> 's \<Rightarrow> 'e + 's) \<Rightarrow> 'a list \<Rightarrow> 's \<Rightarrow> 'e + 's" where
  "forEach f [] s = Inr s"
| "forEach f (x # xs) s = andThen (f x s) (forEach f xs)"

lemma andThen_Inl [simp]: "andThen (Inl e) f = Inl e"
  by (simp add: andThen_def)

lemma andThen_Inr [simp]: "andThen (Inr x) f = f x"
  by (simp add: andThen_def)

lemma andThen_eq_Inr [go_result]:
  "andThen m f = Inr y \<longleftrightarrow> (\<exists>x. m = Inr x \<and> f x = Inr y)"
  by (cases m) simp_all

lemma andThen_eq_Inl [go_result]:
  "andThen m f = Inl e \<longleftrightarrow> m = Inl e \<or> (\<exists>x. m = Inr x \<and> f x = Inl e)"
  by (cases m) simp_all

lemma andThenE [elim!]:
  assumes "andThen m f = Inr y"
  obtains x where "m = Inr x" "f x = Inr y"
  using assms by (auto simp: andThen_eq_Inr)

lemma casePairE:
  assumes "(case p of (a, b) \<Rightarrow> f a b) = Inr y"
  obtains a b where "p = (a, b)" "f a b = Inr y"
  using assms by (cases p) simp

lemma checkE [elim!]:
  assumes "(if b then Inl e else m) = Inr y"
  obtains "\<not> b" "m = Inr y"
  using assms by (auto split: if_splits)

lemma andThen_cong [fundef_cong]:
  "m = m' \<Longrightarrow> (\<And>x. m' = Inr x \<Longrightarrow> f x = g x) \<Longrightarrow> andThen m f = andThen m' g"
  by (cases m') simp_all

lemma orError_Inl [simp]: "orError e (Inl d) = Inl e"
  by (simp add: orError_def)

lemma orError_Inr [simp]: "orError e (Inr x) = Inr x"
  by (simp add: orError_def)

lemma orError_eq_Inr [go_result]: "orError e m = Inr x \<longleftrightarrow> m = Inr x"
  by (cases m) simp_all

lemma orError_eq_Inl [go_result]: "orError e m = Inl d \<longleftrightarrow> d = e \<and> (\<exists>c. m = Inl c)"
  by (cases m) auto

lemma someOr_simps [simp]: "someOr e None = Inl e" "someOr e (Some x) = Inr x"
  by (simp_all add: someOr_def)

lemma someOr_eq_Inr [go_result]: "someOr e p = Inr x \<longleftrightarrow> p = Some x"
  by (cases p) simp_all

lemma someOr_eq_Inl [go_result]: "someOr e p = Inl d \<longleftrightarrow> p = None \<and> d = e"
  by (cases p) auto

lemma isOk_simps [simp]: "isOk (Inl e) = False" "isOk (Inr x) = True"
  by (simp_all add: isOk_def)

lemma isOk_iff: "isOk m \<longleftrightarrow> (\<exists>x. m = Inr x)"
  by (cases m) simp_all

lemma not_isOk_iff: "\<not> isOk m \<longleftrightarrow> (\<exists>e. m = Inl e)"
  by (cases m) simp_all

lemma if_Inl_eq_Inr [go_result]: "(if b then Inl e else m) = Inr x \<longleftrightarrow> \<not> b \<and> m = Inr x"
  by simp

lemma if_not_Inl_eq_Inr [go_result]: "(if b then m else Inl e) = Inr x \<longleftrightarrow> b \<and> m = Inr x"
  by simp

text \<open>
  Two ways to reason about a loop: an invariant that each iteration keeps, and a preorder
  between the states before and after that each iteration respects.
\<close>

lemma forEach_invariant:
  assumes "forEach f xs s = Inr t" and "P s"
    and "\<And>x s t. x \<in> set xs \<Longrightarrow> f x s = Inr t \<Longrightarrow> P s \<Longrightarrow> P t"
  shows "P t"
  using assms
proof (induction xs arbitrary: s)
  case Nil
  then show ?case by simp
next
  case (Cons x xs)
  from Cons.prems(1) obtain u where u: "f x s = Inr u" "forEach f xs u = Inr t"
    by (auto simp: go_result)
  have "P u" by (rule Cons.prems(3) [OF _ u(1) Cons.prems(2)]) simp
  then show ?case
  proof (rule Cons.IH [OF u(2)])
    fix y s t
    assume "y \<in> set xs" and step: "f y s = Inr t" and "P s"
    then show "P t" using Cons.prems(3) [OF _ step] by simp
  qed
qed

lemma forEach_append:
  "forEach f (xs @ ys) s = andThen (forEach f xs s) (forEach f ys)"
  by (induction xs arbitrary: s) (auto simp: andThen_def split: sum.splits)

section \<open>Machine and arbitrary precision integers\<close>

text \<open>
  A Go integer of width \<open>w\<close> is a \<open>w word\<close>; signed types are read with \<open>sint\<close>, unsigned
  ones with \<open>uint\<close>, and arithmetic wraps. A \<^verbatim>\<open>big.Int\<close> is an \<open>int\<close>. \<open>Quo\<close> and the
  operator \<open>/\<close> truncate towards zero, which is \<open>sdiv\<close>.
\<close>

type_synonym int64 = "64 word"
type_synonym int32 = "32 word"
type_synonym uint64 = "64 word"
type_synonym uint32 = "32 word"
type_synonym uint16 = "16 word"
type_synonym byte = "8 word"

abbreviation MaxInt64 :: int where "MaxInt64 \<equiv> 9223372036854775807"
abbreviation MinInt64 :: int where "MinInt64 \<equiv> - 9223372036854775808"
abbreviation MaxInt32 :: int where "MaxInt32 \<equiv> 2147483647"

definition IsInt64 :: "int \<Rightarrow> bool" where
  "IsInt64 x \<longleftrightarrow> MinInt64 \<le> x \<and> x \<le> MaxInt64"

definition IsUint64 :: "int \<Rightarrow> bool" where
  "IsUint64 x \<longleftrightarrow> 0 \<le> x \<and> x \<le> 18446744073709551615"

lemma sint64_range [simp]: "IsInt64 (sint (x :: int64))"
  using sint_ge [of x] sint_lt [of x] by (simp add: IsInt64_def)

lemma sint64_lower: "MinInt64 \<le> sint (x :: int64)"
  using sint64_range [of x] by (simp add: IsInt64_def)

lemma sint64_upper: "sint (x :: int64) \<le> MaxInt64"
  using sint64_range [of x] by (simp add: IsInt64_def)

lemma sint32_lower: "- 2147483648 \<le> sint (x :: int32)"
  using sint_ge [of x] sint_lt [of x] by simp

lemma sint32_upper: "sint (x :: int32) \<le> MaxInt32"
  using sint_ge [of x] sint_lt [of x] by simp

lemma sint_of_int64 [go_word]: "IsInt64 x \<Longrightarrow> sint (word_of_int x :: int64) = x"
  by (simp add: sint_sbintrunc' IsInt64_def signed_take_bit_int_eq_self_iff)

lemma sint_of_int32 [go_word]:
  "- 2147483648 \<le> x \<Longrightarrow> x \<le> MaxInt32 \<Longrightarrow> sint (word_of_int x :: int32) = x"
  by (simp add: sint_sbintrunc' signed_take_bit_int_eq_self_iff)

lemma sint64_eq_0_iff [simp]: "sint (x :: int64) = 0 \<longleftrightarrow> x = 0"
  by (metis signed_0 signed_word_eqI)

lemma sint64_inject: "sint (x :: int64) = sint y \<longleftrightarrow> x = y"
  by (metis signed_word_eqI)

lemma sint32_inject: "sint (x :: int32) = sint y \<longleftrightarrow> x = y"
  by (metis signed_word_eqI)

lemma uint_of_int64 [go_word]: "IsUint64 x \<Longrightarrow> uint (word_of_int x :: uint64) = x"
  by (simp add: uint_word_of_int IsUint64_def)

lemma uint_sint_nonneg64: "0 \<le> sint (x :: int64) \<Longrightarrow> uint x = sint x"
  using sint64_upper [of x] by (simp add: uint_sint take_bit_int_eq_self_iff)

section \<open>Maps\<close>

text \<open>
  A Go map is an association list read through \<open>map_of\<close>. An assignment updates in place or
  appends, \<^verbatim>\<open>delete\<close> removes, and \<open>m[k]\<close> of an absent key is the zero value of the
  element type, which the reading operation takes as an argument. A \<^verbatim>\<open>range\<close> loop visits
  every key once, in an order the language leaves open; every loop of the source over a map
  is modelled over \<open>gm_keys\<close>.
\<close>

type_synonym ('k, 'v) gomap = "('k \<times> 'v) list"

definition gm_lookup :: "('k, 'v) gomap \<Rightarrow> 'k \<Rightarrow> 'v option" where
  "gm_lookup m k = map_of m k"

definition gm_set :: "('k, 'v) gomap \<Rightarrow> 'k \<Rightarrow> 'v \<Rightarrow> ('k, 'v) gomap" where
  "gm_set m k v = AList.update k v m"

definition gm_delete :: "('k, 'v) gomap \<Rightarrow> 'k \<Rightarrow> ('k, 'v) gomap" where
  "gm_delete m k = AList.delete k m"

definition gm_keys :: "('k, 'v) gomap \<Rightarrow> 'k list" where
  "gm_keys m = remdups (map fst m)"

definition gm_entries :: "('k, 'v) gomap \<Rightarrow> ('k \<times> 'v) list" where
  "gm_entries m = map (\<lambda>k. (k, the (gm_lookup m k))) (gm_keys m)"

definition gm_get :: "'v \<Rightarrow> ('k, 'v) gomap \<Rightarrow> 'k \<Rightarrow> 'v" where
  "gm_get zero m k = (case gm_lookup m k of None \<Rightarrow> zero | Some v \<Rightarrow> v)"

definition gm_has :: "('k, 'v) gomap \<Rightarrow> 'k \<Rightarrow> bool" where
  "gm_has m k \<longleftrightarrow> gm_lookup m k \<noteq> None"

definition gm_size :: "('k, 'v) gomap \<Rightarrow> nat" where
  "gm_size m = length (gm_keys m)"

text \<open>The contract of the map operations, and what every client of it may rely on.\<close>

locale go_map =
  fixes lookup :: "'m \<Rightarrow> 'k \<Rightarrow> 'v option"
    and set_at :: "'m \<Rightarrow> 'k \<Rightarrow> 'v \<Rightarrow> 'm"
    and remove_at :: "'m \<Rightarrow> 'k \<Rightarrow> 'm"
    and keys :: "'m \<Rightarrow> 'k list"
  assumes lookup_set_at: "lookup (set_at m k v) j = (if j = k then Some v else lookup m j)"
    and lookup_remove_at: "lookup (remove_at m k) j = (if j = k then None else lookup m j)"
    and set_keys: "set (keys m) = {k. lookup m k \<noteq> None}"
    and distinct_keys: "distinct (keys m)"
begin

lemma keys_all_iff:
  "(\<forall>k \<in> set (keys m). \<forall>v. lookup m k = Some v \<longrightarrow> P k v) \<longleftrightarrow>
    (\<forall>k v. lookup m k = Some v \<longrightarrow> P k v)"
  by (auto simp: set_keys)

lemma set_keys_set_at: "set (keys (set_at m k v)) = insert k (set (keys m))"
  by (auto simp: set_keys lookup_set_at)

lemma length_keys_card: "length (keys m) = card {k. lookup m k \<noteq> None}"
  using distinct_card [OF distinct_keys] by (simp add: set_keys)

lemma finite_domain: "finite {k. lookup m k \<noteq> None}"
  using finite_set [of "keys m"] by (simp only: set_keys)

lemma length_filter_keys_card:
  "length (filter P (keys m)) = card {k. lookup m k \<noteq> None \<and> P k}"
proof -
  have "distinct (filter P (keys m))" by (simp add: distinct_keys)
  then have "length (filter P (keys m)) = card (set (filter P (keys m)))"
    by (simp only: distinct_card)
  also have "set (filter P (keys m)) = {k. lookup m k \<noteq> None \<and> P k}"
    by (auto simp: set_keys)
  finally show ?thesis .
qed

end

interpretation gm: go_map gm_lookup gm_set gm_delete gm_keys
proof unfold_locales
  fix m :: "('k, 'v) gomap" and k j v
  show "gm_lookup (gm_set m k v) j = (if j = k then Some v else gm_lookup m j)"
    by (simp add: gm_lookup_def gm_set_def update_conv')
  show "gm_lookup (gm_delete m k) j = (if j = k then None else gm_lookup m j)"
    by (simp add: gm_lookup_def gm_delete_def delete_conv)
  show "set (gm_keys m) = {k. gm_lookup m k \<noteq> None}"
    by (auto simp: gm_keys_def gm_lookup_def map_of_eq_None_iff)
  show "distinct (gm_keys m)"
    by (simp add: gm_keys_def)
qed

lemmas gm_lookup_set [simp, go_map_simps] = gm.lookup_set_at
lemmas gm_lookup_delete [simp, go_map_simps] = gm.lookup_remove_at

lemma gm_get_set [simp, go_map_simps]: "gm_get z (gm_set m k v) j = (if j = k then v else gm_get z m j)"
  by (simp add: gm_get_def)

lemma gm_has_set [simp, go_map_simps]: "gm_has (gm_set m k v) j \<longleftrightarrow> j = k \<or> gm_has m j"
  by (simp add: gm_has_def)

lemma gm_has_delete [simp, go_map_simps]: "gm_has (gm_delete m k) j \<longleftrightarrow> j \<noteq> k \<and> gm_has m j"
  by (simp add: gm_has_def)

lemma gm_lookup_Nil [simp]: "gm_lookup [] k = None"
  by (simp add: gm_lookup_def)

lemma gm_lookup_Cons [simp]: "gm_lookup ((j, v) # m) k = (if k = j then Some v else gm_lookup m k)"
  by (simp add: gm_lookup_def)

lemma gm_has_Nil [simp]: "\<not> gm_has [] k"
  by (simp add: gm_has_def)

lemma gm_has_Cons [simp]: "gm_has ((j, v) # m) k \<longleftrightarrow> k = j \<or> gm_has m k"
  by (simp add: gm_has_def)

lemma gm_get_Nil [simp]: "gm_get z [] k = z"
  by (simp add: gm_get_def)

lemma gm_get_Cons [simp]: "gm_get z ((j, v) # m) k = (if k = j then v else gm_get z m k)"
  by (simp add: gm_get_def)

lemma gm_has_lookup: "gm_has m k \<Longrightarrow> gm_lookup m k = Some (gm_get z m k)"
  by (auto simp: gm_has_def gm_get_def)

lemma gm_lookup_has: "gm_lookup m k = Some v \<Longrightarrow> gm_has m k"
  by (simp add: gm_has_def)

lemma gm_lookup_get: "gm_lookup m k = Some v \<Longrightarrow> gm_get z m k = v"
  by (simp add: gm_get_def)

lemma set_gm_keys: "set (gm_keys m) = {k. gm_has m k}"
  by (simp add: gm.set_keys gm_has_def)

lemma set_gm_entries: "(k, v) \<in> set (gm_entries m) \<longleftrightarrow> gm_lookup m k = Some v"
  by (auto simp: gm_entries_def set_gm_keys gm_has_def)

lemma distinct_gm_entries: "distinct (map fst (gm_entries m))"
  by (simp add: gm_entries_def comp_def gm.distinct_keys)

section \<open>Strings\<close>

text \<open>
  A Go string is a sequence of bytes; a \<open>char\<close> of HOL is a byte. \<open><\<close> on strings is the
  lexicographic order of the bytes, as in Go.
\<close>

abbreviation NUL :: char where "NUL \<equiv> CHR 0x00"

text \<open>\<^verbatim>\<open>strings.Cut\<close> with a one byte separator: the parts before and after its first occurrence.\<close>

definition strings_cut :: "char \<Rightarrow> string \<Rightarrow> string \<times> string" where
  "strings_cut c s = (takeWhile (\<lambda>x. x \<noteq> c) s, tl (dropWhile (\<lambda>x. x \<noteq> c) s))"

lemma strings_cut_append: "c \<notin> set a \<Longrightarrow> strings_cut c (a @ c # b) = (a, b)"
proof -
  assume "c \<notin> set a"
  then have "takeWhile (\<lambda>x. x \<noteq> c) (a @ c # b) = a" "dropWhile (\<lambda>x. x \<noteq> c) (a @ c # b) = c # b"
    by (induction a) auto
  then show ?thesis by (simp add: strings_cut_def)
qed

section \<open>Sorting slices\<close>

text \<open>
  \<^verbatim>\<open>sort.Slice\<close> orders a slice by a less function. It leaves the order of elements that are
  not less than each other open; the model keeps them in place. When the less function
  compares a key of a linear order, the result is the sort by that key.
\<close>

fun insert_by :: "('a \<Rightarrow> 'a \<Rightarrow> bool) \<Rightarrow> 'a \<Rightarrow> 'a list \<Rightarrow> 'a list" where
  "insert_by lt x [] = [x]"
| "insert_by lt x (y # ys) = (if lt y x then y # insert_by lt x ys else x # y # ys)"

definition sort_slice :: "('a \<Rightarrow> 'a \<Rightarrow> bool) \<Rightarrow> 'a list \<Rightarrow> 'a list" where
  "sort_slice lt xs = foldr (insert_by lt) xs []"

lemma insert_by_key:
  "\<forall>y \<in> set ys. lt y x \<longleftrightarrow> key y < key x \<Longrightarrow> insert_by lt x ys = insort_key key x ys"
  by (induction ys) auto

lemma mset_insert_by: "mset (insert_by lt x ys) = add_mset x (mset ys)"
  by (induction ys) auto

lemma mset_sort_slice [simp]: "mset (sort_slice lt xs) = mset xs"
  by (induction xs) (simp_all add: sort_slice_def mset_insert_by)

lemma set_sort_slice [simp]: "set (sort_slice lt xs) = set xs"
  by (rule mset_eq_setD) simp

lemma length_sort_slice [simp]: "length (sort_slice lt xs) = length xs"
  by (rule mset_eq_length) simp

lemma sort_slice_key:
  assumes "\<And>x y. x \<in> set xs \<Longrightarrow> y \<in> set xs \<Longrightarrow> lt x y \<longleftrightarrow> key x < key y"
  shows "sort_slice lt xs = sort_key key xs"
  using assms
proof (induction xs)
  case (Cons x xs)
  have IH: "sort_slice lt xs = sort_key key xs" by (rule Cons.IH) (simp add: Cons.prems)
  have "insert_by lt x (sort_slice lt xs) = insort_key key x (sort_slice lt xs)"
    by (rule insert_by_key) (simp add: Cons.prems)
  then show ?case using IH by (simp add: sort_slice_def sort_key_def)
qed (simp add: sort_slice_def)

end
