(* ===== verification/Exact.thy ===== *)
theory Exact
  imports Go_Prelude
begin

text \<open>
  Exact scalars of \<^verbatim>\<open>product/domain/exact.go\<close>: rational times, dimensionless rationals,
  time ranges, revisions, and the canonical decimal texts of 64 bit integers. A valid
  rational time denotes a rational number (\<open>rt_val\<close>); the operations are shown to compute
  exactly on it, with an error exactly when the result has no representation.
\<close>

section \<open>Errors\<close>

datatype exact_error =
    ErrInvalidExactInteger
  | ErrInvalidExactRational
  | ErrRevisionOverflow
  | ErrInvalidRationalTime
  | ErrTimeOverflow

section \<open>Greatest common divisor and magnitude\<close>

function gcd64 :: "uint64 \<Rightarrow> uint64 \<Rightarrow> uint64" where
  "gcd64 left right = (if right = 0 then left else gcd64 right (left mod right))"
  by pat_completeness auto
termination
proof (relation "measure (\<lambda>(left, right). unat right)")
  show "wf (measure (\<lambda>(left, right). unat (right :: uint64)))" by simp
next
  fix left right :: uint64
  assume "right \<noteq> 0"
  then have "unat left mod unat right < unat right"
    by (simp add: unat_gt_0)
  then show "((right, left mod right), left, right) \<in> measure (\<lambda>(left, right). unat right)"
    by (simp add: unat_mod_distrib)
qed

declare gcd64.simps [simp del]

definition absInt64 :: "int64 \<Rightarrow> uint64" where
  "absInt64 value = (if 0 \<le> sint value then value else - (value + 1) + 1)"

section \<open>Dimensionless rationals\<close>

record exact_rational =
  er_Value :: int64
  er_Scale :: int32

definition NewExactRational :: "int64 \<Rightarrow> int32 \<Rightarrow> exact_error + exact_rational" where
  "NewExactRational value scale =
    (if sint scale \<le> 0 then Inl ErrInvalidExactRational
     else if value = 0 then Inr \<lparr>er_Value = 0, er_Scale = 1\<rparr>
     else let divisor = gcd64 (absInt64 value) (scast scale) in
       Inr \<lparr>er_Value = word_of_int (sint value sdiv sint divisor),
            er_Scale = word_of_int (sint scale sdiv sint (ucast divisor :: int32))\<rparr>)"

definition ExactRational_Validate :: "exact_rational \<Rightarrow> exact_error + unit" where
  "ExactRational_Validate value =
    (if sint (er_Scale value) \<le> 0 then Inl ErrInvalidExactRational
     else if er_Value value = 0 then
       (if er_Scale value \<noteq> 1 then Inl ErrInvalidExactRational else Inr ())
     else if gcd64 (absInt64 (er_Value value)) (scast (er_Scale value)) \<noteq> 1 then
       Inl ErrInvalidExactRational
     else Inr ())"

definition ExactRational_IsNegative :: "exact_rational \<Rightarrow> bool" where
  "ExactRational_IsNegative value \<longleftrightarrow> sint (er_Value value) < 0"

definition ExactRational_IsPositive :: "exact_rational \<Rightarrow> bool" where
  "ExactRational_IsPositive value \<longleftrightarrow> sint (er_Value value) > 0"

definition ExactRational_Compare :: "exact_rational \<Rightarrow> exact_rational \<Rightarrow> exact_error + int" where
  "ExactRational_Compare value other =
    andThen (ExactRational_Validate value) (\<lambda>_.
    andThen (ExactRational_Validate other) (\<lambda>_.
      let left = sint (er_Value value) * sint (er_Scale other);
          right = sint (er_Value other) * sint (er_Scale value)
      in Inr (sgn (left - right))))"

section \<open>Revisions\<close>

text \<open>
  A revision is an unsigned 64 bit integer that its constructor caps at the largest signed
  one; \<open>Next\<close> adds in 64 bits and checks the result.
\<close>

type_synonym revision = uint64

definition NewRevision :: "uint64 \<Rightarrow> exact_error + revision" where
  "NewRevision value = (if uint value > MaxInt64 then Inl ErrRevisionOverflow else Inr value)"

definition Revision_Next :: "revision \<Rightarrow> exact_error + revision" where
  "Revision_Next value = NewRevision (value + 1)"

definition NewUInt64 :: "uint64 \<Rightarrow> exact_error + uint64" where
  "NewUInt64 value = (if uint value > MaxInt64 then Inl ErrRevisionOverflow else Inr value)"

definition NewCursor :: "uint64 \<Rightarrow> exact_error + uint64" where
  "NewCursor value = (if uint value > MaxInt64 then Inl ErrRevisionOverflow else Inr value)"

section \<open>Rational times\<close>

record rational_time =
  rt_Value :: int64
  rt_Scale :: int32

definition zero_rational_time :: rational_time where
  "zero_rational_time = \<lparr>rt_Value = 0, rt_Scale = 0\<rparr>"

definition NewRationalTime :: "int64 \<Rightarrow> int32 \<Rightarrow> exact_error + rational_time" where
  "NewRationalTime value scale =
    (if sint scale \<le> 0 then Inl ErrInvalidRationalTime
     else if value = 0 then Inr \<lparr>rt_Value = 0, rt_Scale = 1\<rparr>
     else let divisor = gcd64 (absInt64 value) (scast scale) in
       Inr \<lparr>rt_Value = word_of_int (sint value sdiv sint divisor),
            rt_Scale = word_of_int (sint scale sdiv sint (ucast divisor :: int32))\<rparr>)"

definition RationalTime_Validate :: "rational_time \<Rightarrow> exact_error + unit" where
  "RationalTime_Validate value =
    (if sint (rt_Scale value) \<le> 0 then Inl ErrInvalidRationalTime
     else if rt_Value value = 0 then
       (if rt_Scale value \<noteq> 1 then Inl ErrInvalidRationalTime else Inr ())
     else if gcd64 (absInt64 (rt_Value value)) (scast (rt_Scale value)) \<noteq> 1 then
       Inl ErrInvalidRationalTime
     else Inr ())"

definition RationalTime_IsNegative :: "rational_time \<Rightarrow> bool" where
  "RationalTime_IsNegative value \<longleftrightarrow> sint (rt_Value value) < 0"

definition RationalTime_IsPositive :: "rational_time \<Rightarrow> bool" where
  "RationalTime_IsPositive value \<longleftrightarrow> sint (rt_Value value) > 0"

definition RationalTime_Compare :: "rational_time \<Rightarrow> rational_time \<Rightarrow> exact_error + int" where
  "RationalTime_Compare value other =
    andThen (RationalTime_Validate value) (\<lambda>_.
    andThen (RationalTime_Validate other) (\<lambda>_.
      let left = sint (rt_Value value) * sint (rt_Scale other);
          right = sint (rt_Value other) * sint (rt_Scale value)
      in Inr (sgn (left - right))))"

definition rationalFromBig :: "int \<Rightarrow> int \<Rightarrow> exact_error + rational_time" where
  "rationalFromBig numerator denominator =
    (if denominator \<le> 0 then Inl ErrInvalidRationalTime
     else if numerator = 0 then Inr \<lparr>rt_Value = 0, rt_Scale = 1\<rparr>
     else let divisor = gcd \<bar>numerator\<bar> denominator;
              numerator' = numerator sdiv divisor;
              denominator' = denominator sdiv divisor
          in if \<not> IsInt64 numerator' \<or> \<not> IsInt64 denominator' \<or> denominator' > MaxInt32
             then Inl ErrTimeOverflow
             else NewRationalTime (word_of_int numerator') (word_of_int denominator'))"

definition RationalTime_Add :: "rational_time \<Rightarrow> rational_time \<Rightarrow> exact_error + rational_time" where
  "RationalTime_Add value other =
    andThen (RationalTime_Validate value) (\<lambda>_.
    andThen (RationalTime_Validate other) (\<lambda>_.
      let left = sint (rt_Value value) * sint (rt_Scale other);
          right = sint (rt_Value other) * sint (rt_Scale value);
          denominator = sint (rt_Scale value) * sint (rt_Scale other)
      in rationalFromBig (left + right) denominator))"

definition RationalTime_Subtract :: "rational_time \<Rightarrow> rational_time \<Rightarrow> exact_error + rational_time" where
  "RationalTime_Subtract value other =
    andThen (RationalTime_Validate value) (\<lambda>_.
    andThen (RationalTime_Validate other) (\<lambda>_.
      let left = sint (rt_Value value) * sint (rt_Scale other);
          right = sint (rt_Value other) * sint (rt_Scale value);
          denominator = sint (rt_Scale value) * sint (rt_Scale other)
      in rationalFromBig (left - right) denominator))"

section \<open>Time ranges\<close>

record time_range =
  tr_Start :: rational_time
  tr_Duration :: rational_time

definition zero_time_range :: time_range where
  "zero_time_range = \<lparr>tr_Start = zero_rational_time, tr_Duration = zero_rational_time\<rparr>"

definition NewTimeRange :: "rational_time \<Rightarrow> rational_time \<Rightarrow> exact_error + time_range" where
  "NewTimeRange start duration =
    andThen (RationalTime_Validate start) (\<lambda>_.
      if \<not> isOk (RationalTime_Validate duration) \<or> RationalTime_IsNegative duration
      then Inl ErrInvalidRationalTime
      else Inr \<lparr>tr_Start = start, tr_Duration = duration\<rparr>)"

definition TimeRange_End :: "time_range \<Rightarrow> exact_error + rational_time" where
  "TimeRange_End value = RationalTime_Add (tr_Start value) (tr_Duration value)"

section \<open>Canonical decimal texts\<close>

text \<open>
  \<^verbatim>\<open>strconv.FormatInt\<close> and \<^verbatim>\<open>strconv.ParseInt\<close> in base 10. The parser is only called on
  texts that \<open>isCanonicalDecimal\<close> accepts, so its syntax errors are the characters that are
  not digits; its range error is what remains.
\<close>

definition digit_char :: "nat \<Rightarrow> char" where
  "digit_char d = char_of (48 + d)"

fun format_nat :: "nat \<Rightarrow> string" where
  "format_nat n = (if n < 10 then [digit_char n] else format_nat (n div 10) @ [digit_char (n mod 10)])"

declare format_nat.simps [simp del]

definition format_int :: "int \<Rightarrow> string" where
  "format_int x = (if x < 0 then CHR ''-'' # format_nat (nat (- x)) else format_nat (nat x))"

definition is_digit :: "char \<Rightarrow> bool" where
  "is_digit c \<longleftrightarrow> \<not> (of_char c < (48 :: nat) \<or> of_char c > (57 :: nat))"

definition digits_value :: "string \<Rightarrow> nat" where
  "digits_value s = foldl (\<lambda>acc c. acc * 10 + (of_char c - 48)) 0 s"

definition ParseInt :: "string \<Rightarrow> int option" where
  "ParseInt s =
    (let negative = (s \<noteq> [] \<and> hd s = CHR ''-'');
         digits = (if negative then tl s else s);
         value = (if negative then - int (digits_value digits) else int (digits_value digits))
     in if digits = [] \<or> \<not> list_all is_digit digits \<or> \<not> IsInt64 value then None else Some value)"

definition ParseUint :: "string \<Rightarrow> int option" where
  "ParseUint s =
    (if s = [] \<or> \<not> list_all is_digit s \<or> \<not> IsUint64 (int (digits_value s)) then None
     else Some (int (digits_value s)))"

definition isCanonicalDecimal :: "string \<Rightarrow> bool \<Rightarrow> bool" where
  "isCanonicalDecimal value allow_sign =
    (if value = ''0'' then True
     else if value = '''' then False
     else if hd value = CHR ''-'' then
       (if \<not> allow_sign \<or> length value = 1 \<or> value ! 1 = CHR ''0'' then False
        else list_all is_digit (drop 1 value))
     else if hd value = CHR ''0'' then False
     else list_all is_digit value)"

definition parseCanonicalInt64 :: "string \<Rightarrow> exact_error + int64" where
  "parseCanonicalInt64 value =
    (if \<not> isCanonicalDecimal value True then Inl ErrInvalidExactInteger
     else case ParseInt value of
       None \<Rightarrow> Inl ErrInvalidExactInteger
     | Some parsed \<Rightarrow> Inr (word_of_int parsed))"

definition parseCanonicalUint64 :: "string \<Rightarrow> exact_error + uint64" where
  "parseCanonicalUint64 value =
    (if \<not> isCanonicalDecimal value False then Inl ErrInvalidExactInteger
     else case ParseUint value of
       None \<Rightarrow> Inl ErrInvalidExactInteger
     | Some parsed \<Rightarrow> Inr (word_of_int parsed))"

definition Int64_String :: "int64 \<Rightarrow> string" where
  "Int64_String value = format_int (sint value)"

definition Revision_String :: "revision \<Rightarrow> string" where
  "Revision_String value = format_int (uint value)"

definition Int64_UnmarshalText :: "string \<Rightarrow> exact_error + int64" where
  "Int64_UnmarshalText text = parseCanonicalInt64 text"

definition Revision_UnmarshalText :: "string \<Rightarrow> exact_error + revision" where
  "Revision_UnmarshalText text = andThen (parseCanonicalUint64 text) NewRevision"

section \<open>Facts about the machine arithmetic\<close>

lemma unat_gcd64: "unat (gcd64 a b) = gcd (unat a) (unat b)"
proof (induction a b rule: gcd64.induct)
  case (1 a b)
  show ?case
  proof (cases "b = 0")
    case True
    then show ?thesis by (simp add: gcd64.simps)
  next
    case False
    then have "gcd64 a b = gcd64 b (a mod b)" by (simp add: gcd64.simps [of a b])
    also have "unat \<dots> = gcd (unat b) (unat a mod unat b)"
      using "1.IH" [OF False] by (simp add: unat_mod_distrib)
    also have "\<dots> = gcd (unat a) (unat b)" by (metis gcd.commute gcd_red_nat)
    finally show ?thesis .
  qed
qed

lemma uint_gcd64: "uint (gcd64 a b) = gcd (uint a) (uint b)"
  by (simp only: uint_nat unat_gcd64 gcd_int_int_eq)

lemma uint_absInt64 [go_word]: "uint (absInt64 v) = \<bar>sint v\<bar>"
proof (cases "0 \<le> sint v")
  case True
  then show ?thesis by (simp add: absInt64_def uint_sint_nonneg64)
next
  case False
  have neg: "- (v + 1) + 1 = (word_of_int (- sint v) :: int64)" by simp
  have "IsUint64 (- sint v)"
    using False sint64_lower [of v] by (simp add: IsUint64_def)
  then have "uint (word_of_int (- sint v) :: int64) = - sint v" by (rule uint_of_int64)
  then show ?thesis using False unfolding absInt64_def neg by simp
qed

lemma uint_scast32 [go_word]: "0 < sint (s :: int32) \<Longrightarrow> uint (scast s :: uint64) = sint s"
proof -
  assume "0 < sint s"
  then have "IsUint64 (sint s)"
    using sint32_upper [of s] by (simp add: IsUint64_def)
  then have "uint (word_of_int (sint s) :: uint64) = sint s" by (rule uint_of_int64)
  then show ?thesis by (simp only: scast_eq)
qed

lemma sint_small_uint64: "uint (d :: uint64) \<le> MaxInt64 \<Longrightarrow> sint d = uint d"
proof -
  assume "uint d \<le> MaxInt64"
  then have "IsInt64 (uint d)" using uint_ge_0 [of d] unfolding IsInt64_def by linarith
  then have "sint (word_of_int (uint d) :: int64) = uint d" by (rule sint_of_int64)
  then show ?thesis by simp
qed

lemma sint_ucast32: "uint (d :: uint64) \<le> MaxInt32 \<Longrightarrow> sint (ucast d :: int32) = uint d"
proof -
  assume "uint d \<le> MaxInt32"
  then have "sint (word_of_int (uint d) :: int32) = uint d"
    using uint_ge_0 [of d] by (intro sint_of_int32) linarith+
  then show ?thesis by (simp only: ucast_eq)
qed

lemma sdiv_exact: "0 < g \<Longrightarrow> g dvd x \<Longrightarrow> (x :: int) sdiv g = x div g"
proof (elim dvdE)
  fix k
  assume "0 < g" and "x = g * k"
  then have "x sdiv g = sgn k * \<bar>k\<bar>"
    by (simp add: signed_divide_int_def sgn_mult abs_mult)
  then show "x sdiv g = x div g"
    using \<open>0 < g\<close> \<open>x = g * k\<close> by (simp add: sgn_mult_abs)
qed

lemma abs_div_le_self: "0 < g \<Longrightarrow> g dvd x \<Longrightarrow> \<bar>(x :: int) div g\<bar> \<le> \<bar>x\<bar>"
proof (elim dvdE)
  fix k
  assume "0 < g" and "x = g * k"
  then have "\<bar>k\<bar> * 1 \<le> \<bar>k\<bar> * g" by (intro mult_left_mono) simp_all
  then show "\<bar>x div g\<bar> \<le> \<bar>x\<bar>"
    using \<open>0 < g\<close> \<open>x = g * k\<close> by (simp add: abs_mult mult.commute)
qed

lemma gcd_le_scale: "0 < (s :: int) \<Longrightarrow> gcd v s \<le> s"
  by (rule zdvd_imp_le) simp_all

text \<open>The divisor of both constructors, read as an integer at each of the widths the code uses.\<close>

lemma reduce_divisor:
  fixes v :: int64 and s :: int32
  assumes "0 < sint s"
  shows "sint (gcd64 (absInt64 v) (scast s)) = gcd (sint v) (sint s)"
    and "sint (ucast (gcd64 (absInt64 v) (scast s)) :: int32) = gcd (sint v) (sint s)"
proof -
  have u: "uint (gcd64 (absInt64 v) (scast s)) = gcd (sint v) (sint s)"
    using assms by (simp add: uint_gcd64 uint_absInt64 uint_scast32)
  have "gcd (sint v) (sint s) \<le> MaxInt32"
    using gcd_le_scale [OF assms, of "sint v"] sint32_upper [of s] by linarith
  then show "sint (gcd64 (absInt64 v) (scast s)) = gcd (sint v) (sint s)"
    and "sint (ucast (gcd64 (absInt64 v) (scast s)) :: int32) = gcd (sint v) (sint s)"
    using u by (simp_all add: sint_small_uint64 sint_ucast32)
qed

lemma reduced_value: "0 < sint (s :: int32) \<Longrightarrow>
  sint (word_of_int (sint v div gcd (sint v) (sint s)) :: int64) = sint (v :: int64) div gcd (sint v) (sint s)"
proof (rule sint_of_int64)
  assume s: "0 < sint s"
  let ?g = "gcd (sint v) (sint s)"
  have g: "0 < ?g" using s by simp
  have "0 \<le> sint v \<Longrightarrow> 0 \<le> sint v div ?g" and "sint v < 0 \<Longrightarrow> sint v div ?g < 0"
    using g by (simp_all add: pos_imp_zdiv_nonneg_iff pos_imp_zdiv_neg_iff)
  then show "IsInt64 (sint v div ?g)"
    using abs_div_le_self [OF g, of "sint v"] sint64_lower [of v] sint64_upper [of v]
    by (cases "0 \<le> sint v") (auto simp: IsInt64_def)
qed

lemma reduced_scale: "0 < sint (s :: int32) \<Longrightarrow>
  sint (word_of_int (sint s div gcd v (sint s)) :: int32) = sint s div gcd v (sint s)"
proof (rule sint_of_int32)
  assume s: "0 < sint s"
  let ?g = "gcd v (sint s)"
  have g: "0 < ?g" using s by simp
  have "\<bar>sint s div ?g\<bar> \<le> sint s" using abs_div_le_self [OF g, of "sint s"] s by simp
  then show "- 2147483648 \<le> sint s div ?g" and "sint s div ?g \<le> MaxInt32"
    using sint32_upper [of s] s by linarith+
qed

section \<open>Rational times denote rational numbers\<close>

definition rt_num :: "rational_time \<Rightarrow> int" where
  "rt_num t = sint (rt_Value t)"

definition rt_den :: "rational_time \<Rightarrow> int" where
  "rt_den t = sint (rt_Scale t)"

definition rt_valid :: "rational_time \<Rightarrow> bool" where
  "rt_valid t \<longleftrightarrow> isOk (RationalTime_Validate t)"

definition rt_val :: "rational_time \<Rightarrow> rat" where
  "rt_val t = of_int (rt_num t) / of_int (rt_den t)"

lemma gcd64_coprime_iff:
  fixes v :: int64 and s :: int32
  assumes "0 < sint s"
  shows "gcd64 (absInt64 v) (scast s) = 1 \<longleftrightarrow> coprime (sint v) (sint s)"
proof -
  have "gcd64 (absInt64 v) (scast s) = 1 \<longleftrightarrow> uint (gcd64 (absInt64 v) (scast s)) = 1"
    by (metis uint_1 word_uint_eqI)
  also have "uint (gcd64 (absInt64 v) (scast s)) = gcd (sint v) (sint s)"
    using assms by (simp add: uint_gcd64 uint_absInt64 uint_scast32)
  finally show ?thesis by (simp add: coprime_iff_gcd_eq_1)
qed

lemma rt_valid_iff: "rt_valid t \<longleftrightarrow> 0 < rt_den t \<and> coprime (rt_num t) (rt_den t)"
proof (cases "rt_Value t = 0")
  case True
  have "0 < sint (rt_Scale t) \<Longrightarrow> rt_Scale t = 1 \<longleftrightarrow> coprime 0 (sint (rt_Scale t))"
    using sint32_inject [of "rt_Scale t" 1] by (simp add: abs_if)
  with True show ?thesis
    by (auto simp: rt_valid_def rt_num_def rt_den_def RationalTime_Validate_def simp del: coprime_0_left_iff)
next
  case False
  then show ?thesis
    by (auto simp: rt_valid_def rt_num_def rt_den_def RationalTime_Validate_def gcd64_coprime_iff)
qed

lemma Validate_cases:
  "RationalTime_Validate t = (if rt_valid t then Inr () else Inl ErrInvalidRationalTime)"
  by (auto simp: rt_valid_def RationalTime_Validate_def)

lemma rt_den_pos [simp]: "rt_valid t \<Longrightarrow> 0 < rt_den t"
  by (simp add: rt_valid_iff)

lemma rt_den_not_neg [simp]: "rt_valid t \<Longrightarrow> \<not> rt_den t < 0"
  using rt_den_pos [of t] by linarith

lemma IsNegative_num: "RationalTime_IsNegative t \<longleftrightarrow> rt_num t < 0"
  by (simp add: RationalTime_IsNegative_def rt_num_def)

lemma IsPositive_num: "RationalTime_IsPositive t \<longleftrightarrow> 0 < rt_num t"
  by (simp add: RationalTime_IsPositive_def rt_num_def)

lemma rt_val_neg_iff: "rt_valid t \<Longrightarrow> RationalTime_IsNegative t \<longleftrightarrow> rt_val t < 0"
  using rt_den_pos [of t] by (simp add: rt_val_def IsNegative_num divide_less_0_iff)

lemma rt_val_pos_iff: "rt_valid t \<Longrightarrow> RationalTime_IsPositive t \<longleftrightarrow> 0 < rt_val t"
  using rt_den_pos [of t] by (simp add: rt_val_def IsPositive_num zero_less_divide_iff)

text \<open>The constructor reduces and keeps the number.\<close>

lemma NewRationalTime_reduced:
  assumes "0 < sint s"
  shows "\<exists>t. NewRationalTime v s = Inr t \<and> rt_valid t \<and>
    rt_num t = sint v div gcd (sint v) (sint s) \<and> rt_den t = sint s div gcd (sint v) (sint s)"
proof (cases "v = 0")
  case True
  then show ?thesis
    using assms by (simp add: NewRationalTime_def rt_valid_iff rt_num_def rt_den_def)
next
  case False
  let ?g = "gcd (sint v) (sint s)"
  define t where "t = \<lparr>rt_Value = word_of_int (sint v div ?g), rt_Scale = word_of_int (sint s div ?g)\<rparr>"
  have g: "0 < ?g" using assms by simp
  have val: "rt_num t = sint v div ?g"
    using reduced_value [OF assms] by (simp add: t_def rt_num_def)
  have scale: "rt_den t = sint s div ?g"
    using reduced_scale [OF assms] by (simp add: t_def rt_den_def)
  have "0 < sint s div ?g"
    using assms g by (simp add: pos_imp_zdiv_pos_iff zdvd_imp_le)
  moreover have "coprime (sint v div ?g) (sint s div ?g)"
    using assms by (intro div_gcd_coprime) simp
  ultimately have "rt_valid t" by (simp add: rt_valid_iff val scale)
  moreover have "NewRationalTime v s = Inr t"
    using assms False
    by (simp add: NewRationalTime_def Let_def reduce_divisor sdiv_exact [OF g] t_def)
  ultimately show ?thesis using val scale by blast
qed

lemma NewRationalTime_val:
  assumes "NewRationalTime v s = Inr t"
  shows "rt_valid t \<and> rt_val t = of_int (sint v) / of_int (sint s)"
proof -
  from assms have s: "0 < sint s" by (auto simp: NewRationalTime_def split: if_splits)
  let ?g = "gcd (sint v) (sint s)"
  from NewRationalTime_reduced [OF s, of v] assms
  have t: "rt_valid t \<and> rt_num t = sint v div ?g \<and> rt_den t = sint s div ?g"
    by auto
  define g where "g = ?g"
  have v: "sint v = rt_num t * g" and s': "sint s = rt_den t * g" and g: "g \<noteq> 0"
    using t s unfolding g_def by simp_all
  show ?thesis unfolding v s' rt_val_def of_int_mult using g t by simp
qed

text \<open>The representation is canonical: equal numbers are equal structs.\<close>

lemma cross_multiply_unique:
  fixes a b c d :: int
  assumes "0 < b" "0 < d" "coprime a b" "coprime c d" "a * d = c * b"
  shows "a = c \<and> b = d"
proof -
  have "b dvd a * d" unfolding assms(5) by simp
  then have "b dvd d" using assms(3) by (simp only: coprime_dvd_mult_right_iff coprime_commute [of b a])
  have "d dvd c * b" unfolding assms(5) [symmetric] by simp
  then have "d dvd b" using assms(4) by (simp only: coprime_dvd_mult_right_iff coprime_commute [of d c])
  with \<open>b dvd d\<close>
  have "b = d" using assms(1,2) by (simp add: zdvd_antisym_nonneg)
  with assms show ?thesis by simp
qed

lemma rt_val_eq_iff:
  assumes "rt_valid a" "rt_valid b"
  shows "rt_val a = rt_val b \<longleftrightarrow> a = b"
proof
  assume "rt_val a = rt_val b"
  then have "of_int (rt_num a * rt_den b) = (of_int (rt_num b * rt_den a) :: rat)"
    using rt_den_pos [OF assms(1)] rt_den_pos [OF assms(2)] by (simp add: rt_val_def frac_eq_eq)
  then have "rt_num a * rt_den b = rt_num b * rt_den a"
    by (simp only: of_int_eq_iff)
  then have "rt_num a = rt_num b \<and> rt_den a = rt_den b"
    using assms by (intro cross_multiply_unique) (simp_all add: rt_valid_iff)
  then show "a = b" by (simp add: rt_num_def rt_den_def sint64_inject sint32_inject)
qed simp

subsection \<open>Exactness of the arithmetic\<close>

definition rt_representable :: "rat \<Rightarrow> bool" where
  "rt_representable q \<longleftrightarrow> (\<exists>t. rt_valid t \<and> rt_val t = q)"

lemma fraction_reduced:
  fixes n d :: int
  assumes "0 < d"
  defines "g \<equiv> gcd n d"
  shows "0 < d div g \<and> coprime (n div g) (d div g) \<and>
    (of_int n / of_int d :: rat) = of_int (n div g) / of_int (d div g)"
proof -
  have g: "0 < g" "g dvd n" "g dvd d" using assms by (simp_all add: g_def)
  define n' d' where "n' = n div g" and "d' = d div g"
  have nd: "n = n' * g" "d = d' * g" using g by (simp_all add: n'_def d'_def)
  have "0 < d'" using assms(1) g(1) nd(2) by (simp add: zero_less_mult_iff)
  moreover have "coprime n' d'" unfolding n'_def d'_def g_def
    using assms(1) by (intro div_gcd_coprime) simp
  moreover have "(of_int n / of_int d :: rat) = of_int n' / of_int d'"
    unfolding nd using g(1) by simp
  ultimately show ?thesis unfolding n'_def d'_def by blast
qed

lemma rt_num_IsInt64 [simp]: "IsInt64 (rt_num t)"
  by (simp add: rt_num_def IsInt64_def sint64_lower sint64_upper)

lemma rt_den_le [simp]: "rt_den t \<le> MaxInt32"
  using sint32_upper [of "rt_Scale t"] by (simp add: rt_den_def)

lemma lowest_terms_unique:
  assumes "0 < d" "coprime n d" "rt_valid t" "rt_val t = of_int n / of_int d"
  shows "rt_num t = n \<and> rt_den t = d"
proof (rule cross_multiply_unique)
  have "of_int (rt_num t * d) = (of_int (n * rt_den t) :: rat)"
    using assms(1,4) rt_den_pos [OF assms(3)] by (simp add: rt_val_def frac_eq_eq)
  then show "rt_num t * d = n * rt_den t" by (simp only: of_int_eq_iff)
qed (use assms in \<open>simp_all add: rt_valid_iff\<close>)

lemma representable_lowest_terms:
  assumes "0 < d" "coprime n d"
  shows "rt_representable (of_int n / of_int d) \<longleftrightarrow> IsInt64 n \<and> d \<le> MaxInt32"
proof
  assume "rt_representable (of_int n / of_int d)"
  then obtain t where "rt_num t = n \<and> rt_den t = d"
    using lowest_terms_unique [OF assms] unfolding rt_representable_def by blast
  then show "IsInt64 n \<and> d \<le> MaxInt32" by (metis rt_num_IsInt64 rt_den_le)
next
  assume r: "IsInt64 n \<and> d \<le> MaxInt32"
  define t where "t = \<lparr>rt_Value = word_of_int n, rt_Scale = word_of_int d\<rparr>"
  have "rt_num t = n" "rt_den t = d"
    using r assms(1) by (simp_all add: t_def rt_num_def rt_den_def sint_of_int64 sint_of_int32)
  then show "rt_representable (of_int n / of_int d)"
    using assms unfolding rt_representable_def by (intro exI [of _ t]) (simp add: rt_valid_iff rt_val_def)
qed

lemma NewRationalTime_total: "0 < sint s \<Longrightarrow> \<exists>t. NewRationalTime v s = Inr t"
  using NewRationalTime_reduced by blast

lemma rationalFromBig_eq:
  assumes "0 < d"
  shows "rationalFromBig n d =
    (if rt_representable (of_int n / of_int d)
     then NewRationalTime (word_of_int (n div gcd n d)) (word_of_int (d div gcd n d))
     else Inl ErrTimeOverflow)"
proof (cases "n = 0")
  case True
  then show ?thesis using assms representable_lowest_terms [of 1 0]
    by (simp add: rationalFromBig_def IsInt64_def NewRationalTime_def)
next
  case False
  let ?g = "gcd n d"
  have g: "0 < ?g" using assms by simp
  note red = fraction_reduced [OF assms, of n]
  have "IsInt64 (d div ?g) \<or> MaxInt32 < d div ?g"
    using red by (auto simp: IsInt64_def)
  moreover have "rt_representable (of_int n / of_int d) \<longleftrightarrow> IsInt64 (n div ?g) \<and> d div ?g \<le> MaxInt32"
    using red representable_lowest_terms by metis
  ultimately show ?thesis
    using assms False by (auto simp: rationalFromBig_def Let_def sdiv_exact [OF g] not_le)
qed

lemma rationalFromBig_Inr:
  assumes "0 < d"
  shows "rationalFromBig n d = Inr t \<longleftrightarrow> rt_valid t \<and> rt_val t = of_int n / of_int d"
proof -
  let ?n = "n div gcd n d" and ?d = "d div gcd n d"
  note red = fraction_reduced [OF assms, of n]
  have built: "\<exists>u. NewRationalTime (word_of_int ?n) (word_of_int ?d) = Inr u \<and> rt_valid u \<and>
    rt_val u = of_int n / of_int d" if "rt_representable (of_int n / of_int d)"
  proof -
    have "IsInt64 ?n \<and> ?d \<le> MaxInt32" using that red representable_lowest_terms by metis
    then have "sint (word_of_int ?n :: int64) = ?n" "sint (word_of_int ?d :: int32) = ?d"
      using red by (simp_all add: sint_of_int64 sint_of_int32)
    then show ?thesis
      using NewRationalTime_total [of "word_of_int ?d" "word_of_int ?n"] red NewRationalTime_val by metis
  qed
  show ?thesis
  proof
    assume "rationalFromBig n d = Inr t"
    then show "rt_valid t \<and> rt_val t = of_int n / of_int d"
      using built by (auto simp: rationalFromBig_eq [OF assms] split: if_splits)
  next
    assume t: "rt_valid t \<and> rt_val t = of_int n / of_int d"
    then have rep: "rt_representable (of_int n / of_int d)" unfolding rt_representable_def by blast
    with built obtain u where u: "rationalFromBig n d = Inr u" "rt_valid u" "rt_val u = of_int n / of_int d"
      by (auto simp: rationalFromBig_eq [OF assms])
    with t have "u = t" using rt_val_eq_iff [of u t] by simp
    with u show "rationalFromBig n d = Inr t" by simp
  qed
qed

lemma rationalFromBig_Inl:
  assumes "0 < d"
  shows "rationalFromBig n d = Inl e \<longleftrightarrow> e = ErrTimeOverflow \<and> \<not> rt_representable (of_int n / of_int d)"
proof (cases "rationalFromBig n d")
  case (Inl x)
  then have "\<not> rt_representable (of_int n / of_int d)"
    using rationalFromBig_Inr [OF assms, of n] unfolding rt_representable_def by auto
  then show ?thesis using rationalFromBig_eq [OF assms, of n] by auto
next
  case (Inr t)
  then show ?thesis using rationalFromBig_Inr [OF assms, of n t] unfolding rt_representable_def by auto
qed

lemma rt_val_cross:
  assumes "rt_valid a" "rt_valid b"
  shows "rt_val a + rt_val b = of_int (rt_num a * rt_den b + rt_num b * rt_den a) / of_int (rt_den a * rt_den b)"
    and "rt_val a - rt_val b = of_int (rt_num a * rt_den b - rt_num b * rt_den a) / of_int (rt_den a * rt_den b)"
  using rt_den_pos [OF assms(1)] rt_den_pos [OF assms(2)]
  by (simp_all add: rt_val_def add_frac_eq diff_frac_eq)

lemma Add_Inr: "RationalTime_Add a b = Inr t \<longleftrightarrow>
  rt_valid a \<and> rt_valid b \<and> rt_valid t \<and> rt_val t = rt_val a + rt_val b"
  by (auto simp: RationalTime_Add_def Validate_cases Let_def rationalFromBig_Inr rt_val_cross
    simp flip: rt_num_def rt_den_def)

lemma Subtract_Inr: "RationalTime_Subtract a b = Inr t \<longleftrightarrow>
  rt_valid a \<and> rt_valid b \<and> rt_valid t \<and> rt_val t = rt_val a - rt_val b"
  by (auto simp: RationalTime_Subtract_def Validate_cases Let_def rationalFromBig_Inr rt_val_cross
    simp flip: rt_num_def rt_den_def)

lemma Add_Inl: "RationalTime_Add a b = Inl e \<longleftrightarrow>
  (if rt_valid a \<and> rt_valid b then e = ErrTimeOverflow \<and> \<not> rt_representable (rt_val a + rt_val b)
   else e = ErrInvalidRationalTime)"
  by (auto simp: RationalTime_Add_def Validate_cases Let_def rationalFromBig_Inl rt_val_cross
    simp flip: rt_num_def rt_den_def)

lemma Subtract_Inl: "RationalTime_Subtract a b = Inl e \<longleftrightarrow>
  (if rt_valid a \<and> rt_valid b then e = ErrTimeOverflow \<and> \<not> rt_representable (rt_val a - rt_val b)
   else e = ErrInvalidRationalTime)"
  by (auto simp: RationalTime_Subtract_def Validate_cases Let_def rationalFromBig_Inl rt_val_cross
    simp flip: rt_num_def rt_den_def)

definition sgn_rat :: "rat \<Rightarrow> int" where
  "sgn_rat q = (if q < 0 then -1 else if q = 0 then 0 else 1)"

lemma sgn_cross:
  assumes "rt_valid a" "rt_valid b"
  shows "sgn (rt_num a * rt_den b - rt_num b * rt_den a) = sgn_rat (rt_val a - rt_val b)"
proof -
  let ?n = "rt_num a * rt_den b - rt_num b * rt_den a"
  have d: "0 < rt_den a * rt_den b" using assms by simp
  have q: "rt_val a - rt_val b = of_int ?n / of_int (rt_den a * rt_den b)"
    by (rule rt_val_cross(2) [OF assms])
  have "rt_val a - rt_val b < 0 \<longleftrightarrow> ?n < 0" and "rt_val a - rt_val b = 0 \<longleftrightarrow> ?n = 0"
    unfolding q using d by (simp_all only: divide_less_0_iff divide_eq_0_iff of_int_less_0_iff
      of_int_0_less_iff of_int_eq_0_iff) auto
  then show ?thesis by (simp add: sgn_rat_def sgn_if)
qed

lemma Compare_Inr: "RationalTime_Compare a b = Inr c \<longleftrightarrow>
  rt_valid a \<and> rt_valid b \<and> c = sgn_rat (rt_val a - rt_val b)"
  by (auto simp: RationalTime_Compare_def Validate_cases Let_def sgn_cross simp flip: rt_num_def rt_den_def)

section \<open>The interface of exact times\<close>

text \<open>
  What the editing code relies on when it compares, adds and subtracts times: the operations are
  the exact ones on the rational numbers the times denote, and they fail rather than round. The
  facts about ranges that the sequence and caption code needs are proved here once.
\<close>

locale exact_time =
  fixes valid :: "'t \<Rightarrow> bool"
    and val :: "'t \<Rightarrow> rat"
    and compare :: "'t \<Rightarrow> 't \<Rightarrow> 'e + int"
    and add :: "'t \<Rightarrow> 't \<Rightarrow> 'e + 't"
    and subtract :: "'t \<Rightarrow> 't \<Rightarrow> 'e + 't"
  assumes val_eq: "valid a \<Longrightarrow> valid b \<Longrightarrow> val a = val b \<longleftrightarrow> a = b"
    and compare_Inr: "compare a b = Inr c \<longleftrightarrow> valid a \<and> valid b \<and> c = sgn_rat (val a - val b)"
    and add_Inr: "add a b = Inr t \<longleftrightarrow> valid a \<and> valid b \<and> valid t \<and> val t = val a + val b"
    and subtract_Inr: "subtract a b = Inr t \<longleftrightarrow> valid a \<and> valid b \<and> valid t \<and> val t = val a - val b"
begin

lemma add_subtract: "add a b = Inr c \<Longrightarrow> subtract c b = Inr a"
  by (simp add: add_Inr subtract_Inr)

lemma subtract_add: "subtract a b = Inr c \<Longrightarrow> add c b = Inr a"
  by (simp add: add_Inr subtract_Inr)

lemma add_commute_Inr: "add a b = Inr c \<longleftrightarrow> add b a = Inr c"
  by (auto simp: add_Inr add.commute)

lemma compare_less: "compare a b = Inr c \<Longrightarrow> c < 0 \<longleftrightarrow> val a < val b"
  by (simp add: compare_Inr sgn_rat_def)

lemma compare_greater: "compare a b = Inr c \<Longrightarrow> 0 < c \<longleftrightarrow> val b < val a"
  by (auto simp: compare_Inr sgn_rat_def)

lemma compare_equal: "compare a b = Inr c \<Longrightarrow> c = 0 \<longleftrightarrow> a = b"
  using val_eq [of a b] by (auto simp: compare_Inr sgn_rat_def)

lemma compare_swap: "compare a b = Inr c \<longleftrightarrow> compare b a = Inr (- c)"
  by (auto simp: compare_Inr sgn_rat_def)

lemma add_cancel:
  assumes "add a b = Inr c" "add a b' = Inr c"
  shows "b = b'"
  using assms val_eq [of b b'] by (simp add: add_Inr)

lemma shift_keeps_order:
  assumes "add a d = Inr a'" "add b d = Inr b'" "compare a b = Inr c"
  shows "compare a' b' = Inr c"
  using assms by (auto simp: compare_Inr add_Inr)

end

interpretation rt: exact_time rt_valid rt_val RationalTime_Compare RationalTime_Add RationalTime_Subtract
  by unfold_locales (simp_all add: rt_val_eq_iff Compare_Inr Add_Inr Subtract_Inr)

section \<open>Decimal texts and numbers\<close>

lemma digits_value_snoc [simp]: "digits_value (s @ [c]) = digits_value s * 10 + (of_char c - 48)"
  by (simp add: digits_value_def)

lemma digits_value_Nil [simp]: "digits_value [] = 0"
  by (simp add: digits_value_def)

lemma digits_value_single [simp]: "digits_value [c] = of_char c - 48"
  by (simp add: digits_value_def)

lemma is_digit_iff: "is_digit c \<longleftrightarrow> (\<exists>d < 10. c = digit_char d)"
proof
  assume "is_digit c"
  then have "\<not> (of_char c < (48 :: nat))" "\<not> (57 < (of_char c :: nat))"
    by (simp_all add: is_digit_def)
  then have "of_char c - 48 < (10 :: nat)" and "c = digit_char (of_char c - 48)"
    by (linarith, simp add: digit_char_def)
  then show "\<exists>d < 10. c = digit_char d" by blast
qed (auto simp: is_digit_def digit_char_def)

lemma of_digit_char [simp]: "d < 10 \<Longrightarrow> of_char (digit_char d) = 48 + d"
  by (simp add: digit_char_def)

lemma digit_char_is_digit [simp]: "d < 10 \<Longrightarrow> is_digit (digit_char d)"
  by (auto simp: is_digit_iff)

lemma digit_char_inject: "d < 10 \<Longrightarrow> e < 10 \<Longrightarrow> digit_char d = digit_char e \<longleftrightarrow> d = e"
  by (metis of_digit_char add_left_cancel)

lemma zero_char: "CHR ''0'' = digit_char 0"
  by code_simp

lemma format_nat_digits: "list_all is_digit (format_nat n)"
  by (induction n rule: format_nat.induct) (subst format_nat.simps, simp)

lemma format_nat_not_Nil [simp]: "format_nat n \<noteq> []"
  by (subst format_nat.simps) simp

lemma digits_value_format_nat [simp]: "digits_value (format_nat n) = n"
proof (induction n rule: format_nat.induct)
  case (1 n)
  show ?case
  proof (cases "n < 10")
    case True
    then show ?thesis using digits_value_snoc [of "[]"] by (simp add: format_nat.simps [of n])
  next
    case False
    then show ?thesis using "1.IH" by (simp add: format_nat.simps [of n])
  qed
qed

lemma format_nat_hd: "hd (format_nat n) = CHR ''0'' \<longleftrightarrow> n = 0"
proof (induction n rule: format_nat.induct)
  case (1 n)
  show ?case
  proof (cases "n < 10")
    case True
    then show ?thesis by (simp add: format_nat.simps [of n] zero_char digit_char_inject)
  next
    case False
    then show ?thesis using "1.IH" by (simp add: format_nat.simps [of n])
  qed
qed

lemma format_nat_0 [simp]: "format_nat 0 = ''0''"
  by (simp add: format_nat.simps zero_char)

lemma digits_value_pos: "list_all is_digit s \<Longrightarrow> s \<noteq> [] \<Longrightarrow> hd s \<noteq> CHR ''0'' \<Longrightarrow> 0 < digits_value s"
proof (induction s rule: rev_induct)
  case (snoc c s)
  show ?case
  proof (cases "s = []")
    case True
    with snoc.prems obtain d where "d < 10" "c = digit_char d" "d \<noteq> 0"
      by (auto simp: is_digit_iff zero_char)
    with True show ?thesis by simp
  qed (use snoc in auto)
qed simp

lemma format_nat_digits_value:
  "list_all is_digit s \<Longrightarrow> s \<noteq> [] \<Longrightarrow> hd s \<noteq> CHR ''0'' \<or> s = ''0'' \<Longrightarrow> format_nat (digits_value s) = s"
proof (induction s rule: rev_induct)
  case (snoc c s)
  then obtain d where d: "d < 10" "c = digit_char d" by (auto simp: is_digit_iff)
  show ?case
  proof (cases "s = []")
    case True
    then show ?thesis using d by (simp add: format_nat.simps)
  next
    case False
    with snoc.prems have s: "list_all is_digit s" "hd s \<noteq> CHR ''0''" by auto
    with False have "0 < digits_value s" by (simp add: digits_value_pos)
    moreover have "format_nat (digits_value s) = s" using snoc.IH s False by blast
    ultimately show ?thesis using d by (simp add: format_nat.simps [of "digits_value s * 10 + d"])
  qed
qed simp

lemma minus_not_digit [simp]: "\<not> is_digit (CHR ''-'')"
  by (simp add: is_digit_def)

lemma hd_format_nat_digit: "is_digit (hd (format_nat n))"
  using format_nat_digits [of n] by (cases "format_nat n") auto

lemma hd_format_nat_not_minus [simp]: "hd (format_nat n) \<noteq> CHR ''-''"
  using hd_format_nat_digit [of n] by (metis minus_not_digit)

lemma canonical_format_nat: "isCanonicalDecimal (format_nat n) allow_sign"
  using format_nat_hd [of n] format_nat_digits [of n]
  by (cases "n = 0") (auto simp: isCanonicalDecimal_def)

lemma canonical_format_neg: "n \<noteq> 0 \<Longrightarrow> isCanonicalDecimal (CHR ''-'' # format_nat n) True"
  using format_nat_hd [of n] format_nat_digits [of n]
  by (auto simp: isCanonicalDecimal_def hd_conv_nth)

lemma canonical_unsigned:
  "isCanonicalDecimal s False \<longleftrightarrow> list_all is_digit s \<and> s \<noteq> [] \<and> (hd s \<noteq> CHR ''0'' \<or> s = ''0'')"
  by (cases s) (auto simp: isCanonicalDecimal_def is_digit_def)

lemma canonical_signed:
  "isCanonicalDecimal s True \<longleftrightarrow> isCanonicalDecimal s False \<or>
    (\<exists>t. s = CHR ''-'' # t \<and> list_all is_digit t \<and> t \<noteq> [] \<and> hd t \<noteq> CHR ''0'')"
  by (cases s; cases "tl s") (auto simp: isCanonicalDecimal_def)

lemma ParseInt_format_int: "IsInt64 x \<Longrightarrow> ParseInt (format_int x) = Some x"
  by (auto simp: ParseInt_def format_int_def Let_def format_nat_digits)

lemma canonical_format_int: "isCanonicalDecimal (format_int x) True"
  by (auto simp: format_int_def canonical_format_nat canonical_format_neg)

lemma format_int_ParseInt:
  assumes "isCanonicalDecimal s True" "ParseInt s = Some x"
  shows "IsInt64 x \<and> format_int x = s"
proof (cases "isCanonicalDecimal s False")
  case True
  then have "list_all is_digit s" "s \<noteq> []" "hd s \<noteq> CHR ''-''"
    by (cases s; auto simp: canonical_unsigned)+
  with True assms(2) show ?thesis
    by (auto simp: canonical_unsigned ParseInt_def Let_def format_int_def format_nat_digits_value split: if_splits)
next
  case False
  with assms(1) obtain t where t: "s = CHR ''-'' # t" "list_all is_digit t" "t \<noteq> []" "hd t \<noteq> CHR ''0''"
    by (auto simp: canonical_signed)
  then have "0 < digits_value t" by (simp add: digits_value_pos)
  with t assms(2) show ?thesis
    by (auto simp: ParseInt_def Let_def format_int_def format_nat_digits_value split: if_splits)
qed

lemma parseCanonicalInt64_Inr: "parseCanonicalInt64 s = Inr v \<longleftrightarrow> s = Int64_String v"
proof
  assume "parseCanonicalInt64 s = Inr v"
  then obtain x where "isCanonicalDecimal s True" "ParseInt s = Some x" "v = word_of_int x"
    by (auto simp: parseCanonicalInt64_def split: if_splits option.splits)
  then show "s = Int64_String v"
    using format_int_ParseInt [of s x] by (auto simp: Int64_String_def sint_of_int64)
next
  assume "s = Int64_String v"
  moreover have "IsInt64 (sint v)" by (simp add: IsInt64_def sint64_lower sint64_upper)
  ultimately show "parseCanonicalInt64 s = Inr v"
    by (simp add: parseCanonicalInt64_def Int64_String_def canonical_format_int ParseInt_format_int)
qed

lemma parseCanonicalUint64_Inr: "parseCanonicalUint64 s = Inr v \<longleftrightarrow> s = Revision_String v"
proof
  assume "parseCanonicalUint64 s = Inr v"
  then have "isCanonicalDecimal s False" and "v = word_of_int (int (digits_value s))"
    and "IsUint64 (int (digits_value s))"
    by (auto simp: parseCanonicalUint64_def ParseUint_def split: if_splits)
  moreover from this have "uint v = int (digits_value s)" by (simp only: uint_of_int64)
  ultimately show "s = Revision_String v"
    by (simp add: Revision_String_def format_int_def canonical_unsigned format_nat_digits_value)
next
  assume "s = Revision_String v"
  moreover have "IsUint64 (uint v)" using uint_bounded [of v] by (simp add: IsUint64_def)
  ultimately show "parseCanonicalUint64 s = Inr v"
    by (simp add: parseCanonicalUint64_def Revision_String_def format_int_def canonical_format_nat ParseUint_def
      format_nat_digits)
qed

section \<open>Properties of the exact values\<close>

text \<open>C23. Adding and subtracting rational times is exact. The result of an addition is the
  one canonical time that denotes the sum of the two numbers; an addition of canonical times fails
  only with \<^verbatim>\<open>ErrTimeOverflow\<close>, and only when no canonical time with a 64 bit
  value and a 32 bit scale denotes the sum. The same holds of subtraction.\<close>

theorem time_arithmetic_exact:
  "(RationalTime_Add a b = Inr t \<longleftrightarrow> rt_valid a \<and> rt_valid b \<and> rt_valid t \<and> rt_val t = rt_val a + rt_val b) \<and>
   (RationalTime_Subtract a b = Inr t \<longleftrightarrow> rt_valid a \<and> rt_valid b \<and> rt_valid t \<and> rt_val t = rt_val a - rt_val b) \<and>
   (RationalTime_Add a b = Inl ErrTimeOverflow \<longleftrightarrow>
      rt_valid a \<and> rt_valid b \<and> \<not> rt_representable (rt_val a + rt_val b)) \<and>
   (RationalTime_Subtract a b = Inl ErrTimeOverflow \<longleftrightarrow>
      rt_valid a \<and> rt_valid b \<and> \<not> rt_representable (rt_val a - rt_val b))"
  by (auto simp: Add_Inr Subtract_Inr Add_Inl Subtract_Inl)

text \<open>C24. The constructor of rational times accepts every positive scale and returns the
  canonical time (lowest terms, positive scale) of the fraction, the smallest 64 bit value
  included; two canonical times that denote the same number are the same struct; and the
  comparison is the sign of the difference of the numbers.\<close>

theorem time_canonical:
  "(NewRationalTime v s = Inr t \<longleftrightarrow>
      0 < sint s \<and> rt_valid t \<and> rt_val t = of_int (sint v) / of_int (sint s)) \<and>
   (rt_valid a \<and> rt_valid b \<and> rt_val a = rt_val b \<longleftrightarrow> rt_valid a \<and> a = b) \<and>
   (RationalTime_Compare a b = Inr c \<longleftrightarrow> rt_valid a \<and> rt_valid b \<and> c = sgn_rat (rt_val a - rt_val b))"
proof (intro conjI)
  show "NewRationalTime v s = Inr t \<longleftrightarrow>
      0 < sint s \<and> rt_valid t \<and> rt_val t = of_int (sint v) / of_int (sint s)"
  proof
    assume "NewRationalTime v s = Inr t"
    moreover from this have "0 < sint s" by (auto simp: NewRationalTime_def split: if_splits)
    ultimately show "0 < sint s \<and> rt_valid t \<and> rt_val t = of_int (sint v) / of_int (sint s)"
      using NewRationalTime_val by blast
  next
    assume *: "0 < sint s \<and> rt_valid t \<and> rt_val t = of_int (sint v) / of_int (sint s)"
    then obtain u where u: "NewRationalTime v s = Inr u" using NewRationalTime_total by blast
    with * NewRationalTime_val [OF u] have "u = t" by (metis rt_val_eq_iff)
    with u show "NewRationalTime v s = Inr t" by simp
  qed
qed (auto simp: Compare_Inr rt_val_eq_iff)

text \<open>C25. Canonical decimal texts. A text unmarshals to a signed 64 bit integer exactly when
  it is the text that integer marshals to, so every integer reads back as itself and no second
  spelling (sign, leading zero, out of range) is accepted; for revisions the cap of the
  constructor is the one further condition.\<close>

theorem exact_text_roundtrip:
  "(Int64_UnmarshalText s = Inr v \<longleftrightarrow> s = Int64_String v) \<and>
   (Revision_UnmarshalText s = Inr r \<longleftrightarrow> s = Revision_String r \<and> uint r \<le> MaxInt64)"
proof
  show "Revision_UnmarshalText s = Inr r \<longleftrightarrow> s = Revision_String r \<and> uint r \<le> MaxInt64"
    unfolding Revision_UnmarshalText_def andThen_eq_Inr parseCanonicalUint64_Inr NewRevision_def
    by (auto simp: not_less split: if_splits)
qed (simp add: Int64_UnmarshalText_def parseCanonicalInt64_Inr)

end
