(* ===== verification/Order_Key.thy ===== *)
theory Order_Key
  imports Exact "HOL-Library.Char_ord" "HOL-Library.List_Lexorder"
begin

text \<open>
  The sortable text of a rational time: \<^verbatim>\<open>RationalOrderKey\<close> of
  \<^verbatim>\<open>product/domain/order_key.go\<close>. The key is 48 lower case hexadecimal digits; the
  theory shows that it never fails on a canonical time and that comparing keys as texts is
  comparing times as numbers.
\<close>

section \<open>The key\<close>

text \<open>\<^verbatim>\<open>big.Int.Bytes\<close>: the big-endian bytes of a non-negative integer, with no
  leading zero byte.\<close>

fun big_Bytes :: "nat \<Rightarrow> nat list" where
  "big_Bytes n = (if n = 0 then [] else big_Bytes (n div 256) @ [n mod 256])"

declare big_Bytes.simps [simp del]

definition hex_digit :: "nat \<Rightarrow> char" where
  "hex_digit d = char_of (if d < 10 then 48 + d else 87 + d)"

definition hex_EncodeToString :: "nat list \<Rightarrow> string" where
  "hex_EncodeToString bytes = concat (map (\<lambda>b. [hex_digit (b div 16), hex_digit (b mod 16)]) bytes)"

definition RationalOrderKey :: "rational_time \<Rightarrow> exact_error + string" where
  "RationalOrderKey value =
    andThen (RationalTime_Validate value) (\<lambda>_.
      let numerator = sint (rt_Value value);
          scaled = (numerator * 2 ^ 128) sdiv sint (rt_Scale value);
          offset = 2 ^ 191;
          scaled = scaled + offset
      in if scaled < 0 \<or> scaled \<ge> 2 ^ 192 then Inl ErrTimeOverflow
         else let bytes = big_Bytes (nat scaled);
                  fixed = replicate (24 - length bytes) 0 @ bytes
              in Inr (hex_EncodeToString fixed))"

section \<open>Digit strings and their values\<close>

definition digits_num :: "nat \<Rightarrow> nat list \<Rightarrow> nat" where
  "digits_num base ds = foldl (\<lambda>acc d. acc * base + d) 0 ds"

lemma foldl_digits: "foldl (\<lambda>acc d. acc * base + d) a ds = a * base ^ length ds + digits_num base ds"
proof (induction ds arbitrary: a)
  case (Cons d ds)
  show ?case
    using Cons [of "a * base + d"] Cons [of d] by (simp add: digits_num_def algebra_simps)
qed (simp add: digits_num_def)

lemma digits_num_Nil [simp]: "digits_num base [] = 0"
  by (simp add: digits_num_def)

lemma digits_num_Cons: "digits_num base (d # ds) = d * base ^ length ds + digits_num base ds"
  using foldl_digits [of base d ds] by (simp add: digits_num_def)

lemma digits_num_append: "digits_num base (ds @ es) = digits_num base ds * base ^ length es + digits_num base es"
  using foldl_digits [of base "digits_num base ds" es] by (simp add: digits_num_def)

lemma digits_num_zeros [simp]: "digits_num base (replicate n 0) = 0"
  by (induction n) (simp_all add: digits_num_Cons)

lemma digits_num_less: "\<forall>d \<in> set ds. d < base \<Longrightarrow> digits_num base ds < base ^ length ds"
proof (induction ds)
  case (Cons d ds)
  then have "digits_num base (d # ds) < (d + 1) * base ^ length ds"
    by (simp add: digits_num_Cons)
  also have "\<dots> \<le> base * base ^ length ds"
    using Cons.prems by (intro mult_right_mono) auto
  finally show ?case by simp
qed simp

text \<open>Digit strings of one length are ordered as the numbers they denote.\<close>

lemma digits_lex_less:
  assumes "length ds = length es" "\<forall>d \<in> set ds. d < base" "\<forall>d \<in> set es. d < base"
  shows "ds < es \<longleftrightarrow> digits_num base ds < digits_num base es"
  using assms
proof (induction ds es rule: list_induct2)
  case (Cons d ds e es)
  let ?b = "base ^ length ds"
  have ds: "digits_num base ds < ?b" and es: "digits_num base es < ?b"
    using Cons digits_num_less [of ds base] digits_num_less [of es base] by auto
  have step: "x * ?b + m < y * ?b + n" if "x < y" "m < ?b" for x y m n
  proof -
    have "x * ?b + m < (x + 1) * ?b" using that(2) by simp
    also have "\<dots> \<le> y * ?b" using that(1) by (intro mult_right_mono) auto
    finally show ?thesis by simp
  qed
  have "digits_num base (d # ds) < digits_num base (e # es) \<longleftrightarrow>
    d < e \<or> (d = e \<and> digits_num base ds < digits_num base es)"
    using step [of d e "digits_num base ds" "digits_num base es"]
      step [of e d "digits_num base es" "digits_num base ds"] ds es Cons.hyps
    by (cases d e rule: linorder_cases) (auto simp: digits_num_Cons)
  then show ?case using Cons by auto
qed simp

lemma map_lex_less:
  assumes "length xs = length ys" "\<And>x y. x \<in> set xs \<Longrightarrow> y \<in> set ys \<Longrightarrow> (f x < f y \<longleftrightarrow> x < y) \<and> (f x = f y \<longleftrightarrow> x = y)"
  shows "map f xs < map f ys \<longleftrightarrow> xs < (ys :: 'a :: linorder list)"
  using assms by (induction xs ys rule: list_induct2) auto

section \<open>The bytes and the digits of a key\<close>

lemma big_Bytes_0 [simp]: "big_Bytes 0 = []"
  by (simp add: big_Bytes.simps)

lemma big_Bytes_less [simp]: "b \<in> set (big_Bytes n) \<Longrightarrow> b < 256"
proof (induction n rule: big_Bytes.induct)
  case (1 n)
  then show ?case by (cases "n = 0") (auto simp: big_Bytes.simps [of n])
qed

lemma digits_num_big_Bytes [simp]: "digits_num 256 (big_Bytes n) = n"
proof (induction n rule: big_Bytes.induct)
  case (1 n)
  then show ?case
    by (cases "n = 0") (simp_all add: big_Bytes.simps [of n] digits_num_append digits_num_Cons)
qed

lemma length_big_Bytes: "n < 256 ^ k \<Longrightarrow> length (big_Bytes n) \<le> k"
proof (induction n arbitrary: k rule: big_Bytes.induct)
  case (1 n)
  show ?case
  proof (cases "n = 0")
    case False
    then obtain j where k: "k = Suc j" using 1(2) by (cases k) auto
    then have "n div 256 < 256 ^ j" using 1(2) by (simp add: less_mult_imp_div_less mult.commute)
    then show ?thesis using 1(1) [OF False, of j] False k by (simp add: big_Bytes.simps [of n])
  qed (simp add: big_Bytes.simps)
qed

definition nibbles :: "nat list \<Rightarrow> nat list" where
  "nibbles bytes = concat (map (\<lambda>b. [b div 16, b mod 16]) bytes)"

lemma length_nibbles [simp]: "length (nibbles bytes) = 2 * length bytes"
  by (induction bytes) (simp_all add: nibbles_def)

lemma nibbles_less: "\<forall>b \<in> set bytes. b < 256 \<Longrightarrow> d \<in> set (nibbles bytes) \<Longrightarrow> d < 16"
  by (auto simp: nibbles_def)

lemma digits_num_nibbles: "digits_num 16 (nibbles bytes) = digits_num 256 bytes"
proof (induction bytes)
  case (Cons b bytes)
  have "nibbles (b # bytes) = [b div 16, b mod 16] @ nibbles bytes" by (simp add: nibbles_def)
  moreover have "b div 16 * 16 + b mod 16 = b" by simp
  moreover have "(16 :: nat) ^ (2 * length bytes) = 256 ^ length bytes" by (simp add: power_mult)
  ultimately show ?case using Cons by (simp add: digits_num_append digits_num_Cons del: append_Cons)
qed (simp add: nibbles_def)

lemma hex_nibbles: "hex_EncodeToString bytes = map hex_digit (nibbles bytes)"
  by (induction bytes) (simp_all add: nibbles_def hex_EncodeToString_def)

lemma of_char_hex_digit: "d < 16 \<Longrightarrow> of_char (hex_digit d) = (if d < 10 then 48 + d else 87 + d)"
  by (simp add: hex_digit_def)

lemma hex_digit_less: "d < 16 \<Longrightarrow> e < 16 \<Longrightarrow> hex_digit d < hex_digit e \<longleftrightarrow> d < e"
  by (simp add: less_char_def of_char_hex_digit)

lemma hex_digit_eq: "d < 16 \<Longrightarrow> e < 16 \<Longrightarrow> hex_digit d = hex_digit e \<longleftrightarrow> d = e"
  by (metis hex_digit_less less_irrefl linorder_neqE_nat)

text \<open>Hexadecimal texts of byte strings of one length are ordered as the numbers.\<close>

lemma hex_less:
  assumes "length bs = length cs" "\<forall>b \<in> set bs. b < 256" "\<forall>b \<in> set cs. b < 256"
  shows "hex_EncodeToString bs < hex_EncodeToString cs \<longleftrightarrow> digits_num 256 bs < digits_num 256 cs"
proof -
  have "hex_EncodeToString bs < hex_EncodeToString cs \<longleftrightarrow> nibbles bs < nibbles cs"
    unfolding hex_nibbles
  proof (rule map_lex_less)
    fix x y
    assume "x \<in> set (nibbles bs)" "y \<in> set (nibbles cs)"
    then have "x < 16" "y < 16" using assms nibbles_less by blast+
    then show "(hex_digit x < hex_digit y) = (x < y) \<and> (hex_digit x = hex_digit y) = (x = y)"
      by (simp add: hex_digit_less hex_digit_eq)
  qed (simp add: assms(1))
  also have "\<dots> \<longleftrightarrow> digits_num 16 (nibbles bs) < digits_num 16 (nibbles cs)"
    using assms by (intro digits_lex_less) (auto dest: nibbles_less)
  finally show ?thesis by (simp add: digits_num_nibbles)
qed

section \<open>The scaled value\<close>

definition order_scaled :: "rational_time \<Rightarrow> int" where
  "order_scaled t = (rt_num t * 2 ^ 128) sdiv rt_den t + 2 ^ 191"

lemma sdiv_bounds:
  fixes n d :: int
  assumes "0 < d"
  shows "n - d < (n sdiv d) * d \<and> (n sdiv d) * d < n + d \<and> min n 0 \<le> n sdiv d \<and> n sdiv d \<le> max n 0"
proof -
  define q r where "q = \<bar>n\<bar> div d" and "r = \<bar>n\<bar> mod d"
  have qr: "\<bar>n\<bar> = q * d + r" "0 \<le> r" "r < d" "0 \<le> q"
    using assms by (simp_all add: q_def r_def pos_imp_zdiv_nonneg_iff)
  have "q \<le> q * d" using qr(4) assms by (simp add: mult_le_cancel_left1)
  moreover have "n sdiv d = sgn n * q"
    using assms by (simp add: signed_divide_int_def q_def)
  ultimately show ?thesis using qr by (cases "0 \<le> n") (auto simp: sgn_if abs_if)
qed

lemma order_scaled_range: "rt_valid t \<Longrightarrow> 0 \<le> order_scaled t \<and> order_scaled t < 2 ^ 192"
proof -
  assume "rt_valid t"
  then have d: "0 < rt_den t" by simp
  have n: "- (2 ^ 63) \<le> rt_num t" "rt_num t \<le> 2 ^ 63 - 1"
    using rt_num_IsInt64 [of t] by (simp_all add: IsInt64_def)
  define m where "m = rt_num t * 2 ^ 128"
  have "- (2 ^ 191) \<le> m" "m < 2 ^ 191" using n by (simp_all add: m_def)
  moreover have "min m 0 \<le> m sdiv rt_den t" "m sdiv rt_den t \<le> max m 0" using sdiv_bounds [OF d] by blast+
  ultimately show ?thesis unfolding order_scaled_def m_def [symmetric] by auto
qed

lemma order_scaled_mono:
  assumes "rt_valid a" "rt_valid b" "rt_val a < rt_val b"
  shows "order_scaled a < order_scaled b"
proof -
  define n1 d1 n2 d2 where "n1 = rt_num a" and "d1 = rt_den a" and "n2 = rt_num b" and "d2 = rt_den b"
  have d: "0 < d1" "0 < d2" using assms by (simp_all add: d1_def d2_def)
  define K s1 s2 where "K = (2 :: int) ^ 128" and "s1 = (n1 * K) sdiv d1" and "s2 = (n2 * K) sdiv d2"
  have "of_int (n1 * d2) < (of_int (n2 * d1) :: rat)"
    using assms(3) d unfolding rt_val_def n1_def n2_def d1_def d2_def by (simp add: divide_simps mult.commute)
  then have "n1 * d2 < n2 * d1" by (simp only: of_int_less_iff)
  then have gap: "K * 1 \<le> K * (n2 * d1 - n1 * d2)" unfolding K_def by (intro mult_left_mono) auto
  have "d1 * d2 \<le> MaxInt32 * MaxInt32"
    using d unfolding d1_def d2_def by (intro mult_mono) auto
  then have K: "2 * (d1 * d2) < K" by (simp add: K_def)
  have "s1 * d1 < n1 * K + d1" and "n2 * K - d2 < s2 * d2"
    using sdiv_bounds [OF d(1), of "n1 * K"] sdiv_bounds [OF d(2), of "n2 * K"] by (simp_all add: s1_def s2_def)
  then have "(s1 * d1) * d2 < (n1 * K + d1) * d2" and "(n2 * K - d2) * d1 < (s2 * d2) * d1"
    using d by simp_all
  then have "0 < (s2 - s1) * (d1 * d2)" using gap K by (simp add: algebra_simps)
  then have "s1 < s2" using d by (simp add: zero_less_mult_iff mult_less_0_iff)
  then show ?thesis by (simp add: order_scaled_def s1_def s2_def n1_def n2_def d1_def d2_def K_def)
qed

section \<open>The key is total and ordered\<close>

definition key_bytes :: "rational_time \<Rightarrow> nat list" where
  "key_bytes t = (let bytes = big_Bytes (nat (order_scaled t)) in replicate (24 - length bytes) 0 @ bytes)"

lemma RationalOrderKey_valid: "rt_valid t \<Longrightarrow> RationalOrderKey t = Inr (hex_EncodeToString (key_bytes t))"
  using order_scaled_range [of t]
  by (simp add: RationalOrderKey_def Validate_cases Let_def key_bytes_def order_scaled_def rt_num_def rt_den_def)

lemma key_bytes_less: "\<forall>b \<in> set (key_bytes t). b < 256"
  by (auto simp: key_bytes_def Let_def)

lemma length_key_bytes: "rt_valid t \<Longrightarrow> length (key_bytes t) = 24"
proof -
  assume "rt_valid t"
  then have "nat (order_scaled t) < 256 ^ 24" using order_scaled_range [of t] by (simp add: nat_less_iff)
  then show ?thesis using length_big_Bytes [of "nat (order_scaled t)" 24] by (simp add: key_bytes_def Let_def)
qed

lemma digits_num_key_bytes: "digits_num 256 (key_bytes t) = nat (order_scaled t)"
  by (simp add: key_bytes_def Let_def digits_num_append)

lemma order_scaled_less_iff:
  assumes "rt_valid a" "rt_valid b"
  shows "order_scaled a < order_scaled b \<longleftrightarrow> rt_val a < rt_val b"
  using order_scaled_mono [OF assms] order_scaled_mono [OF assms(2,1)] rt_val_eq_iff [OF assms]
  by (cases "rt_val a" "rt_val b" rule: linorder_cases) auto

lemma key_less_iff:
  assumes "rt_valid a" "rt_valid b"
  shows "hex_EncodeToString (key_bytes a) < hex_EncodeToString (key_bytes b) \<longleftrightarrow> rt_val a < rt_val b"
  using hex_less [of "key_bytes a" "key_bytes b"] order_scaled_less_iff [OF assms] order_scaled_range [OF assms(2)]
    order_scaled_range [OF assms(1)]
  by (auto simp: key_bytes_less length_key_bytes assms digits_num_key_bytes)

lemma length_hex [simp]: "length (hex_EncodeToString bytes) = 2 * length bytes"
  by (simp add: hex_nibbles)

text \<open>C34. Every canonical rational time has an order key, of 48 characters; the text order of two keys is the numeric order of the two times, so distinct
  times never share a key (128 fractional bits separate any two of them).\<close>

theorem order_key_sorts:
  assumes "rt_valid a" and "rt_valid b"
  shows "\<exists>k l. RationalOrderKey a = Inr k \<and> RationalOrderKey b = Inr l \<and> length k = 48 \<and> length l = 48 \<and>
    (k < l \<longleftrightarrow> rt_val a < rt_val b) \<and> (k = l \<longleftrightarrow> a = b)"
proof -
  let ?k = "hex_EncodeToString (key_bytes a)" and ?l = "hex_EncodeToString (key_bytes b)"
  have less: "?k < ?l \<longleftrightarrow> rt_val a < rt_val b" "?l < ?k \<longleftrightarrow> rt_val b < rt_val a"
    using assms by (simp_all add: key_less_iff)
  then have "?k = ?l \<longleftrightarrow> a = b"
    using rt_val_eq_iff [OF assms] by (metis less_irrefl linorder_neqE)
  with less assms show ?thesis by (simp add: RationalOrderKey_valid length_key_bytes)
qed

theorem order_key_sorts_witness:
  "\<exists>k l. RationalOrderKey \<lparr>rt_Value = - 1, rt_Scale = 3\<rparr> = Inr k \<and>
    RationalOrderKey \<lparr>rt_Value = 1, rt_Scale = 2\<rparr> = Inr l \<and> k < l"
proof -
  have "rt_valid \<lparr>rt_Value = - 1, rt_Scale = 3\<rparr>" "rt_valid \<lparr>rt_Value = 1, rt_Scale = 2\<rparr>" by code_simp+
  from order_key_sorts [OF this] show ?thesis by (auto simp: rt_val_def rt_num_def rt_den_def)
qed

end
