(* ===== verification/Go_Text.thy ===== *)
theory Go_Text
  imports Go_Prelude
begin

text \<open>
  The parts of Go's \<^verbatim>\<open>unicode/utf8\<close> and \<^verbatim>\<open>strings\<close> packages that the sources call on
  texts. A Go string is a byte string, here a \<open>string\<close> of 8 bit characters; a rune is a
  natural number.
\<close>

section \<open>Decoding UTF-8\<close>

abbreviation RuneError :: nat where "RuneError \<equiv> 65533"

definition byte_at :: "string \<Rightarrow> nat \<Rightarrow> nat" where
  "byte_at s i = (if i < length s then of_char (s ! i) else 0)"

definition is_cont :: "nat \<Rightarrow> bool" where
  "is_cont b \<longleftrightarrow> 128 \<le> b \<and> b \<le> 191"

text \<open>\<^verbatim>\<open>utf8.DecodeRuneInString\<close>: the first rune and its width. The width is 0 on the empty
  string, and 1 with \<open>RuneError\<close> on an encoding that is not valid.\<close>

definition DecodeRune :: "string \<Rightarrow> nat \<times> nat" where
  "DecodeRune s =
    (let b0 = byte_at s 0; b1 = byte_at s 1; b2 = byte_at s 2; b3 = byte_at s 3 in
     if s = [] then (RuneError, 0)
     else if b0 < 128 then (b0, 1)
     else if 194 \<le> b0 \<and> b0 \<le> 223 \<and> is_cont b1 then ((b0 - 192) * 64 + (b1 - 128), 2)
     else if 224 \<le> b0 \<and> b0 \<le> 239 \<and> is_cont b1 \<and> is_cont b2 \<and>
        (b0 = 224 \<longrightarrow> 160 \<le> b1) \<and> (b0 = 237 \<longrightarrow> b1 \<le> 159)
       then ((b0 - 224) * 4096 + (b1 - 128) * 64 + (b2 - 128), 3)
     else if 240 \<le> b0 \<and> b0 \<le> 244 \<and> is_cont b1 \<and> is_cont b2 \<and> is_cont b3 \<and>
        (b0 = 240 \<longrightarrow> 144 \<le> b1) \<and> (b0 = 244 \<longrightarrow> b1 \<le> 143)
       then ((b0 - 240) * 262144 + (b1 - 128) * 4096 + (b2 - 128) * 64 + (b3 - 128), 4)
     else (RuneError, 1))"

lemma DecodeRune_width: "s \<noteq> [] \<Longrightarrow> 0 < snd (DecodeRune s)"
  by (simp add: DecodeRune_def Let_def)

text \<open>\<^verbatim>\<open>utf8.ValidString\<close> and the runes a \<^verbatim>\<open>range\<close> over the string visits.\<close>

function ValidString :: "string \<Rightarrow> bool" where
  "ValidString s =
    (if s = [] then True
     else if fst (DecodeRune s) = RuneError \<and> snd (DecodeRune s) = 1 then False
     else ValidString (drop (snd (DecodeRune s)) s))"
  by pat_completeness auto
termination
  by (relation "measure length") (auto simp: DecodeRune_width)

function runes :: "string \<Rightarrow> nat list" where
  "runes s =
    (if s = [] then []
     else fst (DecodeRune s) # runes (drop (snd (DecodeRune s)) s))"
  by pat_completeness auto
termination
  by (relation "measure length") (auto simp: DecodeRune_width)

declare ValidString.simps [simp del] runes.simps [simp del]

definition RuneCountInString :: "string \<Rightarrow> nat" where
  "RuneCountInString s = length (runes s)"

section \<open>Trimming white space\<close>

text \<open>\<^verbatim>\<open>unicode.IsSpace\<close>.\<close>

definition IsSpace :: "nat \<Rightarrow> bool" where
  "IsSpace r \<longleftrightarrow> (9 \<le> r \<and> r \<le> 13) \<or> r = 32 \<or> r = 133 \<or> r = 160 \<or> r = 5760 \<or> (8192 \<le> r \<and> r \<le> 8202) \<or>
    r = 8232 \<or> r = 8233 \<or> r = 8239 \<or> r = 8287 \<or> r = 12288"

function TrimLeftSpace :: "string \<Rightarrow> string" where
  "TrimLeftSpace s =
    (if s \<noteq> [] \<and> IsSpace (fst (DecodeRune s)) then TrimLeftSpace (drop (snd (DecodeRune s)) s) else s)"
  by pat_completeness auto
termination
  by (relation "measure length") (auto simp: DecodeRune_width)

declare TrimLeftSpace.simps [simp del]

text \<open>
  \<^verbatim>\<open>utf8.DecodeLastRuneInString\<close>: step back over at most four bytes to one that can
  start a rune and decode from there.
\<close>

definition last_start :: "string \<Rightarrow> nat" where
  "last_start s =
    (let n = length s;
         starts = filter (\<lambda>i. \<not> is_cont (byte_at s i)) (rev [n - 4..<n - 1])
     in case starts of i # _ \<Rightarrow> i | [] \<Rightarrow> n - 5)"

definition DecodeLastRune :: "string \<Rightarrow> nat \<times> nat" where
  "DecodeLastRune s =
    (if s = [] then (RuneError, 0)
     else let b = byte_at s (length s - 1) in
       if b < 128 then (b, 1)
       else let start = last_start s;
                rune = DecodeRune (drop start s)
            in if start + snd rune \<noteq> length s then (RuneError, 1) else rune)"

lemma last_start_less: "s \<noteq> [] \<Longrightarrow> last_start s < length s"
proof -
  assume s: "s \<noteq> []"
  let ?starts = "filter (\<lambda>i. \<not> is_cont (byte_at s i)) (rev [length s - 4..<length s - 1])"
  show ?thesis
  proof (cases ?starts)
    case (Cons i rest)
    then have "i \<in> set ?starts" by (simp only: list.set_intros)
    then have "i < length s" by auto
    with Cons show ?thesis by (auto simp: last_start_def Let_def)
  qed (use s in \<open>simp add: last_start_def Let_def\<close>)
qed

lemma DecodeLastRune_width: "s \<noteq> [] \<Longrightarrow> 0 < snd (DecodeLastRune s)"
  using DecodeRune_width [of "drop (last_start s) s"] last_start_less [of s]
  by (simp add: DecodeLastRune_def Let_def)

function TrimRightSpace :: "string \<Rightarrow> string" where
  "TrimRightSpace s =
    (if s \<noteq> [] \<and> IsSpace (fst (DecodeLastRune s))
     then TrimRightSpace (take (length s - snd (DecodeLastRune s)) s) else s)"
  by pat_completeness auto
termination
  by (relation "measure length") (auto simp: DecodeLastRune_width)

declare TrimRightSpace.simps [simp del]

definition TrimSpace :: "string \<Rightarrow> string" where
  "TrimSpace s = TrimRightSpace (TrimLeftSpace s)"

section \<open>Punctuation\<close>

text \<open>\<^verbatim>\<open>unicode.IsPunct\<close>: the ranges of category P in Unicode 15.0.\<close>

definition punctuation :: "(nat \<times> nat) list" where
  "punctuation = [
    (33, 35), (37, 42), (44, 47), (58, 59), (63, 64), (91, 93), (95, 95), (123, 123), (125, 125), (161, 161),
    (167, 167), (171, 171), (182, 183), (187, 187), (191, 191), (894, 894), (903, 903), (1370, 1375),
    (1417, 1418), (1470, 1470), (1472, 1472), (1475, 1475), (1478, 1478), (1523, 1524), (1545, 1546),
    (1548, 1549), (1563, 1563), (1565, 1567), (1642, 1645), (1748, 1748), (1792, 1805), (2039, 2041),
    (2096, 2110), (2142, 2142), (2404, 2405), (2416, 2416), (2557, 2557), (2678, 2678), (2800, 2800),
    (3191, 3191), (3204, 3204), (3572, 3572), (3663, 3663), (3674, 3675), (3844, 3858), (3860, 3860),
    (3898, 3901), (3973, 3973), (4048, 4052), (4057, 4058), (4170, 4175), (4347, 4347), (4960, 4968),
    (5120, 5120), (5742, 5742), (5787, 5788), (5867, 5869), (5941, 5942), (6100, 6102), (6104, 6106),
    (6144, 6154), (6468, 6469), (6686, 6687), (6816, 6822), (6824, 6829), (7002, 7008), (7037, 7038),
    (7164, 7167), (7227, 7231), (7294, 7295), (7360, 7367), (7379, 7379), (8208, 8231), (8240, 8259),
    (8261, 8273), (8275, 8286), (8317, 8318), (8333, 8334), (8968, 8971), (9001, 9002), (10088, 10101),
    (10181, 10182), (10214, 10223), (10627, 10648), (10712, 10715), (10748, 10749), (11513, 11516),
    (11518, 11519), (11632, 11632), (11776, 11822), (11824, 11855), (11858, 11869), (12289, 12291),
    (12296, 12305), (12308, 12319), (12336, 12336), (12349, 12349), (12448, 12448), (12539, 12539),
    (42238, 42239), (42509, 42511), (42611, 42611), (42622, 42622), (42738, 42743), (43124, 43127),
    (43214, 43215), (43256, 43258), (43260, 43260), (43310, 43311), (43359, 43359), (43457, 43469),
    (43486, 43487), (43612, 43615), (43742, 43743), (43760, 43761), (44011, 44011), (64830, 64831),
    (65040, 65049), (65072, 65106), (65108, 65121), (65123, 65123), (65128, 65128), (65130, 65131),
    (65281, 65283), (65285, 65290), (65292, 65295), (65306, 65307), (65311, 65312), (65339, 65341),
    (65343, 65343), (65371, 65371), (65373, 65373), (65375, 65381), (65792, 65794), (66463, 66463),
    (66512, 66512), (66927, 66927), (67671, 67671), (67871, 67871), (67903, 67903), (68176, 68184),
    (68223, 68223), (68336, 68342), (68409, 68415), (68505, 68508), (69293, 69293), (69461, 69465),
    (69510, 69513), (69703, 69709), (69819, 69820), (69822, 69825), (69952, 69955), (70004, 70005),
    (70085, 70088), (70093, 70093), (70107, 70107), (70109, 70111), (70200, 70205), (70313, 70313),
    (70731, 70735), (70746, 70747), (70749, 70749), (70854, 70854), (71105, 71127), (71233, 71235),
    (71264, 71276), (71353, 71353), (71484, 71486), (71739, 71739), (72004, 72006), (72162, 72162),
    (72255, 72262), (72346, 72348), (72350, 72354), (72448, 72457), (72769, 72773), (72816, 72817),
    (73463, 73464), (73539, 73551), (73727, 73727), (74864, 74868), (77809, 77810), (92782, 92783),
    (92917, 92917), (92983, 92987), (92996, 92996), (93847, 93850), (94178, 94178), (113823, 113823),
    (121479, 121483), (125278, 125279)]"

definition IsPunct :: "nat \<Rightarrow> bool" where
  "IsPunct r \<longleftrightarrow> list_ex (\<lambda>(first, final). first \<le> r \<and> r \<le> final) punctuation"

end
