(* ===== verification/Identity.thy ===== *)
theory Identity
  imports Go_Text Order_Key
begin

text \<open>
  Identities of \<^verbatim>\<open>product/domain/identity.go\<close> and actors of
  \<^verbatim>\<open>product/domain/project.go\<close>. A durable identity is a canonical UUIDv7 text; the
  zero value of the Go type is the empty text. The phantom kinds of the Go type keep
  identities of different entities apart and have no run time content; they are type
  synonyms here.
\<close>

section \<open>Durable identities\<close>

type_synonym ProjectID = string
type_synonym NarrativeDocumentID = string
type_synonym NarrativeNodeID = string
type_synonym SequenceID = string
type_synonym TrackID = string
type_synonym ProposalID = string
type_synonym CreatorID = string
type_synonym AgentID = string
type_synonym RunID = string
type_synonym TurnID = string
type_synonym CaptionID = string
type_synonym AlignmentID = string
type_synonym ClipID = string
type_synonym LinkGroupID = string
type_synonym AssetID = string
type_synonym SourceStreamID = string
type_synonym ArtifactID = string
type_synonym TranscriptSegmentID = string
type_synonym TranscriptTokenID = string
type_synonym TranscriptCorrectionID = string
type_synonym RequestID = string
type_synonym LocalID = string

datatype identity_error =
    ErrInvalidDurableID
  | ErrInvalidRequestID
  | ErrInvalidLocalID
  | ErrTimeOutsideUUIDRange
  | ErrReadRandomness

definition isUUIDv7 :: "string \<Rightarrow> bool" where
  "isUUIDv7 value =
    (if length value \<noteq> 36 \<or> value ! 8 \<noteq> CHR ''-'' \<or> value ! 13 \<noteq> CHR ''-'' \<or> value ! 18 \<noteq> CHR ''-'' \<or>
        value ! 23 \<noteq> CHR ''-'' then False
     else if value ! 14 \<noteq> CHR ''7'' \<or> value ! 19 \<notin> set ''89ab'' then False
     else list_all (\<lambda>index. index = 8 \<or> index = 13 \<or> index = 18 \<or> index = 23 \<or>
       value ! index \<in> set ''0123456789abcdef'') [0..<36])"

definition ParseID :: "string \<Rightarrow> identity_error + string" where
  "ParseID value = (if \<not> isUUIDv7 value then Inl ErrInvalidDurableID else Inr value)"

definition ID_IsZero :: "string \<Rightarrow> bool" where
  "ID_IsZero ident \<longleftrightarrow> ident = ''''"

section \<open>Request and local identities\<close>

text \<open>The two regular expressions \<^verbatim>\<open>requestIDPattern\<close> and \<^verbatim>\<open>localIDPattern\<close>.\<close>

definition is_lower :: "char \<Rightarrow> bool" where
  "is_lower c \<longleftrightarrow> 97 \<le> (of_char c :: nat) \<and> (of_char c :: nat) \<le> 122"

definition is_upper :: "char \<Rightarrow> bool" where
  "is_upper c \<longleftrightarrow> 65 \<le> (of_char c :: nat) \<and> (of_char c :: nat) \<le> 90"

definition requestIDPattern :: "string \<Rightarrow> bool" where
  "requestIDPattern value \<longleftrightarrow> value \<noteq> [] \<and> length value \<le> 128 \<and>
    (is_upper (hd value) \<or> is_lower (hd value) \<or> is_digit (hd value)) \<and>
    list_all (\<lambda>c. is_upper c \<or> is_lower c \<or> is_digit c \<or> c \<in> set ''._:-'') (tl value)"

definition localIDPattern :: "string \<Rightarrow> bool" where
  "localIDPattern value \<longleftrightarrow> value \<noteq> [] \<and> length value \<le> 64 \<and> is_lower (hd value) \<and>
    list_all (\<lambda>c. is_lower c \<or> is_digit c \<or> c \<in> set ''_-'') (tl value)"

definition ParseRequestID :: "string \<Rightarrow> identity_error + string" where
  "ParseRequestID value = (if \<not> requestIDPattern value then Inl ErrInvalidRequestID else Inr value)"

definition ParseLocalID :: "string \<Rightarrow> identity_error + string" where
  "ParseLocalID value = (if \<not> localIDPattern value then Inl ErrInvalidLocalID else Inr value)"

section \<open>Generating identities\<close>

text \<open>
  \<^verbatim>\<open>GenerateUUIDv7From\<close>. The clock is the Unix time in milliseconds, the entropy source is
  what reading 16 bytes from it gives (\<open>None\<close> when the read fails), and \<open>uuid_String\<close> stands
  for the formatter of the package \<^verbatim>\<open>google/uuid\<close>.
\<close>

unbundle bit_operations_syntax

definition uuid_pack :: "int64 \<Rightarrow> byte list \<Rightarrow> byte list" where
  "uuid_pack milliseconds entropy =
    (let timestamp = milliseconds;
         bytes = entropy;
         bytes = bytes[0 := ucast (drop_bit 40 timestamp)];
         bytes = bytes[1 := ucast (drop_bit 32 timestamp)];
         bytes = bytes[2 := ucast (drop_bit 24 timestamp)];
         bytes = bytes[3 := ucast (drop_bit 16 timestamp)];
         bytes = bytes[4 := ucast (drop_bit 8 timestamp)];
         bytes = bytes[5 := ucast timestamp];
         bytes = bytes[6 := 0x70 OR (bytes ! 6 AND 0x0f)];
         bytes = bytes[8 := 0x80 OR (bytes ! 8 AND 0x3f)]
     in bytes)"

definition GenerateUUIDv7From ::
  "(byte list \<Rightarrow> string) \<Rightarrow> int64 \<Rightarrow> byte list option \<Rightarrow> identity_error + string" where
  "GenerateUUIDv7From uuid_String milliseconds source =
    (if sint milliseconds < 0 \<or> uint milliseconds \<ge> 2 ^ 48 then Inl ErrTimeOutsideUUIDRange
     else case source of
       None \<Rightarrow> Inl ErrReadRandomness
     | Some entropy \<Rightarrow>
         let value = uuid_String (uuid_pack milliseconds entropy)
         in if \<not> isUUIDv7 value then Inl ErrInvalidDurableID else Inr value)"

section \<open>Creative actors\<close>

datatype CreativeActor = ActorCreator | ActorAgent | ActorOther string

record actor_ref =
  actor_Kind :: CreativeActor
  actor_CreatorID :: "CreatorID option"
  actor_AgentID :: "AgentID option"

definition ActorRef_Validate :: "actor_ref \<Rightarrow> bool" where
  "ActorRef_Validate actor =
    (case actor_Kind actor of
       ActorCreator \<Rightarrow> (case actor_CreatorID actor of None \<Rightarrow> False | Some ident \<Rightarrow> \<not> ID_IsZero ident \<and> actor_AgentID actor = None)
     | ActorAgent \<Rightarrow> (case actor_AgentID actor of None \<Rightarrow> False | Some ident \<Rightarrow> \<not> ID_IsZero ident \<and> actor_CreatorID actor = None)
     | ActorOther _ \<Rightarrow> False)"

definition ActorRef_IDString :: "actor_ref \<Rightarrow> string" where
  "ActorRef_IDString actor =
    (if actor_Kind actor = ActorCreator \<and> actor_CreatorID actor \<noteq> None then the (actor_CreatorID actor)
     else if actor_Kind actor = ActorAgent \<and> actor_AgentID actor \<noteq> None then the (actor_AgentID actor)
     else '''')"

section \<open>Facts\<close>

lemma isUUIDv7_not_Nil: "isUUIDv7 s \<Longrightarrow> s \<noteq> []"
  by (auto simp: isUUIDv7_def)

lemma isUUIDv7_not_zero: "isUUIDv7 s \<Longrightarrow> \<not> ID_IsZero s"
  by (simp add: ID_IsZero_def isUUIDv7_not_Nil)

lemma not_isUUIDv7_Nil [simp]: "\<not> isUUIDv7 []"
  by (simp add: isUUIDv7_def)

lemma ParseID_Inr: "ParseID s = Inr ident \<longleftrightarrow> isUUIDv7 s \<and> ident = s"
  by (auto simp: ParseID_def)

section \<open>Generated identities\<close>

text \<open>The documented text form of a UUID, which the formatter parameter is assumed to give.\<close>

definition uuid_text :: "byte list \<Rightarrow> string" where
  "uuid_text bytes =
    (let h = hex_EncodeToString (map unat bytes)
     in take 8 h @ ''-'' @ take 4 (drop 8 h) @ ''-'' @ take 4 (drop 12 h) @ ''-'' @ take 4 (drop 16 h) @ ''-'' @ drop 20 h)"

lemma all_below: "list_all P [0..<n] \<Longrightarrow> m < n \<Longrightarrow> P m"
  by (simp add: list_all_iff)

lemma unat_byte_less: "unat (x :: byte) < 256"
  using unsigned_less [of x] by simp

lemma high_nibble_or_and:
  fixes n a m :: nat
  shows "(a OR (n AND m)) div 16 = (a div 16) OR (n div 16 AND m div 16)"
proof -
  have "drop_bit 4 (a OR (n AND m)) = drop_bit 4 a OR (drop_bit 4 n AND drop_bit 4 m)"
    by (simp only: drop_bit_or drop_bit_and)
  then show ?thesis by (simp add: drop_bit_eq_div)
qed

lemma version_nibble: "unat (0x70 OR ((x :: byte) AND 0x0f)) div 16 = 7"
  by (simp only: unsigned_or_eq unsigned_and_eq high_nibble_or_and) simp

lemma variant_nibble: "hex_digit (unat (0x80 OR ((x :: byte) AND 0x3f)) div 16) \<in> set ''89ab''"
proof -
  define y where "y = unat x div 16 AND 3"
  have "y = take_bit 2 (unat x div 16)" by (simp add: y_def take_bit_eq_mask mask_eq_exp_minus_1)
  then have "y < 4" by (simp add: take_bit_eq_mod)
  then have "y = 0 \<or> y = 1 \<or> y = 2 \<or> y = 3" by linarith
  then have "hex_digit (8 OR y) \<in> set ''89ab''"
    by (elim disjE) (simp_all only:, code_simp+)
  then show ?thesis by (simp only: unsigned_or_eq unsigned_and_eq high_nibble_or_and y_def) simp
qed

lemma hex_digit_mem: "d < 16 \<Longrightarrow> hex_digit d \<in> set ''0123456789abcdef''"
proof -
  have *: "list_all (\<lambda>d. hex_digit d \<in> set ''0123456789abcdef'') [0..<16]" by code_simp
  show "d < 16 \<Longrightarrow> hex_digit d \<in> set ''0123456789abcdef''" by (rule all_below [OF *])
qed

lemma uuid_pack_bytes:
  assumes "length e = 16"
  shows "\<exists>x6 x7 x8 rest. length rest = 7 \<and> uuid_pack ms e =
    [ucast (drop_bit 40 ms), ucast (drop_bit 32 ms), ucast (drop_bit 24 ms), ucast (drop_bit 16 ms),
     ucast (drop_bit 8 ms), ucast ms, 0x70 OR (x6 AND 0x0f), x7, 0x80 OR (x8 AND 0x3f)] @ rest"
proof -
  obtain e0 e1 e2 e3 e4 e5 e6 e7 e8 rest where "e = [e0, e1, e2, e3, e4, e5, e6, e7, e8] @ rest" "length rest = 7"
  proof -
    have "e = take 9 e @ drop 9 e" "length (take 9 e) = 9" "length (drop 9 e) = 7" using assms by simp_all
    moreover obtain e0 e1 e2 e3 e4 e5 e6 e7 e8 where "take 9 e = [e0, e1, e2, e3, e4, e5, e6, e7, e8]"
      using \<open>length (take 9 e) = 9\<close> by (auto simp: numeral_eq_Suc length_Suc_conv simp del: length_take)
    ultimately show thesis using that by metis
  qed
  then show ?thesis by (auto simp: uuid_pack_def Let_def)
qed

lemma append_less_append:
  fixes a b :: "'a :: linorder list"
  assumes "length a = length b"
  shows "a @ x < b @ y \<longleftrightarrow> a < b \<or> (a = b \<and> x < y)"
  using assms by (induction a b rule: list_induct2) auto

lemma take_drop_less:
  fixes a b :: "'a :: linorder list"
  assumes "length a = length b"
  shows "a < b \<longleftrightarrow> take k a < take k b \<or> (take k a = take k b \<and> drop k a < drop k b)"
  using append_less_append [of "take k a" "take k b" "drop k a" "drop k b"] assms by simp

text \<open>The dashes do not disturb the order of the leading twelve digits.\<close>

lemma uuid_text_less:
  assumes "length a = 16" "length b = 16"
    and "hex_EncodeToString (map unat (take 6 a)) < hex_EncodeToString (map unat (take 6 b))"
  shows "uuid_text a < uuid_text b"
proof -
  define h k where "h = hex_EncodeToString (map unat a)" and "k = hex_EncodeToString (map unat b)"
  have len: "length h = 32" "length k = 32" using assms(1,2) by (simp_all add: h_def k_def)
  have hex_append: "hex_EncodeToString (xs @ ys) = hex_EncodeToString xs @ hex_EncodeToString ys" for xs ys
    by (simp add: hex_EncodeToString_def)
  have "hex_EncodeToString (map unat (take 6 c)) = take 12 (hex_EncodeToString (map unat c))" if "length c = 16" for c :: "byte list"
    using that hex_append [of "map unat (take 6 c)" "map unat (drop 6 c)"] by (simp flip: map_append)
  then have "take 12 h < take 12 k" using assms by (simp add: h_def k_def)
  then have "take 8 h < take 8 k \<or> (take 8 h = take 8 k \<and> take 4 (drop 8 h) < take 4 (drop 8 k))"
    using take_drop_less [of "take 12 h" "take 12 k" 8] len by (simp add: min_def drop_take)
  then show ?thesis
    unfolding uuid_text_def Let_def h_def [symmetric] k_def [symmetric]
    using len by (auto simp: append_less_append)
qed

lemma dashed_valid:
  assumes "length h = 32" "\<forall>c \<in> set h. c \<in> set ''0123456789abcdef''" "h ! 12 = CHR ''7''" "h ! 16 \<in> set ''89ab''"
  shows "isUUIDv7 (take 8 h @ ''-'' @ take 4 (drop 8 h) @ ''-'' @ take 4 (drop 12 h) @ ''-'' @
    take 4 (drop 16 h) @ ''-'' @ drop 20 h)"
proof -
  define P where "P c \<longleftrightarrow> c \<in> set ''0123456789abcdef''" for c
  define Q where "Q c \<longleftrightarrow> c \<in> set ''89ab''" for c
  obtain c0 c1 c2 c3 c4 c5 c6 c7 c8 c9 c10 c11 c12 c13 c14 c15 c16 c17 c18 c19 c20 c21 c22 c23 c24 c25 c26 c27 c28 c29 c30 c31
    where h: "h = [c0, c1, c2, c3, c4, c5, c6, c7, c8, c9, c10, c11, c12, c13, c14, c15, c16, c17, c18, c19, c20, c21, c22, c23, c24, c25, c26, c27, c28, c29, c30, c31]"
    using assms(1) by (auto simp: numeral_eq_Suc length_Suc_conv)
  have "list_all P h" "Q (h ! 16)" using assms(2,4) unfolding P_def Q_def list_all_iff by blast+
  then show ?thesis
    using assms(3) unfolding isUUIDv7_def P_def [symmetric] Q_def [symmetric]
    by (simp add: h upt_conv_Cons)
qed

lemma hex_nth_even: "i < length xs \<Longrightarrow> hex_EncodeToString xs ! (2 * i) = hex_digit (xs ! i div 16)"
proof (induction xs arbitrary: i)
  case (Cons x xs)
  then show ?case by (cases i) (auto simp: hex_EncodeToString_def)
qed simp

lemma uuid_text_valid:
  assumes "length bs = 16" "unat (bs ! 6) div 16 = 7" "hex_digit (unat (bs ! 8) div 16) \<in> set ''89ab''"
  shows "isUUIDv7 (uuid_text bs)"
proof -
  define h where "h = hex_EncodeToString (map unat bs)"
  have len: "length h = 32" using assms(1) by (simp add: h_def)
  have hex: "\<forall>c \<in> set h. c \<in> set ''0123456789abcdef''"
  proof
    fix c
    assume "c \<in> set h"
    then have "c \<in> hex_digit ` set (nibbles (map unat bs))" by (simp add: h_def hex_nibbles)
    moreover have "d < 16" if "d \<in> set (nibbles (map unat bs))" for d
      using that by (rule nibbles_less [rotated]) (use unat_byte_less in auto)
    ultimately show "c \<in> set ''0123456789abcdef''" using hex_digit_mem by blast
  qed
  have at: "h ! (2 * i) = hex_digit (unat (bs ! i) div 16)" if "i < 16" for i
    using hex_nth_even [of i "map unat bs"] that assms(1) by (simp add: h_def)
  have v: "h ! 12 = CHR ''7''" "h ! 16 \<in> set ''89ab''"
    using at [of 6] at [of 8] assms(2,3) by (simp_all, code_simp)
  show ?thesis
    unfolding uuid_text_def Let_def h_def [symmetric] by (rule dashed_valid [OF len hex v])
qed

lemma six_bytes:
  fixes n :: nat
  assumes "n < 2 ^ 48"
  shows "digits_num 256 [n div 2 ^ 40 mod 256, n div 2 ^ 32 mod 256, n div 2 ^ 24 mod 256, n div 2 ^ 16 mod 256,
    n div 2 ^ 8 mod 256, n mod 256] = n"
proof -
  define q1 q2 q3 q4 q5 where "q1 = n div 256" and "q2 = q1 div 256" and "q3 = q2 div 256"
    and "q4 = q3 div 256" and "q5 = q4 div 256"
  note q = q1_def q2_def q3_def q4_def q5_def
  have "n div 2 ^ 40 = q5" "n div 2 ^ 32 = q4" "n div 2 ^ 24 = q3" "n div 2 ^ 16 = q2" "n div 2 ^ 8 = q1"
    unfolding q by (simp_all flip: div_mult2_eq)
  moreover have "q5 < 256" using assms unfolding q by (simp flip: div_mult2_eq add: less_mult_imp_div_less)
  moreover have "n = 256 * q1 + n mod 256" "q1 = 256 * q2 + q1 mod 256" "q2 = 256 * q3 + q2 mod 256"
    "q3 = 256 * q4 + q3 mod 256" "q4 = 256 * q5 + q4 mod 256"
    unfolding q by (simp_all only: mult_div_mod_eq)
  ultimately show ?thesis by (simp only: digits_num_Cons digits_num_Nil) simp
qed

lemma timestamp_bytes:
  assumes "uint (ms :: int64) < 2 ^ 48"
  shows "digits_num 256 (map unat [ucast (drop_bit 40 ms) :: byte, ucast (drop_bit 32 ms), ucast (drop_bit 24 ms),
    ucast (drop_bit 16 ms), ucast (drop_bit 8 ms), ucast ms]) = unat ms"
proof -
  define n where "n = unat ms"
  have small: "unat ms mod 18446744073709551616 = unat ms" using unsigned_less [of ms, where ?'a = nat] by simp
  have byte: "unat (ucast (drop_bit k ms) :: byte) = n div 2 ^ k mod 256" for k
    by (simp add: n_def unsigned_ucast_eq unsigned_drop_bit_eq drop_bit_eq_div [where 'a = nat] take_bit_eq_mod small)
  have "n < 2 ^ 48" using assms unfolding n_def uint_nat by (simp only: of_nat_less_numeral_power_cancel_iff)
  moreover have "unat (ucast ms :: byte) = n mod 256" using byte [of 0] by simp
  ultimately show ?thesis
    unfolding n_def [symmetric] by (simp only: list.map byte six_bytes)
qed

lemma take6_pack:
  assumes "length e = 16"
  shows "take 6 (uuid_pack ms e) = [ucast (drop_bit 40 ms), ucast (drop_bit 32 ms), ucast (drop_bit 24 ms),
    ucast (drop_bit 16 ms), ucast (drop_bit 8 ms), ucast ms]"
  using uuid_pack_bytes [OF assms, of ms] by auto

lemma uuid_pack_valid:
  assumes "length e = 16"
  shows "length (uuid_pack ms e) = 16 \<and> isUUIDv7 (uuid_text (uuid_pack ms e))"
proof -
  obtain x6 x7 x8 rest where r: "length rest = 7" and p: "uuid_pack ms e =
    [ucast (drop_bit 40 ms), ucast (drop_bit 32 ms), ucast (drop_bit 24 ms), ucast (drop_bit 16 ms),
     ucast (drop_bit 8 ms), ucast ms, 0x70 OR (x6 AND 0x0f), x7, 0x80 OR (x8 AND 0x3f)] @ rest"
    using uuid_pack_bytes [OF assms] by blast
  have len: "length (uuid_pack ms e) = 16" by (simp add: p r)
  moreover have "uuid_pack ms e ! 6 = 0x70 OR (x6 AND 0x0f)" "uuid_pack ms e ! 8 = 0x80 OR (x8 AND 0x3f)"
    by (simp_all add: p)
  ultimately show ?thesis using uuid_text_valid version_nibble variant_nibble by metis
qed

text \<open>C35. With the documented text form of UUIDs, a clock reading within 48 bits and sixteen
  bytes of entropy always generate an identity, the identity passes the check every parser of
  identities makes, and identities generated at an earlier millisecond sort, as texts, before
  those generated later, whatever the entropy.\<close>

theorem generated_ids_valid_and_ordered:
  assumes "\<And>bytes. length bytes = 16 \<Longrightarrow> uuid_String bytes = uuid_text bytes"
    and "length e1 = 16" and "length e2 = 16"
    and "0 \<le> sint t1" and "sint t1 < sint t2" and "sint t2 < 2 ^ 48"
  shows "\<exists>v1 v2. GenerateUUIDv7From uuid_String t1 (Some e1) = Inr v1 \<and>
    GenerateUUIDv7From uuid_String t2 (Some e2) = Inr v2 \<and>
    ParseID v1 = Inr v1 \<and> ParseID v2 = Inr v2 \<and> v1 < v2"
proof -
  have u: "uint t1 = sint t1" "uint t2 = sint t2" by (rule uint_sint_nonneg64, use assms(4,5) in linarith)+
  have less: "uint t1 < uint t2" "uint t1 < 2 ^ 48" "uint t2 < 2 ^ 48" using u assms(5,6) by linarith+
  then have "unat t1 < unat t2" unfolding uint_nat by linarith
  moreover have "digits_num 256 (map unat (take 6 (uuid_pack t1 e1))) = unat t1"
    "digits_num 256 (map unat (take 6 (uuid_pack t2 e2))) = unat t2"
    unfolding take6_pack [OF assms(2)] take6_pack [OF assms(3)]
    by (rule timestamp_bytes [OF less(2)], rule timestamp_bytes [OF less(3)])
  moreover have "length (uuid_pack t1 e1) = 16" "length (uuid_pack t2 e2) = 16"
    using uuid_pack_valid assms(2,3) by blast+
  ultimately have "hex_EncodeToString (map unat (take 6 (uuid_pack t1 e1))) < hex_EncodeToString (map unat (take 6 (uuid_pack t2 e2)))"
    by (subst hex_less) (auto simp: unat_byte_less)
  then have "uuid_text (uuid_pack t1 e1) < uuid_text (uuid_pack t2 e2)"
    using uuid_pack_valid assms(2,3) by (intro uuid_text_less) blast+
  then show ?thesis
    using uuid_pack_valid [OF assms(2), of t1] uuid_pack_valid [OF assms(3), of t2] assms(1,4,5) less
    unfolding GenerateUUIDv7From_def ParseID_def by (simp add: not_le)
qed

theorem generated_ids_valid_and_ordered_witness:
  "\<exists>v1 v2. GenerateUUIDv7From uuid_text 1700000000000 (Some (replicate 16 255)) = Inr v1 \<and>
    GenerateUUIDv7From uuid_text 1700000000001 (Some (replicate 16 0)) = Inr v2 \<and> v1 < v2"
  using generated_ids_valid_and_ordered [of uuid_text "replicate 16 255" "replicate 16 0" 1700000000000 1700000000001]
  by auto

end
