(* ===== verification/Edit_Domain.thy ===== *)
theory Edit_Domain
  imports Identity
begin

text \<open>
  The creative entities of \<^verbatim>\<open>product/domain\<close> that an edit reads and writes: the structs
  of \<^verbatim>\<open>edit.go\<close>, \<^verbatim>\<open>caption_derivation.go\<close>, \<^verbatim>\<open>rough_cut.go\<close>, \<^verbatim>\<open>language.go\<close> and the
  parts of \<^verbatim>\<open>transcript.go\<close>, \<^verbatim>\<open>media.go\<close> and \<^verbatim>\<open>digest.go\<close> they refer to. A Go struct is a
  record, a pointer field an option. The two structs that pair a tag with one pointer per tag
  (\<^verbatim>\<open>NarrativeNodeState\<close>, \<^verbatim>\<open>AlignmentTarget\<close> and \<^verbatim>\<open>NormalizedEditOperation\<close>) are datatypes
  whose constructor is the tag. A string enumeration is a datatype with a constructor for the
  texts outside it.
\<close>

section \<open>Enumerations\<close>

datatype EditEntityKind =
    EntityNarrativeDocument | EntityNarrativeNode | EntitySequence | EntityTrack | EntityCaption
  | EntityAlignment | EntityClip | EntityLinkGroup | EntityAsset | EntityTranscriptCorrection
  | EntityOther string

fun EditEntityKind_string :: "EditEntityKind \<Rightarrow> string" where
  "EditEntityKind_string EntityNarrativeDocument = ''narrative-document''"
| "EditEntityKind_string EntityNarrativeNode = ''narrative-node''"
| "EditEntityKind_string EntitySequence = ''sequence''"
| "EditEntityKind_string EntityTrack = ''track''"
| "EditEntityKind_string EntityCaption = ''caption''"
| "EditEntityKind_string EntityAlignment = ''alignment''"
| "EditEntityKind_string EntityClip = ''clip''"
| "EditEntityKind_string EntityLinkGroup = ''link-group''"
| "EditEntityKind_string EntityAsset = ''asset''"
| "EditEntityKind_string EntityTranscriptCorrection = ''transcript-correction''"
| "EditEntityKind_string (EntityOther s) = s"

datatype EditOperationType =
    EditInsertSection | EditUpdateSection | EditInsertAuthoredText | EditUpdateAuthoredText
  | EditInsertVisualIntent | EditUpdateVisualIntent | EditInsertNote | EditUpdateNote
  | EditMoveNarrativeNode | EditRemoveNarrativeNode
  | EditAddCaption | EditUpdateCaption | EditRemoveCaption
  | EditBindAlignment | EditMarkAlignmentStale | EditUnbindAlignment | EditRemapAlignment
  | EditAddClip | EditMoveClip | EditTrimClip | EditSplitClip | EditRemoveClip | EditSetClipPlacement
  | EditLinkClips | EditUnlinkClips
  | EditAddTranscriptCorrection | EditUpdateTranscriptCorrection | EditRemoveTranscriptCorrection
  | EditInsertSourceExcerpt | EditDeriveCaptions | EditDeriveRoughCut
  | EditOperationOther string

datatype AlignmentStatus = AlignmentExact | AlignmentStale | AlignmentUnbound | AlignmentStatusOther string

datatype AlignmentTargetType =
  AlignmentTargetCaption | AlignmentTargetClip | AlignmentTargetTimeline | AlignmentTargetOther string

datatype ClipMutationScope = ClipScopeLinked | ClipScopeSingle | ClipScopeOther string

datatype AuthoredTextPurpose = AuthoredTextSpoken | AuthoredTextOnScreen | AuthoredTextOther string

datatype VisualIntentPurpose =
  VisualIntentBRoll | VisualIntentComposition | VisualIntentReplacement | VisualIntentOther string

datatype TrackType = TrackVideo | TrackAudio | TrackCaption | TrackOther string

datatype MediaType =
  MediaVideo | MediaAudio | MediaSubtitle | MediaData | MediaAttachment | MediaOther | MediaInvalid string

datatype SourceExcerptEvidenceStatus =
  SourceExcerptEvidenceExact | SourceExcerptEvidenceStale | SourceExcerptEvidenceOther string

datatype CaptionProvenanceKind =
  CaptionProvenanceManual | CaptionProvenanceTranscriptDerivation | CaptionProvenanceOther string

datatype ProposalStatus = ProposalOpen | ProposalApplied | ProposalStale | ProposalCancelled

definition AuthoredTextPurpose_Validate :: "AuthoredTextPurpose \<Rightarrow> bool" where
  "AuthoredTextPurpose_Validate purpose \<longleftrightarrow> \<not> (purpose \<noteq> AuthoredTextSpoken \<and> purpose \<noteq> AuthoredTextOnScreen)"

definition VisualIntentPurpose_Validate :: "VisualIntentPurpose \<Rightarrow> bool" where
  "VisualIntentPurpose_Validate purpose \<longleftrightarrow>
    \<not> (purpose \<noteq> VisualIntentBRoll \<and> purpose \<noteq> VisualIntentComposition \<and> purpose \<noteq> VisualIntentReplacement)"

abbreviation MaximumAuthoredTextBytes :: nat where "MaximumAuthoredTextBytes \<equiv> 262144"

section \<open>Languages and digests\<close>

type_synonym CaptionLanguage = string
type_synonym Digest = string

abbreviation MaximumCaptionLanguageBytes :: nat where "MaximumCaptionLanguageBytes \<equiv> 64"

text \<open>
  The parser of BCP 47 tags is the package \<^verbatim>\<open>golang.org/x/text/language\<close>. The parameter
  \<open>bcp47\<close> maps a text it accepts to the canonical text of the tag and the number of its
  extensions, and a text it rejects to \<open>None\<close>.
\<close>

type_synonym language_parser = "string \<Rightarrow> (string \<times> nat) option"

definition ParseCaptionLanguage :: "language_parser \<Rightarrow> string \<Rightarrow> CaptionLanguage option" where
  "ParseCaptionLanguage bcp47 value =
    (if value = '''' \<or> length value > MaximumCaptionLanguageBytes \<or> TrimSpace value \<noteq> value then None
     else case bcp47 value of
       None \<Rightarrow> None
     | Some (text, extensions) \<Rightarrow> if text \<noteq> value \<or> extensions \<noteq> 0 then None else Some value)"

definition CaptionLanguage_Validate :: "language_parser \<Rightarrow> CaptionLanguage \<Rightarrow> bool" where
  "CaptionLanguage_Validate bcp47 value \<longleftrightarrow> ParseCaptionLanguage bcp47 value \<noteq> None"

definition ParseDigest :: "string \<Rightarrow> Digest option" where
  "ParseDigest value =
    (if length value \<noteq> 71 \<or> take 7 value \<noteq> ''sha256:'' then None
     else if \<not> list_all (\<lambda>c. c \<in> set ''0123456789abcdef'') (drop 7 value) then None
     else Some value)"

section \<open>Narrative nodes\<close>

record section_state =
  sec_ID :: NarrativeNodeID
  sec_Revision :: revision
  sec_DocumentID :: NarrativeDocumentID
  sec_ParentID :: "NarrativeNodeID option"
  sec_AfterNodeID :: "NarrativeNodeID option"
  sec_Title :: string
  sec_Language :: CaptionLanguage
  sec_Tombstoned :: bool

record authored_text_state =
  txt_ID :: NarrativeNodeID
  txt_Revision :: revision
  txt_DocumentID :: NarrativeDocumentID
  txt_ParentID :: NarrativeNodeID
  txt_AfterNodeID :: "NarrativeNodeID option"
  txt_Purpose :: AuthoredTextPurpose
  txt_Language :: CaptionLanguage
  txt_Text :: string
  txt_Tombstoned :: bool

record visual_intent_state =
  vis_ID :: NarrativeNodeID
  vis_Revision :: revision
  vis_DocumentID :: NarrativeDocumentID
  vis_ParentID :: NarrativeNodeID
  vis_AfterNodeID :: "NarrativeNodeID option"
  vis_Purpose :: VisualIntentPurpose
  vis_Language :: CaptionLanguage
  vis_Description :: string
  vis_Tombstoned :: bool

record note_state =
  note_ID :: NarrativeNodeID
  note_Revision :: revision
  note_DocumentID :: NarrativeDocumentID
  note_ParentID :: NarrativeNodeID
  note_AfterNodeID :: "NarrativeNodeID option"
  note_Language :: CaptionLanguage
  note_Text :: string
  note_Tombstoned :: bool

record correction_ref =
  cref_ID :: TranscriptCorrectionID
  cref_Revision :: revision

record correction_state =
  cor_ID :: TranscriptCorrectionID
  cor_Revision :: revision
  cor_AssetID :: AssetID
  cor_ArtifactID :: ArtifactID
  cor_SegmentIDs :: "TranscriptSegmentID list"
  cor_SourceRange :: time_range
  cor_ReplacementText :: string
  cor_Language :: CaptionLanguage
  cor_Tombstoned :: bool

record excerpt_evidence =
  ev_ArtifactID :: ArtifactID
  ev_SourceStreamID :: SourceStreamID
  ev_SegmentIDs :: "TranscriptSegmentID list"
  ev_CorrectionRevisions :: "correction_ref list"

record source_excerpt_state =
  exc_ID :: NarrativeNodeID
  exc_Revision :: revision
  exc_DocumentID :: NarrativeDocumentID
  exc_ParentID :: NarrativeNodeID
  exc_AfterNodeID :: "NarrativeNodeID option"
  exc_AssetID :: AssetID
  exc_AcceptedFingerprint :: Digest
  exc_SourceRange :: time_range
  exc_Language :: CaptionLanguage
  exc_EffectiveText :: string
  exc_Evidence :: excerpt_evidence
  exc_Tombstoned :: bool

datatype narrative_node_state =
    SectionNode section_state
  | AuthoredTextNode authored_text_state
  | SourceExcerptNode source_excerpt_state
  | VisualIntentNode visual_intent_state
  | NoteNode note_state

fun NarrativeNodeState_ID :: "narrative_node_state \<Rightarrow> NarrativeNodeID" where
  "NarrativeNodeState_ID (SectionNode s) = sec_ID s"
| "NarrativeNodeState_ID (AuthoredTextNode t) = txt_ID t"
| "NarrativeNodeState_ID (SourceExcerptNode e) = exc_ID e"
| "NarrativeNodeState_ID (VisualIntentNode v) = vis_ID v"
| "NarrativeNodeState_ID (NoteNode n) = note_ID n"

fun NarrativeNodeState_RevisionValue :: "narrative_node_state \<Rightarrow> revision" where
  "NarrativeNodeState_RevisionValue (SectionNode s) = sec_Revision s"
| "NarrativeNodeState_RevisionValue (AuthoredTextNode t) = txt_Revision t"
| "NarrativeNodeState_RevisionValue (SourceExcerptNode e) = exc_Revision e"
| "NarrativeNodeState_RevisionValue (VisualIntentNode v) = vis_Revision v"
| "NarrativeNodeState_RevisionValue (NoteNode n) = note_Revision n"

fun NarrativeNodeState_IsTombstoned :: "narrative_node_state \<Rightarrow> bool" where
  "NarrativeNodeState_IsTombstoned (SectionNode s) = sec_Tombstoned s"
| "NarrativeNodeState_IsTombstoned (AuthoredTextNode t) = txt_Tombstoned t"
| "NarrativeNodeState_IsTombstoned (SourceExcerptNode e) = exc_Tombstoned e"
| "NarrativeNodeState_IsTombstoned (VisualIntentNode v) = vis_Tombstoned v"
| "NarrativeNodeState_IsTombstoned (NoteNode n) = note_Tombstoned n"

section \<open>Captions and their provenance\<close>

record caption_policy =
  pol_ID :: string
  pol_MaximumLines :: byte
  pol_MaximumLineGraphemes :: uint16
  pol_MinimumDuration :: rational_time
  pol_MaximumDuration :: rational_time
  pol_MaximumGap :: rational_time
  pol_MaximumReadingRate :: uint16
  pol_BoundaryPolicy :: string
  pol_TimingPolicy :: string
  pol_UnicodeSegmentationID :: string

text \<open>A constructor call whose error is discarded returns the zero value on error.\<close>

definition newTime :: "int64 \<Rightarrow> int32 \<Rightarrow> rational_time" where
  "newTime value scale = (case NewRationalTime value scale of Inl _ \<Rightarrow> zero_rational_time | Inr t \<Rightarrow> t)"

definition ReadableCaptionPolicyV1 :: caption_policy where
  "ReadableCaptionPolicyV1 = \<lparr>pol_ID = ''readable-captions-v1'', pol_MaximumLines = 2,
    pol_MaximumLineGraphemes = 42, pol_MinimumDuration = newTime 1 1, pol_MaximumDuration = newTime 6 1,
    pol_MaximumGap = newTime 3 4, pol_MaximumReadingRate = 20,
    pol_BoundaryPolicy = ''terminal-punctuation-v1'', pol_TimingPolicy = ''forward-pad-no-overlap-v1'',
    pol_UnicodeSegmentationID = ''unicode-egc-15.0.0-uniseg-v0.4.7''\<rparr>"

definition CaptionDerivationPolicy_Validate :: "caption_policy \<Rightarrow> bool" where
  "CaptionDerivationPolicy_Validate policy \<longleftrightarrow>
    (let expected = ReadableCaptionPolicyV1 in
     RationalTime_Compare (pol_MinimumDuration policy) (pol_MinimumDuration expected) = Inr 0 \<and>
     RationalTime_Compare (pol_MaximumDuration policy) (pol_MaximumDuration expected) = Inr 0 \<and>
     RationalTime_Compare (pol_MaximumGap policy) (pol_MaximumGap expected) = Inr 0 \<and>
     pol_ID policy = pol_ID expected \<and> pol_MaximumLines policy = pol_MaximumLines expected \<and>
     pol_MaximumLineGraphemes policy = pol_MaximumLineGraphemes expected \<and>
     pol_MaximumReadingRate policy = pol_MaximumReadingRate expected \<and>
     pol_BoundaryPolicy policy = pol_BoundaryPolicy expected \<and>
     pol_TimingPolicy policy = pol_TimingPolicy expected \<and>
     pol_UnicodeSegmentationID policy = pol_UnicodeSegmentationID expected)"

record caption_derivation =
  der_SourceExcerptID :: NarrativeNodeID
  der_SourceExcerptRevision :: revision
  der_AssetID :: AssetID
  der_AcceptedFingerprint :: Digest
  der_ArtifactID :: ArtifactID
  der_SourceStreamID :: SourceStreamID
  der_SegmentIDs :: "TranscriptSegmentID list"
  der_CorrectionRevisions :: "correction_ref list"
  der_ClipID :: ClipID
  der_ClipRevision :: revision
  der_ClipSourceRange :: time_range
  der_ClipTimelineRange :: time_range
  der_EvidenceSourceRange :: time_range
  der_Policy :: caption_policy
  der_DerivedRange :: time_range
  der_DerivedLanguage :: CaptionLanguage
  der_DerivedText :: string

record caption_provenance =
  prov_Kind :: CaptionProvenanceKind
  prov_Derivation :: "caption_derivation option"

record caption_provenance_status =
  pstat_Content :: string
  pstat_Evidence :: string

record caption_state =
  cap_ID :: CaptionID
  cap_Revision :: revision
  cap_SequenceID :: SequenceID
  cap_TrackID :: TrackID
  cap_Range :: time_range
  cap_Language :: CaptionLanguage
  cap_Text :: string
  cap_Provenance :: caption_provenance
  cap_ProvenanceStatus :: "caption_provenance_status option"
  cap_Tombstoned :: bool

section \<open>Alignments\<close>

record caption_target =
  ctgt_CaptionID :: CaptionID
  ctgt_CaptionRevision :: revision
  ctgt_LocalRange :: time_range

record clip_target =
  ktgt_ClipID :: ClipID
  ktgt_ClipRevision :: revision
  ktgt_LocalRange :: time_range

record timeline_target =
  ttgt_SequenceRevision :: revision
  ttgt_Range :: time_range

datatype alignment_target =
    CaptionTarget caption_target
  | ClipTarget clip_target
  | TimelineTarget timeline_target

record alignment_state =
  al_ID :: AlignmentID
  al_Revision :: revision
  al_NarrativeNodeID :: NarrativeNodeID
  al_NarrativeNodeRevision :: revision
  al_SequenceID :: SequenceID
  al_Targets :: "alignment_target list"
  al_Status :: AlignmentStatus

section \<open>Clips, placements and link groups\<close>

record clip_placement =
  pl_CropX :: uint16
  pl_CropY :: uint16
  pl_CropWidth :: uint16
  pl_CropHeight :: uint16
  pl_ScaleX :: exact_rational
  pl_ScaleY :: exact_rational
  pl_TranslateX :: exact_rational
  pl_TranslateY :: exact_rational
  pl_Opacity :: uint16

datatype placement_error = PlacementCrop | PlacementOpacity | PlacementScale | PlacementTranslate

definition placement_scale_ok :: "exact_rational \<Rightarrow> bool" where
  "placement_scale_ok scale \<longleftrightarrow>
    \<not> (\<not> isOk (ExactRational_Validate scale) \<or> sint (er_Value scale) \<le> 0 \<or>
       sint (er_Value scale) > sint (scast (er_Scale scale) * 100 :: int64))"

definition placement_translate_ok :: "exact_rational \<Rightarrow> bool" where
  "placement_translate_ok translate \<longleftrightarrow>
    \<not> (\<not> isOk (ExactRational_Validate translate) \<or>
       absInt64 (er_Value translate) > scast (er_Scale translate) * 10)"

definition ClipPlacement_Validate :: "clip_placement \<Rightarrow> placement_error + unit" where
  "ClipPlacement_Validate placement =
    (if pl_CropWidth placement < 1 \<or> pl_CropHeight placement < 1 \<or>
        (ucast (pl_CropX placement) + ucast (pl_CropWidth placement) :: uint32) > 10000 \<or>
        (ucast (pl_CropY placement) + ucast (pl_CropHeight placement) :: uint32) > 10000
     then Inl PlacementCrop
     else if pl_Opacity placement > 10000 then Inl PlacementOpacity
     else if \<not> list_all placement_scale_ok [pl_ScaleX placement, pl_ScaleY placement] then Inl PlacementScale
     else if \<not> list_all placement_translate_ok [pl_TranslateX placement, pl_TranslateY placement]
     then Inl PlacementTranslate
     else Inr ())"

definition IdentityClipPlacement :: clip_placement where
  "IdentityClipPlacement =
    (let one = \<lparr>er_Value = 1, er_Scale = 1\<rparr>; zero = \<lparr>er_Value = 0, er_Scale = 1\<rparr>
     in \<lparr>pl_CropX = 0, pl_CropY = 0, pl_CropWidth = 10000, pl_CropHeight = 10000,
         pl_ScaleX = one, pl_ScaleY = one, pl_TranslateX = zero, pl_TranslateY = zero, pl_Opacity = 10000\<rparr>)"

definition ClipPlacement_IsIdentity :: "clip_placement \<Rightarrow> bool" where
  "ClipPlacement_IsIdentity placement \<longleftrightarrow> placement = IdentityClipPlacement"

record clip_state =
  clip_ID :: ClipID
  clip_Revision :: revision
  clip_SequenceID :: SequenceID
  clip_TrackID :: TrackID
  clip_AssetID :: AssetID
  clip_SourceStreamID :: SourceStreamID
  clip_SourceRange :: time_range
  clip_TimelineRange :: time_range
  clip_Enabled :: bool
  clip_LinkGroupID :: "LinkGroupID option"
  clip_Placement :: "clip_placement option"
  clip_Tombstoned :: bool

record link_group_state =
  lg_ID :: LinkGroupID
  lg_Revision :: revision
  lg_SequenceID :: SequenceID
  lg_Tombstoned :: bool

section \<open>Assets, streams and transcripts\<close>

record asset_state =
  ast_ID :: AssetID
  ast_Revision :: revision
  ast_ProjectID :: ProjectID
  ast_SourceGrantID :: string
  ast_DisplayName :: string
  ast_ImportMode :: string
  ast_AcceptedFingerprint :: "Digest option"
  ast_Tombstoned :: bool

record video_facts =
  vf_Width :: uint32
  vf_Height :: uint32
  vf_CodedWidth :: uint32
  vf_CodedHeight :: uint32
  vf_PixelAspect :: "rational_time option"
  vf_AverageRate :: "rational_time option"
  vf_NominalRate :: "rational_time option"
  vf_Rotation :: "16 word"
  vf_PixelFormat :: string
  vf_ColorRange :: string
  vf_ColorSpace :: string
  vf_ColorTransfer :: string
  vf_ColorPrimaries :: string

record audio_facts =
  af_SampleFormat :: string
  af_SampleRate :: uint32
  af_Channels :: uint16
  af_ChannelLayout :: string

record stream_descriptor =
  sd_Index :: uint32
  sd_MediaType :: MediaType
  sd_Codec :: string
  sd_CodecProfile :: string
  sd_CodecTag :: string
  sd_TimeBase :: rational_time
  sd_StartTime :: "rational_time option"
  sd_Duration :: "rational_time option"
  sd_Language :: string
  sd_Dispositions :: "string list"
  sd_Video :: "video_facts option"
  sd_Audio :: "audio_facts option"

record transcript_token =
  tok_ID :: TranscriptTokenID
  tok_Ordinal :: uint32
  tok_SourceRange :: time_range
  tok_Text :: string
  tok_Confidence :: "uint16 option"

section \<open>Normalized operations and proposals\<close>

record project_version_ref =
  pvr_ID :: string
  pvr_Digest :: Digest

datatype normalized_operation =
    PutNarrativeNode narrative_node_state
  | PutCaption caption_state
  | PutAlignment alignment_state
  | PutAsset asset_state
  | PutClip clip_state
  | PutLinkGroup link_group_state
  | PutTranscriptCorrection correction_state
  | RestoreProjectVersion project_version_ref

record entity_precondition =
  pre_Kind :: EditEntityKind
  pre_ID :: string
  pre_Revision :: revision

record local_allocation =
  alloc_Local :: LocalID
  alloc_Kind :: EditEntityKind
  alloc_ID :: string

record entity_change =
  chg_Kind :: EditEntityKind
  chg_ID :: string
  chg_Before :: "revision option"
  chg_After :: revision
  chg_Tombstoned :: bool

record edit_impact =
  imp_Classifier :: string
  imp_Class :: string
  imp_RequiresApproval :: bool

record edit_proposal =
  prop_ID :: ProposalID
  prop_ProjectID :: ProjectID
  prop_SequenceID :: "SequenceID option"
  prop_RunID :: "RunID option"
  prop_TurnID :: "TurnID option"
  prop_RequestID :: RequestID
  prop_Actor :: actor_ref
  prop_Intent :: string
  prop_BaseProjectRevision :: revision
  prop_Preconditions :: "entity_precondition list"
  prop_Allocation :: "local_allocation list"
  prop_Operations :: "normalized_operation list"
  prop_InversePreview :: "normalized_operation list"
  prop_Changes :: "entity_change list"
  prop_Impact :: edit_impact
  prop_Digest :: Digest
  prop_Status :: ProposalStatus
  prop_CreatedAt :: int
  prop_AppliedTransactionID :: "string option"

end
