(* ===== verification/Edit_Input.thy ===== *)
theory Edit_Input
  imports Edit_Domain
begin

text \<open>
  The request side of an edit: the input structs of \<^verbatim>\<open>product/application/edits.go\<close> and
  the errors the edit code returns. An invalid request carries a reason; the texts of the
  reasons are formatted for people and are constructors here. The two ways the Go code can
  panic on these paths, a nil pointer and a revision that cannot be advanced, are errors of
  the model, so that their absence can be stated.
\<close>

section \<open>Errors\<close>

datatype invalid_reason =
    NoReason
  | RequestIDMalformed
  | IntentMalformed
  | BaseRevisionMalformed
  | OperationCount nat
  | PreconditionCount nat
  | PreconditionMalformed EditEntityKind string
  | PreconditionDuplicate EditEntityKind string
  | OperationMalformed nat EditOperationType
  | ReferenceUnknown nat EditOperationType
  | AfterCycle
  | MissingPrecondition EditEntityKind string
  | CaptionNotLive CaptionID
  | CaptionMutatedTwice CaptionID
  | StillAnchors EditEntityKind string AlignmentID
  | ClipNotLive ClipID
  | PlacementOnTrack ClipID TrackType TrackID
  | PlacementInvalid placement_error
  | CaptionDoesNotFit nat rational_time uint16 rational_time

datatype edit_error =
    EditInvalid invalid_reason
  | EditConflict
  | EditConflictOn EditEntityKind string revision revision
  | EditIdentity identity_error
  | EditDigest
  | PanicNil
  | PanicRevision

abbreviation ErrEditInvalid :: edit_error where "ErrEditInvalid \<equiv> EditInvalid NoReason"

text \<open>Reading through a pointer.\<close>

abbreviation deref :: "'a option \<Rightarrow> edit_error + 'a" where
  "deref p \<equiv> someOr PanicNil p"

section \<open>Requests\<close>

record rough_cut_policy =
  rcp_ID :: string
  rcp_Ordering :: string
  rcp_InterExcerptGap :: rational_time
  rcp_SourceHandles :: string
  rcp_Rate :: string
  rcp_Overwrite :: string
  rcp_AVGrouping :: string

definition PaperEditRoughCutPolicyV1 :: rough_cut_policy where
  "PaperEditRoughCutPolicyV1 = \<lparr>rcp_ID = ''paper-edit-rough-cut-v1'', rcp_Ordering = ''request-order'',
    rcp_InterExcerptGap = newTime 0 1, rcp_SourceHandles = ''zero'', rcp_Rate = ''1:1'',
    rcp_Overwrite = ''forbidden'', rcp_AVGrouping = ''one-link-group-per-two-lane-excerpt''\<rparr>"

definition RoughCutDerivationPolicy_Validate :: "rough_cut_policy \<Rightarrow> bool" where
  "RoughCutDerivationPolicy_Validate policy \<longleftrightarrow> policy = PaperEditRoughCutPolicyV1"

record edit_reference =
  ref_ID :: string
  ref_Local :: "LocalID option"

record correction_reference_input =
  cri_Correction :: edit_reference
  cri_Revision :: "revision option"

record derived_caption_output =
  dco_CaptionAs :: LocalID
  dco_AlignmentAs :: LocalID
  dco_SourceRange :: time_range
  dco_TimelineRange :: time_range
  dco_Text :: string

record alignment_target_input =
  ati_Type :: AlignmentTargetType
  ati_Caption :: "edit_reference option"
  ati_Clip :: "edit_reference option"
  ati_LocalRange :: "time_range option"
  ati_TimelineRange :: "time_range option"
  ati_SequenceRevision :: "revision option"

record split_output =
  spo_Clip :: edit_reference
  spo_LeftAs :: LocalID
  spo_RightAs :: LocalID

record rough_cut_lane =
  rcl_TrackID :: TrackID
  rcl_SourceStreamID :: SourceStreamID

record rough_cut_item =
  rci_SourceExcerptID :: NarrativeNodeID
  rci_Video :: "rough_cut_lane option"
  rci_Audio :: "rough_cut_lane option"

record rough_cut_lane_output =
  rlo_ClipAs :: LocalID
  rlo_TrackID :: TrackID
  rlo_SourceStreamID :: SourceStreamID

record rough_cut_output =
  rco_SourceExcerptID :: NarrativeNodeID
  rco_SourceRange :: time_range
  rco_TimelineRange :: time_range
  rco_Video :: "rough_cut_lane_output option"
  rco_Audio :: "rough_cut_lane_output option"
  rco_LinkGroupAs :: "LocalID option"
  rco_AlignmentAs :: LocalID

record edit_operation =
  op_Type :: EditOperationType
  op_CreateAs :: "LocalID option"
  op_NodeID :: "NarrativeNodeID option"
  op_ParentID :: "NarrativeNodeID option"
  op_After :: "edit_reference option"
  op_Title :: "string option"
  op_Text :: "string option"
  op_Description :: "string option"
  op_AuthoredTextPurpose :: "AuthoredTextPurpose option"
  op_VisualIntentPurpose :: "VisualIntentPurpose option"
  op_CaptionID :: "CaptionID option"
  op_TrackID :: "TrackID option"
  op_Range :: "time_range option"
  op_Language :: "CaptionLanguage option"
  op_AlignmentID :: "AlignmentID option"
  op_NarrativeNode :: "edit_reference option"
  op_AlignmentTargets :: "alignment_target_input list"
  op_AssetID :: "AssetID option"
  op_SourceStreamID :: "SourceStreamID option"
  op_SourceRange :: "time_range option"
  op_TimelineRange :: "time_range option"
  op_Enabled :: "bool option"
  op_Placement :: "clip_placement option"
  op_CreateLinkGroupAs :: "LocalID option"
  op_LeftLinkGroupAs :: "LocalID option"
  op_RightLinkGroupAs :: "LocalID option"
  op_LinkGroup :: "edit_reference option"
  op_Clip :: "edit_reference option"
  op_Clips :: "edit_reference list"
  op_Scope :: "ClipMutationScope option"
  op_TimelineStart :: "rational_time option"
  op_SplitAt :: "rational_time option"
  op_SplitOutputs :: "split_output list"
  op_TranscriptCorrectionID :: "TranscriptCorrectionID option"
  op_TranscriptArtifactID :: "ArtifactID option"
  op_TranscriptSegmentIDs :: "TranscriptSegmentID list"
  op_CorrectionRevisions :: "correction_reference_input list"
  op_AcceptedFingerprint :: "Digest option"
  op_CaptionPolicy :: "caption_policy option"
  op_DerivedCaptions :: "derived_caption_output list"
  op_RoughCutPolicy :: "rough_cut_policy option"
  op_RoughCutTimelineStart :: "rational_time option"
  op_RoughCutLocalPrefix :: "LocalID option"
  op_RoughCutItems :: "rough_cut_item list"
  op_DerivedRoughCut :: "rough_cut_output list"
  op_RoughCutOutputDigest :: "Digest option"

text \<open>The zero value of the struct, for the operations the code builds field by field.\<close>

definition zero_operation :: edit_operation where
  "zero_operation = \<lparr>op_Type = EditOperationOther '''', op_CreateAs = None, op_NodeID = None,
    op_ParentID = None, op_After = None, op_Title = None, op_Text = None, op_Description = None,
    op_AuthoredTextPurpose = None, op_VisualIntentPurpose = None, op_CaptionID = None,
    op_TrackID = None, op_Range = None, op_Language = None, op_AlignmentID = None,
    op_NarrativeNode = None, op_AlignmentTargets = [], op_AssetID = None, op_SourceStreamID = None,
    op_SourceRange = None, op_TimelineRange = None, op_Enabled = None, op_Placement = None,
    op_CreateLinkGroupAs = None, op_LeftLinkGroupAs = None, op_RightLinkGroupAs = None,
    op_LinkGroup = None, op_Clip = None, op_Clips = [], op_Scope = None, op_TimelineStart = None,
    op_SplitAt = None, op_SplitOutputs = [], op_TranscriptCorrectionID = None,
    op_TranscriptArtifactID = None, op_TranscriptSegmentIDs = [], op_CorrectionRevisions = [],
    op_AcceptedFingerprint = None, op_CaptionPolicy = None, op_DerivedCaptions = [],
    op_RoughCutPolicy = None, op_RoughCutTimelineStart = None, op_RoughCutLocalPrefix = None,
    op_RoughCutItems = [], op_DerivedRoughCut = [], op_RoughCutOutputDigest = None\<rparr>"

record propose_input =
  in_RequestID :: RequestID
  in_Intent :: string
  in_BaseProjectRevision :: revision
  in_Preconditions :: "entity_precondition list"
  in_Operations :: "edit_operation list"

end
