(* ===== verification/Edit_Validation.thy ===== *)
theory Edit_Validation
  imports Edit_Input
begin

text \<open>
  The checks a request passes before it is normalized:
  \<^verbatim>\<open>edits_validation.go\<close>, \<^verbatim>\<open>edits_validation_clips.go\<close>, \<^verbatim>\<open>edits_validation_rough_cut.go\<close> and
  the match of the allocation against the operations (\<^verbatim>\<open>edit_normalize_helpers.go\<close>). A Go
  validator whose only error is \<^verbatim>\<open>ErrEditInvalid\<close> is a truth value, true when it returns nil.
\<close>

section \<open>Field checks\<close>

definition validText :: "string option \<Rightarrow> bool" where
  "validText value = (case value of None \<Rightarrow> False
    | Some v \<Rightarrow> ValidString v \<and> length v > 0 \<and> length v \<le> MaximumAuthoredTextBytes)"

definition validCorrectionText :: "string option \<Rightarrow> bool" where
  "validCorrectionText value \<longleftrightarrow> validText value \<and> (case value of None \<Rightarrow> False | Some v \<Rightarrow> TrimSpace v = v)"

definition validSourceTimeRange :: "time_range \<Rightarrow> bool" where
  "validSourceTimeRange value \<longleftrightarrow>
    (if \<not> isOk (RationalTime_Validate (tr_Start value)) \<or> \<not> isOk (RationalTime_Validate (tr_Duration value)) \<or>
        \<not> RationalTime_IsPositive (tr_Duration value) then False
     else isOk (TimeRange_End value))"

definition validTimelineTimeRange :: "time_range \<Rightarrow> bool" where
  "validTimelineTimeRange value \<longleftrightarrow> \<not> RationalTime_IsNegative (tr_Start value) \<and> validSourceTimeRange value"

definition validSourceRange :: "time_range option \<Rightarrow> bool" where
  "validSourceRange value = (case value of None \<Rightarrow> False | Some v \<Rightarrow>
    (if \<not> isOk (RationalTime_Validate (tr_Start v)) \<or> \<not> isOk (RationalTime_Validate (tr_Duration v)) \<or>
        \<not> RationalTime_IsPositive (tr_Duration v) then False
     else isOk (TimeRange_End v)))"

definition validRange :: "time_range option \<Rightarrow> bool" where
  "validRange value = (case value of None \<Rightarrow> False | Some v \<Rightarrow>
    (if \<not> isOk (RationalTime_Validate (tr_Start v)) \<or> RationalTime_IsNegative (tr_Start v) \<or>
        \<not> isOk (RationalTime_Validate (tr_Duration v)) \<or> \<not> RationalTime_IsPositive (tr_Duration v) then False
     else isOk (TimeRange_End v)))"

definition validTime :: "rational_time option \<Rightarrow> bool" where
  "validTime value = (case value of None \<Rightarrow> False
    | Some v \<Rightarrow> isOk (RationalTime_Validate v) \<and> \<not> RationalTime_IsNegative v)"

definition validLanguage :: "language_parser \<Rightarrow> CaptionLanguage option \<Rightarrow> bool" where
  "validLanguage bcp47 value = (case value of None \<Rightarrow> False | Some v \<Rightarrow> CaptionLanguage_Validate bcp47 v)"

definition validAuthoredPurpose :: "AuthoredTextPurpose option \<Rightarrow> bool" where
  "validAuthoredPurpose value = (case value of None \<Rightarrow> False | Some v \<Rightarrow> AuthoredTextPurpose_Validate v)"

definition validVisualPurpose :: "VisualIntentPurpose option \<Rightarrow> bool" where
  "validVisualPurpose value = (case value of None \<Rightarrow> False | Some v \<Rightarrow> VisualIntentPurpose_Validate v)"

definition validDigestPointer :: "Digest option \<Rightarrow> bool" where
  "validDigestPointer value = (case value of None \<Rightarrow> False | Some v \<Rightarrow> ParseDigest v \<noteq> None)"

section \<open>Kinds and references\<close>

fun validateEntityID :: "EditEntityKind \<Rightarrow> string \<Rightarrow> bool" where
  "validateEntityID (EntityOther _) value = False"
| "validateEntityID _ value = isOk (ParseID value)"

fun createdKind :: "EditOperationType \<Rightarrow> EditEntityKind" where
  "createdKind EditInsertSection = EntityNarrativeNode"
| "createdKind EditInsertAuthoredText = EntityNarrativeNode"
| "createdKind EditInsertVisualIntent = EntityNarrativeNode"
| "createdKind EditInsertNote = EntityNarrativeNode"
| "createdKind EditInsertSourceExcerpt = EntityNarrativeNode"
| "createdKind EditAddCaption = EntityCaption"
| "createdKind EditBindAlignment = EntityAlignment"
| "createdKind EditAddClip = EntityClip"
| "createdKind EditAddTranscriptCorrection = EntityTranscriptCorrection"
| "createdKind _ = EntityOther ''''"

definition createsNarrativeNode :: "EditOperationType \<Rightarrow> bool" where
  "createsNarrativeNode operation \<longleftrightarrow> createdKind operation = EntityNarrativeNode"

definition validateReference :: "edit_reference \<Rightarrow> EditEntityKind \<Rightarrow> (string, EditEntityKind) gomap \<Rightarrow> bool" where
  "validateReference reference expected created =
    (if (ref_ID reference = '''') = (ref_Local reference = None) then False
     else if ref_ID reference \<noteq> '''' then validateEntityID expected (ref_ID reference)
     else case ref_Local reference of None \<Rightarrow> False
       | Some local \<Rightarrow> isOk (ParseLocalID local) \<and> gm_get (EntityOther '''') created local = expected)"

definition validExistingReference :: "edit_reference option \<Rightarrow> bool" where
  "validExistingReference value = (case value of None \<Rightarrow> False | Some v \<Rightarrow> ref_ID v \<noteq> '''' \<and> ref_Local v = None)"

definition validExistingReferences :: "edit_reference list \<Rightarrow> nat \<Rightarrow> nat \<Rightarrow> bool" where
  "validExistingReferences values minimum maximum =
    (if length values < minimum \<or> length values > maximum then False
     else list_all (\<lambda>v. validExistingReference (Some v)) values \<and> distinct (map ref_ID values))"

definition validSplitOutputs :: "split_output list \<Rightarrow> bool" where
  "validSplitOutputs values =
    (if length values = 0 \<or> length values > 64 then False
     else list_all (\<lambda>v. validExistingReference (Some (spo_Clip v)) \<and>
        isOk (ParseLocalID (spo_LeftAs v)) \<and> isOk (ParseLocalID (spo_RightAs v))) values \<and>
      distinct (map (\<lambda>v. ref_ID (spo_Clip v)) values) \<and>
      distinct (concat (map (\<lambda>v. [spo_LeftAs v, spo_RightAs v]) values)))"

definition validTranscriptSegmentIDs :: "TranscriptSegmentID list \<Rightarrow> bool" where
  "validTranscriptSegmentIDs values =
    (if length values = 0 \<or> length values > 256 then False
     else list_all (\<lambda>v. \<not> ID_IsZero v) values \<and> distinct values)"

definition validCorrectionRefs :: "correction_reference_input list \<Rightarrow> bool" where
  "validCorrectionRefs values =
    (if length values > 256 then False
     else list_all (\<lambda>v. (ref_ID (cri_Correction v) = '''') \<noteq> (ref_Local (cri_Correction v) = None)) values \<and>
      distinct (map (\<lambda>v. case ref_Local (cri_Correction v) of
        None \<Rightarrow> ref_ID (cri_Correction v) | Some local \<Rightarrow> ''local:'' @ local) values))"

definition validAlignmentTargetInput :: "AlignmentTargetType \<Rightarrow> alignment_target_input \<Rightarrow> bool" where
  "validAlignmentTargetInput targetType value =
    (if ati_Type value \<noteq> targetType then False
     else case ati_Type value of
       AlignmentTargetCaption \<Rightarrow> \<not> (ati_Caption value = None \<or> ati_Clip value \<noteq> None \<or>
         \<not> validRange (ati_LocalRange value) \<or> ati_TimelineRange value \<noteq> None \<or> ati_SequenceRevision value \<noteq> None)
     | AlignmentTargetClip \<Rightarrow> \<not> (ati_Clip value = None \<or> ati_Caption value \<noteq> None \<or>
         \<not> validRange (ati_LocalRange value) \<or> ati_TimelineRange value \<noteq> None \<or> ati_SequenceRevision value \<noteq> None)
     | AlignmentTargetTimeline \<Rightarrow> \<not> (ati_Caption value \<noteq> None \<or> ati_Clip value \<noteq> None \<or>
         ati_LocalRange value \<noteq> None \<or> \<not> validRange (ati_TimelineRange value) \<or>
         (case ati_SequenceRevision value of None \<Rightarrow> True | Some r \<Rightarrow> r < 1))
     | AlignmentTargetOther _ \<Rightarrow> False)"

definition validAlignmentTargetInputs :: "alignment_target_input list \<Rightarrow> bool" where
  "validAlignmentTargetInputs values =
    (if length values = 0 \<or> length values > 64 then False
     else list_all (validAlignmentTargetInput (ati_Type (hd values))) values)"

definition validDerivedCaptionOutputs :: "derived_caption_output list \<Rightarrow> bool" where
  "validDerivedCaptionOutputs values =
    (if length values = 0 \<or> length values > 128 then False
     else list_all (\<lambda>v. isOk (ParseLocalID (dco_CaptionAs v)) \<and> isOk (ParseLocalID (dco_AlignmentAs v)) \<and>
        validSourceRange (Some (dco_SourceRange v)) \<and> validRange (Some (dco_TimelineRange v)) \<and>
        validText (Some (dco_Text v)) \<and> TrimSpace (dco_Text v) = dco_Text v) values \<and>
      distinct (concat (map (\<lambda>v. [dco_CaptionAs v, dco_AlignmentAs v]) values)))"

section \<open>Rough cut operations\<close>

definition noRoughCutFields :: "edit_operation \<Rightarrow> bool" where
  "noRoughCutFields operation \<longleftrightarrow> op_RoughCutPolicy operation = None \<and> op_RoughCutTimelineStart operation = None \<and>
    op_RoughCutLocalPrefix operation = None \<and> op_RoughCutItems operation = [] \<and>
    op_DerivedRoughCut operation = [] \<and> op_RoughCutOutputDigest operation = None"

definition validRoughCutLaneInput :: "rough_cut_lane \<Rightarrow> bool" where
  "validRoughCutLaneInput value \<longleftrightarrow> \<not> ID_IsZero (rcl_TrackID value) \<and> \<not> ID_IsZero (rcl_SourceStreamID value)"

definition validRoughCutLaneOutput :: "rough_cut_lane_output \<Rightarrow> bool" where
  "validRoughCutLaneOutput value =
    (if \<not> validRoughCutLaneInput \<lparr>rcl_TrackID = rlo_TrackID value, rcl_SourceStreamID = rlo_SourceStreamID value\<rparr>
     then False else isOk (ParseLocalID (rlo_ClipAs value)))"

definition validRoughCutItem :: "rough_cut_item \<Rightarrow> bool" where
  "validRoughCutItem item \<longleftrightarrow> \<not> (ID_IsZero (rci_SourceExcerptID item) \<or>
    (rci_Video item = None \<and> rci_Audio item = None) \<or>
    (case rci_Video item of None \<Rightarrow> False | Some lane \<Rightarrow> \<not> validRoughCutLaneInput lane) \<or>
    (case rci_Audio item of None \<Rightarrow> False | Some lane \<Rightarrow> \<not> validRoughCutLaneInput lane))"

definition validRoughCutOutput :: "rough_cut_output \<Rightarrow> bool" where
  "validRoughCutOutput output =
    (if ID_IsZero (rco_SourceExcerptID output) \<or> \<not> validSourceTimeRange (rco_SourceRange output) \<or>
        \<not> validTimelineTimeRange (rco_TimelineRange output) \<or> (rco_Video output = None \<and> rco_Audio output = None) \<or>
        (case rco_Video output of None \<Rightarrow> False | Some lane \<Rightarrow> \<not> validRoughCutLaneOutput lane) \<or>
        (case rco_Audio output of None \<Rightarrow> False | Some lane \<Rightarrow> \<not> validRoughCutLaneOutput lane) then False
     else if \<not> isOk (ParseLocalID (rco_AlignmentAs output)) then False
     else if (rco_Video output \<noteq> None \<and> rco_Audio output \<noteq> None) \<noteq> (rco_LinkGroupAs output \<noteq> None) then False
     else case rco_LinkGroupAs output of None \<Rightarrow> True | Some local \<Rightarrow> isOk (ParseLocalID local))"

definition roughCutBaseClear :: "edit_operation \<Rightarrow> bool" where
  "roughCutBaseClear operation \<longleftrightarrow> op_CreateAs operation = None \<and> op_NodeID operation = None \<and>
    op_ParentID operation = None \<and> op_After operation = None \<and> op_Title operation = None \<and>
    op_Text operation = None \<and> op_Description operation = None \<and> op_AuthoredTextPurpose operation = None \<and>
    op_VisualIntentPurpose operation = None \<and> op_CaptionID operation = None \<and> op_TrackID operation = None \<and>
    op_Range operation = None \<and> op_Language operation = None \<and> op_AlignmentID operation = None \<and>
    op_NarrativeNode operation = None \<and> op_AlignmentTargets operation = [] \<and> op_AssetID operation = None \<and>
    op_SourceStreamID operation = None \<and> op_SourceRange operation = None \<and> op_TimelineRange operation = None \<and>
    op_Enabled operation = None \<and> op_CreateLinkGroupAs operation = None \<and> op_LeftLinkGroupAs operation = None \<and>
    op_RightLinkGroupAs operation = None \<and> op_LinkGroup operation = None \<and> op_Clip operation = None \<and>
    op_Clips operation = [] \<and> op_Scope operation = None \<and> op_TimelineStart operation = None \<and>
    op_SplitAt operation = None \<and> op_SplitOutputs operation = [] \<and>
    op_TranscriptCorrectionID operation = None \<and> op_TranscriptArtifactID operation = None \<and>
    op_TranscriptSegmentIDs operation = [] \<and> op_CorrectionRevisions operation = [] \<and>
    op_AcceptedFingerprint operation = None \<and> op_CaptionPolicy operation = None \<and> op_DerivedCaptions operation = []"

definition validateRoughCutOperation :: "edit_operation \<Rightarrow> bool" where
  "validateRoughCutOperation operation =
    (if \<not> roughCutBaseClear operation \<or>
        (case op_RoughCutPolicy operation of None \<Rightarrow> True | Some p \<Rightarrow> \<not> RoughCutDerivationPolicy_Validate p) \<or>
        (case op_RoughCutTimelineStart operation of None \<Rightarrow> True
         | Some t \<Rightarrow> \<not> isOk (RationalTime_Validate t) \<or> RationalTime_IsNegative t) \<or>
        (case op_RoughCutLocalPrefix operation of None \<Rightarrow> True | Some prefix \<Rightarrow> length prefix > 40) \<or>
        op_RoughCutItems operation = [] \<or> length (op_RoughCutItems operation) > 128 \<or>
        length (op_DerivedRoughCut operation) \<noteq> length (op_RoughCutItems operation) \<or>
        op_RoughCutOutputDigest operation = None then False
     else if (case op_RoughCutLocalPrefix operation of None \<Rightarrow> True | Some prefix \<Rightarrow> \<not> isOk (ParseLocalID prefix)) then False
     else if \<not> validDigestPointer (op_RoughCutOutputDigest operation) then False
     else list_all validRoughCutItem (op_RoughCutItems operation) \<and>
       list_all validRoughCutOutput (op_DerivedRoughCut operation))"

section \<open>Clip mutations\<close>

definition isClipMutationOperation :: "EditOperationType \<Rightarrow> bool" where
  "isClipMutationOperation value \<longleftrightarrow> value \<in> {EditMoveClip, EditTrimClip, EditSplitClip, EditRemoveClip,
    EditLinkClips, EditUnlinkClips}"

definition noNewClipMutationFields :: "edit_operation \<Rightarrow> bool" where
  "noNewClipMutationFields operation \<longleftrightarrow> op_LeftLinkGroupAs operation = None \<and>
    op_RightLinkGroupAs operation = None \<and> op_Clips operation = [] \<and> op_Scope operation = None \<and>
    op_TimelineStart operation = None \<and> op_SplitAt operation = None \<and> op_SplitOutputs operation = []"

definition clipMutationBaseClear :: "edit_operation \<Rightarrow> bool" where
  "clipMutationBaseClear operation \<longleftrightarrow> op_CreateAs operation = None \<and> op_NodeID operation = None \<and>
    op_ParentID operation = None \<and> op_After operation = None \<and> op_Title operation = None \<and>
    op_Text operation = None \<and> op_Description operation = None \<and> op_AuthoredTextPurpose operation = None \<and>
    op_VisualIntentPurpose operation = None \<and> op_CaptionID operation = None \<and> op_Range operation = None \<and>
    op_Language operation = None \<and> op_AlignmentID operation = None \<and> op_NarrativeNode operation = None \<and>
    op_AlignmentTargets operation = [] \<and> op_AssetID operation = None \<and> op_SourceStreamID operation = None \<and>
    op_Enabled operation = None \<and> op_TranscriptCorrectionID operation = None \<and>
    op_TranscriptArtifactID operation = None \<and> op_TranscriptSegmentIDs operation = [] \<and>
    op_CorrectionRevisions operation = [] \<and> op_AcceptedFingerprint operation = None \<and>
    op_CaptionPolicy operation = None \<and> op_DerivedCaptions operation = [] \<and> noRoughCutFields operation"

definition validScope :: "ClipMutationScope option \<Rightarrow> bool" where
  "validScope scope \<longleftrightarrow> scope = Some ClipScopeLinked \<or> scope = Some ClipScopeSingle"

definition validateClipMutationOperation :: "edit_operation \<Rightarrow> bool" where
  "validateClipMutationOperation operation =
    (if \<not> clipMutationBaseClear operation then False
     else if op_Type operation = EditMoveClip then
       \<not> (\<not> validExistingReference (op_Clip operation) \<or> \<not> validScope (op_Scope operation) \<or>
          op_TrackID operation = None \<or> \<not> validTime (op_TimelineStart operation) \<or>
          op_SourceRange operation \<noteq> None \<or> op_TimelineRange operation \<noteq> None \<or>
          op_CreateLinkGroupAs operation \<noteq> None \<or> op_LeftLinkGroupAs operation \<noteq> None \<or>
          op_RightLinkGroupAs operation \<noteq> None \<or> op_LinkGroup operation \<noteq> None \<or> op_Clips operation \<noteq> [] \<or>
          op_SplitAt operation \<noteq> None \<or> op_SplitOutputs operation \<noteq> [])
     else if op_Type operation = EditTrimClip then
       \<not> (\<not> validExistingReference (op_Clip operation) \<or> \<not> validScope (op_Scope operation) \<or>
          \<not> validSourceRange (op_SourceRange operation) \<or> \<not> validRange (op_TimelineRange operation) \<or>
          op_TrackID operation \<noteq> None \<or> op_TimelineStart operation \<noteq> None \<or>
          op_CreateLinkGroupAs operation \<noteq> None \<or> op_LeftLinkGroupAs operation \<noteq> None \<or>
          op_RightLinkGroupAs operation \<noteq> None \<or> op_LinkGroup operation \<noteq> None \<or> op_Clips operation \<noteq> [] \<or>
          op_SplitAt operation \<noteq> None \<or> op_SplitOutputs operation \<noteq> [])
     else if op_Type operation = EditSplitClip then
       (if \<not> validExistingReference (op_Clip operation) \<or> \<not> validScope (op_Scope operation) \<or>
           \<not> validTime (op_SplitAt operation) \<or> op_TrackID operation \<noteq> None \<or> op_SourceRange operation \<noteq> None \<or>
           op_TimelineRange operation \<noteq> None \<or> op_TimelineStart operation \<noteq> None \<or>
           op_CreateLinkGroupAs operation \<noteq> None \<or> op_LinkGroup operation \<noteq> None \<or> op_Clips operation \<noteq> [] \<or>
           \<not> validSplitOutputs (op_SplitOutputs operation) then False
        else if op_Scope operation = Some ClipScopeSingle then
          \<not> (length (op_SplitOutputs operation) \<noteq> 1 \<or> op_LeftLinkGroupAs operation \<noteq> None \<or>
             op_RightLinkGroupAs operation \<noteq> None)
        else \<not> (length (op_SplitOutputs operation) < 2 \<or> op_LeftLinkGroupAs operation = None \<or>
             op_RightLinkGroupAs operation = None \<or>
             op_LeftLinkGroupAs operation = op_RightLinkGroupAs operation))
     else if op_Type operation = EditRemoveClip then
       \<not> (\<not> validExistingReference (op_Clip operation) \<or> \<not> validScope (op_Scope operation) \<or>
          op_TrackID operation \<noteq> None \<or> op_SourceRange operation \<noteq> None \<or> op_TimelineRange operation \<noteq> None \<or>
          op_TimelineStart operation \<noteq> None \<or> op_SplitAt operation \<noteq> None \<or> op_SplitOutputs operation \<noteq> [] \<or>
          op_CreateLinkGroupAs operation \<noteq> None \<or> op_LeftLinkGroupAs operation \<noteq> None \<or>
          op_RightLinkGroupAs operation \<noteq> None \<or> op_LinkGroup operation \<noteq> None \<or> op_Clips operation \<noteq> [])
     else if op_Type operation = EditLinkClips then
       \<not> (op_Clip operation \<noteq> None \<or> op_Scope operation \<noteq> None \<or> op_TrackID operation \<noteq> None \<or>
          op_SourceRange operation \<noteq> None \<or> op_TimelineRange operation \<noteq> None \<or> op_TimelineStart operation \<noteq> None \<or>
          op_SplitAt operation \<noteq> None \<or> op_SplitOutputs operation \<noteq> [] \<or> op_CreateLinkGroupAs operation = None \<or>
          op_LeftLinkGroupAs operation \<noteq> None \<or> op_RightLinkGroupAs operation \<noteq> None \<or>
          op_LinkGroup operation \<noteq> None \<or> \<not> validExistingReferences (op_Clips operation) 2 64)
     else if op_Type operation = EditUnlinkClips then
       \<not> (op_Clip operation \<noteq> None \<or> op_Scope operation \<noteq> None \<or> op_TrackID operation \<noteq> None \<or>
          op_SourceRange operation \<noteq> None \<or> op_TimelineRange operation \<noteq> None \<or> op_TimelineStart operation \<noteq> None \<or>
          op_SplitAt operation \<noteq> None \<or> op_SplitOutputs operation \<noteq> [] \<or> op_CreateLinkGroupAs operation \<noteq> None \<or>
          op_LeftLinkGroupAs operation \<noteq> None \<or> op_RightLinkGroupAs operation \<noteq> None \<or>
          \<not> validExistingReference (op_LinkGroup operation) \<or> op_Clips operation \<noteq> [])
     else False)"

section \<open>The operation validator\<close>

definition noNarrativeExternalFields :: "edit_operation \<Rightarrow> bool" where
  "noNarrativeExternalFields operation \<longleftrightarrow> op_CaptionID operation = None \<and> op_TrackID operation = None \<and>
    op_Range operation = None \<and> op_AlignmentID operation = None \<and> op_NarrativeNode operation = None \<and>
    op_AlignmentTargets operation = [] \<and> op_AssetID operation = None \<and> op_SourceStreamID operation = None \<and>
    op_SourceRange operation = None \<and> op_TimelineRange operation = None \<and> op_Enabled operation = None \<and>
    op_CreateLinkGroupAs operation = None \<and> op_LeftLinkGroupAs operation = None \<and>
    op_RightLinkGroupAs operation = None \<and> op_LinkGroup operation = None \<and> op_Clip operation = None \<and>
    op_Clips operation = [] \<and> op_Scope operation = None \<and> op_TimelineStart operation = None \<and>
    op_SplitAt operation = None \<and> op_SplitOutputs operation = [] \<and>
    op_TranscriptCorrectionID operation = None \<and> op_TranscriptArtifactID operation = None \<and>
    op_TranscriptSegmentIDs operation = [] \<and> op_CorrectionRevisions operation = [] \<and>
    op_AcceptedFingerprint operation = None \<and> op_CaptionPolicy operation = None \<and>
    op_DerivedCaptions operation = [] \<and> noRoughCutFields operation"

definition writingOperation :: "EditOperationType \<Rightarrow> bool" where
  "writingOperation t \<longleftrightarrow> t \<in> {EditInsertSection, EditUpdateSection, EditInsertAuthoredText, EditUpdateAuthoredText,
    EditInsertVisualIntent, EditUpdateVisualIntent, EditInsertNote, EditUpdateNote}"

definition noCreate :: "edit_operation \<Rightarrow> bool" where
  "noCreate operation \<longleftrightarrow> op_CreateAs operation = None"

definition noNode :: "edit_operation \<Rightarrow> bool" where
  "noNode operation \<longleftrightarrow> op_NodeID operation = None \<and> op_ParentID operation = None \<and> op_After operation = None"

definition noCaption :: "edit_operation \<Rightarrow> bool" where
  "noCaption operation \<longleftrightarrow> op_CaptionID operation = None \<and> op_TrackID operation = None \<and> op_Range operation = None \<and>
    op_Language operation = None"

definition noAlignment :: "edit_operation \<Rightarrow> bool" where
  "noAlignment operation \<longleftrightarrow> op_AlignmentID operation = None \<and> op_NarrativeNode operation = None \<and>
    op_AlignmentTargets operation = []"

definition noClip :: "edit_operation \<Rightarrow> bool" where
  "noClip operation \<longleftrightarrow> op_AssetID operation = None \<and> op_SourceStreamID operation = None \<and>
    op_SourceRange operation = None \<and> op_TimelineRange operation = None \<and> op_Enabled operation = None \<and>
    op_CreateLinkGroupAs operation = None \<and> op_LinkGroup operation = None"

definition noTranscript :: "edit_operation \<Rightarrow> bool" where
  "noTranscript operation \<longleftrightarrow> op_TranscriptCorrectionID operation = None \<and> op_TranscriptArtifactID operation = None \<and>
    op_TranscriptSegmentIDs operation = [] \<and> op_CorrectionRevisions operation = [] \<and>
    op_AcceptedFingerprint operation = None \<and> op_Clip operation = None \<and> op_CaptionPolicy operation = None \<and>
    op_DerivedCaptions operation = []"

text \<open>The cases of the switch, by the entities they write.\<close>

definition validateNarrativeOperation :: "language_parser \<Rightarrow> edit_operation \<Rightarrow> bool" where
  "validateNarrativeOperation bcp47 operation =
    (if op_Type operation = EditInsertSection then
       \<not> (op_CreateAs operation = None \<or> op_ParentID operation = None \<or> op_NodeID operation \<noteq> None \<or>
          \<not> validText (op_Title operation) \<or> \<not> validLanguage bcp47 (op_Language operation) \<or>
          op_Text operation \<noteq> None \<or> op_Description operation \<noteq> None \<or>
          op_AuthoredTextPurpose operation \<noteq> None \<or> op_VisualIntentPurpose operation \<noteq> None \<or>
          \<not> noNarrativeExternalFields operation)
     else if op_Type operation = EditUpdateSection then
       \<not> (\<not> noCreate operation \<or> op_NodeID operation = None \<or> op_ParentID operation \<noteq> None \<or>
          op_After operation \<noteq> None \<or> \<not> validText (op_Title operation) \<or>
          \<not> validLanguage bcp47 (op_Language operation) \<or> op_Text operation \<noteq> None \<or>
          op_Description operation \<noteq> None \<or> op_AuthoredTextPurpose operation \<noteq> None \<or>
          op_VisualIntentPurpose operation \<noteq> None \<or> \<not> noNarrativeExternalFields operation)
     else if op_Type operation = EditInsertAuthoredText then
       \<not> (op_CreateAs operation = None \<or> op_ParentID operation = None \<or> \<not> validText (op_Text operation) \<or>
          \<not> validLanguage bcp47 (op_Language operation) \<or>
          \<not> validAuthoredPurpose (op_AuthoredTextPurpose operation) \<or> op_NodeID operation \<noteq> None \<or>
          op_Title operation \<noteq> None \<or> op_Description operation \<noteq> None \<or>
          op_VisualIntentPurpose operation \<noteq> None \<or> \<not> noNarrativeExternalFields operation)
     else if op_Type operation = EditUpdateAuthoredText then
       \<not> (\<not> noCreate operation \<or> op_NodeID operation = None \<or> \<not> validText (op_Text operation) \<or>
          op_ParentID operation \<noteq> None \<or> op_After operation \<noteq> None \<or>
          \<not> validLanguage bcp47 (op_Language operation) \<or>
          \<not> validAuthoredPurpose (op_AuthoredTextPurpose operation) \<or> op_Title operation \<noteq> None \<or>
          op_Description operation \<noteq> None \<or> op_VisualIntentPurpose operation \<noteq> None \<or>
          \<not> noNarrativeExternalFields operation)
     else if op_Type operation = EditInsertVisualIntent then
       \<not> (op_CreateAs operation = None \<or> op_ParentID operation = None \<or> op_NodeID operation \<noteq> None \<or>
          \<not> validText (op_Description operation) \<or> \<not> validLanguage bcp47 (op_Language operation) \<or>
          \<not> validVisualPurpose (op_VisualIntentPurpose operation) \<or> op_Title operation \<noteq> None \<or>
          op_Text operation \<noteq> None \<or> op_AuthoredTextPurpose operation \<noteq> None \<or>
          \<not> noNarrativeExternalFields operation)
     else if op_Type operation = EditUpdateVisualIntent then
       \<not> (\<not> noCreate operation \<or> op_NodeID operation = None \<or> op_ParentID operation \<noteq> None \<or>
          op_After operation \<noteq> None \<or> \<not> validText (op_Description operation) \<or>
          \<not> validLanguage bcp47 (op_Language operation) \<or>
          \<not> validVisualPurpose (op_VisualIntentPurpose operation) \<or> op_Title operation \<noteq> None \<or>
          op_Text operation \<noteq> None \<or> op_AuthoredTextPurpose operation \<noteq> None \<or>
          \<not> noNarrativeExternalFields operation)
     else if op_Type operation = EditInsertNote then
       \<not> (op_CreateAs operation = None \<or> op_ParentID operation = None \<or> op_NodeID operation \<noteq> None \<or>
          \<not> validText (op_Text operation) \<or> \<not> validLanguage bcp47 (op_Language operation) \<or>
          op_Title operation \<noteq> None \<or> op_Description operation \<noteq> None \<or>
          op_AuthoredTextPurpose operation \<noteq> None \<or> op_VisualIntentPurpose operation \<noteq> None \<or>
          \<not> noNarrativeExternalFields operation)
     else if op_Type operation = EditUpdateNote then
       \<not> (\<not> noCreate operation \<or> op_NodeID operation = None \<or> op_ParentID operation \<noteq> None \<or>
          op_After operation \<noteq> None \<or> \<not> validText (op_Text operation) \<or>
          \<not> validLanguage bcp47 (op_Language operation) \<or> op_Title operation \<noteq> None \<or>
          op_Description operation \<noteq> None \<or> op_AuthoredTextPurpose operation \<noteq> None \<or>
          op_VisualIntentPurpose operation \<noteq> None \<or> \<not> noNarrativeExternalFields operation)
     else if op_Type operation = EditMoveNarrativeNode then
       \<not> (\<not> noCreate operation \<or> op_NodeID operation = None \<or> op_ParentID operation = None \<or>
          op_Title operation \<noteq> None \<or> op_Text operation \<noteq> None \<or> op_Description operation \<noteq> None \<or>
          op_AuthoredTextPurpose operation \<noteq> None \<or> op_VisualIntentPurpose operation \<noteq> None \<or>
          op_Language operation \<noteq> None \<or> \<not> noNarrativeExternalFields operation)
     else if op_Type operation = EditRemoveNarrativeNode then
       \<not> (\<not> noCreate operation \<or> op_NodeID operation = None \<or> op_ParentID operation \<noteq> None \<or>
          op_After operation \<noteq> None \<or> op_Title operation \<noteq> None \<or> op_Text operation \<noteq> None \<or>
          op_Description operation \<noteq> None \<or> op_AuthoredTextPurpose operation \<noteq> None \<or>
          op_VisualIntentPurpose operation \<noteq> None \<or> op_Language operation \<noteq> None \<or>
          \<not> noNarrativeExternalFields operation)
     else False)"

definition validateSequenceOperation :: "language_parser \<Rightarrow> edit_operation \<Rightarrow> bool" where
  "validateSequenceOperation bcp47 operation =
    (if op_Type operation = EditAddCaption then
       \<not> (op_CreateAs operation = None \<or> op_TrackID operation = None \<or> \<not> validRange (op_Range operation) \<or>
          \<not> validLanguage bcp47 (op_Language operation) \<or> \<not> validText (op_Text operation) \<or>
          op_CaptionID operation \<noteq> None \<or> \<not> noNode operation \<or> \<not> noAlignment operation \<or>
          \<not> noClip operation \<or> \<not> noTranscript operation)
     else if op_Type operation = EditUpdateCaption then
       \<not> (\<not> noCreate operation \<or> op_CaptionID operation = None \<or> op_TrackID operation \<noteq> None \<or>
          \<not> validRange (op_Range operation) \<or> \<not> validLanguage bcp47 (op_Language operation) \<or>
          \<not> validText (op_Text operation) \<or> \<not> noNode operation \<or> \<not> noAlignment operation \<or>
          \<not> noClip operation \<or> \<not> noTranscript operation)
     else if op_Type operation = EditRemoveCaption then
       \<not> (\<not> noCreate operation \<or> op_CaptionID operation = None \<or> op_TrackID operation \<noteq> None \<or>
          op_Range operation \<noteq> None \<or> op_Language operation \<noteq> None \<or> op_Text operation \<noteq> None \<or>
          \<not> noNode operation \<or> \<not> noAlignment operation \<or> \<not> noClip operation \<or> \<not> noTranscript operation)
     else if op_Type operation = EditSetClipPlacement then
       \<not> (\<not> noCreate operation \<or> \<not> validExistingReference (op_Clip operation) \<or>
          (case op_Placement operation of None \<Rightarrow> False | Some p \<Rightarrow> \<not> isOk (ClipPlacement_Validate p)) \<or>
          \<not> noNode operation \<or> op_CaptionID operation \<noteq> None \<or> op_TrackID operation \<noteq> None \<or>
          op_Range operation \<noteq> None \<or> op_Language operation \<noteq> None \<or> \<not> noAlignment operation \<or>
          op_Text operation \<noteq> None \<or> op_AssetID operation \<noteq> None \<or> op_SourceStreamID operation \<noteq> None \<or>
          op_SourceRange operation \<noteq> None \<or> op_TimelineRange operation \<noteq> None \<or> op_Enabled operation \<noteq> None \<or>
          op_CreateLinkGroupAs operation \<noteq> None \<or> op_LinkGroup operation \<noteq> None \<or>
          op_TranscriptCorrectionID operation \<noteq> None \<or> op_TranscriptArtifactID operation \<noteq> None \<or>
          op_TranscriptSegmentIDs operation \<noteq> [] \<or> op_CorrectionRevisions operation \<noteq> [] \<or>
          op_AcceptedFingerprint operation \<noteq> None \<or> op_CaptionPolicy operation \<noteq> None \<or>
          op_DerivedCaptions operation \<noteq> [])
     else if op_Type operation = EditBindAlignment then
       \<not> (op_CreateAs operation = None \<or> op_NarrativeNode operation = None \<or>
          \<not> validAlignmentTargetInputs (op_AlignmentTargets operation) \<or> \<not> noNode operation \<or>
          \<not> noCaption operation \<or> op_AlignmentID operation \<noteq> None \<or> op_Text operation \<noteq> None \<or>
          \<not> noClip operation \<or> \<not> noTranscript operation)
     else if op_Type operation = EditRemapAlignment then
       \<not> (\<not> noCreate operation \<or> op_AlignmentID operation = None \<or>
          \<not> validAlignmentTargetInputs (op_AlignmentTargets operation) \<or> \<not> noNode operation \<or>
          \<not> noCaption operation \<or> op_NarrativeNode operation \<noteq> None \<or> op_Text operation \<noteq> None \<or>
          \<not> noClip operation \<or> \<not> noTranscript operation)
     else if op_Type operation = EditMarkAlignmentStale \<or> op_Type operation = EditUnbindAlignment then
       \<not> (\<not> noCreate operation \<or> op_AlignmentID operation = None \<or> \<not> noNode operation \<or>
          \<not> noCaption operation \<or> op_NarrativeNode operation \<noteq> None \<or> op_AlignmentTargets operation \<noteq> [] \<or>
          op_Text operation \<noteq> None \<or> \<not> noClip operation \<or> \<not> noTranscript operation)
     else if op_Type operation = EditAddClip then
       \<not> (op_CreateAs operation = None \<or> op_TrackID operation = None \<or> op_AssetID operation = None \<or>
          op_SourceStreamID operation = None \<or> \<not> validSourceRange (op_SourceRange operation) \<or>
          \<not> validRange (op_TimelineRange operation) \<or> op_Enabled operation = None \<or>
          op_CaptionID operation \<noteq> None \<or> op_Range operation \<noteq> None \<or> op_Language operation \<noteq> None \<or>
          op_Text operation \<noteq> None \<or> \<not> noNode operation \<or> \<not> noAlignment operation \<or>
          (op_CreateLinkGroupAs operation \<noteq> None \<and> op_LinkGroup operation \<noteq> None) \<or>
          \<not> noTranscript operation)
     else False)"

definition validateTranscriptOperation :: "language_parser \<Rightarrow> edit_operation \<Rightarrow> bool" where
  "validateTranscriptOperation bcp47 operation =
    (if op_Type operation = EditAddTranscriptCorrection then
       \<not> (op_CreateAs operation = None \<or> op_TranscriptCorrectionID operation \<noteq> None \<or>
          op_TranscriptArtifactID operation = None \<or> op_AssetID operation = None \<or>
          \<not> validSourceRange (op_SourceRange operation) \<or>
          \<not> validTranscriptSegmentIDs (op_TranscriptSegmentIDs operation) \<or>
          \<not> validLanguage bcp47 (op_Language operation) \<or> \<not> validCorrectionText (op_Text operation) \<or>
          op_AcceptedFingerprint operation \<noteq> None \<or> op_CorrectionRevisions operation \<noteq> [] \<or>
          op_NodeID operation \<noteq> None \<or> op_ParentID operation \<noteq> None \<or> op_After operation \<noteq> None \<or>
          op_CaptionID operation \<noteq> None \<or> op_TrackID operation \<noteq> None \<or> op_Range operation \<noteq> None \<or>
          \<not> noAlignment operation \<or> op_SourceStreamID operation \<noteq> None \<or> op_TimelineRange operation \<noteq> None \<or>
          op_Enabled operation \<noteq> None \<or> op_CreateLinkGroupAs operation \<noteq> None \<or> op_LinkGroup operation \<noteq> None \<or>
          op_Clip operation \<noteq> None \<or> op_CaptionPolicy operation \<noteq> None \<or> op_DerivedCaptions operation \<noteq> [])
     else if op_Type operation = EditUpdateTranscriptCorrection then
       \<not> (\<not> noCreate operation \<or> op_TranscriptCorrectionID operation = None \<or>
          \<not> validLanguage bcp47 (op_Language operation) \<or> \<not> validCorrectionText (op_Text operation) \<or>
          op_TranscriptArtifactID operation \<noteq> None \<or> op_TranscriptSegmentIDs operation \<noteq> [] \<or>
          op_CorrectionRevisions operation \<noteq> [] \<or> op_AcceptedFingerprint operation \<noteq> None \<or>
          op_Clip operation \<noteq> None \<or> op_CaptionPolicy operation \<noteq> None \<or> op_DerivedCaptions operation \<noteq> [] \<or>
          \<not> noNode operation \<or> \<not> noCaption operation \<or> \<not> noAlignment operation \<or> \<not> noClip operation)
     else if op_Type operation = EditRemoveTranscriptCorrection then
       \<not> (\<not> noCreate operation \<or> op_TranscriptCorrectionID operation = None \<or>
          op_TranscriptArtifactID operation \<noteq> None \<or> op_TranscriptSegmentIDs operation \<noteq> [] \<or>
          op_CorrectionRevisions operation \<noteq> [] \<or> op_AcceptedFingerprint operation \<noteq> None \<or>
          op_Clip operation \<noteq> None \<or> op_CaptionPolicy operation \<noteq> None \<or> op_DerivedCaptions operation \<noteq> [] \<or>
          op_Text operation \<noteq> None \<or> op_Language operation \<noteq> None \<or>
          \<not> noNode operation \<or> \<not> noCaption operation \<or> \<not> noAlignment operation \<or> \<not> noClip operation)
     else if op_Type operation = EditInsertSourceExcerpt then
       \<not> (op_CreateAs operation = None \<or> op_NodeID operation \<noteq> None \<or> op_ParentID operation = None \<or>
          op_AssetID operation = None \<or> op_AcceptedFingerprint operation = None \<or>
          op_TranscriptArtifactID operation = None \<or>
          \<not> validTranscriptSegmentIDs (op_TranscriptSegmentIDs operation) \<or>
          \<not> validCorrectionRefs (op_CorrectionRevisions operation) \<or> \<not> validSourceRange (op_SourceRange operation) \<or>
          \<not> validLanguage bcp47 (op_Language operation) \<or> op_Text operation \<noteq> None \<or>
          op_TranscriptCorrectionID operation \<noteq> None \<or> op_CaptionID operation \<noteq> None \<or>
          op_TrackID operation \<noteq> None \<or> op_Range operation \<noteq> None \<or> \<not> noAlignment operation \<or>
          op_SourceStreamID operation \<noteq> None \<or> op_TimelineRange operation \<noteq> None \<or> op_Enabled operation \<noteq> None \<or>
          op_CreateLinkGroupAs operation \<noteq> None \<or> op_LinkGroup operation \<noteq> None \<or> op_Clip operation \<noteq> None \<or>
          op_CaptionPolicy operation \<noteq> None \<or> op_DerivedCaptions operation \<noteq> [] \<or>
          \<not> validDigestPointer (op_AcceptedFingerprint operation))
     else if op_Type operation = EditDeriveCaptions then
       \<not> (\<not> noCreate operation \<or>
          (case op_NarrativeNode operation of None \<Rightarrow> True | Some r \<Rightarrow> ref_ID r = '''') \<or>
          (case op_Clip operation of None \<Rightarrow> True | Some r \<Rightarrow> ref_ID r = '''') \<or> op_TrackID operation = None \<or>
          (case op_CaptionPolicy operation of None \<Rightarrow> True | Some p \<Rightarrow> \<not> CaptionDerivationPolicy_Validate p) \<or>
          \<not> validDerivedCaptionOutputs (op_DerivedCaptions operation) \<or>
          op_NodeID operation \<noteq> None \<or> op_ParentID operation \<noteq> None \<or> op_After operation \<noteq> None \<or>
          op_Text operation \<noteq> None \<or> op_CaptionID operation \<noteq> None \<or> op_Range operation \<noteq> None \<or>
          op_Language operation \<noteq> None \<or> op_AlignmentID operation \<noteq> None \<or> op_AlignmentTargets operation \<noteq> [] \<or>
          op_AssetID operation \<noteq> None \<or> op_SourceStreamID operation \<noteq> None \<or> op_SourceRange operation \<noteq> None \<or>
          op_TimelineRange operation \<noteq> None \<or> op_Enabled operation \<noteq> None \<or>
          op_CreateLinkGroupAs operation \<noteq> None \<or> op_LinkGroup operation \<noteq> None \<or>
          op_TranscriptCorrectionID operation \<noteq> None \<or> op_TranscriptArtifactID operation \<noteq> None \<or>
          op_TranscriptSegmentIDs operation \<noteq> [] \<or> op_CorrectionRevisions operation \<noteq> [] \<or>
          op_AcceptedFingerprint operation \<noteq> None)
     else False)"

text \<open>The types of each case; a type of no case is refused.\<close>

definition narrativeOperation :: "EditOperationType \<Rightarrow> bool" where
  "narrativeOperation t \<longleftrightarrow> writingOperation t \<or> t = EditMoveNarrativeNode \<or> t = EditRemoveNarrativeNode"

definition sequenceOperation :: "EditOperationType \<Rightarrow> bool" where
  "sequenceOperation t \<longleftrightarrow> t \<in> {EditAddCaption, EditUpdateCaption, EditRemoveCaption, EditSetClipPlacement,
    EditBindAlignment, EditRemapAlignment, EditMarkAlignmentStale, EditUnbindAlignment, EditAddClip}"

definition validateEditOperation :: "language_parser \<Rightarrow> edit_operation \<Rightarrow> bool" where
  "validateEditOperation bcp47 operation =
    (if op_Placement operation \<noteq> None \<and> op_Type operation \<noteq> EditSetClipPlacement then False
     else if op_Type operation = EditDeriveRoughCut then validateRoughCutOperation operation
     else if \<not> noRoughCutFields operation then False
     else if isClipMutationOperation (op_Type operation) then validateClipMutationOperation operation
     else if \<not> noNewClipMutationFields operation then False
     else if \<not> writingOperation (op_Type operation) \<and> (op_Title operation \<noteq> None \<or> op_Description operation \<noteq> None \<or>
        op_AuthoredTextPurpose operation \<noteq> None \<or> op_VisualIntentPurpose operation \<noteq> None) then False
     else if narrativeOperation (op_Type operation) then validateNarrativeOperation bcp47 operation
     else if sequenceOperation (op_Type operation) then validateSequenceOperation bcp47 operation
     else validateTranscriptOperation bcp47 operation)"

section \<open>References and cycles\<close>

definition validateOptionalReference ::
  "edit_reference option \<Rightarrow> EditEntityKind \<Rightarrow> (string, EditEntityKind) gomap \<Rightarrow> bool" where
  "validateOptionalReference reference expected created =
    (case reference of None \<Rightarrow> True | Some r \<Rightarrow> validateReference r expected created)"

definition validateCorrectionReference ::
  "(string, EditEntityKind) gomap \<Rightarrow> correction_reference_input \<Rightarrow> bool" where
  "validateCorrectionReference created correction =
    (if \<not> validateReference (cri_Correction correction) EntityTranscriptCorrection created then False
     else \<not> ((ref_ID (cri_Correction correction) \<noteq> '''' \<and>
            (case cri_Revision correction of None \<Rightarrow> True | Some r \<Rightarrow> r < 1)) \<or>
          (ref_Local (cri_Correction correction) \<noteq> None \<and> cri_Revision correction \<noteq> None)))"

definition validateEditReferences :: "edit_operation \<Rightarrow> (string, EditEntityKind) gomap \<Rightarrow> bool" where
  "validateEditReferences operation created \<longleftrightarrow>
    validateOptionalReference (op_After operation) EntityNarrativeNode created \<and>
    validateOptionalReference (op_NarrativeNode operation) EntityNarrativeNode created \<and>
    list_all (\<lambda>target. validateOptionalReference (ati_Caption target) EntityCaption created \<and>
      validateOptionalReference (ati_Clip target) EntityClip created) (op_AlignmentTargets operation) \<and>
    validateOptionalReference (op_LinkGroup operation) EntityLinkGroup created \<and>
    validateOptionalReference (op_Clip operation) EntityClip created \<and>
    list_all (\<lambda>r. validateReference r EntityClip created) (op_Clips operation) \<and>
    list_all (\<lambda>output. validateReference (spo_Clip output) EntityClip created) (op_SplitOutputs operation) \<and>
    list_all (validateCorrectionReference created) (op_CorrectionRevisions operation)"

text \<open>
  The depth first search of \<^verbatim>\<open>hasLocalReferenceCycle\<close>: \<open>state\<close> maps a visited node to 1 while
  it is on the current path and to 2 when it is done. Every recursive call puts one more
  node of \<open>edges\<close> on the path, which bounds the recursion.
\<close>

abbreviation "visiting \<equiv> (1 :: nat)"
abbreviation "visited \<equiv> (2 :: nat)"

definition unvisited_edges :: "(string, string) gomap \<Rightarrow> (string, nat) gomap \<Rightarrow> nat" where
  "unvisited_edges edges state = length (filter (\<lambda>k. gm_get 0 state k \<notin> {visiting, visited}) (gm_keys edges))"

lemma unvisited_edges_set:
  assumes "gm_get '''' edges node \<noteq> ''''" "gm_get 0 state node \<notin> {visiting, visited}" "v \<in> {visiting, visited}"
  shows "unvisited_edges edges (gm_set state node v) < unvisited_edges edges state"
proof -
  have "node \<in> set (gm_keys edges)"
    using assms(1) by (auto simp: set_gm_keys gm_get_def gm_has_def split: option.splits)
  then have "filter (\<lambda>k. gm_get 0 (gm_set state node v) k \<notin> {visiting, visited}) (gm_keys edges) =
      removeAll node (filter (\<lambda>k. gm_get 0 state k \<notin> {visiting, visited}) (gm_keys edges))" and
    "node \<in> set (filter (\<lambda>k. gm_get 0 state k \<notin> {visiting, visited}) (gm_keys edges))"
    using assms(2,3) by (auto simp: removeAll_filter_not_eq filter_filter intro!: filter_cong)
  then show ?thesis
    unfolding unvisited_edges_def by (simp add: length_removeAll_less)
qed

function visit :: "(string, string) gomap \<Rightarrow> string \<Rightarrow> (string, nat) gomap \<Rightarrow> bool \<times> (string, nat) gomap" where
  "visit edges node state =
    (if gm_get 0 state node = visiting then (True, state)
     else if gm_get 0 state node = visited then (False, state)
     else let state1 = gm_set state node visiting;
              next_node = gm_get '''' edges node;
              (found, state2) = (if next_node \<noteq> '''' then visit edges next_node state1 else (False, state1))
          in if found then (True, state2) else (False, gm_set state2 node visited))"
  by pat_completeness auto
termination
  by (relation "measure (\<lambda>(edges, node, state). unvisited_edges edges state)")
    (auto intro: unvisited_edges_set)

declare visit.simps [simp del]

fun visitAll :: "(string, string) gomap \<Rightarrow> string list \<Rightarrow> (string, nat) gomap \<Rightarrow> bool" where
  "visitAll edges [] state = False"
| "visitAll edges (node # nodes) state =
    (let (found, state') = visit edges node state in if found then True else visitAll edges nodes state')"

definition hasLocalReferenceCycle :: "(string, string) gomap \<Rightarrow> bool" where
  "hasLocalReferenceCycle edges = visitAll edges (gm_keys edges) []"

section \<open>The request validator\<close>

definition validateEditIntent :: "string \<Rightarrow> bool \<Rightarrow> bool" where
  "validateEditIntent value optional =
    (if value = '''' \<and> optional then True
     else \<not> (\<not> ValidString value \<or> length value < 1 \<or> length value > 4000))"

definition entityKey :: "EditEntityKind \<Rightarrow> string \<Rightarrow> string" where
  "entityKey kind ident = EditEntityKind_string kind @ NUL # ident"

definition checkPrecondition ::
  "entity_precondition \<Rightarrow> (string, unit) gomap \<Rightarrow> edit_error + (string, unit) gomap" where
  "checkPrecondition precondition preconditions =
    (if pre_Revision precondition < 1 \<or> \<not> validateEntityID (pre_Kind precondition) (pre_ID precondition)
     then Inl (EditInvalid (PreconditionMalformed (pre_Kind precondition) (pre_ID precondition)))
     else let key = entityKey (pre_Kind precondition) (pre_ID precondition) in
       if gm_has preconditions key
       then Inl (EditInvalid (PreconditionDuplicate (pre_Kind precondition) (pre_ID precondition)))
       else Inr (gm_set preconditions key ()))"

text \<open>One local symbol enters the table of created entities; \<open>parse\<close> says whether the code
  checks its syntax again at this place.\<close>

definition declareLocal :: "bool \<Rightarrow> LocalID \<times> EditEntityKind \<Rightarrow> (string, EditEntityKind) gomap \<Rightarrow>
    edit_error + (string, EditEntityKind) gomap" where
  "declareLocal parse entry created =
    (if parse \<and> \<not> isOk (ParseLocalID (fst entry)) then Inl ErrEditInvalid
     else if gm_has created (fst entry) then Inl ErrEditInvalid
     else Inr (gm_set created (fst entry) (snd entry)))"

definition declareOptional :: "LocalID option \<Rightarrow> EditEntityKind \<Rightarrow> (string, EditEntityKind) gomap \<Rightarrow>
    edit_error + (string, EditEntityKind) gomap" where
  "declareOptional local kind created =
    (case local of None \<Rightarrow> Inr created | Some l \<Rightarrow> declareLocal True (l, kind) created)"

text \<open>The entries of a Go map literal: a repeated key keeps its last value.\<close>

definition map_literal :: "(LocalID \<times> EditEntityKind) list \<Rightarrow> (LocalID \<times> EditEntityKind) list" where
  "map_literal entries =
    (let m = foldl (\<lambda>m (k, v). gm_set m k v) [] entries in map (\<lambda>k. (k, gm_get (EntityOther '''') m k)) (gm_keys m))"

definition roughCutLocals :: "rough_cut_output \<Rightarrow> (LocalID \<times> EditEntityKind) list" where
  "roughCutLocals output = [(rco_AlignmentAs output, EntityAlignment)] @
    (case rco_Video output of None \<Rightarrow> [] | Some lane \<Rightarrow> [(rlo_ClipAs lane, EntityClip)]) @
    (case rco_Audio output of None \<Rightarrow> [] | Some lane \<Rightarrow> [(rlo_ClipAs lane, EntityClip)]) @
    (case rco_LinkGroupAs output of None \<Rightarrow> [] | Some local \<Rightarrow> [(local, EntityLinkGroup)])"

definition declareOperation :: "edit_operation \<Rightarrow>
    (string, EditEntityKind) gomap \<times> (string, string) gomap \<Rightarrow>
    edit_error + (string, EditEntityKind) gomap \<times> (string, string) gomap" where
  "declareOperation operation tables =
    andThen (case op_CreateAs operation of
       None \<Rightarrow> Inr tables
     | Some local \<Rightarrow>
         andThen (declareLocal True (local, createdKind (op_Type operation)) (fst tables)) (\<lambda>created.
           case op_After operation of
             Some after \<Rightarrow> (case ref_Local after of
                Some target \<Rightarrow> Inr (created, if createsNarrativeNode (op_Type operation)
                  then gm_set (snd tables) local target else snd tables)
              | None \<Rightarrow> Inr (created, snd tables))
           | None \<Rightarrow> Inr (created, snd tables))) (\<lambda>(created, afterGraph).
    andThen (declareOptional (op_CreateLinkGroupAs operation) EntityLinkGroup created) (\<lambda>created.
    andThen (declareOptional (op_LeftLinkGroupAs operation) EntityLinkGroup created) (\<lambda>created.
    andThen (declareOptional (op_RightLinkGroupAs operation) EntityLinkGroup created) (\<lambda>created.
    andThen (forEach (declareLocal False)
      (concat (map (\<lambda>out. [(spo_LeftAs out, EntityClip), (spo_RightAs out, EntityClip)]) (op_SplitOutputs operation)))
      created) (\<lambda>created.
    andThen (forEach (\<lambda>out. forEach (declareLocal True)
        (map_literal [(dco_CaptionAs out, EntityCaption), (dco_AlignmentAs out, EntityAlignment)]))
      (op_DerivedCaptions operation) created) (\<lambda>created.
    andThen (forEach (\<lambda>out. forEach (declareLocal True) (map_literal (roughCutLocals out)))
      (op_DerivedRoughCut operation) created) (\<lambda>created.
    Inr (created, afterGraph))))))))"

definition checkOperation :: "language_parser \<Rightarrow> nat \<times> edit_operation \<Rightarrow>
    (string, EditEntityKind) gomap \<times> (string, string) gomap \<Rightarrow>
    edit_error + (string, EditEntityKind) gomap \<times> (string, string) gomap" where
  "checkOperation bcp47 indexed tables =
    (if \<not> validateEditOperation bcp47 (snd indexed)
     then Inl (EditInvalid (OperationMalformed (fst indexed) (op_Type (snd indexed))))
     else declareOperation (snd indexed) tables)"

definition checkReferences :: "(string, EditEntityKind) gomap \<Rightarrow> nat \<times> edit_operation \<Rightarrow> unit \<Rightarrow> edit_error + unit" where
  "checkReferences created indexed u =
    (if \<not> validateEditReferences (snd indexed) created
     then Inl (EditInvalid (ReferenceUnknown (fst indexed) (op_Type (snd indexed)))) else Inr ())"

definition validateEditProposeInput :: "language_parser \<Rightarrow> propose_input \<Rightarrow> edit_error + unit" where
  "validateEditProposeInput bcp47 input =
    (if \<not> isOk (ParseRequestID (in_RequestID input)) then Inl (EditInvalid RequestIDMalformed)
     else if \<not> validateEditIntent (in_Intent input) False then Inl (EditInvalid IntentMalformed)
     else if in_BaseProjectRevision input < 1 then Inl (EditInvalid BaseRevisionMalformed)
     else if length (in_Operations input) < 1 \<or> length (in_Operations input) > 512
       then Inl (EditInvalid (OperationCount (length (in_Operations input))))
     else if length (in_Preconditions input) > 2048
       then Inl (EditInvalid (PreconditionCount (length (in_Preconditions input))))
     else andThen (forEach checkPrecondition (in_Preconditions input) []) (\<lambda>_.
       let operations = zip [0..<length (in_Operations input)] (in_Operations input) in
       andThen (forEach (checkOperation bcp47) operations ([], [])) (\<lambda>(created, afterGraph).
         if gm_size created > 1024 then Inl ErrEditInvalid
         else andThen (forEach (checkReferences created) operations ()) (\<lambda>_.
           if hasLocalReferenceCycle afterGraph then Inl (EditInvalid AfterCycle) else Inr ()))))"

section \<open>The allocation\<close>

definition setOptional :: "LocalID option \<Rightarrow> EditEntityKind \<Rightarrow> (string, EditEntityKind) gomap \<Rightarrow> (string, EditEntityKind) gomap" where
  "setOptional local kind m = (case local of None \<Rightarrow> m | Some l \<Rightarrow> gm_set m l kind)"

definition expectOperation :: "(string, EditEntityKind) gomap \<Rightarrow> edit_operation \<Rightarrow> (string, EditEntityKind) gomap" where
  "expectOperation expected operation =
    (let expected = setOptional (op_CreateAs operation) (createdKind (op_Type operation)) expected;
         expected = setOptional (op_CreateLinkGroupAs operation) EntityLinkGroup expected;
         expected = setOptional (op_LeftLinkGroupAs operation) EntityLinkGroup expected;
         expected = setOptional (op_RightLinkGroupAs operation) EntityLinkGroup expected;
         expected = foldl (\<lambda>m output. gm_set (gm_set m (spo_LeftAs output) EntityClip) (spo_RightAs output) EntityClip)
           expected (op_SplitOutputs operation);
         expected = foldl (\<lambda>m output. gm_set (gm_set m (dco_CaptionAs output) EntityCaption) (dco_AlignmentAs output) EntityAlignment)
           expected (op_DerivedCaptions operation)
     in foldl (\<lambda>m output. foldl (\<lambda>m (local, kind). gm_set m local kind) m (roughCutLocals output))
           expected (op_DerivedRoughCut operation))"

definition validateAllocationMatchesOperations :: "local_allocation list \<Rightarrow> edit_operation list \<Rightarrow> bool" where
  "validateAllocationMatchesOperations allocation operations =
    (let expected = foldl expectOperation [] operations in
     if gm_size expected \<noteq> length allocation then False
     else list_all (\<lambda>current. gm_get (EntityOther '''') expected (alloc_Local current) = alloc_Kind current \<and>
       validateEntityID (alloc_Kind current) (alloc_ID current)) allocation)"

end
