(* ===== verification/Local_References.thy ===== *)
theory Local_References
  imports Edit_Validation
begin

text \<open>
  The search for a cycle among the local names of a request decides exactly whether one exists.
\<close>

section \<open>The graph of local references\<close>

definition refers :: "(string, string) gomap \<Rightarrow> (string \<times> string) set" where
  "refers edges = {(a, b). gm_lookup edges a = Some b \<and> b \<noteq> ''''}"

text \<open>A name is grounded when the references from it come to an end.\<close>

definition grounded :: "(string, string) gomap \<Rightarrow> string \<Rightarrow> bool" where
  "grounded edges x \<longleftrightarrow> x \<in> Wellfounded.acc ((refers edges)\<inverse>)"

lemma refers_next: "(a, b) \<in> refers edges \<longleftrightarrow> gm_get '''' edges a = b \<and> b \<noteq> ''''"
  by (auto simp: refers_def gm_get_def split: option.splits)

lemma grounded_step: "grounded edges x \<longleftrightarrow> gm_get '''' edges x = '''' \<or> grounded edges (gm_get '''' edges x)"
  unfolding grounded_def by (subst acc.simps) (auto simp: refers_next)

lemma grounded_no_cycle: "grounded edges x \<Longrightarrow> (x, x) \<notin> (refers edges)\<^sup>+"
  unfolding grounded_def
proof (induction rule: acc.induct)
  case (accI x)
  show ?case
  proof
    assume "(x, x) \<in> (refers edges)\<^sup>+"
    then obtain y where "(x, y) \<in> refers edges" "(y, x) \<in> (refers edges)\<^sup>*" by (meson tranclD)
    then have "(y, x) \<in> (refers edges)\<inverse>" "(y, y) \<in> (refers edges)\<^sup>+" by auto
    then show False using accI by blast
  qed
qed

section \<open>The search\<close>

lemma visit_correct:
  assumes "visit edges node state = (found, state')"
    and "\<And>x. gm_get 0 state x = visited \<Longrightarrow> grounded edges x"
    and "\<And>x. gm_get 0 state x = visiting \<Longrightarrow> (x, node) \<in> (refers edges)\<^sup>+"
  shows "if found then \<not> acyclic (refers edges)
    else gm_get 0 state' node = visited \<and> (\<forall>x. gm_get 0 state' x = visited \<longrightarrow> grounded edges x) \<and>
      (\<forall>x. gm_get 0 state' x = visiting \<longleftrightarrow> gm_get 0 state x = visiting)"
  using assms
proof (induction edges node state arbitrary: found state' rule: visit.induct)
  case (1 edges node state)
  consider (busy) "gm_get 0 state node = visiting" | (finished) "gm_get 0 state node = visited"
    | (open_node) "gm_get 0 state node \<noteq> visiting" "gm_get 0 state node \<noteq> visited" by blast
  then show ?case
  proof cases
    case busy
    then show ?thesis using "1.prems" by (auto simp: visit.simps acyclic_def)
  next
    case finished
    then show ?thesis using "1.prems" by (auto simp: visit.simps)
  next
    case open_node
    let ?state1 = "gm_set state node visiting" and ?next = "gm_get '''' edges node"
    show ?thesis
    proof (cases "?next = ''''")
      case True
      then show ?thesis using open_node "1.prems" by (auto simp: visit.simps grounded_step [of edges node] split: if_splits)
    next
      case False
      obtain found2 state2 where rec: "visit edges ?next ?state1 = (found2, state2)" by fastforce
      have step: "(node, ?next) \<in> refers edges" using False by (simp add: refers_next)
      have path: "(x, ?next) \<in> (refers edges)\<^sup>+" if "gm_get 0 ?state1 x = visiting" for x
        using that "1.prems"(3) [of x] step by (auto split: if_splits)
      have seen: "grounded edges x" if "gm_get 0 ?state1 x = visited" for x
        using that "1.prems"(2) [of x] by (auto split: if_splits)
      note IH = "1.IH" [OF open_node refl refl False rec seen path]
      have res: "found = found2" "\<not> found2 \<Longrightarrow> state' = gm_set state2 node visited"
        using "1.prems"(1) open_node False rec by (auto simp: visit.simps [of edges node state] Let_def split: if_splits)
      show ?thesis using IH res open_node False by (auto simp: grounded_step [of edges node] split: if_splits)
    qed
  qed
qed

lemma visitAll_correct:
  assumes "\<And>x. gm_get 0 state x = visited \<Longrightarrow> grounded edges x" "\<And>x. gm_get 0 state x \<noteq> visiting"
  shows "if visitAll edges nodes state then \<not> acyclic (refers edges) else list_all (grounded edges) nodes"
  using assms
proof (induction nodes arbitrary: state)
  case (Cons node nodes)
  obtain found state' where run: "visit edges node state = (found, state')" by fastforce
  have res: "if found then \<not> acyclic (refers edges)
    else gm_get 0 state' node = visited \<and> (\<forall>x. gm_get 0 state' x = visited \<longrightarrow> grounded edges x) \<and>
      (\<forall>x. gm_get 0 state' x = visiting \<longleftrightarrow> gm_get 0 state x = visiting)"
    by (rule visit_correct [OF run]) (use Cons.prems in auto)
  show ?case
  proof (cases found)
    case False
    then show ?thesis using res Cons.IH [of state'] Cons.prems run by auto
  qed (use res run in auto)
qed simp

text \<open>C15. The search ends and reports a cycle exactly when the references between the local names of a request have
  one.\<close>

theorem local_cycle_exact: "hasLocalReferenceCycle edges \<longleftrightarrow> \<not> acyclic (refers edges)"
proof (cases "hasLocalReferenceCycle edges")
  case True
  then show ?thesis using visitAll_correct [of "[]" edges "gm_keys edges"] by (auto simp: hasLocalReferenceCycle_def)
next
  case False
  then have all: "list_all (grounded edges) (gm_keys edges)"
    using visitAll_correct [of "[]" edges "gm_keys edges"] by (auto simp: hasLocalReferenceCycle_def)
  have "(x, x) \<notin> (refers edges)\<^sup>+" for x
  proof
    assume cycle: "(x, x) \<in> (refers edges)\<^sup>+"
    then obtain y where "(x, y) \<in> refers edges" by (meson tranclD)
    then have "x \<in> set (gm_keys edges)" by (auto simp: refers_def set_gm_keys intro: gm_lookup_has)
    then show False using all grounded_no_cycle cycle by (auto simp: list_all_iff)
  qed
  then show ?thesis using False by (auto simp: acyclic_def)
qed

end
