(* ===== verification/Edit_Log.thy ===== *)
theory Edit_Log
  imports Edit_Validation
begin

text \<open>
  The abstract specification of an edit: a machine over a store of revisioned entities whose
  steps create an entity, replace the current revision of one, or note that an aggregate
  revision advances. Each step that writes an entity logs the write with its inverse. The
  normalizer is shown to implement this machine; what the log then guarantees (each entity
  written at most once, replay, undo, optimistic concurrency) is proved here by induction over
  the steps.
\<close>

section \<open>Entities\<close>

type_synonym entity = normalized_operation
type_synonym entity_key = "EditEntityKind \<times> string"
type_synonym entity_store = "entity_key \<Rightarrow> entity option"

fun entity_key :: "entity \<Rightarrow> entity_key" where
  "entity_key (PutNarrativeNode n) = (EntityNarrativeNode, NarrativeNodeState_ID n)"
| "entity_key (PutCaption c) = (EntityCaption, cap_ID c)"
| "entity_key (PutAlignment a) = (EntityAlignment, al_ID a)"
| "entity_key (PutAsset a) = (EntityAsset, ast_ID a)"
| "entity_key (PutClip c) = (EntityClip, clip_ID c)"
| "entity_key (PutLinkGroup g) = (EntityLinkGroup, lg_ID g)"
| "entity_key (PutTranscriptCorrection c) = (EntityTranscriptCorrection, cor_ID c)"
| "entity_key (RestoreProjectVersion v) = (EntityOther ''project-version'', pvr_ID v)"

fun entity_revision :: "entity \<Rightarrow> revision" where
  "entity_revision (PutNarrativeNode n) = NarrativeNodeState_RevisionValue n"
| "entity_revision (PutCaption c) = cap_Revision c"
| "entity_revision (PutAlignment a) = al_Revision a"
| "entity_revision (PutAsset a) = ast_Revision a"
| "entity_revision (PutClip c) = clip_Revision c"
| "entity_revision (PutLinkGroup g) = lg_Revision g"
| "entity_revision (PutTranscriptCorrection c) = cor_Revision c"
| "entity_revision (RestoreProjectVersion v) = 0"

fun node_with_revision :: "revision \<Rightarrow> narrative_node_state \<Rightarrow> narrative_node_state" where
  "node_with_revision r (SectionNode s) = SectionNode (s\<lparr>sec_Revision := r\<rparr>)"
| "node_with_revision r (AuthoredTextNode t) = AuthoredTextNode (t\<lparr>txt_Revision := r\<rparr>)"
| "node_with_revision r (SourceExcerptNode e) = SourceExcerptNode (e\<lparr>exc_Revision := r\<rparr>)"
| "node_with_revision r (VisualIntentNode v) = VisualIntentNode (v\<lparr>vis_Revision := r\<rparr>)"
| "node_with_revision r (NoteNode n) = NoteNode (n\<lparr>note_Revision := r\<rparr>)"

fun entity_with_revision :: "revision \<Rightarrow> entity \<Rightarrow> entity" where
  "entity_with_revision r (PutNarrativeNode n) = PutNarrativeNode (node_with_revision r n)"
| "entity_with_revision r (PutCaption c) = PutCaption (c\<lparr>cap_Revision := r\<rparr>)"
| "entity_with_revision r (PutAlignment a) = PutAlignment (a\<lparr>al_Revision := r\<rparr>)"
| "entity_with_revision r (PutAsset a) = PutAsset (a\<lparr>ast_Revision := r\<rparr>)"
| "entity_with_revision r (PutClip c) = PutClip (c\<lparr>clip_Revision := r\<rparr>)"
| "entity_with_revision r (PutLinkGroup g) = PutLinkGroup (g\<lparr>lg_Revision := r\<rparr>)"
| "entity_with_revision r (PutTranscriptCorrection c) = PutTranscriptCorrection (c\<lparr>cor_Revision := r\<rparr>)"
| "entity_with_revision r (RestoreProjectVersion v) = RestoreProjectVersion v"

fun node_tombstone :: "narrative_node_state \<Rightarrow> narrative_node_state" where
  "node_tombstone (SectionNode s) = SectionNode (s\<lparr>sec_Tombstoned := True\<rparr>)"
| "node_tombstone (AuthoredTextNode t) = AuthoredTextNode (t\<lparr>txt_Tombstoned := True\<rparr>)"
| "node_tombstone (SourceExcerptNode e) = SourceExcerptNode (e\<lparr>exc_Tombstoned := True\<rparr>)"
| "node_tombstone (VisualIntentNode v) = VisualIntentNode (v\<lparr>vis_Tombstoned := True\<rparr>)"
| "node_tombstone (NoteNode n) = NoteNode (n\<lparr>note_Tombstoned := True\<rparr>)"

text \<open>How the undo of a creation leaves the entity: tombstoned, or unbound for an alignment.\<close>

fun entity_retire :: "entity \<Rightarrow> entity" where
  "entity_retire (PutNarrativeNode n) = PutNarrativeNode (node_tombstone n)"
| "entity_retire (PutCaption c) = PutCaption (c\<lparr>cap_Tombstoned := True\<rparr>)"
| "entity_retire (PutAlignment a) = PutAlignment (a\<lparr>al_Status := AlignmentUnbound\<rparr>)"
| "entity_retire (PutAsset a) = PutAsset (a\<lparr>ast_Tombstoned := True\<rparr>)"
| "entity_retire (PutClip c) = PutClip (c\<lparr>clip_Tombstoned := True\<rparr>)"
| "entity_retire (PutLinkGroup g) = PutLinkGroup (g\<lparr>lg_Tombstoned := True\<rparr>)"
| "entity_retire (PutTranscriptCorrection c) = PutTranscriptCorrection (c\<lparr>cor_Tombstoned := True\<rparr>)"
| "entity_retire (RestoreProjectVersion v) = RestoreProjectVersion v"

fun entity_dead :: "entity \<Rightarrow> bool" where
  "entity_dead (PutNarrativeNode n) = NarrativeNodeState_IsTombstoned n"
| "entity_dead (PutCaption c) = cap_Tombstoned c"
| "entity_dead (PutAlignment a) = False"
| "entity_dead (PutAsset a) = ast_Tombstoned a"
| "entity_dead (PutClip c) = clip_Tombstoned c"
| "entity_dead (PutLinkGroup g) = lg_Tombstoned g"
| "entity_dead (PutTranscriptCorrection c) = cor_Tombstoned c"
| "entity_dead (RestoreProjectVersion v) = False"

lemma entity_key_with_revision [simp]: "entity_key (entity_with_revision r e) = entity_key e"
proof (cases e)
  case (PutNarrativeNode n)
  then show ?thesis by (cases n) auto
qed auto

lemma entity_key_retire [simp]: "entity_key (entity_retire e) = entity_key e"
proof (cases e)
  case (PutNarrativeNode n)
  then show ?thesis by (cases n) auto
qed auto

section \<open>Replaying writes\<close>

text \<open>What a list of keyed writes does to a store, for any notion of key.\<close>

locale keyed_writes =
  fixes key :: "'e \<Rightarrow> 'k" and put :: "('k \<Rightarrow> 'e option) \<Rightarrow> 'e \<Rightarrow> ('k \<Rightarrow> 'e option)"
  assumes put_at: "put st e k = (if k = key e then Some e else st k)"
begin

lemma foldl_put_other: "k \<notin> key ` set es \<Longrightarrow> foldl put st es k = st k"
  by (induction es arbitrary: st) (auto simp: put_at)

lemma foldl_put_mem: "distinct (map key es) \<Longrightarrow> e \<in> set es \<Longrightarrow> foldl put st es (key e) = Some e"
proof (induction es arbitrary: st)
  case (Cons a es)
  show ?case
  proof (cases "e \<in> set es")
    case True
    then show ?thesis using Cons by simp
  next
    case False
    then have "e = a" and "key a \<notin> key ` set es" using Cons.prems by auto
    then show ?thesis using foldl_put_other [of "key a" es "put st a"] put_at [of st a "key a"] by simp
  qed
qed simp

lemma foldl_put_cases:
  assumes "distinct (map key es)"
  shows "(\<exists>e \<in> set es. key e = k \<and> foldl put st es k = Some e) \<or> (k \<notin> key ` set es \<and> foldl put st es k = st k)"
  using foldl_put_mem [OF assms, of _ st] foldl_put_other [of k es st] by (cases "k \<in> key ` set es") auto

lemma foldl_put_rev:
  assumes "distinct (map key es)"
  shows "foldl put st (rev es) k = foldl put st es k"
proof -
  have "distinct (map key (rev es))" using assms by (simp flip: rev_map)
  from foldl_put_cases [OF this, of k st] show ?thesis
    using foldl_put_mem [OF assms, of _ st] foldl_put_other [of k es st] by auto
qed

end

definition put_entity :: "entity_store \<Rightarrow> entity \<Rightarrow> entity_store" where
  "put_entity st e = st(entity_key e \<mapsto> e)"

interpretation ew: keyed_writes entity_key put_entity
  by unfold_locales (simp add: put_entity_def)

definition replay :: "entity_store \<Rightarrow> entity list \<Rightarrow> entity_store" where
  "replay st es = foldl put_entity st es"

lemma replay_Nil [simp]: "replay st [] = st"
  by (simp add: replay_def)

lemma replay_snoc [simp]: "replay st (es @ [e]) = (replay st es)(entity_key e \<mapsto> e)"
  by (simp add: replay_def put_entity_def)

section \<open>The machine\<close>

text \<open>Revisions of entities advance by writes; those of tracks, which are not written, only as aggregates.\<close>

definition entity_kind :: "EditEntityKind \<Rightarrow> bool" where
  "entity_kind kind \<longleftrightarrow> kind \<in> {EntityNarrativeNode, EntityCaption, EntityAlignment, EntityClip, EntityLinkGroup,
    EntityTranscriptCorrection}"

lemma entity_kind_simps [simp]:
  "entity_kind EntityNarrativeNode" "entity_kind EntityCaption" "entity_kind EntityAlignment" "entity_kind EntityClip"
  "entity_kind EntityLinkGroup" "entity_kind EntityTranscriptCorrection" "\<not> entity_kind EntityTrack"
  by (simp_all add: entity_kind_def)

record edit_log =
  log_store :: entity_store
  log_touched :: "entity_key set"
  log_entries :: "(entity \<times> entity) list"
  log_changes :: "entity_change list"
  log_aggregates :: "entity_key \<Rightarrow> revision option"

definition change_of :: "entity_key \<Rightarrow> revision option \<Rightarrow> revision \<Rightarrow> bool \<Rightarrow> entity_change" where
  "change_of k before after tombstoned = \<lparr>chg_Kind = fst k, chg_ID = snd k, chg_Before = before,
    chg_After = after, chg_Tombstoned = tombstoned\<rparr>"

definition log_write :: "edit_log \<Rightarrow> entity \<Rightarrow> entity \<Rightarrow> revision option \<Rightarrow> edit_log" where
  "log_write s e undo before = s\<lparr>log_store := (log_store s)(entity_key e \<mapsto> e),
    log_touched := insert (entity_key e) (log_touched s), log_entries := log_entries s @ [(e, undo)],
    log_changes := log_changes s @ [change_of (entity_key e) before (entity_revision e) (entity_dead e)]\<rparr>"

inductive edit_step :: "(entity_key \<Rightarrow> revision option) \<Rightarrow> edit_log \<Rightarrow> edit_log \<Rightarrow> bool" for cond where
  create: "entity_key e \<notin> log_touched s \<Longrightarrow> log_store s (entity_key e) = None \<Longrightarrow> entity_revision e = 1 \<Longrightarrow>
    \<not> entity_dead e \<Longrightarrow> log_aggregates s (entity_key e) = None \<Longrightarrow>
    edit_step cond s (log_write s e (entity_with_revision 2 (entity_retire e)) None)"
| replace: "entity_key e \<notin> log_touched s \<Longrightarrow> log_store s (entity_key e) = Some cur \<Longrightarrow>
    cond (entity_key e) = Some (entity_revision cur) \<Longrightarrow> Revision_Next (entity_revision cur) = Inr (entity_revision e) \<Longrightarrow>
    Revision_Next (entity_revision e) = Inr r \<Longrightarrow> log_aggregates s (entity_key e) = None \<Longrightarrow>
    edit_step cond s (log_write s e (entity_with_revision r cur) (Some (entity_revision cur)))"
| aggregate: "(\<And>k r. agg k = Some r \<Longrightarrow> log_aggregates s k = Some r \<or> cond k = Some r \<and> k \<notin> log_touched s \<and>
      (entity_kind (fst k) \<longrightarrow> log_store s k \<noteq> None)) \<Longrightarrow>
    edit_step cond s (s\<lparr>log_aggregates := agg\<rparr>)"

abbreviation edit_steps :: "(entity_key \<Rightarrow> revision option) \<Rightarrow> edit_log \<Rightarrow> edit_log \<Rightarrow> bool" where
  "edit_steps cond \<equiv> (edit_step cond)\<^sup>*\<^sup>*"

inductive_cases edit_stepE: "edit_step cond s t"

section \<open>What a run of the machine guarantees\<close>

text \<open>The entry of the log for a key, related to the store the run started from.\<close>

definition entry_ok :: "(entity_key \<Rightarrow> revision option) \<Rightarrow> entity_store \<Rightarrow> entity \<times> entity \<Rightarrow> bool" where
  "entry_ok cond st0 entry = (case entry of (e, undo) \<Rightarrow>
    (case st0 (entity_key e) of
       None \<Rightarrow> entity_revision e = 1 \<and> \<not> entity_dead e \<and> undo = entity_with_revision 2 (entity_retire e)
     | Some cur \<Rightarrow> cond (entity_key e) = Some (entity_revision cur) \<and>
         Revision_Next (entity_revision cur) = Inr (entity_revision e) \<and>
         (\<exists>r. Revision_Next (entity_revision e) = Inr r \<and> undo = entity_with_revision r cur)))"

definition entry_change :: "entity_store \<Rightarrow> entity \<times> entity \<Rightarrow> entity_change" where
  "entry_change st0 entry = change_of (entity_key (fst entry)) (map_option entity_revision (st0 (entity_key (fst entry))))
    (entity_revision (fst entry)) (entity_dead (fst entry))"

definition start_log :: "entity_store \<Rightarrow> edit_log" where
  "start_log st0 = \<lparr>log_store = st0, log_touched = {}, log_entries = [], log_changes = [], log_aggregates = (\<lambda>_. None)\<rparr>"

text \<open>The invariant of a run from a store with nothing logged.\<close>

definition log_inv :: "(entity_key \<Rightarrow> revision option) \<Rightarrow> entity_store \<Rightarrow> edit_log \<Rightarrow> bool" where
  "log_inv cond st0 s \<longleftrightarrow>
    log_store s = replay st0 (map fst (log_entries s)) \<and>
    distinct (map (entity_key \<circ> fst) (log_entries s)) \<and>
    (entity_key \<circ> fst) ` set (log_entries s) = log_touched s \<and>
    list_all (entry_ok cond st0) (log_entries s) \<and>
    log_changes s = map (entry_change st0) (log_entries s) \<and>
    (\<forall>k r. log_aggregates s k = Some r \<longrightarrow> cond k = Some r \<and> k \<notin> log_touched s \<and> (entity_kind (fst k) \<longrightarrow> st0 k \<noteq> None))"

lemma log_inv_start: "log_inv cond st0 (start_log st0)"
  by (simp add: log_inv_def start_log_def)

lemma log_inv_untouched: "log_inv cond st0 s \<Longrightarrow> k \<notin> log_touched s \<Longrightarrow> log_store s k = st0 k"
proof -
  assume inv: "log_inv cond st0 s" and k: "k \<notin> log_touched s"
  then have "k \<notin> entity_key ` set (map fst (log_entries s))"
    unfolding log_inv_def by (auto simp: image_image)
  from ew.foldl_put_other [OF this] show ?thesis using inv unfolding log_inv_def replay_def by metis
qed

lemma log_inv_write:
  assumes inv: "log_inv cond st0 s" and fresh: "entity_key e \<notin> log_touched s"
    and free: "log_aggregates s (entity_key e) = None"
    and ok: "entry_ok cond st0 (e, undo)" and before: "before = map_option entity_revision (st0 (entity_key e))"
  shows "log_inv cond st0 (log_write s e undo before)"
proof -
  have "entity_key e \<notin> (entity_key \<circ> fst) ` set (log_entries s)" using inv fresh by (simp add: log_inv_def)
  then show ?thesis
    using inv free ok before by (auto simp: log_inv_def log_write_def entry_change_def)
qed

lemma log_inv_step: "edit_step cond s t \<Longrightarrow> log_inv cond st0 s \<Longrightarrow> log_inv cond st0 t"
proof (induction rule: edit_step.induct)
  case (create e s)
  then have "st0 (entity_key e) = None" using log_inv_untouched by metis
  with create show ?case by (intro log_inv_write) (simp_all add: entry_ok_def)
next
  case (replace e s cur r)
  then have "st0 (entity_key e) = Some cur" using log_inv_untouched by metis
  with replace show ?case by (intro log_inv_write) (simp_all add: entry_ok_def)
next
  case (aggregate agg s)
  have "agg k = Some r \<Longrightarrow> cond k = Some r \<and> k \<notin> log_touched s \<and> (entity_kind (fst k) \<longrightarrow> st0 k \<noteq> None)" for k r
    using log_inv_untouched [OF aggregate.prems, of k] aggregate.hyps [of k r] aggregate.prems unfolding log_inv_def by metis
  with aggregate.prems show ?case by (simp add: log_inv_def)
qed

lemma log_inv_steps: "edit_steps cond s t \<Longrightarrow> log_inv cond st0 s \<Longrightarrow> log_inv cond st0 t"
  by (induction rule: rtranclp_induct) (auto intro: log_inv_step)

lemma log_inv_run: "edit_steps cond (start_log st0) s \<Longrightarrow> log_inv cond st0 s"
  by (rule log_inv_steps [OF _ log_inv_start])

lemma edit_steps_touched_mono: "edit_steps cond s t \<Longrightarrow> log_touched s \<subseteq> log_touched t"
  by (induction rule: rtranclp_induct) (auto simp: log_write_def elim!: edit_stepE)

lemma log_write_simps [simp]:
  "log_touched (log_write s e undo before) = insert (entity_key e) (log_touched s)"
  "log_store (log_write s e undo before) = (log_store s)(entity_key e \<mapsto> e)"
  "log_aggregates (log_write s e undo before) = log_aggregates s"
  by (simp_all add: log_write_def)

lemma edit_steps_store_mono: "edit_steps cond s t \<Longrightarrow> log_store s k \<noteq> None \<Longrightarrow> log_store t k \<noteq> None"
proof (induction rule: rtranclp_induct)
  case (step t u)
  then show ?case by (cases rule: edit_step.cases [OF step.hyps(2)]) auto
qed

text \<open>Keys may be reserved before other keys are written and written themselves afterwards.\<close>

definition reserve :: "entity_key set \<Rightarrow> edit_log \<Rightarrow> edit_log" where
  "reserve R s = s\<lparr>log_touched := R \<union> log_touched s\<rparr>"

lemma reserve_log_write [simp]: "log_write (reserve R s) e undo before = reserve R (log_write s e undo before)"
  by (cases s) (auto simp: reserve_def log_write_def)

lemma reserve_simps [simp]:
  "log_touched (reserve R s) = R \<union> log_touched s" "log_store (reserve R s) = log_store s"
  "log_aggregates (reserve R s) = log_aggregates s" "reserve {} s = s"
  "reserve R (reserve R' s) = reserve (R \<union> R') s"
  by (simp_all add: reserve_def Un_assoc)

lemma reserve_written [simp]: "reserve {entity_key e} (log_write s e undo before) = log_write s e undo before"
  by (cases s) (simp add: reserve_def log_write_def)

lemma edit_step_reserved:
  assumes "edit_step cond (reserve R s) t"
  obtains t' where "edit_step cond s t'" "t = reserve R t'" "log_touched t' \<inter> R \<subseteq> log_touched s"
  using assms(1)
proof (cases rule: edit_step.cases)
  case (create e)
  then show ?thesis by (intro that [OF edit_step.create [of e s]]) auto
next
  case (replace e cur r)
  then show ?thesis by (intro that [OF edit_step.replace [of e s cur]]) auto
next
  case (aggregate agg)
  have "t = reserve R (s\<lparr>log_aggregates := agg\<rparr>)" by (cases s) (simp add: aggregate(1) reserve_def)
  then show ?thesis using aggregate(2) by (intro that [OF edit_step.aggregate [of agg s]]) auto
qed

lemma edit_steps_reserved:
  assumes "edit_steps cond (reserve R s) t"
  shows "\<exists>t'. edit_steps cond s t' \<and> t = reserve R t' \<and> log_touched t' \<inter> R \<subseteq> log_touched s"
  using assms
proof (induction rule: rtranclp_induct)
  case base
  then show ?case by blast
next
  case (step t u)
  then obtain t' where t': "edit_steps cond s t'" "t = reserve R t'" "log_touched t' \<inter> R \<subseteq> log_touched s" by blast
  from step.hyps(2) t'(2) obtain u' where "edit_step cond t' u'" "u = reserve R u'" "log_touched u' \<inter> R \<subseteq> log_touched t'"
    using edit_step_reserved by metis
  with rtranclp.rtrancl_into_rtrancl [OF t'(1)] t'(3) show ?case by blast
qed

text \<open>The store an undo leaves: what was there returns with its revision advanced twice, what
  was created is retired, what the edit did not write is as before.\<close>

definition store_wf :: "entity_store \<Rightarrow> bool" where
  "store_wf st \<longleftrightarrow> (\<forall>k. case st k of Some e \<Rightarrow> entity_key e = k | None \<Rightarrow> True)"

lemma store_wf_replay: "store_wf st \<Longrightarrow> store_wf (replay st es)"
  by (induction es rule: rev_induct) (simp_all add: store_wf_def)

lemma store_wfD: "store_wf st \<Longrightarrow> st k = Some e \<Longrightarrow> entity_key e = k"
  unfolding store_wf_def by (drule spec [of _ k]) simp

definition undone :: "entity_store \<Rightarrow> edit_log \<Rightarrow> entity_store" where
  "undone st0 s k =
    (if k \<notin> log_touched s then st0 k
     else case st0 k of
       Some cur \<Rightarrow> Some (entity_with_revision (entity_revision cur + 2) cur)
     | None \<Rightarrow> map_option (\<lambda>e. entity_with_revision 2 (entity_retire e)) (log_store s k))"

lemma Revision_Next_Inr: "Revision_Next r = Inr r' \<Longrightarrow> r' = r + 1"
  by (simp add: Revision_Next_def NewRevision_def split: if_splits)

lemma entry_ok_undo_key: "store_wf st0 \<Longrightarrow> entry_ok cond st0 (e, undo) \<Longrightarrow> entity_key undo = entity_key e"
proof (cases "st0 (entity_key e)")
  case (Some cur)
  assume "store_wf st0" and ok: "entry_ok cond st0 (e, undo)"
  from this(1) have key: "entity_key cur = entity_key e" by (rule store_wfD) (rule Some)
  show ?thesis using ok unfolding entry_ok_def prod.case Some option.case by (auto simp: key)
qed (simp add: entry_ok_def)

lemma entry_ok_undo:
  assumes "entry_ok cond st0 (e, undo)"
  shows "undo = (case st0 (entity_key e) of
       Some cur \<Rightarrow> entity_with_revision (entity_revision cur + 2) cur
     | None \<Rightarrow> entity_with_revision 2 (entity_retire e))"
proof (cases "st0 (entity_key e)")
  case (Some cur)
  then obtain r where "undo = entity_with_revision r cur" "entity_revision e = entity_revision cur + 1" "r = entity_revision e + 1"
    using assms unfolding entry_ok_def by (auto dest!: Revision_Next_Inr)
  then show ?thesis by (simp add: Some add.assoc)
qed (use assms in \<open>simp add: entry_ok_def\<close>)

lemma log_inv_undo:
  assumes wf: "store_wf st0" and inv: "log_inv cond st0 s"
  shows "replay (log_store s) (rev (map snd (log_entries s))) = undone st0 s"
proof
  fix k
  have keys: "map entity_key (map snd (log_entries s)) = map (entity_key \<circ> fst) (log_entries s)"
  proof -
    have "entity_key (snd x) = entity_key (fst x)" if "x \<in> set (log_entries s)" for x
      using inv that entry_ok_undo_key [OF wf, of cond "fst x" "snd x"] unfolding log_inv_def list_all_iff by simp
    then show ?thesis by simp
  qed
  have dist: "distinct (map entity_key (map snd (log_entries s)))"
    using inv unfolding keys log_inv_def by blast
  have touched: "entity_key ` set (map snd (log_entries s)) = log_touched s"
    using inv arg_cong [OF keys, of set] unfolding log_inv_def set_map image_comp by simp
  note replayed = ew.foldl_put_cases [OF dist, of k "log_store s"] ew.foldl_put_rev [OF dist, of "log_store s" k]
  show "replay (log_store s) (rev (map snd (log_entries s))) k = undone st0 s k"
  proof (cases "k \<in> log_touched s")
    case False
    then have "k \<notin> entity_key ` set (map snd (log_entries s))" using touched by simp
    then have "replay (log_store s) (rev (map snd (log_entries s))) k = log_store s k"
      using replayed unfolding replay_def by (metis image_eqI)
    then show ?thesis using False log_inv_untouched [OF inv] by (simp add: undone_def)
  next
    case True
    then have "k \<in> entity_key ` set (map snd (log_entries s))" using touched by simp
    then obtain undo where undo: "undo \<in> set (map snd (log_entries s))" "entity_key undo = k"
      and result: "replay (log_store s) (rev (map snd (log_entries s))) k = Some undo"
      using replayed unfolding replay_def by metis
    then obtain e where entry: "(e, undo) \<in> set (log_entries s)" "entity_key undo = k" by auto
    have ok: "entry_ok cond st0 (e, undo)" using inv entry(1) by (auto simp: log_inv_def list_all_iff)
    then have key: "entity_key e = k" using entry(2) entry_ok_undo_key [OF wf] by simp
    have "e \<in> set (map fst (log_entries s))" using entry(1) by force
    moreover have "distinct (map entity_key (map fst (log_entries s)))" using inv by (simp add: log_inv_def)
    ultimately have "log_store s k = Some e"
      using inv key ew.foldl_put_mem [of "map fst (log_entries s)" e st0] by (simp add: log_inv_def replay_def)
    with True result show ?thesis unfolding undone_def 
      by (simp add: entry_ok_undo [OF ok] key split: option.split)
  qed
qed

end
