(* ===== verification/Normalizer_State.thy ===== *)
theory Normalizer_State
  imports Edit_Log "HOL-Library.Product_Lexorder"
begin

text \<open>
  The state of the edit normalizer and the helpers its handlers share:
  \<^verbatim>\<open>edit_normalize.go\<close> (types, constructor) and \<^verbatim>\<open>edit_normalize_helpers.go\<close>. A method with a
  pointer receiver takes the normalizer as its last argument and returns it updated; an error
  discards the normalizer, as the callers do.
\<close>

section \<open>The state the normalizer is given\<close>

record edit_track_state =
  trk_ID :: TrackID
  trk_SequenceID :: SequenceID
  trk_Revision :: revision
  trk_Type :: TrackType

record edit_stream_state =
  str_ID :: SourceStreamID
  str_AssetID :: AssetID
  str_AssetRevision :: revision
  str_Descriptor :: stream_descriptor

record edit_segment_state =
  seg_ID :: TranscriptSegmentID
  seg_Ordinal :: uint32
  seg_SourceRange :: time_range
  seg_Text :: string
  seg_Tokens :: "transcript_token list"

record edit_artifact_state =
  art_ID :: ArtifactID
  art_AssetID :: AssetID
  art_Fingerprint :: Digest
  art_SourceStreamID :: SourceStreamID
  art_Language :: CaptionLanguage
  art_Segments :: "(string, edit_segment_state) gomap"

record edit_normalization_state =
  st_ProjectID :: ProjectID
  st_ProjectRevision :: revision
  st_DocumentID :: NarrativeDocumentID
  st_DocumentRevision :: revision
  st_SequenceID :: SequenceID
  st_SequenceRevision :: revision
  st_Sections :: "(string, section_state) gomap"
  st_Tracks :: "(string, edit_track_state) gomap"
  st_AuthoredTexts :: "(string, authored_text_state) gomap"
  st_SourceExcerpts :: "(string, source_excerpt_state) gomap"
  st_VisualIntents :: "(string, visual_intent_state) gomap"
  st_Notes :: "(string, note_state) gomap"
  st_SectionChildCounts :: "(string, int) gomap"
  st_SourceExcerptEvidence :: "(string, SourceExcerptEvidenceStatus) gomap"
  st_TranscriptCorrections :: "(string, correction_state) gomap"
  st_TranscriptArtifacts :: "(string, edit_artifact_state) gomap"
  st_Captions :: "(string, caption_state) gomap"
  st_Clips :: "(string, clip_state) gomap"
  st_LinkGroups :: "(string, link_group_state) gomap"
  st_LinkGroupClips :: "(string, ClipID list) gomap"
  st_SourceStreams :: "(string, edit_stream_state) gomap"
  st_Alignments :: "(string, alignment_state) gomap"
  st_NodeAlignments :: "(string, AlignmentID list) gomap"
  st_CaptionAlignments :: "(string, AlignmentID list) gomap"
  st_ClipAlignments :: "(string, AlignmentID list) gomap"

record normalize_input =
  ni_ProposalID :: ProposalID
  ni_ProjectID :: ProjectID
  ni_SequenceID :: SequenceID
  ni_RunID :: RunID
  ni_TurnID :: TurnID
  ni_Actor :: actor_ref
  ni_Allocation :: "local_allocation list"
  ni_Input :: propose_input
  ni_CreatedAt :: int
  ni_State :: edit_normalization_state

text \<open>
  Code outside the model that the normalizer calls: the BCP 47 parser, the grapheme counter
  of \<^verbatim>\<open>github.com/rivo/uniseg\<close>, and the canonical digests of a rough cut and of a proposal.
\<close>

record edit_env =
  env_bcp47 :: language_parser
  env_graphemes :: "string \<Rightarrow> nat"
  env_roughCutDigest :: "edit_operation \<Rightarrow> Digest option"
  env_proposalDigest :: "edit_proposal \<Rightarrow> (string \<times> Digest) option"

section \<open>The normalizer\<close>

record edit_normalizer =
  n_input :: normalize_input
  n_allocations :: "(string, local_allocation) gomap"
  n_conditions :: "(string, revision) gomap"
  n_sections :: "(string, section_state) gomap"
  n_texts :: "(string, authored_text_state) gomap"
  n_sourceExcerpts :: "(string, source_excerpt_state) gomap"
  n_visualIntents :: "(string, visual_intent_state) gomap"
  n_notes :: "(string, note_state) gomap"
  n_sectionChildren :: "(string, int) gomap"
  n_corrections :: "(string, correction_state) gomap"
  n_captions :: "(string, caption_state) gomap"
  n_clips :: "(string, clip_state) gomap"
  n_linkGroups :: "(string, link_group_state) gomap"
  n_linkGroupClips :: "(string, ClipID list) gomap"
  n_alignments :: "(string, alignment_state) gomap"
  n_touched :: "(string, unit) gomap"
  n_alignmentEffects :: "(string, AlignmentStatus) gomap"
  n_operations :: "normalized_operation list"
  n_inverse :: "normalized_operation list"
  n_changes :: "entity_change list"
  n_narrativeChanged :: bool
  n_sequenceChanged :: bool
  n_parentChanges :: "(string, revision) gomap"
  n_trackChanges :: "(string, revision) gomap"

definition validateNormalizationInput :: "edit_env \<Rightarrow> normalize_input \<Rightarrow> edit_error + unit" where
  "validateNormalizationInput env input =
    (if ID_IsZero (ni_ProposalID input) \<or> ID_IsZero (ni_ProjectID input) \<or> ID_IsZero (ni_SequenceID input) \<or>
        \<not> ActorRef_Validate (ni_Actor input) \<or> ni_CreatedAt input = 0 \<or>
        st_ProjectID (ni_State input) \<noteq> ni_ProjectID input \<or> st_SequenceID (ni_State input) \<noteq> ni_SequenceID input \<or>
        st_ProjectRevision (ni_State input) < 1 \<or> st_DocumentRevision (ni_State input) < 1 \<or>
        st_SequenceRevision (ni_State input) < 1
     then Inl ErrEditInvalid
     else andThen (case actor_Kind (ni_Actor input) of
         ActorAgent \<Rightarrow> if ID_IsZero (ni_RunID input) \<or> ID_IsZero (ni_TurnID input) then Inl ErrEditInvalid else Inr ()
       | ActorCreator \<Rightarrow> if \<not> ID_IsZero (ni_RunID input) \<or> \<not> ID_IsZero (ni_TurnID input) then Inl ErrEditInvalid else Inr ()
       | ActorOther _ \<Rightarrow> Inl ErrEditInvalid) (\<lambda>_.
       andThen (validateEditProposeInput (env_bcp47 env) (ni_Input input)) (\<lambda>_.
       if validateAllocationMatchesOperations (ni_Allocation input) (in_Operations (ni_Input input))
       then Inr () else Inl ErrEditInvalid)))"

definition addAllocation :: "local_allocation \<Rightarrow> (string, local_allocation) gomap \<Rightarrow>
    edit_error + (string, local_allocation) gomap" where
  "addAllocation allocation allocations =
    (if gm_has allocations (alloc_Local allocation) \<or> \<not> validateEntityID (alloc_Kind allocation) (alloc_ID allocation)
     then Inl ErrEditInvalid else Inr (gm_set allocations (alloc_Local allocation) allocation))"

definition conditionTable :: "entity_precondition list \<Rightarrow> (string, revision) gomap" where
  "conditionTable preconditions =
    foldl (\<lambda>m condition. gm_set m (entityKey (pre_Kind condition) (pre_ID condition)) (pre_Revision condition)) [] preconditions"

text \<open>The maps of the state are copied; values are immutable here, so a copy is the value.\<close>

definition newEditNormalizer :: "normalize_input \<Rightarrow> edit_error + edit_normalizer" where
  "newEditNormalizer input =
    andThen (forEach addAllocation (ni_Allocation input) []) (\<lambda>allocations.
      let state = ni_State input in
      Inr \<lparr>n_input = input, n_allocations = allocations,
        n_conditions = conditionTable (in_Preconditions (ni_Input input)),
        n_sections = st_Sections state, n_texts = st_AuthoredTexts state,
        n_sourceExcerpts = st_SourceExcerpts state, n_visualIntents = st_VisualIntents state,
        n_notes = st_Notes state, n_sectionChildren = st_SectionChildCounts state,
        n_corrections = st_TranscriptCorrections state, n_captions = st_Captions state,
        n_clips = st_Clips state, n_linkGroups = st_LinkGroups state,
        n_linkGroupClips = st_LinkGroupClips state, n_alignments = st_Alignments state,
        n_touched = [], n_alignmentEffects = [], n_operations = [], n_inverse = [], n_changes = [],
        n_narrativeChanged = False, n_sequenceChanged = False, n_parentChanges = [], n_trackChanges = []\<rparr>)"

abbreviation n_state :: "edit_normalizer \<Rightarrow> edit_normalization_state" where
  "n_state n \<equiv> ni_State (n_input n)"

abbreviation n_sequence :: "edit_normalizer \<Rightarrow> SequenceID" where
  "n_sequence n \<equiv> ni_SequenceID (n_input n)"

section \<open>Helpers of the handlers\<close>

definition appendOperation :: "normalized_operation \<Rightarrow> normalized_operation \<Rightarrow> edit_normalizer \<Rightarrow> edit_normalizer" where
  "appendOperation operation undo n =
    n\<lparr>n_operations := n_operations n @ [operation], n_inverse := n_inverse n @ [undo]\<rparr>"

definition addChange :: "entity_change \<Rightarrow> edit_normalizer \<Rightarrow> edit_normalizer" where
  "addChange change n = n\<lparr>n_changes := n_changes n @ [change]\<rparr>"

definition isTouched :: "edit_normalizer \<Rightarrow> EditEntityKind \<Rightarrow> string \<Rightarrow> bool" where
  "isTouched n kind ident \<longleftrightarrow> gm_has (n_touched n) (entityKey kind ident)"

definition markTouched :: "EditEntityKind \<Rightarrow> string \<Rightarrow> edit_normalizer \<Rightarrow> edit_error + edit_normalizer" where
  "markTouched kind ident n =
    (if isTouched n kind ident then Inl ErrEditInvalid
     else Inr (n\<lparr>n_touched := gm_set (n_touched n) (entityKey kind ident) ()\<rparr>))"

definition require :: "EditEntityKind \<Rightarrow> string \<Rightarrow> revision \<Rightarrow> edit_normalizer \<Rightarrow> edit_error + unit" where
  "require kind ident revision n =
    (case gm_lookup (n_conditions n) (entityKey kind ident) of
       None \<Rightarrow> Inl (EditInvalid (MissingPrecondition kind ident))
     | Some provided \<Rightarrow> if provided \<noteq> revision then Inl (EditConflictOn kind ident provided revision) else Inr ())"

text \<open>A map lookup whose zero value the code's next check refuses.\<close>

definition fetch :: "('k, 'v) gomap \<Rightarrow> 'k \<Rightarrow> edit_error + 'v" where
  "fetch m k = someOr ErrEditInvalid (gm_lookup m k)"

text \<open>The allocation of a local symbol, checked for its kind.\<close>

definition allocated :: "LocalID \<Rightarrow> EditEntityKind \<Rightarrow> edit_normalizer \<Rightarrow> edit_error + local_allocation" where
  "allocated local kind n =
    andThen (fetch (n_allocations n) local) (\<lambda>allocation.
      if alloc_Kind allocation \<noteq> kind then Inl ErrEditInvalid else Inr allocation)"

text \<open>A parse whose error is discarded yields the zero identifier.\<close>

definition parseOrZero :: "string \<Rightarrow> string" where
  "parseOrZero value = (case ParseID value of Inl _ \<Rightarrow> '''' | Inr ident \<Rightarrow> ident)"

definition resolveReference :: "edit_reference \<Rightarrow> EditEntityKind \<Rightarrow> edit_normalizer \<Rightarrow> edit_error + string" where
  "resolveReference reference kind n =
    (if ref_ID reference \<noteq> ''''
     then if validateEntityID kind (ref_ID reference) then Inr (ref_ID reference) else Inl ErrEditInvalid
     else case ref_Local reference of
       None \<Rightarrow> Inl ErrEditInvalid
     | Some local \<Rightarrow> andThen (allocated local kind n) (\<lambda>allocation. Inr (alloc_ID allocation)))"

definition resolveTyped :: "EditEntityKind \<Rightarrow> edit_reference \<Rightarrow> edit_normalizer \<Rightarrow> edit_error + string" where
  "resolveTyped kind reference n =
    andThen (resolveReference reference kind n) (\<lambda>value.
      case ParseID value of Inl e \<Rightarrow> Inl (EditIdentity e) | Inr ident \<Rightarrow> Inr ident)"

definition resolveNodeReference :: "edit_reference \<Rightarrow> edit_normalizer \<Rightarrow> edit_error + NarrativeNodeID" where
  "resolveNodeReference reference n = resolveTyped EntityNarrativeNode reference n"

definition resolveCaptionReference :: "edit_reference \<Rightarrow> edit_normalizer \<Rightarrow> edit_error + CaptionID" where
  "resolveCaptionReference reference n = resolveTyped EntityCaption reference n"

definition resolveClipReference :: "edit_reference \<Rightarrow> edit_normalizer \<Rightarrow> edit_error + ClipID" where
  "resolveClipReference reference n = resolveTyped EntityClip reference n"

definition rangeWithin :: "time_range \<Rightarrow> rational_time \<Rightarrow> bool" where
  "rangeWithin local duration =
    (if \<not> isOk (RationalTime_Validate (tr_Start local)) \<or> RationalTime_IsNegative (tr_Start local) \<or>
        \<not> isOk (RationalTime_Validate (tr_Duration local)) \<or> \<not> RationalTime_IsPositive (tr_Duration local) \<or>
        \<not> isOk (RationalTime_Validate duration) then False
     else case andThen (TimeRange_End local) (\<lambda>end_time. RationalTime_Compare end_time duration) of
       Inl _ \<Rightarrow> False | Inr comparison \<Rightarrow> comparison \<le> 0)"

definition sourceRangeWithin :: "time_range \<Rightarrow> stream_descriptor \<Rightarrow> bool" where
  "sourceRangeWithin source descriptor =
    (if \<not> isOk (RationalTime_Validate (tr_Start source)) \<or> \<not> isOk (RationalTime_Validate (tr_Duration source)) \<or>
        \<not> RationalTime_IsPositive (tr_Duration source) then False
     else case TimeRange_End source of Inl _ \<Rightarrow> False | Inr sourceEnd \<Rightarrow>
       (case NewRationalTime 0 1 of Inl _ \<Rightarrow> False | Inr zero \<Rightarrow>
         (if (case sd_StartTime descriptor of None \<Rightarrow> False | Some t \<Rightarrow> \<not> isOk (RationalTime_Validate t)) then False
          else let coverageStart = (case sd_StartTime descriptor of None \<Rightarrow> zero | Some t \<Rightarrow> t) in
            case RationalTime_Compare (tr_Start source) coverageStart of Inl _ \<Rightarrow> False | Inr startsWithin \<Rightarrow>
              if startsWithin < 0 then False
              else case sd_Duration descriptor of None \<Rightarrow> True | Some duration \<Rightarrow>
                if \<not> isOk (RationalTime_Validate duration) \<or> RationalTime_IsNegative duration then False
                else case andThen (RationalTime_Add coverageStart duration)
                    (\<lambda>coverageEnd. RationalTime_Compare sourceEnd coverageEnd) of
                  Inl _ \<Rightarrow> False | Inr endsWithin \<Rightarrow> endsWithin \<le> 0)))"

definition rangesOverlap :: "time_range \<Rightarrow> time_range \<Rightarrow> bool" where
  "rangesOverlap left right =
    (case (TimeRange_End left, TimeRange_End right) of
       (Inr leftEnd, Inr rightEnd) \<Rightarrow>
         (case RationalTime_Compare (tr_Start left) rightEnd of Inl _ \<Rightarrow> True | Inr leftBeforeRightEnd \<Rightarrow>
           (case RationalTime_Compare (tr_Start right) leftEnd of Inl _ \<Rightarrow> True | Inr rightBeforeLeftEnd \<Rightarrow>
             leftBeforeRightEnd < 0 \<and> rightBeforeLeftEnd < 0))
     | _ \<Rightarrow> True)"

definition mustNext :: "revision \<Rightarrow> edit_error + revision" where
  "mustNext revision = orError PanicRevision (Revision_Next revision)"

definition newEntityChange :: "EditEntityKind \<Rightarrow> string \<Rightarrow> revision \<Rightarrow> bool \<Rightarrow> entity_change" where
  "newEntityChange kind ident after tombstoned = \<lparr>chg_Kind = kind, chg_ID = ident, chg_Before = None,
    chg_After = after, chg_Tombstoned = tombstoned\<rparr>"

definition existingEntityChange :: "EditEntityKind \<Rightarrow> string \<Rightarrow> revision \<Rightarrow> revision \<Rightarrow> bool \<Rightarrow> entity_change" where
  "existingEntityChange kind ident before after tombstoned = \<lparr>chg_Kind = kind, chg_ID = ident,
    chg_Before = Some before, chg_After = after, chg_Tombstoned = tombstoned\<rparr>"

definition EditEntityKind_of :: "string \<Rightarrow> EditEntityKind" where
  "EditEntityKind_of text =
    (if text = ''narrative-document'' then EntityNarrativeDocument
     else if text = ''narrative-node'' then EntityNarrativeNode
     else if text = ''sequence'' then EntitySequence
     else if text = ''track'' then EntityTrack
     else if text = ''caption'' then EntityCaption
     else if text = ''alignment'' then EntityAlignment
     else if text = ''clip'' then EntityClip
     else if text = ''link-group'' then EntityLinkGroup
     else if text = ''asset'' then EntityAsset
     else if text = ''transcript-correction'' then EntityTranscriptCorrection
     else EntityOther text)"

definition splitEntityKey :: "string \<Rightarrow> EditEntityKind \<times> string" where
  "splitEntityKey value = (let (kind, ident) = strings_cut NUL value in (EditEntityKind_of kind, ident))"

text \<open>Zero values of the structs that the code reads out of maps without a check.\<close>

definition zero_caption :: caption_state where
  "zero_caption = \<lparr>cap_ID = '''', cap_Revision = 0, cap_SequenceID = '''', cap_TrackID = '''',
    cap_Range = zero_time_range, cap_Language = '''', cap_Text = '''',
    cap_Provenance = \<lparr>prov_Kind = CaptionProvenanceOther '''', prov_Derivation = None\<rparr>,
    cap_ProvenanceStatus = None, cap_Tombstoned = False\<rparr>"

definition zero_clip :: clip_state where
  "zero_clip = \<lparr>clip_ID = '''', clip_Revision = 0, clip_SequenceID = '''', clip_TrackID = '''',
    clip_AssetID = '''', clip_SourceStreamID = '''', clip_SourceRange = zero_time_range,
    clip_TimelineRange = zero_time_range, clip_Enabled = False, clip_LinkGroupID = None,
    clip_Placement = None, clip_Tombstoned = False\<rparr>"

definition zero_link_group :: link_group_state where
  "zero_link_group = \<lparr>lg_ID = '''', lg_Revision = 0, lg_SequenceID = '''', lg_Tombstoned = False\<rparr>"

definition zero_excerpt :: source_excerpt_state where
  "zero_excerpt = \<lparr>exc_ID = '''', exc_Revision = 0, exc_DocumentID = '''', exc_ParentID = '''',
    exc_AfterNodeID = None, exc_AssetID = '''', exc_AcceptedFingerprint = '''', exc_SourceRange = zero_time_range,
    exc_Language = '''', exc_EffectiveText = '''',
    exc_Evidence = \<lparr>ev_ArtifactID = '''', ev_SourceStreamID = '''', ev_SegmentIDs = [], ev_CorrectionRevisions = []\<rparr>,
    exc_Tombstoned = False\<rparr>"

section \<open>Narrative nodes\<close>

fun narrativeNodeRevision :: "narrative_node_state \<Rightarrow> revision" where
  "narrativeNodeRevision (SectionNode s) = sec_Revision s"
| "narrativeNodeRevision (AuthoredTextNode t) = txt_Revision t"
| "narrativeNodeRevision (SourceExcerptNode e) = exc_Revision e"
| "narrativeNodeRevision (VisualIntentNode v) = vis_Revision v"
| "narrativeNodeRevision (NoteNode n) = note_Revision n"

fun narrativeNodeParentPointer :: "narrative_node_state \<Rightarrow> NarrativeNodeID option" where
  "narrativeNodeParentPointer (SectionNode s) = sec_ParentID s"
| "narrativeNodeParentPointer (AuthoredTextNode t) = Some (txt_ParentID t)"
| "narrativeNodeParentPointer (SourceExcerptNode e) = Some (exc_ParentID e)"
| "narrativeNodeParentPointer (VisualIntentNode v) = Some (vis_ParentID v)"
| "narrativeNodeParentPointer (NoteNode n) = Some (note_ParentID n)"

fun narrativeNodeAfter :: "narrative_node_state \<Rightarrow> NarrativeNodeID option" where
  "narrativeNodeAfter (SectionNode s) = sec_AfterNodeID s"
| "narrativeNodeAfter (AuthoredTextNode t) = txt_AfterNodeID t"
| "narrativeNodeAfter (SourceExcerptNode e) = exc_AfterNodeID e"
| "narrativeNodeAfter (VisualIntentNode v) = vis_AfterNodeID v"
| "narrativeNodeAfter (NoteNode n) = note_AfterNodeID n"

fun narrativeNodeTombstoned :: "narrative_node_state \<Rightarrow> bool" where
  "narrativeNodeTombstoned (SectionNode s) = sec_Tombstoned s"
| "narrativeNodeTombstoned (AuthoredTextNode t) = txt_Tombstoned t"
| "narrativeNodeTombstoned (SourceExcerptNode e) = exc_Tombstoned e"
| "narrativeNodeTombstoned (VisualIntentNode v) = vis_Tombstoned v"
| "narrativeNodeTombstoned (NoteNode n) = note_Tombstoned n"

fun narrativeNodeWithRevisionAndTombstone :: "narrative_node_state \<Rightarrow> revision \<Rightarrow> bool \<Rightarrow> narrative_node_state" where
  "narrativeNodeWithRevisionAndTombstone (SectionNode s) revision tombstoned =
    SectionNode (s\<lparr>sec_Revision := revision, sec_Tombstoned := tombstoned\<rparr>)"
| "narrativeNodeWithRevisionAndTombstone (AuthoredTextNode t) revision tombstoned =
    AuthoredTextNode (t\<lparr>txt_Revision := revision, txt_Tombstoned := tombstoned\<rparr>)"
| "narrativeNodeWithRevisionAndTombstone (SourceExcerptNode e) revision tombstoned =
    SourceExcerptNode (e\<lparr>exc_Revision := revision, exc_Tombstoned := tombstoned\<rparr>)"
| "narrativeNodeWithRevisionAndTombstone (VisualIntentNode v) revision tombstoned =
    VisualIntentNode (v\<lparr>vis_Revision := revision, vis_Tombstoned := tombstoned\<rparr>)"
| "narrativeNodeWithRevisionAndTombstone (NoteNode n) revision tombstoned =
    NoteNode (n\<lparr>note_Revision := revision, note_Tombstoned := tombstoned\<rparr>)"

definition narrativeNodeMoved ::
  "narrative_node_state \<Rightarrow> NarrativeNodeID \<Rightarrow> NarrativeNodeID option \<Rightarrow> revision \<Rightarrow> narrative_node_state" where
  "narrativeNodeMoved state parent after revision =
    (case narrativeNodeWithRevisionAndTombstone state revision False of
       SectionNode s \<Rightarrow> SectionNode (s\<lparr>sec_ParentID := Some parent, sec_AfterNodeID := after\<rparr>)
     | AuthoredTextNode t \<Rightarrow> AuthoredTextNode (t\<lparr>txt_ParentID := parent, txt_AfterNodeID := after\<rparr>)
     | SourceExcerptNode e \<Rightarrow> SourceExcerptNode (e\<lparr>exc_ParentID := parent, exc_AfterNodeID := after\<rparr>)
     | VisualIntentNode v \<Rightarrow> VisualIntentNode (v\<lparr>vis_ParentID := parent, vis_AfterNodeID := after\<rparr>)
     | NoteNode n \<Rightarrow> NoteNode (n\<lparr>note_ParentID := parent, note_AfterNodeID := after\<rparr>))"

text \<open>The node of an identifier: the maps are tried in the order of the source.\<close>

definition node_of_maps :: "(string, section_state) gomap \<Rightarrow> (string, authored_text_state) gomap \<Rightarrow>
    (string, source_excerpt_state) gomap \<Rightarrow> (string, visual_intent_state) gomap \<Rightarrow> (string, note_state) gomap \<Rightarrow>
    string \<Rightarrow> narrative_node_state option" where
  "node_of_maps sections texts excerpts visuals notes ident =
    (case gm_lookup sections ident of Some s \<Rightarrow> Some (SectionNode s) | None \<Rightarrow>
    (case gm_lookup texts ident of Some t \<Rightarrow> Some (AuthoredTextNode t) | None \<Rightarrow>
    (case gm_lookup excerpts ident of Some e \<Rightarrow> Some (SourceExcerptNode e) | None \<Rightarrow>
    (case gm_lookup visuals ident of Some v \<Rightarrow> Some (VisualIntentNode v) | None \<Rightarrow>
    (case gm_lookup notes ident of Some w \<Rightarrow> Some (NoteNode w) | None \<Rightarrow> None)))))"

definition narrativeNode :: "edit_normalizer \<Rightarrow> string \<Rightarrow> narrative_node_state option" where
  "narrativeNode n = node_of_maps (n_sections n) (n_texts n) (n_sourceExcerpts n) (n_visualIntents n) (n_notes n)"

definition narrativeNodeExists :: "edit_normalizer \<Rightarrow> string \<Rightarrow> bool" where
  "narrativeNodeExists n ident \<longleftrightarrow> narrativeNode n ident \<noteq> None"

fun setNarrativeNode :: "narrative_node_state \<Rightarrow> edit_normalizer \<Rightarrow> edit_normalizer" where
  "setNarrativeNode (SectionNode s) n = n\<lparr>n_sections := gm_set (n_sections n) (sec_ID s) s\<rparr>"
| "setNarrativeNode (AuthoredTextNode t) n = n\<lparr>n_texts := gm_set (n_texts n) (txt_ID t) t\<rparr>"
| "setNarrativeNode (SourceExcerptNode e) n = n\<lparr>n_sourceExcerpts := gm_set (n_sourceExcerpts n) (exc_ID e) e\<rparr>"
| "setNarrativeNode (VisualIntentNode v) n = n\<lparr>n_visualIntents := gm_set (n_visualIntents n) (vis_ID v) v\<rparr>"
| "setNarrativeNode (NoteNode w) n = n\<lparr>n_notes := gm_set (n_notes n) (note_ID w) w\<rparr>"

definition narrativeNodeParent :: "edit_normalizer \<Rightarrow> NarrativeNodeID \<Rightarrow> NarrativeNodeID" where
  "narrativeNodeParent n ident =
    (case narrativeNode n ident of None \<Rightarrow> ''''
     | Some state \<Rightarrow> (case narrativeNodeParentPointer state of None \<Rightarrow> '''' | Some parent \<Rightarrow> parent))"

definition isSectionNode :: "narrative_node_state \<Rightarrow> bool" where
  "isSectionNode state = (case state of SectionNode _ \<Rightarrow> True | _ \<Rightarrow> False)"

definition editNormalizer_narrativeNodeRevision :: "edit_normalizer \<Rightarrow> string \<Rightarrow> revision option" where
  "editNormalizer_narrativeNodeRevision n ident =
    (case narrativeNode n ident of None \<Rightarrow> None
     | Some state \<Rightarrow> if narrativeNodeTombstoned state \<or> isSectionNode state then None
         else Some (narrativeNodeRevision state))"

definition resolveNarrativeNodeReference ::
  "edit_reference option \<Rightarrow> edit_normalizer \<Rightarrow> edit_error + NarrativeNodeID option" where
  "resolveNarrativeNodeReference reference n =
    (case reference of None \<Rightarrow> Inr None
     | Some r \<Rightarrow>
         (case resolveNodeReference r n of Inl _ \<Rightarrow> Inl ErrEditInvalid
          | Inr ident \<Rightarrow>
              (case narrativeNode n ident of None \<Rightarrow> Inl ErrEditInvalid
               | Some state \<Rightarrow> if narrativeNodeTombstoned state then Inl ErrEditInvalid else Inr (Some ident))))"

section \<open>Writing an entity\<close>

text \<open>
  The code writes an entity by storing it in its map and appending the operation with its
  inverse. \<open>putEntity\<close> does both; \<open>ident\<close> is the key of the map.
\<close>

fun setEntity :: "string \<Rightarrow> normalized_operation \<Rightarrow> edit_normalizer \<Rightarrow> edit_normalizer" where
  "setEntity ident (PutNarrativeNode w) n = setNarrativeNode w n"
| "setEntity ident (PutCaption c) n = n\<lparr>n_captions := gm_set (n_captions n) ident c\<rparr>"
| "setEntity ident (PutAlignment a) n = n\<lparr>n_alignments := gm_set (n_alignments n) ident a\<rparr>"
| "setEntity ident (PutClip c) n = n\<lparr>n_clips := gm_set (n_clips n) ident c\<rparr>"
| "setEntity ident (PutLinkGroup g) n = n\<lparr>n_linkGroups := gm_set (n_linkGroups n) ident g\<rparr>"
| "setEntity ident (PutTranscriptCorrection r) n = n\<lparr>n_corrections := gm_set (n_corrections n) ident r\<rparr>"
| "setEntity ident (PutAsset _) n = n"
| "setEntity ident (RestoreProjectVersion _) n = n"

definition putEntity :: "string \<Rightarrow> normalized_operation \<Rightarrow> normalized_operation \<Rightarrow> edit_normalizer \<Rightarrow> edit_normalizer" where
  "putEntity ident operation undo n = appendOperation operation undo (setEntity ident operation n)"

definition noteTrack :: "edit_track_state \<Rightarrow> edit_normalizer \<Rightarrow> edit_normalizer" where
  "noteTrack track n = n\<lparr>n_trackChanges := gm_set (n_trackChanges n) (trk_ID track) (trk_Revision track)\<rparr>"

end
