(* ===== verification/Normalizer_Log.thy ===== *)
theory Normalizer_Log
  imports Normalizer_State
begin

text \<open>
  The normalizer read as a state of the log machine of \<open>Edit_Log\<close>, and the lemmas with which
  each handler is shown to take steps of that machine: how the maps of the normalizer make up
  the store, how the touched set and the aggregate revisions are read, and that the machine
  may reserve a key ahead of writing it.
\<close>

section \<open>Keys\<close>

definition proper_kind :: "EditEntityKind \<Rightarrow> bool" where
  "proper_kind kind = (case kind of EntityOther _ \<Rightarrow> False | _ \<Rightarrow> True)"

lemma proper_kind_simps [simp]:
  "proper_kind EntityNarrativeDocument" "proper_kind EntityNarrativeNode" "proper_kind EntitySequence"
  "proper_kind EntityTrack" "proper_kind EntityCaption" "proper_kind EntityAlignment" "proper_kind EntityClip"
  "proper_kind EntityLinkGroup" "proper_kind EntityAsset" "proper_kind EntityTranscriptCorrection"
  "\<not> proper_kind (EntityOther s)"
  by (simp_all add: proper_kind_def)

lemma proper_kind_no_NUL: "proper_kind kind \<Longrightarrow> NUL \<notin> set (EditEntityKind_string kind)"
  by (cases kind) simp_all

lemma EditEntityKind_of_string: "proper_kind kind \<Longrightarrow> EditEntityKind_of (EditEntityKind_string kind) = kind"
  by (cases kind) (simp_all add: EditEntityKind_of_def)

lemma splitEntityKey_entityKey [simp]: "proper_kind kind \<Longrightarrow> splitEntityKey (entityKey kind ident) = (kind, ident)"
  by (simp add: splitEntityKey_def entityKey_def strings_cut_append proper_kind_no_NUL EditEntityKind_of_string)

lemma entityKey_inject [simp]:
  assumes "proper_kind kind" "proper_kind kind'"
  shows "entityKey kind ident = entityKey kind' ident' \<longleftrightarrow> kind = kind' \<and> ident = ident'"
proof
  assume "entityKey kind ident = entityKey kind' ident'"
  then have "splitEntityKey (entityKey kind ident) = splitEntityKey (entityKey kind' ident')" by (rule arg_cong)
  then show "kind = kind' \<and> ident = ident'"
    unfolding splitEntityKey_entityKey [OF assms(1)] splitEntityKey_entityKey [OF assms(2)] by simp
qed simp

section \<open>The abstraction\<close>

definition store_of_maps :: "(string \<Rightarrow> narrative_node_state option) \<Rightarrow> (string, caption_state) gomap \<Rightarrow>
    (string, alignment_state) gomap \<Rightarrow> (string, clip_state) gomap \<Rightarrow> (string, link_group_state) gomap \<Rightarrow>
    (string, correction_state) gomap \<Rightarrow> entity_store" where
  "store_of_maps nodes captions alignments clips groups corrections k =
    (case fst k of
       EntityNarrativeNode \<Rightarrow> map_option PutNarrativeNode (nodes (snd k))
     | EntityCaption \<Rightarrow> map_option PutCaption (gm_lookup captions (snd k))
     | EntityAlignment \<Rightarrow> map_option PutAlignment (gm_lookup alignments (snd k))
     | EntityClip \<Rightarrow> map_option PutClip (gm_lookup clips (snd k))
     | EntityLinkGroup \<Rightarrow> map_option PutLinkGroup (gm_lookup groups (snd k))
     | EntityTranscriptCorrection \<Rightarrow> map_option PutTranscriptCorrection (gm_lookup corrections (snd k))
     | _ \<Rightarrow> None)"

definition abs_store :: "edit_normalizer \<Rightarrow> entity_store" where
  "abs_store n = store_of_maps (narrativeNode n) (n_captions n) (n_alignments n) (n_clips n) (n_linkGroups n) (n_corrections n)"

definition input_store :: "edit_normalization_state \<Rightarrow> entity_store" where
  "input_store state = store_of_maps
    (node_of_maps (st_Sections state) (st_AuthoredTexts state) (st_SourceExcerpts state) (st_VisualIntents state) (st_Notes state))
    (st_Captions state) (st_Alignments state) (st_Clips state) (st_LinkGroups state) (st_TranscriptCorrections state)"

definition touched_keys :: "(string, unit) gomap \<Rightarrow> entity_key set" where
  "touched_keys touched = {k. entity_kind (fst k) \<and> gm_has touched (entityKey (fst k) (snd k))}"

lemma entity_kind_proper [simp]: "entity_kind kind \<Longrightarrow> proper_kind kind"
  by (auto simp: entity_kind_def)

definition aggregates_of_maps :: "(string, revision) gomap \<Rightarrow> (string, revision) gomap \<Rightarrow> entity_key \<Rightarrow> revision option" where
  "aggregates_of_maps parents tracks k =
    (case fst k of
       EntityNarrativeNode \<Rightarrow> gm_lookup parents (snd k)
     | EntityTrack \<Rightarrow> gm_lookup tracks (snd k)
     | _ \<Rightarrow> None)"

definition abs_log :: "edit_normalizer \<Rightarrow> edit_log" where
  "abs_log n = \<lparr>log_store = abs_store n, log_touched = touched_keys (n_touched n),
    log_entries = zip (n_operations n) (n_inverse n), log_changes = n_changes n,
    log_aggregates = aggregates_of_maps (n_parentChanges n) (n_trackChanges n)\<rparr>"

text \<open>The preconditions of the request, as the machine reads them.\<close>

definition conds :: "edit_normalizer \<Rightarrow> entity_key \<Rightarrow> revision option" where
  "conds n k = (if proper_kind (fst k) then gm_lookup (n_conditions n) (entityKey (fst k) (snd k)) else None)"

lemma store_of_maps_put [simp]:
  "store_of_maps nodes (gm_set captions ident c) alignments clips groups corrections =
    (store_of_maps nodes captions alignments clips groups corrections)((EntityCaption, ident) \<mapsto> PutCaption c)"
  "store_of_maps nodes captions (gm_set alignments ident a) clips groups corrections =
    (store_of_maps nodes captions alignments clips groups corrections)((EntityAlignment, ident) \<mapsto> PutAlignment a)"
  "store_of_maps nodes captions alignments (gm_set clips ident k) groups corrections =
    (store_of_maps nodes captions alignments clips groups corrections)((EntityClip, ident) \<mapsto> PutClip k)"
  "store_of_maps nodes captions alignments clips (gm_set groups ident g) corrections =
    (store_of_maps nodes captions alignments clips groups corrections)((EntityLinkGroup, ident) \<mapsto> PutLinkGroup g)"
  "store_of_maps nodes captions alignments clips groups (gm_set corrections ident r) =
    (store_of_maps nodes captions alignments clips groups corrections)((EntityTranscriptCorrection, ident) \<mapsto> PutTranscriptCorrection r)"
  "store_of_maps (nodes(ident \<mapsto> w)) captions alignments clips groups corrections =
    (store_of_maps nodes captions alignments clips groups corrections)((EntityNarrativeNode, ident) \<mapsto> PutNarrativeNode w)"
  by (auto simp: store_of_maps_def fun_eq_iff split: EditEntityKind.splits)

lemma store_of_maps_at [simp]:
  "store_of_maps nodes captions alignments clips groups corrections (EntityNarrativeNode, ident) = map_option PutNarrativeNode (nodes ident)"
  "store_of_maps nodes captions alignments clips groups corrections (EntityCaption, ident) = map_option PutCaption (gm_lookup captions ident)"
  "store_of_maps nodes captions alignments clips groups corrections (EntityAlignment, ident) = map_option PutAlignment (gm_lookup alignments ident)"
  "store_of_maps nodes captions alignments clips groups corrections (EntityClip, ident) = map_option PutClip (gm_lookup clips ident)"
  "store_of_maps nodes captions alignments clips groups corrections (EntityLinkGroup, ident) = map_option PutLinkGroup (gm_lookup groups ident)"
  "store_of_maps nodes captions alignments clips groups corrections (EntityTranscriptCorrection, ident) =
    map_option PutTranscriptCorrection (gm_lookup corrections ident)"
  "store_of_maps nodes captions alignments clips groups corrections (EntityTrack, ident) = None"
  by (simp_all add: store_of_maps_def)

lemma touched_keys_set [simp]:
  "entity_kind kind \<Longrightarrow> touched_keys (gm_set touched (entityKey kind ident) ()) = insert (kind, ident) (touched_keys touched)"
  by (auto simp: touched_keys_def)

lemma touched_keys_Nil [simp]: "touched_keys [] = {}"
  by (simp add: touched_keys_def)

lemma touched_track [simp]: "(EntityTrack, i) \<notin> touched_keys touched"
  by (simp add: touched_keys_def)

lemma isTouched_iff: "entity_kind kind \<Longrightarrow> isTouched n kind ident \<longleftrightarrow> (kind, ident) \<in> touched_keys (n_touched n)"
  by (simp add: isTouched_def touched_keys_def)

lemma aggregates_of_maps_put [simp]:
  "aggregates_of_maps (gm_set parents ident r) tracks = (aggregates_of_maps parents tracks)((EntityNarrativeNode, ident) \<mapsto> r)"
  "aggregates_of_maps parents (gm_set tracks ident r) = (aggregates_of_maps parents tracks)((EntityTrack, ident) \<mapsto> r)"
  "aggregates_of_maps (gm_delete parents ident) tracks = (aggregates_of_maps parents tracks)((EntityNarrativeNode, ident) := None)"
  by (auto simp: aggregates_of_maps_def fun_eq_iff split: EditEntityKind.splits)

lemma aggregates_of_maps_at [simp]:
  "aggregates_of_maps parents tracks (EntityNarrativeNode, i) = gm_lookup parents i"
  "aggregates_of_maps parents tracks (EntityTrack, i) = gm_lookup tracks i"
  "aggregates_of_maps parents tracks (EntityCaption, i) = None" "aggregates_of_maps parents tracks (EntityAlignment, i) = None"
  "aggregates_of_maps parents tracks (EntityClip, i) = None" "aggregates_of_maps parents tracks (EntityLinkGroup, i) = None"
  "aggregates_of_maps parents tracks (EntityTranscriptCorrection, i) = None"
  by (simp_all add: aggregates_of_maps_def)

lemma require_Inr [go_result]:
  "proper_kind kind \<Longrightarrow> require kind ident revision n = Inr u \<longleftrightarrow> conds n (kind, ident) = Some revision"
  by (auto simp: require_def conds_def split: option.splits)

lemma markTouched_Inr:
  "entity_kind kind \<Longrightarrow> markTouched kind ident n = Inr n' \<longleftrightarrow>
    (kind, ident) \<notin> touched_keys (n_touched n) \<and> n' = n\<lparr>n_touched := gm_set (n_touched n) (entityKey kind ident) ()\<rparr>"
  by (auto simp: markTouched_def isTouched_iff)

lemma mustNext_Inr [go_result]: "mustNext r = Inr r' \<longleftrightarrow> Revision_Next r = Inr r'"
  by (simp add: mustNext_def go_result)

lemma fetch_Inr [go_result]: "fetch m k = Inr v \<longleftrightarrow> gm_lookup m k = Some v"
  by (simp add: fetch_def go_result)

section \<open>Nodes in the store\<close>

fun same_kind :: "narrative_node_state \<Rightarrow> narrative_node_state \<Rightarrow> bool" where
  "same_kind (SectionNode _) (SectionNode _) = True"
| "same_kind (AuthoredTextNode _) (AuthoredTextNode _) = True"
| "same_kind (SourceExcerptNode _) (SourceExcerptNode _) = True"
| "same_kind (VisualIntentNode _) (VisualIntentNode _) = True"
| "same_kind (NoteNode _) (NoteNode _) = True"
| "same_kind _ _ = False"

lemma narrativeNode_set:
  assumes "\<And>cur. narrativeNode n (NarrativeNodeState_ID s) = Some cur \<Longrightarrow> same_kind cur s"
  shows "narrativeNode (setNarrativeNode s n) = (narrativeNode n)(NarrativeNodeState_ID s \<mapsto> s)"
proof
  fix i
  show "narrativeNode (setNarrativeNode s n) i = ((narrativeNode n)(NarrativeNodeState_ID s \<mapsto> s)) i"
    using assms by (cases s) (auto simp: narrativeNode_def node_of_maps_def split: option.splits)
qed

lemma narrativeNode_update [simp]:
  "narrativeNode (n\<lparr>n_sectionChildren := a\<rparr>) = narrativeNode n" "narrativeNode (n\<lparr>n_corrections := b\<rparr>) = narrativeNode n"
  "narrativeNode (n\<lparr>n_captions := c\<rparr>) = narrativeNode n" "narrativeNode (n\<lparr>n_clips := d\<rparr>) = narrativeNode n"
  "narrativeNode (n\<lparr>n_linkGroups := e\<rparr>) = narrativeNode n" "narrativeNode (n\<lparr>n_linkGroupClips := f\<rparr>) = narrativeNode n"
  "narrativeNode (n\<lparr>n_alignments := g\<rparr>) = narrativeNode n" "narrativeNode (n\<lparr>n_touched := h\<rparr>) = narrativeNode n"
  "narrativeNode (n\<lparr>n_alignmentEffects := i\<rparr>) = narrativeNode n" "narrativeNode (n\<lparr>n_operations := j\<rparr>) = narrativeNode n"
  "narrativeNode (n\<lparr>n_inverse := k\<rparr>) = narrativeNode n" "narrativeNode (n\<lparr>n_changes := l\<rparr>) = narrativeNode n"
  "narrativeNode (n\<lparr>n_narrativeChanged := m\<rparr>) = narrativeNode n" "narrativeNode (n\<lparr>n_sequenceChanged := q\<rparr>) = narrativeNode n"
  "narrativeNode (n\<lparr>n_parentChanges := r\<rparr>) = narrativeNode n" "narrativeNode (n\<lparr>n_trackChanges := t\<rparr>) = narrativeNode n"
  by (simp_all add: narrativeNode_def)

lemma setNarrativeNode_frame [simp]:
  "n_input (setNarrativeNode s n) = n_input n" "n_allocations (setNarrativeNode s n) = n_allocations n"
  "n_conditions (setNarrativeNode s n) = n_conditions n" "n_sectionChildren (setNarrativeNode s n) = n_sectionChildren n"
  "n_corrections (setNarrativeNode s n) = n_corrections n" "n_captions (setNarrativeNode s n) = n_captions n"
  "n_clips (setNarrativeNode s n) = n_clips n" "n_linkGroups (setNarrativeNode s n) = n_linkGroups n"
  "n_linkGroupClips (setNarrativeNode s n) = n_linkGroupClips n" "n_alignments (setNarrativeNode s n) = n_alignments n"
  "n_touched (setNarrativeNode s n) = n_touched n" "n_alignmentEffects (setNarrativeNode s n) = n_alignmentEffects n"
  "n_operations (setNarrativeNode s n) = n_operations n" "n_inverse (setNarrativeNode s n) = n_inverse n"
  "n_changes (setNarrativeNode s n) = n_changes n" "n_parentChanges (setNarrativeNode s n) = n_parentChanges n"
  "n_trackChanges (setNarrativeNode s n) = n_trackChanges n"
  by (cases s; simp)+

lemma narrativeNode_section: "gm_lookup (n_sections n) ident = Some s \<Longrightarrow> narrativeNode n ident = Some (SectionNode s)"
  by (simp add: narrativeNode_def node_of_maps_def)

lemma narrativeNodeRevision_eq [simp]: "narrativeNodeRevision w = NarrativeNodeState_RevisionValue w"
  by (cases w) simp_all

lemma narrativeNodeTombstoned_eq [simp]: "narrativeNodeTombstoned w = NarrativeNodeState_IsTombstoned w"
  by (cases w) simp_all

section \<open>Runs of handlers\<close>

text \<open>What no handler changes: the request, its allocation and its preconditions.\<close>

definition keeps_request :: "edit_normalizer \<Rightarrow> edit_normalizer \<Rightarrow> bool" where
  "keeps_request n n' \<longleftrightarrow> n_input n' = n_input n \<and> n_allocations n' = n_allocations n \<and>
    n_conditions n' = n_conditions n"

definition paired :: "edit_normalizer \<Rightarrow> bool" where
  "paired n \<longleftrightarrow> length (n_operations n) = length (n_inverse n)"

text \<open>\<open>advances n n'\<close>: from \<open>n\<close> to \<open>n'\<close> the normalizer took steps of the machine.\<close>

definition advances :: "edit_normalizer \<Rightarrow> edit_normalizer \<Rightarrow> bool" where
  "advances n n' \<longleftrightarrow> keeps_request n n' \<and> paired n' \<and> edit_steps (conds n) (abs_log n) (abs_log n')"

text \<open>The identifiers of the allocation are new to the state.\<close>

definition fresh_allocations :: "edit_normalizer \<Rightarrow> bool" where
  "fresh_allocations n \<longleftrightarrow> (\<forall>local a. gm_lookup (n_allocations n) local = Some a \<longrightarrow>
    input_store (n_state n) (alloc_Kind a, alloc_ID a) = None)"

text \<open>
  A run of the machine from the given state is under way; within a handler some keys may be
  reserved and not yet written. It is settled when none is.
\<close>

definition settled :: "edit_normalizer \<Rightarrow> bool" where
  "settled n \<longleftrightarrow> edit_steps (conds n) (start_log (input_store (n_state n))) (abs_log n)"

definition running :: "edit_normalizer \<Rightarrow> bool" where
  "running n \<longleftrightarrow> store_wf (input_store (n_state n)) \<and> fresh_allocations n \<and> paired n \<and>
    (\<exists>R t. edit_steps (conds n) (start_log (input_store (n_state n))) t \<and> abs_log n = reserve R t)"

text \<open>\<open>marked k n m\<close>: \<open>m\<close> is \<open>n\<close> after some steps, with \<open>k\<close> reserved and not written.\<close>

definition marked :: "entity_key \<Rightarrow> edit_normalizer \<Rightarrow> edit_normalizer \<Rightarrow> bool" where
  "marked k n m \<longleftrightarrow> keeps_request n m \<and> paired m \<and>
    (\<exists>t. edit_steps (conds n) (abs_log n) t \<and> abs_log m = reserve {k} t \<and> k \<notin> log_touched t)"

lemma keeps_request_conds: "keeps_request n n' \<Longrightarrow> conds n' = conds n"
  by (auto simp: keeps_request_def conds_def)

lemma keeps_request_trans: "keeps_request a b \<Longrightarrow> keeps_request b c \<Longrightarrow> keeps_request a c"
  by (simp add: keeps_request_def)

lemma advances_refl [simp]: "paired n \<Longrightarrow> advances n n"
  by (simp add: advances_def keeps_request_def)

lemma advances_trans [trans]: "advances a b \<Longrightarrow> advances b c \<Longrightarrow> advances a c"
  using keeps_request_conds [of a b] unfolding advances_def keeps_request_def
  by (simp add: rtranclp_trans [of "edit_step (conds a)" "abs_log a" "abs_log b" "abs_log c"])

lemma advances_conds: "advances n n' \<Longrightarrow> conds n' = conds n"
  using keeps_request_conds by (auto simp: advances_def)

lemma advances_input: "advances n n' \<Longrightarrow> n_input n' = n_input n"
  by (simp add: advances_def keeps_request_def)

lemma advances_touched: "advances n n' \<Longrightarrow> touched_keys (n_touched n) \<subseteq> touched_keys (n_touched n')"
  using edit_steps_touched_mono [of "conds n" "abs_log n" "abs_log n'"] by (simp add: advances_def abs_log_def)

lemma advances_running:
  assumes "running n" "advances n n'"
  shows "running n'"
proof -
  from assms(1) obtain R t where t: "edit_steps (conds n) (start_log (input_store (n_state n))) t" "abs_log n = reserve R t"
    unfolding running_def by blast
  from assms(2) have "edit_steps (conds n) (reserve R t) (abs_log n')" unfolding advances_def t(2) by blast
  from edit_steps_reserved [OF this] obtain t' where "edit_steps (conds n) t t'" "abs_log n' = reserve R t'" by blast
  with t(1) have "edit_steps (conds n) (start_log (input_store (n_state n))) t'" "abs_log n' = reserve R t'"
    by (auto dest: rtranclp_trans)
  with assms show ?thesis unfolding running_def fresh_allocations_def advances_def
    using keeps_request_conds [of n n'] by (auto simp: keeps_request_def)
qed

lemma advances_settled: "settled n \<Longrightarrow> advances n n' \<Longrightarrow> settled n'"
  using keeps_request_conds [of n n'] unfolding settled_def advances_def keeps_request_def
  by (simp add: rtranclp_trans [of "edit_step (conds n)" _ "abs_log n" "abs_log n'"])

lemma running_paired [simp]: "running n \<Longrightarrow> paired n"
  by (simp add: running_def)

lemma running_untouched:
  assumes "running n" "k \<notin> touched_keys (n_touched n)"
  shows "abs_store n k = input_store (n_state n) k"
proof -
  from assms(1) obtain R t where t: "edit_steps (conds n) (start_log (input_store (n_state n))) t" "abs_log n = reserve R t"
    unfolding running_def by blast
  have "log_touched (abs_log n) = touched_keys (n_touched n)" "log_store (abs_log n) = abs_store n"
    by (simp_all add: abs_log_def)
  with assms(2) t(2) have "k \<notin> log_touched t" "log_store t = abs_store n" by auto
  with log_inv_untouched [OF log_inv_run [OF t(1)], of k] show ?thesis by simp
qed

lemma running_wf: "running n \<Longrightarrow> store_wf (abs_store n)"
proof -
  assume n: "running n"
  then obtain R t where t: "edit_steps (conds n) (start_log (input_store (n_state n))) t" "abs_log n = reserve R t"
    unfolding running_def by blast
  have "log_store (abs_log n) = abs_store n" by (simp add: abs_log_def)
  with t(2) have "abs_store n = log_store t" by simp
  also have "\<dots> = replay (input_store (n_state n)) (map fst (log_entries t))"
    using log_inv_run [OF t(1)] by (simp add: log_inv_def)
  finally show ?thesis using n store_wf_replay by (simp add: running_def)
qed

lemma running_key: "running n \<Longrightarrow> abs_store n k = Some e \<Longrightarrow> entity_key e = k"
  by (rule store_wfD [OF running_wf])

lemma running_caption_ID: "running n \<Longrightarrow> gm_lookup (n_captions n) i = Some c \<Longrightarrow> cap_ID c = i"
  using running_key [of n "(EntityCaption, i)" "PutCaption c"] by (simp add: abs_store_def)

lemma running_alignment_ID: "running n \<Longrightarrow> gm_lookup (n_alignments n) i = Some a \<Longrightarrow> al_ID a = i"
  using running_key [of n "(EntityAlignment, i)" "PutAlignment a"] by (simp add: abs_store_def)

lemma running_clip_ID: "running n \<Longrightarrow> gm_lookup (n_clips n) i = Some c \<Longrightarrow> clip_ID c = i"
  using running_key [of n "(EntityClip, i)" "PutClip c"] by (simp add: abs_store_def)

lemma running_group_ID: "running n \<Longrightarrow> gm_lookup (n_linkGroups n) i = Some g \<Longrightarrow> lg_ID g = i"
  using running_key [of n "(EntityLinkGroup, i)" "PutLinkGroup g"] by (simp add: abs_store_def)

lemma running_correction_ID: "running n \<Longrightarrow> gm_lookup (n_corrections n) i = Some r \<Longrightarrow> cor_ID r = i"
  using running_key [of n "(EntityTranscriptCorrection, i)" "PutTranscriptCorrection r"] by (simp add: abs_store_def)

lemma running_node_ID: "running n \<Longrightarrow> narrativeNode n i = Some w \<Longrightarrow> NarrativeNodeState_ID w = i"
  using running_key [of n "(EntityNarrativeNode, i)" "PutNarrativeNode w"] by (simp add: abs_store_def)

lemma running_section_ID: "running n \<Longrightarrow> gm_lookup (n_sections n) i = Some s \<Longrightarrow> sec_ID s = i"
  using running_node_ID [OF _ narrativeNode_section] by fastforce

section \<open>Reserving and writing a key\<close>

lemma markTouched_marked:
  assumes "paired n" "entity_kind kind" "markTouched kind ident n = Inr m"
  shows "marked (kind, ident) n m"
proof -
  have m: "m = n\<lparr>n_touched := gm_set (n_touched n) (entityKey kind ident) ()\<rparr>" "(kind, ident) \<notin> touched_keys (n_touched n)"
    using assms by (simp_all add: markTouched_Inr)
  have "abs_log m = reserve {(kind, ident)} (abs_log n)"
    using assms(2) by (simp add: m(1) abs_log_def abs_store_def reserve_def)
  moreover have "(kind, ident) \<notin> log_touched (abs_log n)" using m(2) by (simp add: abs_log_def)
  ultimately show ?thesis using assms(1) unfolding marked_def
    by (auto simp: m(1) keeps_request_def paired_def intro!: exI [of _ "abs_log n"])
qed

lemma marked_advances: "marked k n m \<Longrightarrow> advances m m' \<Longrightarrow> marked k n m'"
proof -
  assume mk: "marked k n m" and adv: "advances m m'"
  then obtain t where t: "edit_steps (conds n) (abs_log n) t" "abs_log m = reserve {k} t" "k \<notin> log_touched t"
    unfolding marked_def by blast
  have "conds m = conds n" using mk by (intro keeps_request_conds) (simp add: marked_def)
  with adv t(2) have "edit_steps (conds n) (reserve {k} t) (abs_log m')" by (simp add: advances_def)
  from edit_steps_reserved [OF this] t(3) obtain t'
    where t': "edit_steps (conds n) t t'" "abs_log m' = reserve {k} t'" "k \<notin> log_touched t'" by blast
  from t(1) t'(1) have "edit_steps (conds n) (abs_log n) t'" by (rule rtranclp_trans)
  with t' mk adv show ?thesis unfolding marked_def advances_def by (auto intro: keeps_request_trans)
qed

lemma marked_running: "running n \<Longrightarrow> marked k n m \<Longrightarrow> running m"
proof -
  assume n: "running n" and mk: "marked k n m"
  then obtain t where t: "edit_steps (conds n) (abs_log n) t" "abs_log m = reserve {k} t"
    unfolding marked_def by blast
  from n obtain R u where u: "edit_steps (conds n) (start_log (input_store (n_state n))) u" "abs_log n = reserve R u"
    unfolding running_def by blast
  from t(1) u(2) have "edit_steps (conds n) (reserve R u) t" by simp
  from edit_steps_reserved [OF this] obtain t' where t': "edit_steps (conds n) u t'" "t = reserve R t'" by blast
  from u(1) t'(1) have "edit_steps (conds n) (start_log (input_store (n_state n))) t'" by (rule rtranclp_trans)
  moreover have "abs_log m = reserve ({k} \<union> R) t'" using t(2) t'(2) by simp
  moreover have "conds m = conds n" using mk by (intro keeps_request_conds) (simp add: marked_def)
  ultimately show ?thesis using n mk unfolding running_def fresh_allocations_def marked_def keeps_request_def by auto
qed

lemma marked_untouched: "marked k n m \<Longrightarrow> k \<notin> touched_keys (n_touched n)"
  using edit_steps_touched_mono [of "conds n" "abs_log n"] unfolding marked_def by (auto simp: abs_log_def)

text \<open>Until it is written, a marked key has the entity the run started with.\<close>

lemma marked_store:
  assumes "running n" "marked k n m"
  shows "abs_store m k = input_store (n_state n) k"
proof -
  from assms(2) obtain t where t: "edit_steps (conds n) (abs_log n) t" "abs_log m = reserve {k} t" "k \<notin> log_touched t"
    unfolding marked_def by blast
  from assms(1) obtain R u where u: "edit_steps (conds n) (start_log (input_store (n_state n))) u" "abs_log n = reserve R u"
    unfolding running_def by blast
  from t(1) u(2) have "edit_steps (conds n) (reserve R u) t" by simp
  from edit_steps_reserved [OF this] obtain t' where t': "edit_steps (conds n) u t'" "t = reserve R t'" by blast
  from u(1) t'(1) have "edit_steps (conds n) (start_log (input_store (n_state n))) t'" by (rule rtranclp_trans)
  then have "log_store t' k = input_store (n_state n) k"
    using t(3) t'(2) by (intro log_inv_untouched [OF log_inv_run]) auto
  moreover have "log_store (abs_log m) = abs_store m" by (simp add: abs_log_def)
  ultimately show ?thesis using t(2) t'(2) by simp
qed

lemma marked_store_same: "running n \<Longrightarrow> marked k n m \<Longrightarrow> abs_store m k = abs_store n k"
  using marked_store marked_untouched running_untouched by metis

text \<open>The entity of a kind the store holds, at the key of the map that holds it.\<close>

definition puts :: "string \<Rightarrow> entity \<Rightarrow> edit_normalizer \<Rightarrow> bool" where
  "puts ident e n = (case e of
     PutNarrativeNode w \<Rightarrow> ident = NarrativeNodeState_ID w \<and>
       (case narrativeNode n ident of None \<Rightarrow> True | Some cur \<Rightarrow> same_kind cur w)
   | PutAsset _ \<Rightarrow> False | RestoreProjectVersion _ \<Rightarrow> False
   | _ \<Rightarrow> ident = snd (entity_key e))"

lemma puts_simps [simp]:
  "puts ident (PutCaption c) n \<longleftrightarrow> ident = cap_ID c" "puts ident (PutAlignment a) n \<longleftrightarrow> ident = al_ID a"
  "puts ident (PutClip k) n \<longleftrightarrow> ident = clip_ID k" "puts ident (PutLinkGroup g) n \<longleftrightarrow> ident = lg_ID g"
  "puts ident (PutTranscriptCorrection r) n \<longleftrightarrow> ident = cor_ID r"
  by (auto simp: puts_def)

lemma abs_store_setEntity: "puts ident e n \<Longrightarrow> abs_store (setEntity ident e n) = (abs_store n)(entity_key e \<mapsto> e)"
proof (cases e)
  case (PutNarrativeNode w)
  moreover assume "puts ident e n"
  ultimately have "narrativeNode (setNarrativeNode w n) = (narrativeNode n)(NarrativeNodeState_ID w \<mapsto> w)"
    by (intro narrativeNode_set) (auto simp: puts_def split: option.splits)
  then show ?thesis by (simp add: PutNarrativeNode abs_store_def)
qed (auto simp: puts_def abs_store_def)

lemma setEntity_frame [simp]:
  "n_input (setEntity ident e n) = n_input n" "n_allocations (setEntity ident e n) = n_allocations n"
  "n_conditions (setEntity ident e n) = n_conditions n" "n_sectionChildren (setEntity ident e n) = n_sectionChildren n"
  "n_linkGroupClips (setEntity ident e n) = n_linkGroupClips n" "n_touched (setEntity ident e n) = n_touched n"
  "n_alignmentEffects (setEntity ident e n) = n_alignmentEffects n" "n_operations (setEntity ident e n) = n_operations n"
  "n_inverse (setEntity ident e n) = n_inverse n" "n_changes (setEntity ident e n) = n_changes n"
  "n_parentChanges (setEntity ident e n) = n_parentChanges n" "n_trackChanges (setEntity ident e n) = n_trackChanges n"
  by (cases e; simp)+

lemma abs_log_put:
  assumes "paired m" "puts ident e m" "entity_key e \<in> touched_keys (n_touched m)"
    and "change = change_of (entity_key e) before (entity_revision e) (entity_dead e)"
  shows "abs_log (addChange change (putEntity ident e undo m)) = log_write (abs_log m) e undo before"
proof -
  have "abs_store (addChange change (putEntity ident e undo m)) = (abs_store m)(entity_key e \<mapsto> e)"
    unfolding abs_store_setEntity [OF assms(2), symmetric]
    by (simp add: addChange_def putEntity_def appendOperation_def abs_store_def)
  then show ?thesis using assms
    by (simp add: abs_log_def log_write_def addChange_def putEntity_def appendOperation_def paired_def insert_absorb)
qed

lemma put_frame:
  "keeps_request m (addChange change (putEntity ident e undo m))"
  "paired m \<Longrightarrow> paired (addChange change (putEntity ident e undo m))"
  by (simp_all add: keeps_request_def paired_def addChange_def putEntity_def appendOperation_def)

lemma marked_put:
  assumes mk: "marked k n m" and log: "abs_log n' = log_write (abs_log m) e undo before" "entity_key e = k"
    and keeps: "keeps_request m n'" "paired n'"
    and step: "\<And>t. k \<notin> log_touched t \<Longrightarrow> log_store t = abs_store m \<Longrightarrow>
      log_aggregates t = aggregates_of_maps (n_parentChanges m) (n_trackChanges m) \<Longrightarrow>
      edit_step (conds n) t (log_write t e undo before)"
  shows "advances n n'"
proof -
  from mk obtain t where t: "edit_steps (conds n) (abs_log n) t" "abs_log m = reserve {k} t" "k \<notin> log_touched t"
    unfolding marked_def by blast
  have "log_store (abs_log m) = abs_store m"
    "log_aggregates (abs_log m) = aggregates_of_maps (n_parentChanges m) (n_trackChanges m)" by (simp_all add: abs_log_def)
  then have "edit_step (conds n) t (log_write t e undo before)" using t by (intro step) simp_all
  moreover have "abs_log n' = log_write t e undo before"
    unfolding log(1) t(2) using reserve_written [of e t undo before] by (simp add: log(2))
  ultimately show ?thesis using t(1) keeps mk unfolding advances_def marked_def
    by (auto intro: keeps_request_trans)
qed

lemma marked_in_touched: "marked k n m \<Longrightarrow> k \<in> touched_keys (n_touched m)"
proof -
  assume "marked k n m"
  then have "k \<in> log_touched (abs_log m)" unfolding marked_def by auto
  then show ?thesis by (simp add: abs_log_def)
qed

lemma running_aggregates:
  assumes "running n" "aggregates_of_maps (n_parentChanges n) (n_trackChanges n) k = Some r" "entity_kind (fst k)"
  shows "input_store (n_state n) k \<noteq> None"
proof -
  from assms(1) obtain R t where t: "edit_steps (conds n) (start_log (input_store (n_state n))) t" "abs_log n = reserve R t"
    unfolding running_def by blast
  have "log_aggregates (abs_log n) k = Some r" using assms(2) by (simp add: abs_log_def)
  then have "log_aggregates t k = Some r" using t(2) by simp
  with log_inv_run [OF t(1)] assms(3) show ?thesis unfolding log_inv_def by metis
qed

lemma running_store_mono:
  assumes "running n" "input_store (n_state n) k \<noteq> None"
  shows "abs_store n k \<noteq> None"
proof -
  from assms(1) obtain R t where t: "edit_steps (conds n) (start_log (input_store (n_state n))) t" "abs_log n = reserve R t"
    unfolding running_def by blast
  have "log_store (abs_log n) = abs_store n" by (simp add: abs_log_def)
  then show ?thesis using edit_steps_store_mono [OF t(1), of k] t(2) assms(2) by (simp add: start_log_def)
qed

lemma marked_fresh:
  assumes "running n" "marked k n m" "input_store (n_state n) k = None" 
  shows "aggregates_of_maps (n_parentChanges m) (n_trackChanges m) k = None"
proof (rule ccontr)
  assume "aggregates_of_maps (n_parentChanges m) (n_trackChanges m) k \<noteq> None"
  moreover have "entity_kind (fst k)" using marked_in_touched [OF assms(2)] by (simp add: touched_keys_def)
  ultimately show False using running_aggregates [OF marked_running [OF assms(1,2)], of k] assms(2,3) 
    by (auto simp: marked_def keeps_request_def)
qed

text \<open>A handler that creates an entity, and one that replaces an entity.\<close>

lemma marked_create:
  assumes "running n" "marked k n m" "entity_key e = k" "puts ident e m"
    and "input_store (n_state n) k = None" "entity_revision e = 1" "\<not> entity_dead e"
    and "undo = entity_with_revision 2 (entity_retire e)" "change = newEntityChange (fst k) (snd k) 1 False"
  shows "advances n (addChange change (putEntity ident e undo m))"
proof (rule marked_put [OF assms(2) abs_log_put [where before = None] assms(3) put_frame(1) put_frame(2)])
  show "paired m" "paired m" using assms(2) by (simp_all add: marked_def)
  show "puts ident e m" "entity_key e \<in> touched_keys (n_touched m)"
    using assms(3,4) marked_in_touched [OF assms(2)] by simp_all
  show "change = change_of (entity_key e) None (entity_revision e) (entity_dead e)"
    using assms(3,6,7,9) by (simp add: newEntityChange_def change_of_def)
  fix t :: edit_log
  assume "k \<notin> log_touched t" "log_store t = abs_store m"
    "log_aggregates t = aggregates_of_maps (n_parentChanges m) (n_trackChanges m)"
  then show "edit_step (conds n) t (log_write t e undo None)"
    using assms(3,5,6,7) marked_fresh [OF assms(1,2,5)] marked_store [OF assms(1,2)] unfolding assms(8) by (intro edit_step.create) simp_all
qed

lemma marked_replace:
  assumes "running n" "marked k n m" "entity_key e = k" "puts ident e m" "abs_store n k = Some cur"
    and "conds n k = Some (entity_revision cur)" "Revision_Next (entity_revision cur) = Inr (entity_revision e)"
      "Revision_Next (entity_revision e) = Inr r"
    and "undo = entity_with_revision r cur"
      "change = existingEntityChange (fst k) (snd k) (entity_revision cur) (entity_revision e) (entity_dead e)"
    and "aggregates_of_maps (n_parentChanges m) (n_trackChanges m) k = None"
  shows "advances n (addChange change (putEntity ident e undo m))"
proof (rule marked_put [OF assms(2) abs_log_put [where before = "Some (entity_revision cur)"] assms(3) put_frame(1) put_frame(2)])
  show "paired m" "paired m" using assms(2) by (simp_all add: marked_def)
  show "puts ident e m" "entity_key e \<in> touched_keys (n_touched m)"
    using assms(3,4) marked_in_touched [OF assms(2)] by simp_all
  show "change = change_of (entity_key e) (Some (entity_revision cur)) (entity_revision e) (entity_dead e)"
    using assms(3,10) by (simp add: existingEntityChange_def change_of_def)
  fix t :: edit_log
  assume "k \<notin> log_touched t" "log_store t = abs_store m"
    "log_aggregates t = aggregates_of_maps (n_parentChanges m) (n_trackChanges m)"
  then show "edit_step (conds n) t (log_write t e undo (Some (entity_revision cur)))"
    using assms(3,5-8,11) marked_store_same [OF assms(1,2)] unfolding assms(9) by (intro edit_step.replace) simp_all
qed

section \<open>Fields outside the log\<close>

lemma abs_log_frame [simp]:
  "abs_log (n\<lparr>n_sequenceChanged := a\<rparr>) = abs_log n" "abs_log (n\<lparr>n_narrativeChanged := b\<rparr>) = abs_log n"
  "abs_log (n\<lparr>n_alignmentEffects := c\<rparr>) = abs_log n" "abs_log (n\<lparr>n_linkGroupClips := d\<rparr>) = abs_log n"
  "abs_log (n\<lparr>n_sectionChildren := e\<rparr>) = abs_log n"
  by (simp_all add: abs_log_def abs_store_def)

lemma keeps_request_frame [simp]:
  "keeps_request n (m\<lparr>n_sequenceChanged := a\<rparr>) = keeps_request n m" "keeps_request n (m\<lparr>n_narrativeChanged := b\<rparr>) = keeps_request n m"
  "keeps_request n (m\<lparr>n_alignmentEffects := c\<rparr>) = keeps_request n m" "keeps_request n (m\<lparr>n_linkGroupClips := d\<rparr>) = keeps_request n m"
  "keeps_request n (m\<lparr>n_sectionChildren := e\<rparr>) = keeps_request n m" "keeps_request n (m\<lparr>n_trackChanges := f\<rparr>) = keeps_request n m"
  "keeps_request n (m\<lparr>n_parentChanges := g\<rparr>) = keeps_request n m" "keeps_request n n"
  by (simp_all add: keeps_request_def)

lemma paired_frame [simp]:
  "paired (m\<lparr>n_sequenceChanged := a\<rparr>) = paired m" "paired (m\<lparr>n_narrativeChanged := b\<rparr>) = paired m"
  "paired (m\<lparr>n_alignmentEffects := c\<rparr>) = paired m" "paired (m\<lparr>n_linkGroupClips := d\<rparr>) = paired m"
  "paired (m\<lparr>n_sectionChildren := e\<rparr>) = paired m" "paired (m\<lparr>n_trackChanges := f\<rparr>) = paired m"
  "paired (m\<lparr>n_parentChanges := g\<rparr>) = paired m"
  by (simp_all add: paired_def)

lemma advances_frame [simp]:
  "advances n (m\<lparr>n_sequenceChanged := a\<rparr>) = advances n m" "advances n (m\<lparr>n_narrativeChanged := b\<rparr>) = advances n m"
  "advances n (m\<lparr>n_alignmentEffects := c\<rparr>) = advances n m" "advances n (m\<lparr>n_linkGroupClips := d\<rparr>) = advances n m"
  "advances n (m\<lparr>n_sectionChildren := e\<rparr>) = advances n m"
  by (simp_all add: advances_def)

lemma marked_frame [simp]:
  "marked k n (m\<lparr>n_sequenceChanged := a\<rparr>) = marked k n m" "marked k n (m\<lparr>n_narrativeChanged := b\<rparr>) = marked k n m"
  "marked k n (m\<lparr>n_alignmentEffects := c\<rparr>) = marked k n m" "marked k n (m\<lparr>n_linkGroupClips := d\<rparr>) = marked k n m"
  "marked k n (m\<lparr>n_sectionChildren := e\<rparr>) = marked k n m"
  by (simp_all add: marked_def)

section \<open>Aggregate revisions\<close>

lemma advances_aggregates:
  assumes "paired n" "keeps_request n n'" "paired n'"
    "abs_log n' = (abs_log n)\<lparr>log_aggregates := agg\<rparr>"
    "\<And>k r. agg k = Some r \<Longrightarrow> log_aggregates (abs_log n) k = Some r \<or>
      conds n k = Some r \<and> k \<notin> touched_keys (n_touched n) \<and> (entity_kind (fst k) \<longrightarrow> abs_store n k \<noteq> None)"
  shows "advances n n'"
proof -
  have "edit_step (conds n) (abs_log n) (abs_log n')" unfolding assms(4)
    by (rule edit_step.aggregate) (use assms(5) in \<open>simp add: abs_log_def\<close>)
  then show ?thesis using assms by (auto simp: advances_def)
qed

lemma noteTrack_advances:
  assumes "paired n" "conds n (EntityTrack, trk_ID track) = Some (trk_Revision track)"
  shows "advances n (noteTrack track n)"
  by (rule advances_aggregates [where agg = "(log_aggregates (abs_log n))((EntityTrack, trk_ID track) \<mapsto> trk_Revision track)"])
    (use assms in \<open>auto simp: noteTrack_def abs_log_def abs_store_def split: if_splits\<close>)

lemma parent_advances:
  assumes "paired n" "conds n (EntityNarrativeNode, i) = Some r" "(EntityNarrativeNode, i) \<notin> touched_keys (n_touched n)"
    "narrativeNode n i \<noteq> None"
  shows "advances n (n\<lparr>n_parentChanges := gm_set (n_parentChanges n) i r\<rparr>)"
  by (rule advances_aggregates [where agg = "(log_aggregates (abs_log n))((EntityNarrativeNode, i) \<mapsto> r)"])
    (use assms in \<open>auto simp: abs_log_def abs_store_def entity_kind_def split: if_splits\<close>)

lemma parent_dropped_advances:
  assumes "paired n"
  shows "advances n (n\<lparr>n_parentChanges := gm_delete (n_parentChanges n) i\<rparr>)"
  by (rule advances_aggregates [where agg = "(log_aggregates (abs_log n))((EntityNarrativeNode, i) := None)"])
    (use assms in \<open>auto simp: abs_log_def abs_store_def entity_kind_def split: if_splits\<close>)

lemma marked_paired: "marked k n m \<Longrightarrow> paired m"
  by (simp add: marked_def)

lemma marked_conds: "marked k n m \<Longrightarrow> conds m = conds n"
  using keeps_request_conds by (auto simp: marked_def)

lemma marked_input: "marked k n m \<Longrightarrow> n_input m = n_input n"
  by (simp add: marked_def keeps_request_def)

lemma Revision_Next_1 [simp]: "Revision_Next 1 = Inr r \<longleftrightarrow> r = 2"
  by (auto simp: Revision_Next_def NewRevision_def)

lemma input_store_None [simp]:
  "\<not> gm_has (st_Captions st) i \<Longrightarrow> input_store st (EntityCaption, i) = None"
  "\<not> gm_has (st_Alignments st) i \<Longrightarrow> input_store st (EntityAlignment, i) = None"
  "\<not> gm_has (st_Clips st) i \<Longrightarrow> input_store st (EntityClip, i) = None"
  "\<not> gm_has (st_LinkGroups st) i \<Longrightarrow> input_store st (EntityLinkGroup, i) = None"
  by (simp_all add: input_store_def gm_has_def)

lemma abs_store_at [simp]:
  "abs_store n (EntityNarrativeNode, i) = map_option PutNarrativeNode (narrativeNode n i)"
  "abs_store n (EntityCaption, i) = map_option PutCaption (gm_lookup (n_captions n) i)"
  "abs_store n (EntityAlignment, i) = map_option PutAlignment (gm_lookup (n_alignments n) i)"
  "abs_store n (EntityClip, i) = map_option PutClip (gm_lookup (n_clips n) i)"
  "abs_store n (EntityLinkGroup, i) = map_option PutLinkGroup (gm_lookup (n_linkGroups n) i)"
  "abs_store n (EntityTranscriptCorrection, i) = map_option PutTranscriptCorrection (gm_lookup (n_corrections n) i)"
  by (simp_all add: abs_store_def)

lemma advances_noteTrack:
  assumes "advances n m" "conds n (EntityTrack, trk_ID track) = Some (trk_Revision track)"
  shows "advances n (noteTrack track m)"
proof -
  have "advances m (noteTrack track m)"
    using assms advances_conds [OF assms(1)] by (intro noteTrack_advances) (simp_all add: advances_def)
  with assms(1) show ?thesis by (rule advances_trans)
qed

lemma marked_noteTrack:
  assumes "marked k n m" "conds n (EntityTrack, trk_ID track) = Some (trk_Revision track)"
  shows "marked k n (noteTrack track m)"
proof (rule marked_advances [OF assms(1)])
  show "advances m (noteTrack track m)"
    using assms marked_conds [OF assms(1)] marked_paired [OF assms(1)] by (intro noteTrack_advances) simp_all
qed

lemma forEach_advances:
  assumes "running n" "forEach f xs n = Inr n'"
    and step: "\<And>x s t. x \<in> set xs \<Longrightarrow> running s \<Longrightarrow> advances n s \<Longrightarrow> f x s = Inr t \<Longrightarrow> advances s t"
  shows "advances n n'"
proof -
  have "running n' \<and> advances n n'"
  proof (rule forEach_invariant [OF assms(2)])
    show "running n \<and> advances n n" using assms(1) by simp
    fix x s t
    assume "x \<in> set xs" "f x s = Inr t" "running s \<and> advances n s"
    then show "running t \<and> advances n t" using step advances_running advances_trans by blast
  qed
  then show ?thesis ..
qed

lemma untouched_new:
  assumes "running n" "marked k n m" "abs_store n k = None"
  shows "input_store (n_state n) k = None"
  using assms running_untouched [OF assms(1) marked_untouched [OF assms(2)]] by simp

lemma forEach_each: "forEach f xs s = Inr t \<Longrightarrow> x \<in> set xs \<Longrightarrow> \<exists>a b. f x a = Inr b"
  by (induction xs arbitrary: s) auto

end
