(* ===== verification/Normalize_Narrative.thy ===== *)
theory Normalize_Narrative
  imports Normalizer_Log
begin

text \<open>
  The narrative handlers of \<^verbatim>\<open>edit_normalize_narrative.go\<close>: inserting, updating, moving and
  removing nodes of the document, with the bookkeeping of the sections whose children change.
  The lemmas show that each handler takes steps of the log machine, that the walk deciding
  whether a section descends from another ends and is exact, and that the handlers keep the
  document a forest whose child counts are right.
\<close>

section \<open>Parents\<close>

definition requireNarrativeParent :: "NarrativeNodeID \<Rightarrow> edit_normalizer \<Rightarrow> edit_error + section_state" where
  "requireNarrativeParent ident n =
    andThen (fetch (n_sections n) ident) (\<lambda>parent.
    if ID_IsZero (sec_ID parent) \<or> sec_Tombstoned parent \<or> sec_DocumentID parent \<noteq> st_DocumentID (n_state n)
    then Inl ErrEditInvalid else
    andThen (fetch (st_Sections (n_state n)) ident) (\<lambda>base.
    if ID_IsZero (sec_ID base) then Inl ErrEditInvalid else
    andThen (require EntityNarrativeNode ident (sec_Revision base) n) (\<lambda>_.
    Inr parent)))"

definition markNarrativeParentChanged :: "NarrativeNodeID \<Rightarrow> edit_normalizer \<Rightarrow> edit_normalizer" where
  "markNarrativeParentChanged ident n =
    (if isTouched n EntityNarrativeNode ident then n\<lparr>n_parentChanges := gm_delete (n_parentChanges n) ident\<rparr>
     else case gm_lookup (st_Sections (n_state n)) ident of
       None \<Rightarrow> n
     | Some base \<Rightarrow> if ID_IsZero (sec_ID base) then n
         else n\<lparr>n_parentChanges := gm_set (n_parentChanges n) ident (sec_Revision base)\<rparr>)"

definition addChildren :: "NarrativeNodeID \<Rightarrow> int \<Rightarrow> edit_normalizer \<Rightarrow> edit_normalizer" where
  "addChildren ident amount n =
    n\<lparr>n_sectionChildren := gm_set (n_sectionChildren n) ident (gm_get 0 (n_sectionChildren n) ident + amount)\<rparr>"

text \<open>The walk from a section to the root, with the identifiers seen on the way.\<close>

function descends :: "(string, section_state) gomap \<Rightarrow> string list \<Rightarrow> NarrativeNodeID \<Rightarrow> NarrativeNodeID \<Rightarrow> bool" where
  "descends sections seen current ancestor =
    (if ID_IsZero current then False
     else if current = ancestor then True
     else if current \<in> set seen then True
     else case gm_lookup sections current of
       None \<Rightarrow> False
     | Some s \<Rightarrow> (case sec_ParentID s of None \<Rightarrow> False | Some parent \<Rightarrow> descends sections (current # seen) parent ancestor))"
  by pat_completeness auto
termination
proof (relation "measure (\<lambda>(sections, seen, _, _). card (set (gm_keys sections) - set seen))", goal_cases)
  case (2 sections seen current ancestor s parent)
  then have "current \<in> set (gm_keys sections) - set seen" by (auto simp: set_gm_keys dest: gm_lookup_has)
  then have "card (set (gm_keys sections) - insert current (set seen)) < card (set (gm_keys sections) - set seen)"
    by (intro psubset_card_mono) auto
  then show ?case by simp
qed simp

declare descends.simps [simp del]

definition sectionDescendsFrom :: "NarrativeNodeID \<Rightarrow> NarrativeNodeID \<Rightarrow> edit_normalizer \<Rightarrow> bool" where
  "sectionDescendsFrom candidate ancestor n = descends (n_sections n) [] candidate ancestor"

section \<open>The handlers\<close>

definition newNarrativeNode :: "edit_operation \<Rightarrow> NarrativeNodeID \<Rightarrow> section_state \<Rightarrow> NarrativeNodeID option \<Rightarrow>
    edit_error + narrative_node_state" where
  "newNarrativeNode operation ident parent after =
    (case op_Type operation of
       EditInsertSection \<Rightarrow>
         andThen (deref (op_Title operation)) (\<lambda>title.
         andThen (deref (op_Language operation)) (\<lambda>language.
         Inr (SectionNode \<lparr>sec_ID = ident, sec_Revision = 1, sec_DocumentID = sec_DocumentID parent,
           sec_ParentID = Some (sec_ID parent), sec_AfterNodeID = after, sec_Title = title, sec_Language = language,
           sec_Tombstoned = False\<rparr>)))
     | EditInsertAuthoredText \<Rightarrow>
         andThen (deref (op_AuthoredTextPurpose operation)) (\<lambda>purpose.
         andThen (deref (op_Language operation)) (\<lambda>language.
         andThen (deref (op_Text operation)) (\<lambda>content.
         Inr (AuthoredTextNode \<lparr>txt_ID = ident, txt_Revision = 1, txt_DocumentID = sec_DocumentID parent,
           txt_ParentID = sec_ID parent, txt_AfterNodeID = after, txt_Purpose = purpose, txt_Language = language,
           txt_Text = content, txt_Tombstoned = False\<rparr>))))
     | EditInsertVisualIntent \<Rightarrow>
         andThen (deref (op_VisualIntentPurpose operation)) (\<lambda>purpose.
         andThen (deref (op_Language operation)) (\<lambda>language.
         andThen (deref (op_Description operation)) (\<lambda>description.
         Inr (VisualIntentNode \<lparr>vis_ID = ident, vis_Revision = 1, vis_DocumentID = sec_DocumentID parent,
           vis_ParentID = sec_ID parent, vis_AfterNodeID = after, vis_Purpose = purpose, vis_Language = language,
           vis_Description = description, vis_Tombstoned = False\<rparr>))))
     | EditInsertNote \<Rightarrow>
         andThen (deref (op_Language operation)) (\<lambda>language.
         andThen (deref (op_Text operation)) (\<lambda>content.
         Inr (NoteNode \<lparr>note_ID = ident, note_Revision = 1, note_DocumentID = sec_DocumentID parent,
           note_ParentID = sec_ID parent, note_AfterNodeID = after, note_Language = language,
           note_Text = content, note_Tombstoned = False\<rparr>)))
     | _ \<Rightarrow> Inl ErrEditInvalid)"

definition insertNarrativeNode :: "edit_operation \<Rightarrow> edit_normalizer \<Rightarrow> edit_error + edit_normalizer" where
  "insertNarrativeNode operation n =
    andThen (deref (op_CreateAs operation)) (\<lambda>createAs.
    andThen (allocated createAs EntityNarrativeNode n) (\<lambda>allocation.
    andThen (orError ErrEditInvalid (ParseID (alloc_ID allocation))) (\<lambda>ident.
    if narrativeNodeExists n ident then Inl ErrEditInvalid else
    andThen (markTouched EntityNarrativeNode ident n) (\<lambda>n.
    andThen (deref (op_ParentID operation)) (\<lambda>parentID.
    andThen (requireNarrativeParent parentID n) (\<lambda>parent.
    andThen (resolveNarrativeNodeReference (op_After operation) n) (\<lambda>after.
    if (case after of None \<Rightarrow> False | Some a \<Rightarrow> narrativeNodeParent n a \<noteq> sec_ID parent) then Inl ErrEditInvalid else
    andThen (newNarrativeNode operation ident parent after) (\<lambda>state.
    andThen (mustNext 1) (\<lambda>revision.
    let undone = narrativeNodeWithRevisionAndTombstone state revision True;
        n = putEntity ident (PutNarrativeNode state) (PutNarrativeNode undone) n;
        n = addChange (newEntityChange EntityNarrativeNode ident 1 False) n;
        n = markNarrativeParentChanged (sec_ID parent) (n\<lparr>n_narrativeChanged := True\<rparr>)
    in Inr (addChildren (sec_ID parent) 1 n))))))))))"

fun updatedNarrativeNode :: "edit_operation \<Rightarrow> revision \<Rightarrow> narrative_node_state \<Rightarrow> edit_error + narrative_node_state" where
  "updatedNarrativeNode operation revision (SectionNode s) =
    (if op_Type operation \<noteq> EditUpdateSection then Inl ErrEditInvalid else
    andThen (deref (op_Title operation)) (\<lambda>title.
    andThen (deref (op_Language operation)) (\<lambda>language.
    Inr (SectionNode (s\<lparr>sec_Revision := revision, sec_Title := title, sec_Language := language\<rparr>)))))"
| "updatedNarrativeNode operation revision (AuthoredTextNode t) =
    (if op_Type operation \<noteq> EditUpdateAuthoredText then Inl ErrEditInvalid else
    andThen (deref (op_AuthoredTextPurpose operation)) (\<lambda>purpose.
    andThen (deref (op_Language operation)) (\<lambda>language.
    andThen (deref (op_Text operation)) (\<lambda>content.
    Inr (AuthoredTextNode (t\<lparr>txt_Revision := revision, txt_Purpose := purpose, txt_Language := language, txt_Text := content\<rparr>))))))"
| "updatedNarrativeNode operation revision (SourceExcerptNode e) = Inl ErrEditInvalid"
| "updatedNarrativeNode operation revision (VisualIntentNode v) =
    (if op_Type operation \<noteq> EditUpdateVisualIntent then Inl ErrEditInvalid else
    andThen (deref (op_VisualIntentPurpose operation)) (\<lambda>purpose.
    andThen (deref (op_Language operation)) (\<lambda>language.
    andThen (deref (op_Description operation)) (\<lambda>description.
    Inr (VisualIntentNode (v\<lparr>vis_Revision := revision, vis_Purpose := purpose, vis_Language := language,
      vis_Description := description\<rparr>))))))"
| "updatedNarrativeNode operation revision (NoteNode w) =
    (if op_Type operation \<noteq> EditUpdateNote then Inl ErrEditInvalid else
    andThen (deref (op_Language operation)) (\<lambda>language.
    andThen (deref (op_Text operation)) (\<lambda>content.
    Inr (NoteNode (w\<lparr>note_Revision := revision, note_Language := language, note_Text := content\<rparr>)))))"

fun operationMatchesNarrativeKind :: "EditOperationType \<Rightarrow> narrative_node_state \<Rightarrow> bool" where
  "operationMatchesNarrativeKind operation (SectionNode _) = (operation = EditUpdateSection)"
| "operationMatchesNarrativeKind operation (AuthoredTextNode _) = (operation = EditUpdateAuthoredText)"
| "operationMatchesNarrativeKind operation (SourceExcerptNode _) = False"
| "operationMatchesNarrativeKind operation (VisualIntentNode _) = (operation = EditUpdateVisualIntent)"
| "operationMatchesNarrativeKind operation (NoteNode _) = (operation = EditUpdateNote)"

definition updateNarrativeNode :: "edit_operation \<Rightarrow> edit_normalizer \<Rightarrow> edit_error + edit_normalizer" where
  "updateNarrativeNode operation n =
    andThen (deref (op_NodeID operation)) (\<lambda>ident.
    andThen (someOr ErrEditInvalid (narrativeNode n ident)) (\<lambda>current.
    if narrativeNodeTombstoned current then Inl ErrEditInvalid else
    andThen (markTouched EntityNarrativeNode ident n) (\<lambda>n.
    if \<not> operationMatchesNarrativeKind (op_Type operation) current then Inl ErrEditInvalid else
    andThen (require EntityNarrativeNode ident (narrativeNodeRevision current) n) (\<lambda>_.
    let n = n\<lparr>n_parentChanges := gm_delete (n_parentChanges n) ident\<rparr> in
    andThen (mustNext (narrativeNodeRevision current)) (\<lambda>revision.
    andThen (updatedNarrativeNode operation revision current) (\<lambda>next_state.
    andThen (mustNext revision) (\<lambda>undone.
    let n = putEntity ident (PutNarrativeNode next_state)
          (PutNarrativeNode (narrativeNodeWithRevisionAndTombstone current undone False)) n;
        n = addChange (existingEntityChange EntityNarrativeNode ident (narrativeNodeRevision current) revision False) n
    in Inr (n\<lparr>n_narrativeChanged := True\<rparr>))))))))"

definition moveNarrativeNode :: "edit_operation \<Rightarrow> edit_normalizer \<Rightarrow> edit_error + edit_normalizer" where
  "moveNarrativeNode operation n =
    andThen (deref (op_NodeID operation)) (\<lambda>ident.
    andThen (someOr ErrEditInvalid (narrativeNode n ident)) (\<lambda>current.
    if narrativeNodeTombstoned current then Inl ErrEditInvalid else
    andThen (someOr ErrEditInvalid (narrativeNodeParentPointer current)) (\<lambda>oldParentID.
    andThen (markTouched EntityNarrativeNode ident n) (\<lambda>n.
    andThen (require EntityNarrativeNode ident (narrativeNodeRevision current) n) (\<lambda>_.
    let n = n\<lparr>n_parentChanges := gm_delete (n_parentChanges n) ident\<rparr> in
    andThen (requireNarrativeParent oldParentID n) (\<lambda>oldParent.
    andThen (deref (op_ParentID operation)) (\<lambda>parentID.
    andThen (orError ErrEditInvalid (requireNarrativeParent parentID n)) (\<lambda>newParent.
    if sec_DocumentID oldParent \<noteq> sec_DocumentID newParent then Inl ErrEditInvalid else
    andThen (resolveNarrativeNodeReference (op_After operation) n) (\<lambda>after.
    if (case after of None \<Rightarrow> False | Some a \<Rightarrow> a = ident \<or> narrativeNodeParent n a \<noteq> sec_ID newParent) then Inl ErrEditInvalid
    else if isSectionNode current \<and> sectionDescendsFrom (sec_ID newParent) ident n then Inl ErrEditInvalid else
    andThen (mustNext (narrativeNodeRevision current)) (\<lambda>revision.
    andThen (mustNext revision) (\<lambda>undone.
    let next_state = narrativeNodeMoved current (sec_ID newParent) after revision;
        n = putEntity ident (PutNarrativeNode next_state)
          (PutNarrativeNode (narrativeNodeMoved current (sec_ID oldParent) (narrativeNodeAfter current) undone)) n;
        n = addChange (existingEntityChange EntityNarrativeNode ident (narrativeNodeRevision current) revision False) n;
        n = n\<lparr>n_narrativeChanged := True\<rparr>;
        n = markNarrativeParentChanged (sec_ID newParent) (markNarrativeParentChanged (sec_ID oldParent) n)
    in Inr (if sec_ID oldParent \<noteq> sec_ID newParent
      then addChildren (sec_ID newParent) 1 (addChildren (sec_ID oldParent) (- 1) n) else n))))))))))))"

definition removeNarrativeNode :: "edit_operation \<Rightarrow> edit_normalizer \<Rightarrow> edit_error + edit_normalizer" where
  "removeNarrativeNode operation n =
    andThen (deref (op_NodeID operation)) (\<lambda>ident.
    andThen (someOr ErrEditInvalid (narrativeNode n ident)) (\<lambda>current.
    if narrativeNodeTombstoned current then Inl ErrEditInvalid else
    andThen (someOr ErrEditInvalid (narrativeNodeParentPointer current)) (\<lambda>parentID.
    if isSectionNode current \<and> gm_get 0 (n_sectionChildren n) ident \<noteq> 0 then Inl ErrEditInvalid else
    andThen (markTouched EntityNarrativeNode ident n) (\<lambda>n.
    andThen (require EntityNarrativeNode ident (narrativeNodeRevision current) n) (\<lambda>_.
    let n = n\<lparr>n_parentChanges := gm_delete (n_parentChanges n) ident\<rparr> in
    andThen (requireNarrativeParent parentID n) (\<lambda>parent.
    andThen (mustNext (narrativeNodeRevision current)) (\<lambda>revision.
    andThen (mustNext revision) (\<lambda>undone.
    let n = putEntity ident (PutNarrativeNode (narrativeNodeWithRevisionAndTombstone current revision True))
          (PutNarrativeNode (narrativeNodeWithRevisionAndTombstone current undone False)) n;
        n = addChange (existingEntityChange EntityNarrativeNode ident (narrativeNodeRevision current) revision True) n;
        n = markNarrativeParentChanged (sec_ID parent) (n\<lparr>n_narrativeChanged := True\<rparr>)
    in Inr (addChildren (sec_ID parent) (- 1) n)))))))))"

section \<open>The handlers take steps of the log machine\<close>

lemma requireNarrativeParentE:
  assumes "requireNarrativeParent i n = Inr p"
  obtains base where "gm_lookup (n_sections n) i = Some p" "\<not> sec_Tombstoned p" "sec_ID p \<noteq> ''''"
    "sec_DocumentID p = st_DocumentID (n_state n)" "gm_lookup (st_Sections (n_state n)) i = Some base"
    "conds n (EntityNarrativeNode, i) = Some (sec_Revision base)"
  using assms unfolding requireNarrativeParent_def by (auto simp: go_result ID_IsZero_def)

lemma markNarrativeParentChanged_advances:
  assumes m: "running m" and base: "gm_lookup (st_Sections (n_state m)) i = Some base"
    "conds m (EntityNarrativeNode, i) = Some (sec_Revision base)"
  shows "advances m (markNarrativeParentChanged i m)"
proof -
  have "input_store (n_state m) (EntityNarrativeNode, i) \<noteq> None"
    using base(1) by (simp add: input_store_def node_of_maps_def)
  from running_store_mono [OF m this] have "narrativeNode m i \<noteq> None" by simp
  then show ?thesis using m base
    by (auto simp: markNarrativeParentChanged_def isTouched_iff intro!: parent_advances parent_dropped_advances)
qed

lemma node_dropped_marked:
  assumes "marked k n m"
  shows "marked k n (m\<lparr>n_parentChanges := gm_delete (n_parentChanges m) i\<rparr>)"
  by (rule marked_advances [OF assms parent_dropped_advances]) (rule marked_paired [OF assms])

lemma addChildren_frame [simp]:
  "advances n (addChildren i c m) = advances n m" "running (addChildren i c m) = running m"
  by (simp_all add: addChildren_def running_def fresh_allocations_def conds_def [abs_def] cong: if_cong)

lemma touched_frame [simp]:
  "requireNarrativeParent i (n\<lparr>n_touched := t\<rparr>) = requireNarrativeParent i n"
  "requireNarrativeParent i (n\<lparr>n_parentChanges := p\<rparr>) = requireNarrativeParent i n"
  "conds (n\<lparr>n_touched := t\<rparr>) = conds n" "conds (n\<lparr>n_parentChanges := p\<rparr>) = conds n"
  by (simp_all add: requireNarrativeParent_def require_def conds_def fun_eq_iff cong: if_cong)

text \<open>A parent whose children change is noted after the node is written.\<close>

lemma advances_parent_changed:
  assumes n: "running n" and m: "advances n m" and parent: "requireNarrativeParent i n = Inr p"
  shows "advances n (markNarrativeParentChanged (sec_ID p) m)"
proof -
  from parent obtain base where base: "gm_lookup (n_sections n) i = Some p" "gm_lookup (st_Sections (n_state n)) i = Some base"
    "conds n (EntityNarrativeNode, i) = Some (sec_Revision base)" by (rule requireNarrativeParentE)
  have "sec_ID p = i" using running_section_ID [OF n base(1)] .
  then have "advances m (markNarrativeParentChanged (sec_ID p) m)"
    using base advances_input [OF m] advances_conds [OF m]
    by (intro markNarrativeParentChanged_advances [OF advances_running [OF n m]]) simp_all
  with m show ?thesis by (rule advances_trans)
qed

lemma node_states [simp]:
  "NarrativeNodeState_ID (narrativeNodeWithRevisionAndTombstone w r b) = NarrativeNodeState_ID w"
  "NarrativeNodeState_RevisionValue (narrativeNodeWithRevisionAndTombstone w r b) = r"
  "NarrativeNodeState_IsTombstoned (narrativeNodeWithRevisionAndTombstone w r b) = b"
  "same_kind w (narrativeNodeWithRevisionAndTombstone w r b)"
  "narrativeNodeParentPointer (narrativeNodeWithRevisionAndTombstone w r b) = narrativeNodeParentPointer w"
  "isSectionNode (narrativeNodeWithRevisionAndTombstone w r b) = isSectionNode w"
  "NarrativeNodeState_ID (narrativeNodeMoved w p a r) = NarrativeNodeState_ID w"
  "NarrativeNodeState_RevisionValue (narrativeNodeMoved w p a r) = r"
  "\<not> NarrativeNodeState_IsTombstoned (narrativeNodeMoved w p a r)" "same_kind w (narrativeNodeMoved w p a r)"
  "narrativeNodeParentPointer (narrativeNodeMoved w p a r) = Some p"
  "isSectionNode (narrativeNodeMoved w p a r) = isSectionNode w"
  by (cases w; simp add: narrativeNodeMoved_def isSectionNode_def)+

lemma node_undo:
  "\<not> NarrativeNodeState_IsTombstoned w \<Longrightarrow> narrativeNodeWithRevisionAndTombstone w r False = node_with_revision r w"
  "narrativeNodeWithRevisionAndTombstone w r True = node_with_revision r (node_tombstone w)"
  "\<not> NarrativeNodeState_IsTombstoned w \<Longrightarrow> narrativeNodeParentPointer w = Some p \<Longrightarrow>
    narrativeNodeMoved w p (narrativeNodeAfter w) r = node_with_revision r w"
  by (cases w; simp add: narrativeNodeMoved_def)+

lemma newNarrativeNode_state:
  assumes "newNarrativeNode operation ident parent after = Inr w"
  shows "NarrativeNodeState_ID w = ident" "NarrativeNodeState_RevisionValue w = 1" "\<not> NarrativeNodeState_IsTombstoned w"
    "narrativeNodeParentPointer w = Some (sec_ID parent)"
  using assms by (auto simp: newNarrativeNode_def split: EditOperationType.splits)

lemma updatedNarrativeNode_state:
  assumes "updatedNarrativeNode operation r cur = Inr w"
  shows "NarrativeNodeState_ID w = NarrativeNodeState_ID cur" "NarrativeNodeState_RevisionValue w = r" "same_kind cur w"
    "NarrativeNodeState_IsTombstoned w = NarrativeNodeState_IsTombstoned cur"
    "narrativeNodeParentPointer w = narrativeNodeParentPointer cur" "isSectionNode w = isSectionNode cur"
  using assms by (cases cur; auto simp: isSectionNode_def)+

lemma insertNarrativeNode_advances:
  assumes n: "running n" and run: "insertNarrativeNode operation n = Inr n'"
  shows "advances n n'"
  using run unfolding insertNarrativeNode_def Let_def
proof (elim andThenE checkE, goal_cases)
  case (1 createAs allocation ident m parentID parent after state revision)
  then have mk: "marked (EntityNarrativeNode, ident) n m" and m: "m = n\<lparr>n_touched := gm_set (n_touched n) (entityKey EntityNarrativeNode ident) ()\<rparr>"
    using n by (auto intro: markTouched_marked simp: markTouched_Inr)
  have none: "narrativeNode n ident = None" using 1 by (simp add: narrativeNodeExists_def)
  have parent: "requireNarrativeParent parentID n = Inr parent" using 1 by (simp add: m)
  have new: "input_store (n_state n) (EntityNarrativeNode, ident) = None"
    using none by (intro untouched_new [OF n mk]) simp
  have put: "puts ident (PutNarrativeNode state) m"
    using none newNarrativeNode_state [OF 1(10)] by (simp add: puts_def m)
  show ?case using 1 new put newNarrativeNode_state [OF 1(10)] node_undo(2) [of state 2]
    by (auto simp: mustNext_Inr intro!: advances_parent_changed [OF n _ parent] marked_create [OF n mk])
qed

lemma updateNarrativeNode_advances:
  assumes n: "running n" and run: "updateNarrativeNode operation n = Inr n'"
  shows "advances n n'"
  using run unfolding updateNarrativeNode_def Let_def
proof (elim andThenE checkE, goal_cases)
  case (1 ident current m u revision next_state undone)
  then have mk: "marked (EntityNarrativeNode, ident) n m" and m: "m = n\<lparr>n_touched := gm_set (n_touched n) (entityKey EntityNarrativeNode ident) ()\<rparr>"
    using n by (auto intro: markTouched_marked simp: markTouched_Inr)
  have cur: "narrativeNode n ident = Some current" "NarrativeNodeState_ID current = ident"
    using 1 running_node_ID [OF n] by (simp_all add: go_result)
  note state = updatedNarrativeNode_state [OF 1(8)]
  have put: "puts ident (PutNarrativeNode next_state) (m\<lparr>n_parentChanges := gm_delete (n_parentChanges m) ident\<rparr>)"
    using cur state by (simp add: puts_def m)
  have "conds n (EntityNarrativeNode, ident) = Some (NarrativeNodeState_RevisionValue current)"
    using 1 by (simp add: m go_result)
  then show ?case using 1 put cur state node_undo(1) [of current undone]
    by (auto simp: mustNext_Inr intro!: marked_replace [OF n node_dropped_marked [OF mk], where cur = "PutNarrativeNode current"])
qed

lemma moveNarrativeNode_advances:
  assumes n: "running n" and run: "moveNarrativeNode operation n = Inr n'"
  shows "advances n n'"
  using run unfolding moveNarrativeNode_def Let_def
proof (elim andThenE checkE, goal_cases)
  case (1 ident current oldParentID m u oldParent parentID newParent after revision undone)
  then have mk: "marked (EntityNarrativeNode, ident) n m" and m: "m = n\<lparr>n_touched := gm_set (n_touched n) (entityKey EntityNarrativeNode ident) ()\<rparr>"
    using n by (auto intro: markTouched_marked simp: markTouched_Inr)
  have cur: "narrativeNode n ident = Some current" "NarrativeNodeState_ID current = ident"
    using 1 running_node_ID [OF n] by (simp_all add: go_result)
  have parents: "requireNarrativeParent oldParentID n = Inr oldParent" "requireNarrativeParent parentID n = Inr newParent"
    using 1 by (simp_all add: m go_result)
  then have old: "sec_ID oldParent = oldParentID" "narrativeNodeParentPointer current = Some oldParentID"
    using 1 running_section_ID [OF n] by (auto elim!: requireNarrativeParentE simp: go_result)
  have put: "puts ident (PutNarrativeNode (narrativeNodeMoved current (sec_ID newParent) after revision))
      (m\<lparr>n_parentChanges := gm_delete (n_parentChanges m) ident\<rparr>)"
    using cur by (simp add: puts_def m)
  have cond: "conds n (EntityNarrativeNode, ident) = Some (NarrativeNodeState_RevisionValue current)"
    using 1 by (simp add: m go_result)
  have "advances n (addChange (existingEntityChange EntityNarrativeNode ident (narrativeNodeRevision current) revision False)
      (putEntity ident (PutNarrativeNode (narrativeNodeMoved current (sec_ID newParent) after revision))
        (PutNarrativeNode (narrativeNodeMoved current (sec_ID oldParent) (narrativeNodeAfter current) undone))
        (m\<lparr>n_parentChanges := gm_delete (n_parentChanges m) ident\<rparr>)))"
    using 1(14,15) 1(3) put cur old cond node_undo(3) [of current oldParentID undone]
    by (intro marked_replace [OF n node_dropped_marked [OF mk], where cur = "PutNarrativeNode current" and r = undone])
      (auto simp: mustNext_Inr)
  then show ?case using 1(16)
    by (auto split: if_splits intro!: advances_parent_changed [OF n _ parents(1)] advances_parent_changed [OF n _ parents(2)])
qed

lemma removeNarrativeNode_advances:
  assumes n: "running n" and run: "removeNarrativeNode operation n = Inr n'"
  shows "advances n n'"
  using run unfolding removeNarrativeNode_def Let_def
proof (elim andThenE checkE, goal_cases)
  case (1 ident current parentID m u parent revision undone)
  then have mk: "marked (EntityNarrativeNode, ident) n m" and m: "m = n\<lparr>n_touched := gm_set (n_touched n) (entityKey EntityNarrativeNode ident) ()\<rparr>"
    using n by (auto intro: markTouched_marked simp: markTouched_Inr)
  have cur: "narrativeNode n ident = Some current" "NarrativeNodeState_ID current = ident"
    using 1 running_node_ID [OF n] by (simp_all add: go_result)
  have parent: "requireNarrativeParent parentID n = Inr parent" using 1 by (simp add: m)
  have put: "puts ident (PutNarrativeNode (narrativeNodeWithRevisionAndTombstone current revision True))
      (m\<lparr>n_parentChanges := gm_delete (n_parentChanges m) ident\<rparr>)"
    using cur by (simp add: puts_def m)
  have cond: "conds n (EntityNarrativeNode, ident) = Some (NarrativeNodeState_RevisionValue current)"
    using 1 by (simp add: m go_result)
  have "advances n (addChange (existingEntityChange EntityNarrativeNode ident (narrativeNodeRevision current) revision True)
      (putEntity ident (PutNarrativeNode (narrativeNodeWithRevisionAndTombstone current revision True))
        (PutNarrativeNode (narrativeNodeWithRevisionAndTombstone current undone False))
        (m\<lparr>n_parentChanges := gm_delete (n_parentChanges m) ident\<rparr>)))"
    using 1 put cur cond node_undo(1) [of current undone]
    by (intro marked_replace [OF n node_dropped_marked [OF mk], where cur = "PutNarrativeNode current" and r = undone])
      (auto simp: mustNext_Inr)
  then show ?case using 1 by (auto intro!: advances_parent_changed [OF n _ parent])
qed

section \<open>The walk to the root\<close>

definition parent_of :: "(string, section_state) gomap \<Rightarrow> (NarrativeNodeID \<times> NarrativeNodeID) set" where
  "parent_of sections = {(i, p). i \<noteq> '''' \<and> (\<exists>s. gm_lookup sections i = Some s \<and> sec_ParentID s = Some p)}"

lemma parent_of_unique: "(i, p) \<in> parent_of sections \<Longrightarrow> (i, q) \<in> parent_of sections \<Longrightarrow> p = q"
  by (auto simp: parent_of_def)

lemma descends_complete:
  "(current, ancestor) \<in> (parent_of sections)\<^sup>* \<Longrightarrow> ancestor \<noteq> '''' \<Longrightarrow> descends sections seen current ancestor"
proof (induction sections seen current ancestor rule: descends.induct)
  case (1 sections seen current ancestor)
  show ?case
  proof (cases "current = ancestor")
    case False
    then obtain p where p: "(current, p) \<in> parent_of sections" "(p, ancestor) \<in> (parent_of sections)\<^sup>*"
      using "1.prems"(1) by (auto elim: converse_rtranclE)
    then obtain s where s: "gm_lookup sections current = Some s" "sec_ParentID s = Some p" "current \<noteq> ''''"
      by (auto simp: parent_of_def)
    show ?thesis using False s "1.IH" [OF _ _ _ s(1,2) p(2) "1.prems"(2)]
      by (subst descends.simps) (simp add: ID_IsZero_def)
  qed (use "1.prems" in \<open>subst descends.simps, simp add: ID_IsZero_def\<close>)
qed

lemma descends_sound:
  "descends sections seen current ancestor \<Longrightarrow> acyclic (parent_of sections) \<Longrightarrow>
    (\<And>x. x \<in> set seen \<Longrightarrow> (x, current) \<in> (parent_of sections)\<^sup>+) \<Longrightarrow> (current, ancestor) \<in> (parent_of sections)\<^sup>*"
proof (induction sections seen current ancestor rule: descends.induct)
  case (1 sections seen current ancestor)
  show ?case
  proof (cases "current = ancestor")
    case False
    have nonzero: "\<not> ID_IsZero current" using "1.prems"(1) by (subst (asm) descends.simps) (auto split: if_splits)
    have unseen: "current \<notin> set seen" using "1.prems"(2,3) by (auto simp: acyclic_def)
    from "1.prems"(1) False nonzero unseen obtain s p where s: "gm_lookup sections current = Some s" "sec_ParentID s = Some p"
      and desc: "descends sections (current # seen) p ancestor"
      by (subst (asm) descends.simps) (auto split: option.splits)
    have edge: "(current, p) \<in> parent_of sections" using s nonzero by (auto simp: parent_of_def ID_IsZero_def)
    have "(p, ancestor) \<in> (parent_of sections)\<^sup>*"
      by (rule "1.IH" [OF nonzero False unseen s desc "1.prems"(2)])
        (use edge "1.prems"(3) in \<open>auto intro: trancl_into_trancl\<close>)
    with edge show ?thesis by (rule converse_rtrancl_into_rtrancl)
  qed simp
qed

lemma sectionDescendsFrom_iff:
  assumes "acyclic (parent_of (n_sections n))" "ancestor \<noteq> ''''"
  shows "sectionDescendsFrom candidate ancestor n \<longleftrightarrow> (candidate, ancestor) \<in> (parent_of (n_sections n))\<^sup>*"
  using descends_sound [of "n_sections n" "[]" candidate ancestor] descends_complete [of candidate ancestor "n_sections n" "[]"] assms
  unfolding sectionDescendsFrom_def by auto

section \<open>The document stays a forest\<close>

text \<open>
  The normalizer sees a part of the document: the nodes it was given. An edge leads from a live
  node to its parent; \<open>hidden s\<close> counts the live children of \<open>s\<close> outside the part it sees.
\<close>

definition edges :: "edit_normalizer \<Rightarrow> (NarrativeNodeID \<times> NarrativeNodeID) set" where
  "edges n = {(i, p). \<exists>w. narrativeNode n i = Some w \<and> \<not> NarrativeNodeState_IsTombstoned w \<and> narrativeNodeParentPointer w = Some p}"

definition children :: "edit_normalizer \<Rightarrow> NarrativeNodeID \<Rightarrow> NarrativeNodeID set" where
  "children n p = {i. (i, p) \<in> edges n}"

definition forest :: "(NarrativeNodeID \<Rightarrow> nat) \<Rightarrow> edit_normalizer \<Rightarrow> bool" where
  "forest hidden n \<longleftrightarrow>
    (\<forall>i w. narrativeNode n i = Some w \<longrightarrow> NarrativeNodeState_ID w = i \<and> i \<noteq> '''') \<and>
    (\<forall>i p w. (i, p) \<in> edges n \<longrightarrow> narrativeNode n p = Some w \<longrightarrow> isSectionNode w \<and> \<not> NarrativeNodeState_IsTombstoned w) \<and>
    (\<forall>p. narrativeNode n p \<noteq> None \<longrightarrow> gm_get 0 (n_sectionChildren n) p = int (hidden p + card (children n p))) \<and>
    (\<forall>p. narrativeNode n p = None \<longrightarrow> gm_get 0 (n_sectionChildren n) p = 0 \<and> hidden p = 0) \<and>
    (\<forall>p w. narrativeNode n p = Some w \<longrightarrow> NarrativeNodeState_IsTombstoned w \<or> \<not> isSectionNode w \<longrightarrow> hidden p = 0) \<and>
    (\<forall>local a. gm_lookup (n_allocations n) local = Some a \<longrightarrow> narrativeNode n (alloc_ID a) = None \<longrightarrow> children n (alloc_ID a) = {}) \<and>
    acyclic (edges n)"

lemma forestD:
  assumes "forest hidden n"
  shows "narrativeNode n i = Some w \<Longrightarrow> NarrativeNodeState_ID w = i" "narrativeNode n '''' = None"
    "(i, p) \<in> edges n \<Longrightarrow> narrativeNode n p = Some w \<Longrightarrow> isSectionNode w"
    "(i, p) \<in> edges n \<Longrightarrow> narrativeNode n p = Some w \<Longrightarrow> \<not> NarrativeNodeState_IsTombstoned w"
    "narrativeNode n p \<noteq> None \<Longrightarrow> gm_get 0 (n_sectionChildren n) p = int (hidden p + card (children n p))"
    "narrativeNode n p = None \<Longrightarrow> gm_get 0 (n_sectionChildren n) p = 0" "narrativeNode n p = None \<Longrightarrow> hidden p = 0"
    "narrativeNode n p = Some w \<Longrightarrow> NarrativeNodeState_IsTombstoned w \<or> \<not> isSectionNode w \<Longrightarrow> hidden p = 0"
    "gm_lookup (n_allocations n) local = Some a \<Longrightarrow> narrativeNode n (alloc_ID a) = None \<Longrightarrow> children n (alloc_ID a) = {}"
    "acyclic (edges n)"
  using assms unfolding forest_def by (blast, metis option.exhaust, blast+)

text \<open>How a handler changes what the forest depends on.\<close>

definition rewires :: "edit_normalizer \<Rightarrow> edit_normalizer \<Rightarrow> NarrativeNodeID \<Rightarrow> narrative_node_state \<Rightarrow> (NarrativeNodeID \<Rightarrow> int) \<Rightarrow> bool" where
  "rewires n n' ident w delta \<longleftrightarrow> narrativeNode n' = (narrativeNode n)(ident \<mapsto> w) \<and> n_allocations n' = n_allocations n \<and>
    (\<forall>p. gm_get 0 (n_sectionChildren n') p = gm_get 0 (n_sectionChildren n) p + delta p)"

lemma finite_children: "finite (children n p)"
proof (rule finite_subset)
  show "children n p \<subseteq> set (gm_keys (n_sections n)) \<union> set (gm_keys (n_texts n)) \<union> set (gm_keys (n_sourceExcerpts n)) \<union>
      set (gm_keys (n_visualIntents n)) \<union> set (gm_keys (n_notes n))"
    by (auto simp: children_def edges_def narrativeNode_def node_of_maps_def set_gm_keys gm_has_def split: option.splits)
qed simp

lemma edges_unique: "(i, p) \<in> edges n \<Longrightarrow> (i, q) \<in> edges n \<Longrightarrow> p = q"
  by (auto simp: edges_def)

definition node_edges :: "NarrativeNodeID \<Rightarrow> narrative_node_state \<Rightarrow> (NarrativeNodeID \<times> NarrativeNodeID) set" where
  "node_edges i w = {(j, p). j = i \<and> \<not> NarrativeNodeState_IsTombstoned w \<and> narrativeNodeParentPointer w = Some p}"

lemma edges_rewired: "rewires n n' ident w delta \<Longrightarrow> edges n' = {e \<in> edges n. fst e \<noteq> ident} \<union> node_edges ident w"
  by (auto simp: rewires_def edges_def node_edges_def fun_upd_apply split: if_splits)

lemma acyclic_rewired:
  assumes acyclic: "acyclic E" and path: "(p, i) \<notin> E\<^sup>*"
  shows "acyclic ({e \<in> E. fst e \<noteq> i} \<union> {(i, p)})"
proof -
  have "{e \<in> E. fst e \<noteq> i} \<subseteq> E" by auto
  then have "acyclic {e \<in> E. fst e \<noteq> i}" "(p, i) \<notin> {e \<in> E. fst e \<noteq> i}\<^sup>*"
    using acyclic path acyclic_subset rtrancl_mono by blast+
  then show ?thesis by (simp add: Un_commute)
qed

lemma rewires_forest:
  assumes forest: "forest hidden n" and change: "rewires n n' ident w delta"
    and ident: "NarrativeNodeState_ID w = ident" "ident \<noteq> ''''" "narrativeNode n ident = Some cur \<Longrightarrow> same_kind cur w"
    and parent: "\<And>p. (ident, p) \<in> node_edges ident w \<Longrightarrow> (p, ident) \<notin> (edges n)\<^sup>* \<and>
      (\<exists>s. narrativeNode n p = Some s \<and> isSectionNode s \<and> \<not> NarrativeNodeState_IsTombstoned s)"
    and count: "\<And>p. int (card (children n' p)) = int (card (children n p)) + delta p"
    and known: "\<And>p. narrativeNode n p = None \<Longrightarrow> p \<noteq> ident \<Longrightarrow> delta p = 0"
    and new: "narrativeNode n ident = None \<Longrightarrow> children n ident = {}"
    and dead: "NarrativeNodeState_IsTombstoned w \<or> \<not> isSectionNode w \<Longrightarrow> hidden ident = 0 \<and> children n ident = {}"
  shows "forest hidden n'"
proof -
  note F = forestD [OF forest]
  have nodes: "narrativeNode n' = (narrativeNode n)(ident \<mapsto> w)"
    and counts: "\<And>p. gm_get 0 (n_sectionChildren n') p = gm_get 0 (n_sectionChildren n) p + delta p"
    and alloc: "n_allocations n' = n_allocations n"
    using change by (auto simp: rewires_def)
  note E = edges_rewired [OF change]
  have into: "children n' ident \<subseteq> children n ident"
    using parent unfolding children_def E by (auto simp: node_edges_def)
  have edge: "isSectionNode x \<and> \<not> NarrativeNodeState_IsTombstoned x" if "(i, p) \<in> edges n'" "narrativeNode n' p = Some x" for i p x
  proof (cases "p = ident")
    case True
    then have "children n ident \<noteq> {}" "x = w" using that into by (auto simp: children_def nodes)
    then show ?thesis using dead by blast
  next
    case False
    then have x: "narrativeNode n p = Some x" using that(2) by (simp add: nodes)
    show ?thesis
    proof (cases "(i, p) \<in> edges n")
      case True then show ?thesis using F(3,4) x by blast
    next
      case False then show ?thesis using that(1) parent [of p] x by (auto simp: E node_edges_def)
    qed
  qed
  have counted: "gm_get 0 (n_sectionChildren n') p = int (hidden p + card (children n' p))" if "narrativeNode n' p \<noteq> None" for p
  proof (cases "narrativeNode n p")
    case None
    then have "p = ident" "children n ident = {}" using that new by (auto simp: nodes split: if_splits)
    then show ?thesis using count [of p] counts [of p] F(6,7) [OF None] by simp
  next
    case (Some x)
    then show ?thesis using count [of p] counts [of p] F(5) [of p] by simp
  qed
  have fresh: "children n' (alloc_ID a) = {}"
    if "gm_lookup (n_allocations n') local = Some a" "narrativeNode n' (alloc_ID a) = None" for local a
  proof -
    have "narrativeNode n (alloc_ID a) = None" using that(2) by (simp add: nodes split: if_splits)
    then show ?thesis using that(1) F(9) [of local a] parent [of "alloc_ID a"]
      by (auto simp: alloc children_def E node_edges_def)
  qed
  have acyclic: "acyclic (edges n')"
  proof (cases "node_edges ident w = {}")
    case True
    then show ?thesis using F(10) unfolding E by (auto intro: acyclic_subset)
  next
    case False
    then obtain p where p: "node_edges ident w = {(ident, p)}" by (auto simp: node_edges_def)
    then have "(p, ident) \<notin> (edges n)\<^sup>*" using parent [of p] by simp
    then show ?thesis unfolding E p by (rule acyclic_rewired [OF F(10)])
  qed
  have ids: "NarrativeNodeState_ID x = i \<and> i \<noteq> ''''" if "narrativeNode n' i = Some x" for i x
    using that F(1) [of i x] F(2) ident(1,2) by (auto simp: nodes split: if_splits)
  have unknown: "gm_get 0 (n_sectionChildren n') p = 0 \<and> hidden p = 0" if "narrativeNode n' p = None" for p
    using that F(6,7) [of p] known [of p] by (simp add: nodes counts split: if_splits)
  have leaf: "hidden p = 0" if "narrativeNode n' p = Some x" "NarrativeNodeState_IsTombstoned x \<or> \<not> isSectionNode x" for p x
    using that F(8) [of p x] dead by (auto simp: nodes split: if_splits)
  show ?thesis unfolding forest_def
    by (intro conjI allI impI) (use ids edge counted unknown leaf fresh acyclic in \<open>blast+\<close>)
qed


text \<open>The ways a handler rewires: a new node, an updated one, a moved one and a removed one.\<close>

lemma children_rewired:
  assumes "rewires n n' ident w delta"
  shows "children n' p = (if (ident, p) \<in> node_edges ident w then insert ident (children n p) else children n p - {ident})"
  unfolding children_def edges_rewired [OF assms] by (auto simp: node_edges_def)

lemma card_children_rewired:
  assumes "rewires n n' ident w delta"
  shows "int (card (children n' p)) = int (card (children n p)) + (if (ident, p) \<in> node_edges ident w then 1 else 0)
    - (if (ident, p) \<in> edges n then 1 else 0)"
proof (cases "ident \<in> children n p")
  case True
  then have "(ident, p) \<in> edges n" by (simp add: children_def)
  moreover have "int (card (children n p - {ident})) = int (card (children n p)) - 1"
    using card_Suc_Diff1 [OF finite_children True] by simp
  ultimately show ?thesis using True by (simp add: children_rewired [OF assms] insert_absorb)
next
  case False
  then have "(ident, p) \<notin> edges n" by (simp add: children_def)
  then show ?thesis using False finite_children [of n p] by (simp add: children_rewired [OF assms])
qed

lemma no_path_into: "children n i = {} \<Longrightarrow> p \<noteq> i \<Longrightarrow> (p, i) \<notin> (edges n)\<^sup>*"
  by (auto simp: children_def elim: rtranclE)

lemma insert_forest:
  assumes forest: "forest hidden n" and change: "rewires n n' ident w (\<lambda>p. if p = parent then 1 else 0)"
    and w: "NarrativeNodeState_ID w = ident" "\<not> NarrativeNodeState_IsTombstoned w" "narrativeNodeParentPointer w = Some parent"
    and ident: "ident \<noteq> ''''" "narrativeNode n ident = None" "gm_lookup (n_allocations n) local = Some a" "ident = alloc_ID a"
    and parent: "narrativeNode n parent = Some (SectionNode s)" "\<not> sec_Tombstoned s"
  shows "forest hidden n'"
proof -
  have kids: "children n ident = {}" using forestD(9) [OF forest ident(3)] ident(2,4) by simp
  have "(ident, p) \<notin> edges n" for p using ident(2) by (simp add: edges_def)
  then have card: "int (card (children n' p)) = int (card (children n p)) + (if p = parent then 1 else 0)" for p
    using card_children_rewired [OF change, of p] w by (simp add: node_edges_def)
  have "parent \<noteq> ident" using ident(2) parent by auto
  then show ?thesis using parent ident kids w no_path_into [OF kids] forestD(7) [OF forest ident(2)]
    by (intro rewires_forest [OF forest change _ _ _ _ card]) (auto simp: node_edges_def isSectionNode_def)
qed

lemma update_forest:
  assumes forest: "forest hidden n" and change: "rewires n n' ident w (\<lambda>p. 0)"
    and w: "NarrativeNodeState_ID w = ident" "\<not> NarrativeNodeState_IsTombstoned w" "narrativeNodeParentPointer w = narrativeNodeParentPointer cur"
      "same_kind cur w"
    and cur: "narrativeNode n ident = Some cur" "\<not> NarrativeNodeState_IsTombstoned cur"
  shows "forest hidden n'"
proof -
  have "edges n' = edges n" unfolding edges_rewired [OF change] using w cur by (auto simp: edges_def node_edges_def)
  moreover have "isSectionNode w = isSectionNode cur" using w(4) by (cases cur; cases w) (auto simp: isSectionNode_def)
  ultimately show ?thesis using forest change w cur unfolding forest_def rewires_def children_def
    by simp
qed

lemma section_lookup: "narrativeNode n i = Some (SectionNode s) \<longleftrightarrow> gm_lookup (n_sections n) i = Some s"
  by (auto simp: narrativeNode_def node_of_maps_def split: option.splits)

lemma isSectionNode_iff: "isSectionNode w \<longleftrightarrow> (\<exists>s. w = SectionNode s)"
  by (cases w) (simp_all add: isSectionNode_def)

lemma edges_walk:
  assumes forest: "forest hidden n" and path: "(p, i) \<in> (edges n)\<^sup>*"
    and p: "\<exists>s. gm_lookup (n_sections n) p = Some s"
  shows "(p, i) \<in> (parent_of (n_sections n))\<^sup>*"
  using path p
proof (induction rule: converse_rtrancl_induct)
  case (step p q)
  have edge: "(p, q) \<in> parent_of (n_sections n)"
    using step.hyps(1) step.prems forestD(2) [OF forest] by (auto simp: edges_def parent_of_def narrativeNode_section)
  show ?case
  proof (cases "q = i")
    case False
    then obtain w where "narrativeNode n q = Some w" using step.hyps(2) by (auto elim: converse_rtranclE simp: edges_def)
    then have "\<exists>s. gm_lookup (n_sections n) q = Some s"
      using forestD(3) [OF forest step.hyps(1)] by (auto simp: isSectionNode_iff section_lookup)
    then show ?thesis using step.IH edge by (auto intro: converse_rtrancl_into_rtrancl)
  qed (use edge in auto)
qed simp

lemma leaf_children: "forest hidden n \<Longrightarrow> narrativeNode n i = Some w \<Longrightarrow> \<not> isSectionNode w \<Longrightarrow> children n i = {}"
  using forestD(3) by (fastforce simp: children_def)

lemma move_forest:
  assumes forest: "forest hidden n"
    and change: "rewires n n' ident w (\<lambda>p. (if p = parent then 1 else 0) - (if p = old then 1 else 0))"
    and w: "NarrativeNodeState_ID w = ident" "\<not> NarrativeNodeState_IsTombstoned w" "narrativeNodeParentPointer w = Some parent" "same_kind cur w"
    and cur: "narrativeNode n ident = Some cur" "\<not> NarrativeNodeState_IsTombstoned cur" "narrativeNodeParentPointer cur = Some old"
    and sections: "gm_lookup (n_sections n) parent = Some s" "\<not> sec_Tombstoned s" "gm_has (n_sections n) old"
    and walk: "isSectionNode cur \<Longrightarrow> \<not> sectionDescendsFrom parent ident n"
  shows "forest hidden n'"
proof -
  have ident: "ident \<noteq> ''''" using forestD(2) [OF forest] cur(1) by auto
  have kind: "isSectionNode w = isSectionNode cur" using w(4) by (cases cur; cases w) (auto simp: isSectionNode_def)
  have known: "narrativeNode n parent = Some (SectionNode s)" "narrativeNode n old \<noteq> None"
    using sections by (auto simp: section_lookup gm_has_def narrativeNode_section)
  have card: "int (card (children n' p)) = int (card (children n p)) + ((if p = parent then 1 else 0) - (if p = old then 1 else 0))" for p
  proof -
    have "(ident, p) \<in> edges n \<longleftrightarrow> p = old" using cur by (auto simp: edges_def)
    then show ?thesis using card_children_rewired [OF change, of p] w by (simp add: node_edges_def)
  qed
  have path: "(parent, ident) \<notin> (edges n)\<^sup>*"
  proof (cases "isSectionNode cur")
    case True
    then show ?thesis using walk descends_complete [of parent ident "n_sections n" "[]"] ident
        edges_walk [OF forest, of parent ident] sections(1) by (auto simp: sectionDescendsFrom_def)
  next
    case False
    then have "parent \<noteq> ident" using known(1) cur(1) by (auto simp: isSectionNode_iff)
    then show ?thesis by (rule no_path_into [OF leaf_children [OF forest cur(1) False]])
  qed
  show ?thesis
  proof (rule rewires_forest [OF forest change w(1) ident _ _ card])
    show "narrativeNode n ident = Some cur \<Longrightarrow> same_kind cur w" by (rule w(4))
    show "(p, ident) \<notin> (edges n)\<^sup>* \<and> (\<exists>s. narrativeNode n p = Some s \<and> isSectionNode s \<and> \<not> NarrativeNodeState_IsTombstoned s)"
      if "(ident, p) \<in> node_edges ident w" for p
      using that w(3) path known(1) sections(2) by (auto simp: node_edges_def isSectionNode_def)
    show "hidden ident = 0 \<and> children n ident = {}" if "NarrativeNodeState_IsTombstoned w \<or> \<not> isSectionNode w"
      using that w(2) kind leaf_children [OF forest cur(1)] forestD(8) [OF forest cur(1)] by simp
  qed (use known cur in auto)
qed

lemma remove_forest:
  assumes forest: "forest hidden n" and change: "rewires n n' ident w (\<lambda>p. if p = parent then - 1 else 0)"
    and w: "NarrativeNodeState_ID w = ident" "NarrativeNodeState_IsTombstoned w" "same_kind cur w"
    and cur: "narrativeNode n ident = Some cur" "\<not> NarrativeNodeState_IsTombstoned cur" "narrativeNodeParentPointer cur = Some parent"
    and known: "gm_has (n_sections n) parent"
    and empty: "isSectionNode cur \<Longrightarrow> gm_get 0 (n_sectionChildren n) ident = 0"
  shows "forest hidden n'"
proof -
  have "(ident, p) \<in> edges n \<longleftrightarrow> p = parent" for p using cur by (auto simp: edges_def)
  then have card: "int (card (children n' p)) = int (card (children n p)) + (if p = parent then - 1 else 0)" for p
    using card_children_rewired [OF change, of p] w by (simp add: node_edges_def)
  have leaf: "hidden ident = 0 \<and> children n ident = {}"
  proof (cases "isSectionNode cur")
    case True
    then have "int (hidden ident + card (children n ident)) = 0" using empty forestD(5) [OF forest, of ident] cur(1) by simp
    then have "hidden ident = 0" "card (children n ident) = 0" by linarith+
    then show ?thesis using finite_children [of n ident] by simp
  qed (use leaf_children [OF forest cur(1)] forestD(8) [OF forest cur(1)] in simp)
  show ?thesis
    by (rule rewires_forest [OF forest change w(1) _ _ _ card])
      (use leaf w cur known forestD(2) [OF forest] in \<open>auto simp: node_edges_def gm_has_def narrativeNode_section\<close>)
qed

lemma written_node:
  assumes "NarrativeNodeState_ID w = ident" "\<And>cur. narrativeNode n ident = Some cur \<Longrightarrow> same_kind cur w"
  shows "narrativeNode (putEntity ident (PutNarrativeNode w) undo n) = (narrativeNode n)(ident \<mapsto> w)"
  using narrativeNode_set [of n w] assms by (simp add: putEntity_def appendOperation_def)

lemma narrative_frame [simp]:
  "narrativeNode (addChange c n) = narrativeNode n" "n_allocations (addChange c n) = n_allocations n"
  "n_sectionChildren (addChange c n) = n_sectionChildren n" "n_input (addChange c n) = n_input n"
  "narrativeNode (addChildren i k n) = narrativeNode n" "n_allocations (addChildren i k n) = n_allocations n"
  "n_input (addChildren i k n) = n_input n"
  "n_sectionChildren (addChildren i k n) = gm_set (n_sectionChildren n) i (gm_get 0 (n_sectionChildren n) i + k)"
  "narrativeNode (markNarrativeParentChanged i n) = narrativeNode n" "n_allocations (markNarrativeParentChanged i n) = n_allocations n"
  "n_sectionChildren (markNarrativeParentChanged i n) = n_sectionChildren n" "n_input (markNarrativeParentChanged i n) = n_input n"
  "n_allocations (putEntity i e u n) = n_allocations n" "n_sectionChildren (putEntity i e u n) = n_sectionChildren n"
  "n_input (putEntity i e u n) = n_input n"
  by (simp_all add: addChange_def addChildren_def markNarrativeParentChanged_def putEntity_def appendOperation_def split: option.splits)

lemma parent_section:
  assumes "forest hidden n" "requireNarrativeParent i n = Inr p"
  shows "gm_lookup (n_sections n) i = Some p" "\<not> sec_Tombstoned p" "sec_ID p = i"
  using assms(2) forestD(1) [OF assms(1), of i "SectionNode p"] by (auto elim!: requireNarrativeParentE simp: narrativeNode_section)

lemma insertNarrativeNode_forest:
  assumes n: "forest hidden n" and run: "insertNarrativeNode operation n = Inr n'"
  shows "forest hidden n'"
  using run unfolding insertNarrativeNode_def Let_def
proof (elim andThenE checkE, goal_cases)
  case (1 createAs allocation ident m parentID parent after state revision)
  have m: "m = n\<lparr>n_touched := gm_set (n_touched n) (entityKey EntityNarrativeNode ident) ()\<rparr>" using 1 by (auto simp: markTouched_Inr)
  have none: "narrativeNode n ident = None" using 1 by (simp add: narrativeNodeExists_def)
  have ident: "ident = alloc_ID allocation" "ident \<noteq> ''''" "gm_lookup (n_allocations n) createAs = Some allocation"
    using 1 by (auto simp: go_result ParseID_Inr isUUIDv7_def allocated_def)
  have "requireNarrativeParent parentID n = Inr parent" using 1 by (simp add: m)
  note parent = parent_section [OF n this]
  note state = newNarrativeNode_state [OF 1(10)]
  have node: "narrativeNode n' = (narrativeNode n)(ident \<mapsto> state)"
    using 1(12) written_node [OF state(1), of m] none by (auto simp: m)
  then have "rewires n n' ident state (\<lambda>p. if p = sec_ID parent then 1 else 0)"
    using 1(12) by (auto simp: rewires_def m)
  then show ?case
    by (rule insert_forest [OF n _ state(1,3,4) ident(2) none ident(3,1)])
      (use parent in \<open>simp_all add: narrativeNode_section\<close>)
qed

lemma updateNarrativeNode_forest:
  assumes n: "forest hidden n" and run: "updateNarrativeNode operation n = Inr n'"
  shows "forest hidden n'"
  using run unfolding updateNarrativeNode_def Let_def
proof (elim andThenE checkE, goal_cases)
  case (1 ident current m u revision next_state undone)
  have m: "m = n\<lparr>n_touched := gm_set (n_touched n) (entityKey EntityNarrativeNode ident) ()\<rparr>" using 1 by (auto simp: markTouched_Inr)
  have cur: "narrativeNode n ident = Some current" "NarrativeNodeState_ID current = ident" "\<not> NarrativeNodeState_IsTombstoned current"
    using 1 forestD(1) [OF n] by (auto simp: go_result)
  note state = updatedNarrativeNode_state [OF 1(8)]
  have node: "narrativeNode n' = (narrativeNode n)(ident \<mapsto> next_state)"
    using 1(10) written_node [of next_state ident "m\<lparr>n_parentChanges := gm_delete (n_parentChanges m) ident\<rparr>"] cur state by (auto simp: m)
  have change: "rewires n n' ident next_state (\<lambda>p. 0)" using node 1(10) by (auto simp: rewires_def m)
  show ?case by (rule update_forest [OF n change _ _ _ _ cur(1,3)]) (use state cur in simp_all)
qed

lemma moveNarrativeNode_forest:
  assumes n: "forest hidden n" and run: "moveNarrativeNode operation n = Inr n'"
  shows "forest hidden n'"
  using run unfolding moveNarrativeNode_def Let_def
proof (elim andThenE checkE, goal_cases)
  case (1 ident current oldParentID m u oldParent parentID newParent after revision undone)
  have m: "m = n\<lparr>n_touched := gm_set (n_touched n) (entityKey EntityNarrativeNode ident) ()\<rparr>" using 1 by (auto simp: markTouched_Inr)
  have cur: "narrativeNode n ident = Some current" "NarrativeNodeState_ID current = ident" "\<not> NarrativeNodeState_IsTombstoned current"
    "narrativeNodeParentPointer current = Some oldParentID"
    using 1 forestD(1) [OF n] by (auto simp: go_result)
  have parents: "requireNarrativeParent oldParentID n = Inr oldParent" "requireNarrativeParent parentID n = Inr newParent"
    using 1 by (simp_all add: m go_result)
  note old = parent_section [OF n parents(1)] and new = parent_section [OF n parents(2)]
  define w where "w = narrativeNodeMoved current (sec_ID newParent) after revision"
  have node: "narrativeNode n' = (narrativeNode n)(ident \<mapsto> w)"
    using 1(16) written_node [of w ident "m\<lparr>n_parentChanges := gm_delete (n_parentChanges m) ident\<rparr>"] cur
    by (auto simp: m w_def split: if_splits)
  have change: "rewires n n' ident w (\<lambda>p. (if p = sec_ID newParent then 1 else 0) - (if p = oldParentID then 1 else 0))"
    using node 1(16) old by (auto simp: rewires_def m split: if_splits)
  show ?case
    by (rule move_forest [OF n change _ _ _ _ cur(1,3,4), where s = newParent])
      (use 1(13) old new cur in \<open>auto simp: w_def m sectionDescendsFrom_def gm_has_def\<close>)
qed

lemma removeNarrativeNode_forest:
  assumes n: "forest hidden n" and run: "removeNarrativeNode operation n = Inr n'"
  shows "forest hidden n'"
  using run unfolding removeNarrativeNode_def Let_def
proof (elim andThenE checkE, goal_cases)
  case (1 ident current parentID m u parent revision undone)
  have m: "m = n\<lparr>n_touched := gm_set (n_touched n) (entityKey EntityNarrativeNode ident) ()\<rparr>" using 1 by (auto simp: markTouched_Inr)
  have cur: "narrativeNode n ident = Some current" "NarrativeNodeState_ID current = ident" "\<not> NarrativeNodeState_IsTombstoned current"
    "narrativeNodeParentPointer current = Some parentID"
    using 1 forestD(1) [OF n] by (auto simp: go_result)
  have "requireNarrativeParent parentID n = Inr parent" using 1 by (simp add: m)
  note parent = parent_section [OF n this]
  define w where "w = narrativeNodeWithRevisionAndTombstone current revision True"
  have node: "narrativeNode n' = (narrativeNode n)(ident \<mapsto> w)"
    using 1(11) written_node [of w ident "m\<lparr>n_parentChanges := gm_delete (n_parentChanges m) ident\<rparr>"] cur
    by (auto simp: m w_def)
  have change: "rewires n n' ident w (\<lambda>p. if p = parentID then - 1 else 0)"
    using node 1(11) parent by (auto simp: rewires_def m)
  show ?case
    by (rule remove_forest [OF n change _ _ _ cur(1,3,4)]) (use 1(5) parent cur in \<open>auto simp: w_def gm_has_def\<close>)
qed

end
