(* ===== verification/Normalize_Transcript.thy ===== *)
theory Normalize_Transcript
  imports Normalize_Narrative
begin

text \<open>
  Transcript corrections and source excerpts: \<^verbatim>\<open>edit_normalize_transcript.go\<close>. A span of a
  transcript is a run of consecutive segments whose tokens tile a source range; its effective text
  is the text of the tokens with the corrections applied.
\<close>

section \<open>Comparisons whose errors are discarded\<close>

definition compareOrZero :: "rational_time \<Rightarrow> rational_time \<Rightarrow> int" where
  "compareOrZero a b = (case RationalTime_Compare a b of Inl _ \<Rightarrow> 0 | Inr c \<Rightarrow> c)"

definition endOrZero :: "time_range \<Rightarrow> rational_time" where
  "endOrZero r = (case TimeRange_End r of Inl _ \<Rightarrow> zero_rational_time | Inr t \<Rightarrow> t)"

section \<open>Spans\<close>

record evidence_token =
  evt_segmentOrdinal :: uint32
  evt_token :: transcript_token

definition addSegment :: "edit_artifact_state \<Rightarrow> TranscriptSegmentID \<Rightarrow> edit_segment_state list \<times> TranscriptSegmentID list \<Rightarrow>
    edit_error + edit_segment_state list \<times> TranscriptSegmentID list" where
  "addSegment artifact ident accumulated =
    (let (segments, seen) = accumulated in
    andThen (fetch (art_Segments artifact) ident) (\<lambda>segment.
    if ID_IsZero ident then Inl ErrEditInvalid
    else if ident \<in> set seen then Inl ErrEditInvalid
    else if segments \<noteq> [] \<and> seg_Ordinal segment \<noteq> seg_Ordinal (last segments) + 1 then Inl ErrEditInvalid
    else Inr (segments @ [segment], seen @ [ident])))"

text \<open>Whether a token lies in the range; one that straddles a boundary is refused.\<close>

definition tokenInside :: "time_range \<Rightarrow> rational_time \<Rightarrow> transcript_token \<Rightarrow> edit_error + bool" where
  "tokenInside rangeValue rangeEnd token =
    andThen (orError ErrEditInvalid (TimeRange_End (tok_SourceRange token))) (\<lambda>tokenEnd.
    andThen (orError ErrEditInvalid (RationalTime_Compare (tr_Start (tok_SourceRange token)) rangeEnd)) (\<lambda>startsBeforeEnd.
    andThen (orError ErrEditInvalid (RationalTime_Compare tokenEnd (tr_Start rangeValue))) (\<lambda>endsAfterStart.
    if startsBeforeEnd \<ge> 0 \<or> endsAfterStart \<le> 0 then Inr False
    else if compareOrZero (tr_Start (tok_SourceRange token)) (tr_Start rangeValue) < 0 \<or> compareOrZero tokenEnd rangeEnd > 0
    then Inl ErrEditInvalid
    else Inr True)))"

definition addToken :: "time_range \<Rightarrow> rational_time \<Rightarrow> uint32 \<Rightarrow> transcript_token \<Rightarrow> evidence_token list \<Rightarrow>
    edit_error + evidence_token list" where
  "addToken rangeValue rangeEnd ordinal token tokens =
    andThen (tokenInside rangeValue rangeEnd token) (\<lambda>inside.
    Inr (if inside then tokens @ [\<lparr>evt_segmentOrdinal = ordinal, evt_token = token\<rparr>] else tokens))"

definition addTokens :: "time_range \<Rightarrow> rational_time \<Rightarrow> edit_segment_state \<Rightarrow> evidence_token list \<Rightarrow>
    edit_error + evidence_token list" where
  "addTokens rangeValue rangeEnd segment tokens =
    forEach (addToken rangeValue rangeEnd (seg_Ordinal segment)) (seg_Tokens segment) tokens"

definition transcriptEvidenceSpan :: "edit_artifact_state \<Rightarrow> TranscriptSegmentID list \<Rightarrow> time_range \<Rightarrow>
    edit_error + edit_segment_state list \<times> evidence_token list" where
  "transcriptEvidenceSpan artifact ids rangeValue =
    (if ids = [] \<or> length ids > 256 \<or> \<not> isOk (RationalTime_Validate (tr_Start rangeValue)) \<or>
        \<not> isOk (RationalTime_Validate (tr_Duration rangeValue)) \<or> \<not> RationalTime_IsPositive (tr_Duration rangeValue)
     then Inl ErrEditInvalid else
    andThen (forEach (addSegment artifact) ids ([], [])) (\<lambda>(segments, seen).
    andThen (orError ErrEditInvalid (TimeRange_End rangeValue)) (\<lambda>rangeEnd.
    andThen (forEach (addTokens rangeValue rangeEnd) segments []) (\<lambda>tokens.
    if tokens = [] then Inl ErrEditInvalid
    else if compareOrZero (tr_Start (tok_SourceRange (evt_token (hd tokens)))) (tr_Start rangeValue) \<noteq> 0 \<or>
        compareOrZero (endOrZero (tok_SourceRange (evt_token (last tokens)))) rangeEnd \<noteq> 0 then Inl ErrEditInvalid
    else if \<not> list_all (\<lambda>segment. list_ex (\<lambda>t. evt_segmentOrdinal t = seg_Ordinal segment) tokens) segments
    then Inl ErrEditInvalid
    else Inr (segments, tokens)))))"

definition transcriptSegmentIDs :: "edit_segment_state list \<Rightarrow> TranscriptSegmentID list" where
  "transcriptSegmentIDs segments = map seg_ID segments"

section \<open>Corrections\<close>

definition transcriptRangeContains :: "time_range \<Rightarrow> time_range \<Rightarrow> bool" where
  "transcriptRangeContains parent child =
    (case andThen (TimeRange_End parent) (\<lambda>parentEnd.
      andThen (TimeRange_End child) (\<lambda>childEnd.
      andThen (RationalTime_Compare (tr_Start child) (tr_Start parent)) (\<lambda>startComparison.
      andThen (RationalTime_Compare childEnd parentEnd) (\<lambda>endComparison.
      Inr (startComparison \<ge> 0 \<and> endComparison \<le> 0))))) of Inl _ \<Rightarrow> False | Inr holds \<Rightarrow> holds)"

definition transcriptCorrectionOverlaps :: "(string, correction_state) gomap \<Rightarrow> ArtifactID \<Rightarrow> CaptionLanguage \<Rightarrow>
    time_range \<Rightarrow> string \<Rightarrow> bool" where
  "transcriptCorrectionOverlaps corrections artifactID language rangeValue excluded =
    list_ex (\<lambda>(ident, correction). ident \<noteq> excluded \<and> \<not> cor_Tombstoned correction \<and> cor_ArtifactID correction = artifactID \<and>
      cor_Language correction = language \<and> rangesOverlap (cor_SourceRange correction) rangeValue) (gm_entries corrections)"

definition correctionRevisionRefs :: "correction_state list \<Rightarrow> correction_ref list" where
  "correctionRevisionRefs corrections = map (\<lambda>c. \<lparr>cref_ID = cor_ID c, cref_Revision = cor_Revision c\<rparr>) corrections"

definition startsBefore :: "correction_state \<Rightarrow> correction_state \<Rightarrow> bool" where
  "startsBefore left right \<longleftrightarrow> compareOrZero (tr_Start (cor_SourceRange left)) (tr_Start (cor_SourceRange right)) < 0"

definition provideCorrection :: "edit_normalizer \<Rightarrow> correction_reference_input \<Rightarrow> (string, revision) gomap \<Rightarrow>
    edit_error + (string, revision) gomap" where
  "provideCorrection n reference provided =
    andThen (orError ErrEditInvalid (resolveReference (cri_Correction reference) EntityTranscriptCorrection n)) (\<lambda>value.
    andThen (fetch (n_corrections n) value) (\<lambda>correction.
    if cor_Tombstoned correction then Inl ErrEditInvalid else
    andThen (if ref_ID (cri_Correction reference) \<noteq> '''' then
        (if cri_Revision reference \<noteq> Some (cor_Revision correction) then Inl EditConflict
         else require EntityTranscriptCorrection value (cor_Revision correction) n)
      else if cri_Revision reference \<noteq> None then Inl ErrEditInvalid else Inr ()) (\<lambda>_.
    if gm_has provided value then Inl ErrEditInvalid
    else Inr (gm_set provided value (cor_Revision correction)))))"

definition takeCorrection :: "ArtifactID \<Rightarrow> CaptionLanguage \<Rightarrow> time_range \<Rightarrow> string \<times> correction_state \<Rightarrow>
    correction_state list \<times> (string, revision) gomap \<Rightarrow> edit_error + correction_state list \<times> (string, revision) gomap" where
  "takeCorrection artifactID language rangeValue item accumulated =
    (let (ident, correction) = item; (result, provided) = accumulated in
     if cor_Tombstoned correction \<or> cor_ArtifactID correction \<noteq> artifactID \<or> cor_Language correction \<noteq> language \<or>
       \<not> rangesOverlap (cor_SourceRange correction) rangeValue then Inr accumulated
     else if \<not> transcriptRangeContains rangeValue (cor_SourceRange correction) \<or> gm_get 0 provided ident \<noteq> cor_Revision correction
     then Inl ErrEditInvalid
     else Inr (result @ [correction], gm_delete provided ident))"

fun neighboursOverlap :: "correction_state list \<Rightarrow> bool" where
  "neighboursOverlap (a # b # rest) = (rangesOverlap (cor_SourceRange a) (cor_SourceRange b) \<or> neighboursOverlap (b # rest))"
| "neighboursOverlap _ = False"

definition collectCorrections :: "ArtifactID \<Rightarrow> CaptionLanguage \<Rightarrow> time_range \<Rightarrow> (string, correction_state) gomap \<Rightarrow>
    (string, revision) gomap \<Rightarrow> edit_error + correction_state list" where
  "collectCorrections artifactID language rangeValue corrections provided =
    andThen (forEach (takeCorrection artifactID language rangeValue) (gm_entries corrections) ([], provided)) (\<lambda>(found, provided).
    if gm_size provided \<noteq> 0 then Inl ErrEditInvalid else
    let result = sort_slice startsBefore found in
    if neighboursOverlap result then Inl ErrEditInvalid else Inr result)"

definition sourceExcerptCorrections :: "ArtifactID \<Rightarrow> CaptionLanguage \<Rightarrow> time_range \<Rightarrow> correction_reference_input list \<Rightarrow>
    edit_normalizer \<Rightarrow> edit_error + correction_state list" where
  "sourceExcerptCorrections artifactID language rangeValue references n =
    andThen (forEach (provideCorrection n) references []) (\<lambda>provided.
    collectCorrections artifactID language rangeValue (n_corrections n) provided)"

section \<open>Effective text\<close>

definition needsTranscriptSpace :: "string \<Rightarrow> string \<Rightarrow> bool" where
  "needsTranscriptSpace existing addition =
    (if existing = '''' \<or> addition = '''' then False
     else let left = fst (DecodeLastRune existing); right = fst (DecodeRune addition) in
       \<not> IsSpace left \<and> \<not> IsSpace right \<and> \<not> IsPunct right)"

definition appendTranscriptText :: "string \<Rightarrow> string \<Rightarrow> bool \<Rightarrow> string" where
  "appendTranscriptText result value ensureBoundary =
    (if length result > 0 \<and> ensureBoundary \<and> needsTranscriptSpace result value then result @ '' '' else result) @ value"

abbreviation token_start :: "evidence_token \<Rightarrow> rational_time" where
  "token_start t \<equiv> tr_Start (tok_SourceRange (evt_token t))"

fun effectiveTokens :: "nat \<Rightarrow> evidence_token list \<Rightarrow> correction_state list \<Rightarrow> rational_time option \<Rightarrow> uint32 \<Rightarrow> string \<Rightarrow>
    edit_error + string \<times> correction_state list" where
  "effectiveTokens index [] corrections skippedUntil previousSegment result = Inr (result, corrections)"
| "effectiveTokens index (current # tokens) corrections skippedUntil previousSegment result =
    (if (case skippedUntil of None \<Rightarrow> False | Some until \<Rightarrow> compareOrZero (token_start current) until < 0)
     then effectiveTokens (Suc index) tokens corrections skippedUntil previousSegment result
     else if corrections \<noteq> [] \<and> compareOrZero (token_start current) (tr_Start (cor_SourceRange (hd corrections))) = 0
     then effectiveTokens (Suc index) tokens (tl corrections) (Some (endOrZero (cor_SourceRange (hd corrections))))
       (evt_segmentOrdinal current) (appendTranscriptText result (cor_ReplacementText (hd corrections)) (index > 0))
     else if corrections \<noteq> [] \<and> compareOrZero (token_start current) (tr_Start (cor_SourceRange (hd corrections))) > 0
     then Inl ErrEditInvalid
     else effectiveTokens (Suc index) tokens corrections None (evt_segmentOrdinal current)
       (appendTranscriptText result (tok_Text (evt_token current)) (index > 0 \<and> evt_segmentOrdinal current \<noteq> previousSegment)))"

definition effectiveTranscriptText :: "evidence_token list \<Rightarrow> correction_state list \<Rightarrow> edit_error + string" where
  "effectiveTranscriptText tokens corrections =
    andThen (effectiveTokens 0 tokens corrections None 0 '''') (\<lambda>(result, unused).
    if unused \<noteq> [] then Inl ErrEditInvalid
    else let value = TrimSpace result in
      if value = '''' \<or> length value > MaximumAuthoredTextBytes then Inl ErrEditInvalid else Inr value)"

definition ResolveTranscriptEvidenceText :: "edit_artifact_state \<Rightarrow> TranscriptSegmentID list \<Rightarrow> time_range \<Rightarrow>
    correction_state list \<Rightarrow> edit_error + string" where
  "ResolveTranscriptEvidenceText artifact segmentIDs rangeValue corrections =
    andThen (transcriptEvidenceSpan artifact segmentIDs rangeValue) (\<lambda>(_, tokens).
    effectiveTranscriptText tokens (sort_slice startsBefore corrections))"

section \<open>The handlers\<close>

definition addTranscriptCorrection :: "edit_operation \<Rightarrow> edit_normalizer \<Rightarrow> edit_error + edit_normalizer" where
  "addTranscriptCorrection operation n =
    andThen (deref (op_CreateAs operation)) (\<lambda>createAs.
    andThen (allocated createAs EntityTranscriptCorrection n) (\<lambda>allocation.
    let ident = parseOrZero (alloc_ID allocation) in
    if gm_has (n_corrections n) ident then Inl ErrEditInvalid else
    andThen (markTouched EntityTranscriptCorrection ident n) (\<lambda>n.
    andThen (deref (op_TranscriptArtifactID operation)) (\<lambda>artifactID.
    andThen (fetch (st_TranscriptArtifacts (n_state n)) artifactID) (\<lambda>artifact.
    andThen (deref (op_AssetID operation)) (\<lambda>assetID.
    if art_AssetID artifact \<noteq> assetID then Inl ErrEditInvalid else
    andThen (deref (op_SourceRange operation)) (\<lambda>sourceRange.
    andThen (orError ErrEditInvalid (transcriptEvidenceSpan artifact (op_TranscriptSegmentIDs operation) sourceRange)) (\<lambda>(segments, _).
    andThen (deref (op_Language operation)) (\<lambda>language.
    if transcriptCorrectionOverlaps (n_corrections n) (art_ID artifact) language sourceRange '''' then Inl ErrEditInvalid else
    andThen (deref (op_Text operation)) (\<lambda>content.
    andThen (mustNext 1) (\<lambda>undone.
    let state = \<lparr>cor_ID = ident, cor_Revision = 1, cor_AssetID = art_AssetID artifact, cor_ArtifactID = art_ID artifact,
          cor_SegmentIDs = transcriptSegmentIDs segments, cor_SourceRange = sourceRange, cor_ReplacementText = content,
          cor_Language = language, cor_Tombstoned = False\<rparr>;
        n = putEntity ident (PutTranscriptCorrection state)
          (PutTranscriptCorrection (state\<lparr>cor_Revision := undone, cor_Tombstoned := True\<rparr>)) n
    in Inr (addChange (newEntityChange EntityTranscriptCorrection ident 1 False) n))))))))))))"

definition updateTranscriptCorrection :: "edit_operation \<Rightarrow> bool \<Rightarrow> edit_normalizer \<Rightarrow> edit_error + edit_normalizer" where
  "updateTranscriptCorrection operation remove n =
    andThen (deref (op_TranscriptCorrectionID operation)) (\<lambda>correctionID.
    andThen (fetch (n_corrections n) correctionID) (\<lambda>current.
    if cor_Tombstoned current then Inl ErrEditInvalid else
    andThen (markTouched EntityTranscriptCorrection (cor_ID current) n) (\<lambda>n.
    andThen (require EntityTranscriptCorrection (cor_ID current) (cor_Revision current) n) (\<lambda>_.
    andThen (mustNext (cor_Revision current)) (\<lambda>revision.
    andThen (if remove then Inr (current\<lparr>cor_Revision := revision, cor_Tombstoned := True\<rparr>) else
      andThen (deref (op_Text operation)) (\<lambda>content.
      andThen (deref (op_Language operation)) (\<lambda>language.
      if transcriptCorrectionOverlaps (n_corrections n) (cor_ArtifactID current) language (cor_SourceRange current) (cor_ID current)
      then Inl ErrEditInvalid
      else Inr (current\<lparr>cor_Revision := revision, cor_ReplacementText := content, cor_Language := language\<rparr>)))) (\<lambda>next_state.
    andThen (mustNext revision) (\<lambda>undone.
    let n = putEntity (cor_ID current) (PutTranscriptCorrection next_state)
          (PutTranscriptCorrection (current\<lparr>cor_Revision := undone\<rparr>)) n
    in Inr (addChange (existingEntityChange EntityTranscriptCorrection (cor_ID current) (cor_Revision current) revision remove) n))))))))"

definition insertSourceExcerpt :: "edit_operation \<Rightarrow> edit_normalizer \<Rightarrow> edit_error + edit_normalizer" where
  "insertSourceExcerpt operation n =
    andThen (deref (op_CreateAs operation)) (\<lambda>createAs.
    andThen (allocated createAs EntityNarrativeNode n) (\<lambda>allocation.
    let ident = parseOrZero (alloc_ID allocation) in
    if gm_has (n_sourceExcerpts n) ident \<or> narrativeNodeExists n ident then Inl ErrEditInvalid else
    andThen (markTouched EntityNarrativeNode ident n) (\<lambda>n.
    andThen (deref (op_ParentID operation)) (\<lambda>parentID.
    andThen (requireNarrativeParent parentID n) (\<lambda>parent.
    andThen (resolveNarrativeNodeReference (op_After operation) n) (\<lambda>after.
    if (case after of None \<Rightarrow> False | Some a \<Rightarrow> narrativeNodeParent n a \<noteq> sec_ID parent) then Inl ErrEditInvalid else
    andThen (deref (op_TranscriptArtifactID operation)) (\<lambda>artifactID.
    andThen (fetch (st_TranscriptArtifacts (n_state n)) artifactID) (\<lambda>artifact.
    andThen (deref (op_AssetID operation)) (\<lambda>assetID.
    if art_AssetID artifact \<noteq> assetID then Inl ErrEditInvalid else
    andThen (deref (op_AcceptedFingerprint operation)) (\<lambda>fingerprint.
    if art_Fingerprint artifact \<noteq> fingerprint then Inl ErrEditInvalid else
    andThen (deref (op_SourceRange operation)) (\<lambda>sourceRange.
    andThen (transcriptEvidenceSpan artifact (op_TranscriptSegmentIDs operation) sourceRange) (\<lambda>(segments, tokens).
    andThen (deref (op_Language operation)) (\<lambda>language.
    andThen (sourceExcerptCorrections (art_ID artifact) language sourceRange (op_CorrectionRevisions operation) n) (\<lambda>corrections.
    andThen (effectiveTranscriptText tokens corrections) (\<lambda>effectiveText.
    andThen (mustNext 1) (\<lambda>undone.
    let state = \<lparr>exc_ID = ident, exc_Revision = 1, exc_DocumentID = sec_DocumentID parent, exc_ParentID = sec_ID parent,
          exc_AfterNodeID = after, exc_AssetID = art_AssetID artifact, exc_AcceptedFingerprint = art_Fingerprint artifact,
          exc_SourceRange = sourceRange, exc_Language = language, exc_EffectiveText = effectiveText,
          exc_Evidence = \<lparr>ev_ArtifactID = art_ID artifact, ev_SourceStreamID = art_SourceStreamID artifact,
            ev_SegmentIDs = transcriptSegmentIDs segments, ev_CorrectionRevisions = correctionRevisionRefs corrections\<rparr>,
          exc_Tombstoned = False\<rparr>;
        n = putEntity ident (PutNarrativeNode (SourceExcerptNode state))
          (PutNarrativeNode (SourceExcerptNode (state\<lparr>exc_Revision := undone, exc_Tombstoned := True\<rparr>))) n;
        n = addChange (newEntityChange EntityNarrativeNode ident 1 False) n;
        n = markNarrativeParentChanged (sec_ID parent) (n\<lparr>n_narrativeChanged := True\<rparr>)
    in Inr (addChildren (sec_ID parent) 1 n)))))))))))))))))"

section \<open>The handlers take steps of the log machine\<close>

lemma addTranscriptCorrection_advances:
  assumes n: "running n" and run: "addTranscriptCorrection operation n = Inr n'"
  shows "advances n n'"
  using run unfolding addTranscriptCorrection_def Let_def
proof (elim andThenE casePairE checkE, goal_cases)
  case (1 createAs allocation m artifactID artifact assetID sourceRange span segments tokens language content undone)
  let ?i = "parseOrZero (alloc_ID allocation)"
  have mk: "marked (EntityTranscriptCorrection, ?i) n m" using 1 n by (intro markTouched_marked) simp_all
  have "input_store (n_state n) (EntityTranscriptCorrection, ?i) = None"
    using 1 by (intro untouched_new [OF n mk]) (simp add: gm_has_def)
  then show ?case using 1 by (auto simp: mustNext_Inr intro!: marked_create [OF n mk])
qed

lemma updateTranscriptCorrection_advances:
  assumes n: "running n" and run: "updateTranscriptCorrection operation remove n = Inr n'"
  shows "advances n n'"
  using run unfolding updateTranscriptCorrection_def Let_def
proof (elim andThenE checkE, goal_cases)
  case (1 correctionID current m u revision next_state undone)
  have mk: "marked (EntityTranscriptCorrection, cor_ID current) n m" using 1 n by (intro markTouched_marked) simp_all
  have cur: "gm_lookup (n_corrections n) (cor_ID current) = Some current"
    using 1 running_correction_ID [OF n] by (simp add: go_result)
  have "conds n (EntityTranscriptCorrection, cor_ID current) = Some (cor_Revision current)"
    using 1 marked_conds [OF mk] by (simp add: go_result)
  moreover have "cor_ID next_state = cor_ID current" "cor_Revision next_state = revision" "cor_Tombstoned next_state = remove"
    using 1 by (auto split: if_splits)
  ultimately show ?case using 1 mk cur
    by (auto simp: mustNext_Inr intro!: marked_replace [OF n, where cur = "PutTranscriptCorrection current"])
qed

lemma insertSourceExcerpt_advances:
  assumes n: "running n" and run: "insertSourceExcerpt operation n = Inr n'"
  shows "advances n n'"
  using run unfolding insertSourceExcerpt_def Let_def
proof (elim andThenE casePairE checkE, goal_cases)
  case (1 createAs allocation m parentID parent after artifactID artifact assetID fingerprint sourceRange span segments tokens
      language corrections effectiveText undone)
  let ?i = "parseOrZero (alloc_ID allocation)"
  have mk: "marked (EntityNarrativeNode, ?i) n m" and m: "m = n\<lparr>n_touched := gm_set (n_touched n) (entityKey EntityNarrativeNode ?i) ()\<rparr>"
    using 1 n by (auto intro: markTouched_marked simp: markTouched_Inr)
  have none: "narrativeNode n ?i = None" using 1 by (simp add: narrativeNodeExists_def)
  have parent: "requireNarrativeParent parentID n = Inr parent" using 1 by (simp add: m)
  have "input_store (n_state n) (EntityNarrativeNode, ?i) = None" using none by (intro untouched_new [OF n mk]) simp
  then show ?case using 1 none
    by (auto simp: mustNext_Inr puts_def m [symmetric] intro!: advances_parent_changed [OF n _ parent] marked_create [OF n mk])
      (simp_all add: m)
qed

lemma parseOrZero_ok: "isOk (ParseID s) \<Longrightarrow> parseOrZero s = s \<and> s \<noteq> ''''"
proof -
  assume "isOk (ParseID s)"
  then obtain i where i: "ParseID s = Inr i" by (auto simp: isOk_iff)
  then have "isUUIDv7 s" "i = s" by (simp_all add: ParseID_Inr)
  then show ?thesis using i by (auto simp: parseOrZero_def isUUIDv7_def)
qed

lemma insertSourceExcerpt_forest:
  assumes n: "forest hidden n" and run: "insertSourceExcerpt operation n = Inr n'"
    and parsed: "\<And>local a. gm_lookup (n_allocations n) local = Some a \<Longrightarrow> isOk (ParseID (alloc_ID a))"
  shows "forest hidden n'"
  using run unfolding insertSourceExcerpt_def Let_def
proof (elim andThenE casePairE checkE, goal_cases)
  case (1 createAs allocation m parentID parent after artifactID artifact assetID fingerprint sourceRange span segments tokens
      language corrections effectiveText undone)
  define ident where "ident = parseOrZero (alloc_ID allocation)"
  have m: "m = n\<lparr>n_touched := gm_set (n_touched n) (entityKey EntityNarrativeNode ident) ()\<rparr>"
    using 1 by (auto simp: markTouched_Inr ident_def)
  have none: "narrativeNode n ident = None" using 1 by (simp add: narrativeNodeExists_def ident_def)
  have alloc: "gm_lookup (n_allocations n) createAs = Some allocation" using 1 by (auto simp: go_result allocated_def)
  then have ident: "ident = alloc_ID allocation" "ident \<noteq> ''''"
    using parseOrZero_ok [OF parsed [OF alloc]] by (simp_all add: ident_def)
  have "requireNarrativeParent parentID n = Inr parent" using 1 by (simp add: m)
  note parent = parent_section [OF n this]
  define state where "state = SourceExcerptNode \<lparr>exc_ID = ident, exc_Revision = 1, exc_DocumentID = sec_DocumentID parent,
    exc_ParentID = sec_ID parent, exc_AfterNodeID = after, exc_AssetID = art_AssetID artifact,
    exc_AcceptedFingerprint = art_Fingerprint artifact, exc_SourceRange = sourceRange, exc_Language = language,
    exc_EffectiveText = effectiveText, exc_Evidence = \<lparr>ev_ArtifactID = art_ID artifact, ev_SourceStreamID = art_SourceStreamID artifact,
      ev_SegmentIDs = transcriptSegmentIDs segments, ev_CorrectionRevisions = correctionRevisionRefs corrections\<rparr>,
    exc_Tombstoned = False\<rparr>"
  have "narrativeNode n' = (narrativeNode n)(ident \<mapsto> state)"
    using 1 written_node [of state ident m] none by (auto simp: state_def m ident_def [symmetric])
  then have "rewires n n' ident state (\<lambda>p. if p = sec_ID parent then 1 else 0)"
    using 1 by (auto simp: rewires_def m ident_def [symmetric])
  then show ?case
    by (rule insert_forest [OF n _ _ _ _ ident(2) none alloc ident(1)])
      (use parent in \<open>simp_all add: narrativeNode_section state_def\<close>)
qed

end
