(* ===== verification/Normalize_Captions.thy ===== *)
theory Normalize_Captions
  imports Normalizer_Log
begin

text \<open>
  The handlers of captions and alignments: \<^verbatim>\<open>addCaption\<close>, \<^verbatim>\<open>updateCaption\<close>,
  \<^verbatim>\<open>bindAlignment\<close>, \<^verbatim>\<open>updateAlignment\<close> of \<^verbatim>\<open>edit_normalize.go\<close> and
  \<^verbatim>\<open>edit_normalize_alignment_remap.go\<close>. Each is shown to take steps of the log machine.
\<close>

section \<open>Captions\<close>

definition addCaption :: "edit_operation \<Rightarrow> edit_normalizer \<Rightarrow> edit_error + edit_normalizer" where
  "addCaption operation n =
    andThen (deref (op_CreateAs operation)) (\<lambda>createAs.
    andThen (allocated createAs EntityCaption n) (\<lambda>allocation.
    let ident = parseOrZero (alloc_ID allocation) in
    if gm_has (st_Captions (n_state n)) ident then Inl ErrEditInvalid else
    andThen (markTouched EntityCaption ident n) (\<lambda>n.
    andThen (deref (op_TrackID operation)) (\<lambda>trackID.
    andThen (fetch (st_Tracks (n_state n)) trackID) (\<lambda>track.
    if ID_IsZero (trk_ID track) \<or> trk_SequenceID track \<noteq> n_sequence n \<or> trk_Type track \<noteq> TrackCaption
    then Inl ErrEditInvalid else
    andThen (require EntityTrack (trk_ID track) (trk_Revision track) n) (\<lambda>_.
    andThen (deref (op_Range operation)) (\<lambda>rangeValue.
    andThen (deref (op_Language operation)) (\<lambda>language.
    andThen (deref (op_Text operation)) (\<lambda>text.
    let state = \<lparr>cap_ID = ident, cap_Revision = 1, cap_SequenceID = trk_SequenceID track, cap_TrackID = trk_ID track,
          cap_Range = rangeValue, cap_Language = language, cap_Text = text,
          cap_Provenance = \<lparr>prov_Kind = CaptionProvenanceManual, prov_Derivation = None\<rparr>,
          cap_ProvenanceStatus = None, cap_Tombstoned = False\<rparr> in
    andThen (mustNext 1) (\<lambda>undone.
    let n = putEntity ident (PutCaption state) (PutCaption (state\<lparr>cap_Revision := undone, cap_Tombstoned := True\<rparr>)) n;
        n = addChange (newEntityChange EntityCaption ident 1 False) n
    in Inr (noteTrack track (n\<lparr>n_sequenceChanged := True\<rparr>))))))))))))"

definition updateCaption :: "edit_operation \<Rightarrow> bool \<Rightarrow> edit_normalizer \<Rightarrow> edit_error + edit_normalizer" where
  "updateCaption operation remove n =
    andThen (deref (op_CaptionID operation)) (\<lambda>captionID.
    andThen (someOr (EditInvalid (CaptionNotLive captionID)) (gm_lookup (n_captions n) captionID)) (\<lambda>current.
    if cap_Tombstoned current then Inl (EditInvalid (CaptionNotLive captionID)) else
    andThen (orError (EditInvalid (CaptionMutatedTwice captionID)) (markTouched EntityCaption (cap_ID current) n)) (\<lambda>n.
    andThen (require EntityCaption (cap_ID current) (cap_Revision current) n) (\<lambda>_.
    andThen (fetch (st_Tracks (n_state n)) (cap_TrackID current)) (\<lambda>track.
    if ID_IsZero (trk_ID track) then Inl ErrEditInvalid else
    andThen (require EntityTrack (trk_ID track) (trk_Revision track) n) (\<lambda>_.
    let n = noteTrack track n in
    andThen (mustNext (cap_Revision current)) (\<lambda>revision.
    andThen (if remove then Inr (current\<lparr>cap_Revision := revision, cap_Tombstoned := True\<rparr>)
       else andThen (deref (op_Range operation)) (\<lambda>rangeValue.
         andThen (deref (op_Language operation)) (\<lambda>language.
         andThen (deref (op_Text operation)) (\<lambda>text.
         Inr (current\<lparr>cap_Revision := revision, cap_Range := rangeValue, cap_Language := language, cap_Text := text\<rparr>))))) (\<lambda>next_state.
    andThen (mustNext revision) (\<lambda>undone.
    let n = putEntity (cap_ID current) (PutCaption next_state) (PutCaption (current\<lparr>cap_Revision := undone\<rparr>)) n;
        n = addChange (existingEntityChange EntityCaption (cap_ID current) (cap_Revision current) revision remove) n
    in Inr (n\<lparr>n_sequenceChanged := True\<rparr>))))))))))"

section \<open>Alignment targets\<close>

definition alignment_target_type :: "alignment_target \<Rightarrow> AlignmentTargetType" where
  "alignment_target_type target = (case target of CaptionTarget _ \<Rightarrow> AlignmentTargetCaption
    | ClipTarget _ \<Rightarrow> AlignmentTargetClip | TimelineTarget _ \<Rightarrow> AlignmentTargetTimeline)"

definition format_time :: "rational_time \<Rightarrow> string" where
  "format_time t = Int64_String (rt_Value t) @ ''/'' @ format_int (sint (rt_Scale t))"

definition format_range :: "time_range \<Rightarrow> string" where
  "format_range r = format_time (tr_Start r) @ [NUL] @ format_time (tr_Duration r)"

fun alignmentTargetKey :: "alignment_target \<Rightarrow> string" where
  "alignmentTargetKey (CaptionTarget t) = ''caption'' @ [NUL] @ ctgt_CaptionID t @ [NUL] @ format_range (ctgt_LocalRange t)"
| "alignmentTargetKey (ClipTarget t) = ''clip'' @ [NUL] @ ktgt_ClipID t @ [NUL] @ format_range (ktgt_LocalRange t)"
| "alignmentTargetKey (TimelineTarget t) = ''timeline'' @ [NUL] @ format_range (ttgt_Range t)"

definition normalizeAlignmentTarget ::
  "bool \<Rightarrow> edit_normalizer \<Rightarrow> alignment_target_input \<Rightarrow> alignment_target list \<Rightarrow> edit_error + alignment_target list" where
  "normalizeAlignmentTarget allowTouched n input targets =
    (case ati_Type input of
       AlignmentTargetCaption \<Rightarrow>
         andThen (deref (ati_Caption input)) (\<lambda>reference.
         andThen (resolveCaptionReference reference n) (\<lambda>ident.
         andThen (fetch (n_captions n) ident) (\<lambda>caption.
         if cap_Tombstoned caption \<or> cap_SequenceID caption \<noteq> n_sequence n then Inl ErrEditInvalid else
         andThen (deref (ati_LocalRange input)) (\<lambda>localRange.
         if \<not> rangeWithin localRange (tr_Duration (cap_Range caption)) then Inl ErrEditInvalid else
         andThen (if ref_ID reference \<noteq> '''' \<and> (\<not> allowTouched \<or> \<not> isTouched n EntityCaption ident)
           then require EntityCaption ident (cap_Revision caption) n else Inr ()) (\<lambda>_.
         Inr (targets @ [CaptionTarget \<lparr>ctgt_CaptionID = ident, ctgt_CaptionRevision = cap_Revision caption,
           ctgt_LocalRange = localRange\<rparr>]))))))
     | AlignmentTargetClip \<Rightarrow>
         andThen (deref (ati_Clip input)) (\<lambda>reference.
         andThen (resolveClipReference reference n) (\<lambda>ident.
         andThen (fetch (n_clips n) ident) (\<lambda>clip.
         if clip_Tombstoned clip \<or> clip_SequenceID clip \<noteq> n_sequence n then Inl ErrEditInvalid else
         andThen (deref (ati_LocalRange input)) (\<lambda>localRange.
         if \<not> rangeWithin localRange (tr_Duration (clip_TimelineRange clip)) then Inl ErrEditInvalid else
         andThen (if ref_ID reference \<noteq> '''' \<and> (\<not> allowTouched \<or> \<not> isTouched n EntityClip ident)
           then require EntityClip ident (clip_Revision clip) n else Inr ()) (\<lambda>_.
         Inr (targets @ [ClipTarget \<lparr>ktgt_ClipID = ident, ktgt_ClipRevision = clip_Revision clip,
           ktgt_LocalRange = localRange\<rparr>]))))))
     | AlignmentTargetTimeline \<Rightarrow>
         andThen (deref (ati_SequenceRevision input)) (\<lambda>revision.
         if revision \<noteq> st_SequenceRevision (n_state n) then Inl EditConflict else
         andThen (require EntitySequence (n_sequence n) (st_SequenceRevision (n_state n)) n) (\<lambda>_.
         andThen (deref (ati_TimelineRange input)) (\<lambda>timelineRange.
         Inr (targets @ [TimelineTarget \<lparr>ttgt_SequenceRevision = revision, ttgt_Range = timelineRange\<rparr>]))))
     | AlignmentTargetOther _ \<Rightarrow> Inl ErrEditInvalid)"

definition normalizeAlignmentTargets ::
  "alignment_target_input list \<Rightarrow> bool \<Rightarrow> edit_normalizer \<Rightarrow> edit_error + alignment_target list" where
  "normalizeAlignmentTargets inputs allowTouched n =
    andThen (forEach (normalizeAlignmentTarget allowTouched n) inputs []) (\<lambda>targets.
      let targets = sort_slice (\<lambda>left right. alignmentTargetKey left < alignmentTargetKey right) targets in
      if distinct_adj (map alignmentTargetKey targets) then Inr targets else Inl ErrEditInvalid)"

section \<open>Binding and updating alignments\<close>

definition bindAlignment :: "edit_operation \<Rightarrow> edit_normalizer \<Rightarrow> edit_error + edit_normalizer" where
  "bindAlignment operation n =
    andThen (deref (op_CreateAs operation)) (\<lambda>createAs.
    andThen (allocated createAs EntityAlignment n) (\<lambda>allocation.
    let ident = parseOrZero (alloc_ID allocation) in
    if gm_has (st_Alignments (n_state n)) ident then Inl ErrEditInvalid else
    andThen (markTouched EntityAlignment ident n) (\<lambda>n.
    andThen (deref (op_NarrativeNode operation)) (\<lambda>reference.
    andThen (resolveNodeReference reference n) (\<lambda>nodeID.
    andThen (someOr ErrEditInvalid (editNormalizer_narrativeNodeRevision n nodeID)) (\<lambda>nodeRevision.
    andThen (if ref_ID reference \<noteq> '''' then require EntityNarrativeNode nodeID nodeRevision n else Inr ()) (\<lambda>_.
    andThen (normalizeAlignmentTargets (op_AlignmentTargets operation) False n) (\<lambda>targets.
    let state = \<lparr>al_ID = ident, al_Revision = 1, al_NarrativeNodeID = nodeID, al_NarrativeNodeRevision = nodeRevision,
          al_SequenceID = n_sequence n, al_Targets = targets, al_Status = AlignmentExact\<rparr> in
    andThen (mustNext 1) (\<lambda>undone.
    let n = putEntity ident (PutAlignment state) (PutAlignment (state\<lparr>al_Revision := undone, al_Status := AlignmentUnbound\<rparr>)) n
    in Inr (addChange (newEntityChange EntityAlignment ident 1 False) n))))))))))"

definition updateAlignment :: "AlignmentID \<Rightarrow> AlignmentStatus \<Rightarrow> edit_normalizer \<Rightarrow> edit_error + edit_normalizer" where
  "updateAlignment ident status n =
    andThen (fetch (n_alignments n) ident) (\<lambda>current.
    andThen (markTouched EntityAlignment ident n) (\<lambda>n.
    andThen (require EntityAlignment (al_ID current) (al_Revision current) n) (\<lambda>_.
    andThen (mustNext (al_Revision current)) (\<lambda>revision.
    andThen (mustNext revision) (\<lambda>undone.
    let next_state = current\<lparr>al_Revision := revision, al_Status := status\<rparr>;
        n = n\<lparr>n_alignmentEffects := gm_set (n_alignmentEffects n) ident status\<rparr>;
        n = putEntity ident (PutAlignment next_state) (PutAlignment (current\<lparr>al_Revision := undone\<rparr>)) n
    in Inr (addChange (existingEntityChange EntityAlignment (al_ID current) (al_Revision current) revision False) n))))))"

section \<open>Remapping alignments\<close>

definition equalTimeRange :: "time_range \<Rightarrow> time_range \<Rightarrow> bool" where
  "equalTimeRange left right \<longleftrightarrow>
    RationalTime_Compare (tr_Start left) (tr_Start right) = Inr 0 \<and>
    RationalTime_Compare (tr_Duration left) (tr_Duration right) = Inr 0"

definition preservesCaptionTarget :: "edit_normalizer \<Rightarrow> alignment_target \<times> alignment_target \<Rightarrow> bool" where
  "preservesCaptionTarget n pair =
    (case pair of
       (CaptionTarget beforeTarget, CaptionTarget afterTarget) \<Rightarrow>
         ctgt_CaptionID beforeTarget = ctgt_CaptionID afterTarget \<and>
         equalTimeRange (ctgt_LocalRange beforeTarget) (ctgt_LocalRange afterTarget) \<and>
         (case (gm_lookup (st_Captions (n_state n)) (ctgt_CaptionID beforeTarget),
                gm_lookup (n_captions n) (ctgt_CaptionID afterTarget)) of
            (Some before, Some after) \<Rightarrow>
              \<not> (ID_IsZero (cap_ID before) \<or> ID_IsZero (cap_ID after) \<or> cap_Tombstoned after \<or>
                 cap_Text before \<noteq> cap_Text after \<or> cap_Language before \<noteq> cap_Language after \<or>
                 ctgt_CaptionRevision beforeTarget \<noteq> cap_Revision before \<or>
                 ctgt_CaptionRevision afterTarget \<noteq> cap_Revision after \<or>
                 \<not> rangeWithin (ctgt_LocalRange afterTarget) (tr_Duration (cap_Range after)))
          | _ \<Rightarrow> False)
     | _ \<Rightarrow> False)"

definition preservesCaptionAlignment :: "edit_normalizer \<Rightarrow> alignment_target list \<Rightarrow> alignment_target list \<Rightarrow> bool" where
  "preservesCaptionAlignment n current next_targets \<longleftrightarrow>
    length current = length next_targets \<and> list_all (preservesCaptionTarget n) (zip current next_targets)"

record coverage_span =
  cov_start :: rational_time
  cov_duration :: rational_time

type_synonym coverage = "(string, coverage_span list) gomap"

definition coverTarget :: "(string, clip_state) gomap \<Rightarrow> alignment_target \<Rightarrow> coverage \<Rightarrow> edit_error + coverage" where
  "coverTarget clips target result =
    (case target of
       ClipTarget t \<Rightarrow>
         andThen (fetch clips (ktgt_ClipID t)) (\<lambda>clip.
         if ID_IsZero (clip_ID clip) \<or> \<not> rangeWithin (ktgt_LocalRange t) (tr_Duration (clip_TimelineRange clip))
         then Inl ErrEditInvalid else
         andThen (orError ErrEditInvalid (RationalTime_Add (tr_Start (clip_SourceRange clip)) (tr_Start (ktgt_LocalRange t)))) (\<lambda>start.
         let key = clip_AssetID clip @ [NUL] @ clip_SourceStreamID clip in
         Inr (gm_set result key (gm_get [] result key @ [\<lparr>cov_start = start, cov_duration = tr_Duration (ktgt_LocalRange t)\<rparr>]))))
     | _ \<Rightarrow> Inl ErrEditInvalid)"

definition mergeSpan :: "coverage_span \<Rightarrow> coverage_span list \<Rightarrow> edit_error + coverage_span list" where
  "mergeSpan current merged =
    (if merged = [] then Inr [current]
     else let previous = last merged in
       andThen (orError ErrEditInvalid (RationalTime_Add (cov_start previous) (cov_duration previous))) (\<lambda>previousEnd.
       andThen (orError ErrEditInvalid (RationalTime_Compare (cov_start current) previousEnd)) (\<lambda>comparison.
       if comparison < 0 then Inl ErrEditInvalid
       else if comparison = 0 then
         andThen (orError ErrEditInvalid (RationalTime_Add (cov_start current) (cov_duration current))) (\<lambda>currentEnd.
         andThen (orError ErrEditInvalid (RationalTime_Subtract currentEnd (cov_start previous))) (\<lambda>duration.
         Inr (butlast merged @ [previous\<lparr>cov_duration := duration\<rparr>])))
       else Inr (merged @ [current]))))"

definition span_less :: "coverage_span \<Rightarrow> coverage_span \<Rightarrow> bool" where
  "span_less left right = (case RationalTime_Compare (cov_start left) (cov_start right) of Inl _ \<Rightarrow> False | Inr c \<Rightarrow> c < 0)"

definition mergeSpans :: "coverage_span list \<Rightarrow> edit_error + coverage_span list" where
  "mergeSpans spans = forEach mergeSpan (sort_slice span_less spans) []"

definition mergeKey :: "string \<Rightarrow> coverage \<Rightarrow> edit_error + coverage" where
  "mergeKey key result = andThen (mergeSpans (gm_get [] result key)) (\<lambda>merged. Inr (gm_set result key merged))"

definition alignmentSourceCoverage ::
  "alignment_target list \<Rightarrow> (string, clip_state) gomap \<Rightarrow> edit_error + coverage" where
  "alignmentSourceCoverage targets clips =
    andThen (forEach (coverTarget clips) targets []) (\<lambda>result. forEach mergeKey (gm_keys result) result)"

definition same_span :: "coverage_span \<times> coverage_span \<Rightarrow> bool" where
  "same_span pair \<longleftrightarrow>
    RationalTime_Compare (cov_start (fst pair)) (cov_start (snd pair)) = Inr 0 \<and>
    RationalTime_Compare (cov_duration (fst pair)) (cov_duration (snd pair)) = Inr 0"

definition sameAlignmentCoverage :: "coverage \<Rightarrow> coverage \<Rightarrow> bool" where
  "sameAlignmentCoverage left right \<longleftrightarrow>
    gm_size left = gm_size right \<and>
    list_all (\<lambda>key. case gm_lookup right key of None \<Rightarrow> False
      | Some rightSpans \<Rightarrow> length (gm_get [] left key) = length rightSpans \<and>
          list_all same_span (zip (gm_get [] left key) rightSpans)) (gm_keys left)"

definition preservesAlignmentSemantics :: "edit_normalizer \<Rightarrow> alignment_target list \<Rightarrow> alignment_target list \<Rightarrow> bool" where
  "preservesAlignmentSemantics n current next_targets =
    (case hd current of
       ClipTarget _ \<Rightarrow>
         (case alignmentSourceCoverage current (st_Clips (n_state n)) of Inl _ \<Rightarrow> False | Inr oldCoverage \<Rightarrow>
           (case alignmentSourceCoverage next_targets (n_clips n) of Inl _ \<Rightarrow> False | Inr newCoverage \<Rightarrow>
             sameAlignmentCoverage oldCoverage newCoverage))
     | CaptionTarget _ \<Rightarrow> preservesCaptionAlignment n current next_targets
     | TimelineTarget _ \<Rightarrow> False)"

definition remapAlignment :: "edit_operation \<Rightarrow> edit_normalizer \<Rightarrow> edit_error + edit_normalizer" where
  "remapAlignment operation n =
    andThen (deref (op_AlignmentID operation)) (\<lambda>alignmentID.
    andThen (fetch (n_alignments n) alignmentID) (\<lambda>current.
    if al_Status current \<noteq> AlignmentExact \<or> al_Targets current = [] then Inl ErrEditInvalid else
    andThen (markTouched EntityAlignment (al_ID current) n) (\<lambda>n.
    if isTouched n EntityNarrativeNode (al_NarrativeNodeID current) then Inl ErrEditInvalid else
    andThen (require EntityAlignment (al_ID current) (al_Revision current) n) (\<lambda>_.
    case normalizeAlignmentTargets (op_AlignmentTargets operation) True n of
      Inl e \<Rightarrow> Inl (if e = PanicNil then PanicNil else ErrEditInvalid)
    | Inr targets \<Rightarrow>
        if targets = [] \<or> alignment_target_type (hd targets) \<noteq> alignment_target_type (hd (al_Targets current))
        then Inl ErrEditInvalid
        else if \<not> preservesAlignmentSemantics n (al_Targets current) targets then Inl ErrEditInvalid
        else
    andThen (mustNext (al_Revision current)) (\<lambda>revision.
    andThen (mustNext revision) (\<lambda>undone.
    let next_state = current\<lparr>al_Revision := revision, al_Targets := targets, al_Status := AlignmentExact\<rparr>;
        n = n\<lparr>n_alignmentEffects := gm_set (n_alignmentEffects n) (al_ID current) AlignmentExact\<rparr>;
        n = putEntity (al_ID current) (PutAlignment next_state) (PutAlignment (current\<lparr>al_Revision := undone\<rparr>)) n
    in Inr (addChange (existingEntityChange EntityAlignment (al_ID current) (al_Revision current) revision False) n)))))))"

section \<open>The handlers take steps of the log machine\<close>

lemma addCaption_advances:
  assumes n: "running n" and run: "addCaption operation n = Inr n'"
  shows "advances n n'"
  using run unfolding addCaption_def Let_def
proof (elim andThenE checkE, goal_cases)
  case (1 createAs allocation m trackID track u rangeValue language content undone)
  then have mk: "marked (EntityCaption, parseOrZero (alloc_ID allocation)) n m"
    using n by (intro markTouched_marked) simp_all
  have "conds n (EntityTrack, trk_ID track) = Some (trk_Revision track)" and "undone = 2"
    using 1 marked_conds [OF mk] by (simp_all add: go_result)
  moreover have "\<not> gm_has (st_Captions (n_state n)) (parseOrZero (alloc_ID allocation))" using 1 by simp
  ultimately show ?case using 1 mk
    by (auto intro!: advances_noteTrack marked_create [OF n mk])
qed

lemma updateCaption_advances:
  assumes n: "running n" and run: "updateCaption operation remove n = Inr n'"
  shows "advances n n'"
  using run unfolding updateCaption_def Let_def
proof (elim andThenE checkE, goal_cases)
  case (1 captionID current m u track v revision next_state undone)
  have current: "gm_lookup (n_captions n) captionID = Some current" "\<not> cap_Tombstoned current" "cap_ID current = captionID"
    using 1 running_caption_ID [OF n] by (simp_all add: go_result)
  from 1 have mk: "marked (EntityCaption, captionID) n m"
    using n current(3) by (intro markTouched_marked) (simp_all add: go_result)
  have conds: "conds n (EntityCaption, captionID) = Some (cap_Revision current)"
      "conds n (EntityTrack, trk_ID track) = Some (trk_Revision track)"
    using 1 marked_conds [OF mk] current(3) by (simp_all add: go_result)
  have revs: "Revision_Next (cap_Revision current) = Inr revision" "Revision_Next revision = Inr undone"
    using 1 by (simp_all add: go_result)
  have next_state: "cap_ID next_state = captionID" "cap_Revision next_state = revision" "cap_Tombstoned next_state = remove"
    using 1 current by (auto split: if_splits)
  show ?case using 1 current conds revs next_state marked_noteTrack [OF mk conds(2)]
    by (auto intro!: marked_replace [OF n, where cur = "PutCaption current"])
qed

lemma bindAlignment_advances:
  assumes n: "running n" and run: "bindAlignment operation n = Inr n'"
  shows "advances n n'"
  using run unfolding bindAlignment_def Let_def
proof (elim andThenE checkE, goal_cases)
  case (1 createAs allocation m reference nodeID nodeRevision u targets undone)
  then have mk: "marked (EntityAlignment, parseOrZero (alloc_ID allocation)) n m"
    using n by (intro markTouched_marked) simp_all
  have "undone = 2" "\<not> gm_has (st_Alignments (n_state n)) (parseOrZero (alloc_ID allocation))"
    using 1 by (simp_all add: go_result)
  then show ?case using 1 by (auto intro!: marked_create [OF n mk])
qed

lemma updateAlignment_advances:
  assumes n: "running n" and run: "updateAlignment ident status n = Inr n'"
  shows "advances n n'"
  using run unfolding updateAlignment_def Let_def
proof (elim andThenE checkE, goal_cases)
  case (1 current m u revision undone)
  then have mk: "marked (EntityAlignment, ident) n m"
    using n by (intro markTouched_marked) simp_all
  have current: "gm_lookup (n_alignments n) ident = Some current" "al_ID current = ident"
    using 1 running_alignment_ID [OF n] by (simp_all add: go_result)
  have "conds n (EntityAlignment, ident) = Some (al_Revision current)"
      "Revision_Next (al_Revision current) = Inr revision" "Revision_Next revision = Inr undone"
    using 1 marked_conds [OF mk] current(2) by (simp_all add: go_result)
  then show ?case using 1 current mk by (auto intro!: marked_replace [OF n, where cur = "PutAlignment current"])
qed

lemma remapAlignment_advances:
  assumes n: "running n" and run: "remapAlignment operation n = Inr n'"
  shows "advances n n'"
  using run unfolding remapAlignment_def Let_def
proof (elim andThenE checkE, goal_cases)
  case (1 alignmentID current m u)
  then have current: "gm_lookup (n_alignments n) alignmentID = Some current" "al_ID current = alignmentID"
    using running_alignment_ID [OF n] by (simp_all add: go_result)
  have mk: "marked (EntityAlignment, alignmentID) n m"
    using 1 n current(2) by (intro markTouched_marked) simp_all
  have "conds n (EntityAlignment, alignmentID) = Some (al_Revision current)"
    using 1 marked_conds [OF mk] current(2) by (simp add: go_result)
  then show ?case using 1 current mk
    by (auto simp: go_result split: sum.splits intro!: marked_replace [OF n, where cur = "PutAlignment current"])
qed

end
