(* ===== verification/Normalize_Clips.thy ===== *)
theory Normalize_Clips
  imports Normalizer_Log
begin

text \<open>
  The handlers of clips and link groups: \<^verbatim>\<open>edit_normalize_clips.go\<close> and
  \<^verbatim>\<open>edit_normalize_clip_mutations.go\<close>. Each is shown to take steps of the log machine, and
  what moving, trimming and splitting do to the ranges of a clip is proved on the exact times.
\<close>

section \<open>Ranges\<close>

definition trackAcceptsStream :: "edit_track_state \<Rightarrow> edit_stream_state \<Rightarrow> bool" where
  "trackAcceptsStream track stream \<longleftrightarrow>
    (trk_Type track = TrackVideo \<and> sd_MediaType (str_Descriptor stream) = MediaVideo) \<or>
    (trk_Type track = TrackAudio \<and> sd_MediaType (str_Descriptor stream) = MediaAudio)"

definition rangeWithBoundaryDeltas :: "time_range \<Rightarrow> rational_time \<Rightarrow> rational_time \<Rightarrow> edit_error + time_range" where
  "rangeWithBoundaryDeltas current left right =
    andThen (orError ErrEditInvalid (RationalTime_Add (tr_Start current) left)) (\<lambda>start.
    if RationalTime_IsNegative start then Inl ErrEditInvalid else
    andThen (orError ErrEditInvalid (TimeRange_End current)) (\<lambda>end_time.
    andThen (orError ErrEditInvalid (RationalTime_Add end_time right)) (\<lambda>end_time.
    andThen (orError ErrEditInvalid (RationalTime_Subtract end_time start)) (\<lambda>duration.
    if \<not> RationalTime_IsPositive duration then Inl ErrEditInvalid else
    orError ErrEditInvalid (NewTimeRange start duration)))))"

definition sameBoundaryDelta :: "time_range \<Rightarrow> time_range \<Rightarrow> rational_time \<Rightarrow> rational_time \<Rightarrow> bool" where
  "sameBoundaryDelta current next_range left right =
    (case andThen (TimeRange_End current) (\<lambda>currentEnd.
       andThen (TimeRange_End next_range) (\<lambda>nextEnd.
       andThen (RationalTime_Subtract (tr_Start next_range) (tr_Start current)) (\<lambda>actualLeft.
       andThen (RationalTime_Subtract nextEnd currentEnd) (\<lambda>actualRight.
       Inr (RationalTime_Compare actualLeft left = Inr 0 \<and> RationalTime_Compare actualRight right = Inr 0))))) of
     Inl _ \<Rightarrow> False | Inr same \<Rightarrow> same)"

section \<open>Writing clips and link groups\<close>

text \<open>The tracks of a clip before and after a mutation.\<close>

definition requireTrack :: "TrackID \<Rightarrow> edit_normalizer \<Rightarrow> edit_error + edit_normalizer" where
  "requireTrack trackID n =
    andThen (fetch (st_Tracks (n_state n)) trackID) (\<lambda>track.
    if ID_IsZero (trk_ID track) then Inl ErrEditInvalid else
    andThen (require EntityTrack (trk_ID track) (trk_Revision track) n) (\<lambda>_.
    Inr (noteTrack track n)))"

definition putExistingClip :: "clip_state \<Rightarrow> clip_state \<Rightarrow> bool \<Rightarrow> edit_normalizer \<Rightarrow> edit_error + edit_normalizer" where
  "putExistingClip current next_state trackChanged n =
    andThen (markTouched EntityClip (clip_ID current) n) (\<lambda>n.
    andThen (mustNext (clip_Revision current)) (\<lambda>revision.
    if clip_Revision next_state \<noteq> revision then Inl ErrEditInvalid else
    andThen (mustNext (clip_Revision next_state)) (\<lambda>undone.
    let n = putEntity (clip_ID current) (PutClip next_state) (PutClip (current\<lparr>clip_Revision := undone\<rparr>)) n;
        n = addChange (existingEntityChange EntityClip (clip_ID current) (clip_Revision current)
          (clip_Revision next_state) (clip_Tombstoned next_state)) n;
        n = n\<lparr>n_sequenceChanged := True\<rparr>
    in if trackChanged then forEach requireTrack [clip_TrackID current, clip_TrackID next_state] n else Inr n)))"

definition putNewClip :: "clip_state \<Rightarrow> edit_normalizer \<Rightarrow> edit_error + edit_normalizer" where
  "putNewClip state n =
    (if gm_has (n_clips n) (clip_ID state) then Inl ErrEditInvalid else
    andThen (markTouched EntityClip (clip_ID state) n) (\<lambda>n.
    andThen (mustNext (clip_Revision state)) (\<lambda>undone.
    let n = putEntity (clip_ID state) (PutClip state) (PutClip (state\<lparr>clip_Revision := undone, clip_Tombstoned := True\<rparr>)) n;
        n = addChange (newEntityChange EntityClip (clip_ID state) (clip_Revision state) False) n
    in andThen (requireTrack (clip_TrackID state) n) (\<lambda>n. Inr (n\<lparr>n_sequenceChanged := True\<rparr>)))))"

definition createLinkGroup :: "LocalID \<Rightarrow> edit_normalizer \<Rightarrow> edit_error + LinkGroupID \<times> edit_normalizer" where
  "createLinkGroup local n =
    andThen (allocated local EntityLinkGroup n) (\<lambda>allocation.
    andThen (orError ErrEditInvalid (ParseID (alloc_ID allocation))) (\<lambda>ident.
    if gm_has (n_linkGroups n) ident then Inl ErrEditInvalid else
    andThen (markTouched EntityLinkGroup ident n) (\<lambda>n.
    andThen (mustNext 1) (\<lambda>undone.
    let state = \<lparr>lg_ID = ident, lg_Revision = 1, lg_SequenceID = n_sequence n, lg_Tombstoned = False\<rparr>;
        n = putEntity ident (PutLinkGroup state) (PutLinkGroup (state\<lparr>lg_Revision := undone, lg_Tombstoned := True\<rparr>)) n;
        n = addChange (newEntityChange EntityLinkGroup ident 1 False) n
    in Inr (ident, n\<lparr>n_linkGroupClips := gm_set (n_linkGroupClips n) ident [], n_sequenceChanged := True\<rparr>)))))"

definition tombstoneLinkGroup :: "LinkGroupID \<Rightarrow> edit_normalizer \<Rightarrow> edit_error + edit_normalizer" where
  "tombstoneLinkGroup ident n =
    andThen (fetch (n_linkGroups n) ident) (\<lambda>current.
    if ID_IsZero (lg_ID current) \<or> lg_Tombstoned current then Inl ErrEditInvalid else
    andThen (markTouched EntityLinkGroup ident n) (\<lambda>n.
    andThen (require EntityLinkGroup ident (lg_Revision current) n) (\<lambda>_.
    andThen (mustNext (lg_Revision current)) (\<lambda>revision.
    andThen (mustNext revision) (\<lambda>undone.
    let next_state = current\<lparr>lg_Revision := revision, lg_Tombstoned := True\<rparr>;
        n = putEntity ident (PutLinkGroup next_state) (PutLinkGroup (current\<lparr>lg_Revision := undone\<rparr>)) n;
        n = addChange (existingEntityChange EntityLinkGroup ident (lg_Revision current) revision True) n
    in Inr (n\<lparr>n_sequenceChanged := True\<rparr>))))))"

definition advanceLinkGroup :: "LinkGroupID \<Rightarrow> ClipID list \<Rightarrow> edit_normalizer \<Rightarrow> edit_error + edit_normalizer" where
  "advanceLinkGroup ident members n =
    andThen (fetch (n_linkGroups n) ident) (\<lambda>current.
    if ID_IsZero (lg_ID current) \<or> lg_Tombstoned current then Inl ErrEditInvalid else
    andThen (markTouched EntityLinkGroup ident n) (\<lambda>n.
    andThen (require EntityLinkGroup ident (lg_Revision current) n) (\<lambda>_.
    andThen (mustNext (lg_Revision current)) (\<lambda>revision.
    andThen (mustNext revision) (\<lambda>undone.
    let next_state = current\<lparr>lg_Revision := revision\<rparr>;
        n = n\<lparr>n_linkGroupClips := gm_set (n_linkGroupClips n) ident members\<rparr>;
        n = putEntity ident (PutLinkGroup next_state) (PutLinkGroup (current\<lparr>lg_Revision := undone\<rparr>)) n;
        n = addChange (existingEntityChange EntityLinkGroup ident (lg_Revision current) revision False) n
    in Inr (n\<lparr>n_sequenceChanged := True\<rparr>))))))"

text \<open>A clip leaves its link group.\<close>

definition unlinkMember :: "ClipID \<Rightarrow> edit_normalizer \<Rightarrow> edit_error + edit_normalizer" where
  "unlinkMember memberID n =
    (let current = gm_get zero_clip (n_clips n) memberID in
    andThen (require EntityClip (clip_ID current) (clip_Revision current) n) (\<lambda>_.
    andThen (mustNext (clip_Revision current)) (\<lambda>revision.
    putExistingClip current (current\<lparr>clip_Revision := revision, clip_LinkGroupID := None\<rparr>) False n)))"

definition finishSingleMembershipRemoval :: "LinkGroupID \<Rightarrow> edit_normalizer \<Rightarrow> edit_error + edit_normalizer" where
  "finishSingleMembershipRemoval ident n =
    (let members = gm_get [] (n_linkGroupClips n) ident;
         survivors = filter (\<lambda>memberID. let clip = gm_get zero_clip (n_clips n) memberID in
           \<not> clip_Tombstoned clip \<and> clip_LinkGroupID clip = Some ident) members in
     if length survivors \<ge> 2 then advanceLinkGroup ident survivors n
     else andThen (forEach unlinkMember survivors n) (\<lambda>n.
       tombstoneLinkGroup ident (n\<lparr>n_linkGroupClips := gm_set (n_linkGroupClips n) ident []\<rparr>)))"

section \<open>Adding clips\<close>

definition resolveClipLinkGroup :: "edit_operation \<Rightarrow> edit_normalizer \<Rightarrow> edit_error + LinkGroupID option \<times> edit_normalizer" where
  "resolveClipLinkGroup operation n =
    (case op_CreateLinkGroupAs operation of
       Some local \<Rightarrow>
         andThen (allocated local EntityLinkGroup n) (\<lambda>allocation.
         andThen (orError ErrEditInvalid (ParseID (alloc_ID allocation))) (\<lambda>ident.
         if gm_has (st_LinkGroups (n_state n)) ident then Inl ErrEditInvalid else
         andThen (markTouched EntityLinkGroup ident n) (\<lambda>n.
         andThen (mustNext 1) (\<lambda>undone.
         let state = \<lparr>lg_ID = ident, lg_Revision = 1, lg_SequenceID = n_sequence n, lg_Tombstoned = False\<rparr>;
             n = n\<lparr>n_linkGroupClips := gm_set (n_linkGroupClips n) ident []\<rparr>;
             n = putEntity ident (PutLinkGroup state) (PutLinkGroup (state\<lparr>lg_Revision := undone, lg_Tombstoned := True\<rparr>)) n
         in Inr (Some ident, addChange (newEntityChange EntityLinkGroup ident 1 False) n)))))
     | None \<Rightarrow>
         (case op_LinkGroup operation of
            None \<Rightarrow> Inr (None, n)
          | Some reference \<Rightarrow>
              andThen (resolveReference reference EntityLinkGroup n) (\<lambda>value.
              andThen (orError ErrEditInvalid (ParseID value)) (\<lambda>ident.
              andThen (fetch (n_linkGroups n) ident) (\<lambda>group.
              if lg_Tombstoned group \<or> lg_SequenceID group \<noteq> n_sequence n then Inl ErrEditInvalid
              else if isTouched n EntityLinkGroup ident then Inr (Some ident, n)
              else if ref_ID reference = '''' then Inl ErrEditInvalid
              else
              andThen (require EntityLinkGroup ident (lg_Revision group) n) (\<lambda>_.
              andThen (markTouched EntityLinkGroup ident n) (\<lambda>n.
              andThen (mustNext (lg_Revision group)) (\<lambda>revision.
              andThen (mustNext revision) (\<lambda>undone.
              let next_state = group\<lparr>lg_Revision := revision\<rparr>;
                  n = putEntity ident (PutLinkGroup next_state) (PutLinkGroup (group\<lparr>lg_Revision := undone\<rparr>)) n
              in Inr (Some ident, addChange (existingEntityChange EntityLinkGroup ident (lg_Revision group) revision False) n))))))))))"

definition joinLinkGroup :: "LinkGroupID option \<Rightarrow> ClipID \<Rightarrow> edit_normalizer \<Rightarrow> edit_normalizer" where
  "joinLinkGroup linkGroupID clipID n = (case linkGroupID of None \<Rightarrow> n
    | Some ident \<Rightarrow> n\<lparr>n_linkGroupClips := gm_set (n_linkGroupClips n) ident (gm_get [] (n_linkGroupClips n) ident @ [clipID])\<rparr>)"

definition addClip :: "edit_operation \<Rightarrow> edit_normalizer \<Rightarrow> edit_error + edit_normalizer" where
  "addClip operation n =
    andThen (deref (op_CreateAs operation)) (\<lambda>createAs.
    andThen (allocated createAs EntityClip n) (\<lambda>allocation.
    andThen (orError ErrEditInvalid (ParseID (alloc_ID allocation))) (\<lambda>clipID.
    if gm_has (st_Clips (n_state n)) clipID then Inl ErrEditInvalid else
    andThen (markTouched EntityClip clipID n) (\<lambda>n.
    andThen (deref (op_TrackID operation)) (\<lambda>trackID.
    andThen (fetch (st_Tracks (n_state n)) trackID) (\<lambda>track.
    if ID_IsZero (trk_ID track) \<or> trk_SequenceID track \<noteq> n_sequence n \<or>
       (trk_Type track \<noteq> TrackVideo \<and> trk_Type track \<noteq> TrackAudio) then Inl ErrEditInvalid else
    andThen (deref (op_SourceStreamID operation)) (\<lambda>streamID.
    andThen (fetch (st_SourceStreams (n_state n)) streamID) (\<lambda>stream.
    if ID_IsZero (str_ID stream) then Inl ErrEditInvalid else
    andThen (deref (op_AssetID operation)) (\<lambda>assetID.
    if str_AssetID stream \<noteq> assetID \<or>
       (trk_Type track = TrackVideo \<and> sd_MediaType (str_Descriptor stream) \<noteq> MediaVideo) \<or>
       (trk_Type track = TrackAudio \<and> sd_MediaType (str_Descriptor stream) \<noteq> MediaAudio) then Inl ErrEditInvalid else
    andThen (require EntityTrack (trk_ID track) (trk_Revision track) n) (\<lambda>_.
    andThen (require EntityAsset (str_AssetID stream) (str_AssetRevision stream) n) (\<lambda>_.
    andThen (deref (op_SourceRange operation)) (\<lambda>sourceRange.
    andThen (deref (op_TimelineRange operation)) (\<lambda>timelineRange.
    if RationalTime_Compare (tr_Duration sourceRange) (tr_Duration timelineRange) \<noteq> Inr 0 then Inl ErrEditInvalid
    else if \<not> sourceRangeWithin sourceRange (str_Descriptor stream) then Inl ErrEditInvalid else
    andThen (resolveClipLinkGroup operation n) (\<lambda>(linkGroupID, n).
    andThen (deref (op_Enabled operation)) (\<lambda>enabled.
    let state = \<lparr>clip_ID = clipID, clip_Revision = 1, clip_SequenceID = n_sequence n, clip_TrackID = trk_ID track,
          clip_AssetID = str_AssetID stream, clip_SourceStreamID = str_ID stream, clip_SourceRange = sourceRange,
          clip_TimelineRange = timelineRange, clip_Enabled = enabled, clip_LinkGroupID = linkGroupID,
          clip_Placement = None, clip_Tombstoned = False\<rparr> in
    andThen (mustNext 1) (\<lambda>undone.
    let n = joinLinkGroup linkGroupID clipID n;
        n = putEntity clipID (PutClip state) (PutClip (state\<lparr>clip_Revision := undone, clip_Tombstoned := True\<rparr>)) n;
        n = addChange (newEntityChange EntityClip clipID 1 False) n
    in Inr (noteTrack track (n\<lparr>n_sequenceChanged := True\<rparr>))))))))))))))))))"

section \<open>Mutating clips\<close>

definition checkMember :: "LinkGroupID \<Rightarrow> ClipID \<Rightarrow> edit_normalizer \<Rightarrow> ClipID \<Rightarrow> bool \<Rightarrow> edit_error + bool" where
  "checkMember groupID seedID n memberID found =
    andThen (fetch (n_clips n) memberID) (\<lambda>member.
    if ID_IsZero (clip_ID member) \<or> clip_Tombstoned member \<or> clip_LinkGroupID member \<noteq> Some groupID
    then Inl ErrEditInvalid else
    andThen (require EntityClip (clip_ID member) (clip_Revision member) n) (\<lambda>_.
    Inr (found \<or> clip_ID member = seedID)))"

definition clipMutationMembers :: "edit_operation \<Rightarrow> bool \<Rightarrow> edit_normalizer \<Rightarrow> edit_error + ClipID list \<times> clip_state" where
  "clipMutationMembers operation membershipChange n =
    andThen (deref (op_Clip operation)) (\<lambda>reference.
    andThen (orError ErrEditInvalid (ParseID (ref_ID reference))) (\<lambda>seedID.
    andThen (fetch (n_clips n) seedID) (\<lambda>seed.
    if ID_IsZero (clip_ID seed) \<or> clip_Tombstoned seed \<or> clip_SequenceID seed \<noteq> n_sequence n then Inl ErrEditInvalid else
    andThen (require EntityClip (clip_ID seed) (clip_Revision seed) n) (\<lambda>_.
    andThen (deref (op_Scope operation)) (\<lambda>scope.
    if scope = ClipScopeSingle then
      andThen (case clip_LinkGroupID seed of
         Some groupID \<Rightarrow> if membershipChange then
             andThen (fetch (n_linkGroups n) groupID) (\<lambda>group.
             if ID_IsZero (lg_ID group) \<or> lg_Tombstoned group then Inl ErrEditInvalid else
             require EntityLinkGroup (lg_ID group) (lg_Revision group) n) else Inr ()
       | None \<Rightarrow> Inr ()) (\<lambda>_. Inr ([clip_ID seed], seed))
    else
      andThen (someOr ErrEditInvalid (clip_LinkGroupID seed)) (\<lambda>groupID.
      andThen (fetch (n_linkGroups n) groupID) (\<lambda>group.
      let members = gm_get [] (n_linkGroupClips n) groupID in
      if ID_IsZero (lg_ID group) \<or> lg_Tombstoned group \<or> length members < 2 \<or> length members > 64 then Inl ErrEditInvalid else
      andThen (require EntityLinkGroup (lg_ID group) (lg_Revision group) n) (\<lambda>_.
      andThen (forEach (checkMember (lg_ID group) (clip_ID seed) n) members False) (\<lambda>found.
      if \<not> found then Inl ErrEditInvalid
      else Inr (sort_slice (\<lambda>left right. left < right) members, seed))))))))))"

definition moveMember :: "edit_operation \<Rightarrow> clip_state \<Rightarrow> rational_time \<Rightarrow> ClipID \<Rightarrow> edit_normalizer \<Rightarrow>
    edit_error + edit_normalizer" where
  "moveMember operation seed delta memberID n =
    (let current = gm_get zero_clip (n_clips n) memberID in
    andThen (mustNext (clip_Revision current)) (\<lambda>revision.
    andThen (orError ErrEditInvalid (RationalTime_Add (tr_Start (clip_TimelineRange current)) delta)) (\<lambda>start.
    if RationalTime_IsNegative start then Inl ErrEditInvalid else
    let next_state = current\<lparr>clip_Revision := revision, clip_TimelineRange := (clip_TimelineRange current)\<lparr>tr_Start := start\<rparr>\<rparr> in
    andThen (if clip_ID current = clip_ID seed then
        andThen (deref (op_TrackID operation)) (\<lambda>trackID.
        andThen (fetch (st_Tracks (n_state n)) trackID) (\<lambda>track.
        andThen (fetch (st_SourceStreams (n_state n)) (clip_SourceStreamID current)) (\<lambda>stream.
        if ID_IsZero (trk_ID track) \<or> ID_IsZero (str_ID stream) \<or> \<not> trackAcceptsStream track stream
        then Inl ErrEditInvalid else
        andThen (require EntityTrack (trk_ID track) (trk_Revision track) n) (\<lambda>_.
        Inr (next_state\<lparr>clip_TrackID := trackID\<rparr>, noteTrack track n)))))
      else Inr (next_state, n)) (\<lambda>(next_state, n).
    putExistingClip current next_state True n))))"

definition moveClip :: "edit_operation \<Rightarrow> edit_normalizer \<Rightarrow> edit_error + edit_normalizer" where
  "moveClip operation n =
    andThen (clipMutationMembers operation False n) (\<lambda>(members, seed).
    andThen (deref (op_TimelineStart operation)) (\<lambda>timelineStart.
    andThen (orError ErrEditInvalid (RationalTime_Subtract timelineStart (tr_Start (clip_TimelineRange seed)))) (\<lambda>delta.
    forEach (moveMember operation seed delta) members n)))"

definition trimMember :: "rational_time \<Rightarrow> rational_time \<Rightarrow> ClipID \<Rightarrow> edit_normalizer \<Rightarrow> edit_error + edit_normalizer" where
  "trimMember left right memberID n =
    (let current = gm_get zero_clip (n_clips n) memberID in
    andThen (rangeWithBoundaryDeltas (clip_SourceRange current) left right) (\<lambda>nextSource.
    andThen (rangeWithBoundaryDeltas (clip_TimelineRange current) left right) (\<lambda>nextTimeline.
    if RationalTime_IsNegative (tr_Start nextTimeline) then Inl ErrEditInvalid else
    andThen (fetch (st_SourceStreams (n_state n)) (clip_SourceStreamID current)) (\<lambda>stream.
    if ID_IsZero (str_ID stream) \<or> \<not> sourceRangeWithin nextSource (str_Descriptor stream) then Inl ErrEditInvalid else
    andThen (mustNext (clip_Revision current)) (\<lambda>revision.
    putExistingClip current (current\<lparr>clip_Revision := revision, clip_SourceRange := nextSource,
      clip_TimelineRange := nextTimeline\<rparr>) True n)))))"

definition trimClip :: "edit_operation \<Rightarrow> edit_normalizer \<Rightarrow> edit_error + edit_normalizer" where
  "trimClip operation n =
    andThen (clipMutationMembers operation False n) (\<lambda>(members, seed).
    andThen (deref (op_TimelineRange operation)) (\<lambda>timelineRange.
    andThen (orError ErrEditInvalid (RationalTime_Subtract (tr_Start timelineRange) (tr_Start (clip_TimelineRange seed)))) (\<lambda>left.
    andThen (orError ErrEditInvalid (TimeRange_End (clip_TimelineRange seed))) (\<lambda>seedOldEnd.
    andThen (orError ErrEditInvalid (TimeRange_End timelineRange)) (\<lambda>seedNewEnd.
    andThen (orError ErrEditInvalid (RationalTime_Subtract seedNewEnd seedOldEnd)) (\<lambda>right.
    andThen (deref (op_SourceRange operation)) (\<lambda>sourceRange.
    if \<not> sameBoundaryDelta (clip_SourceRange seed) sourceRange left right then Inl ErrEditInvalid else
    forEach (trimMember left right) members n)))))))"

definition allocatedClipID :: "LocalID \<Rightarrow> edit_normalizer \<Rightarrow> edit_error + ClipID" where
  "allocatedClipID local n =
    andThen (allocated local EntityClip n) (\<lambda>allocation. orError ErrEditInvalid (ParseID (alloc_ID allocation)))"

definition splitClipStates :: "clip_state \<Rightarrow> rational_time \<Rightarrow> split_output \<Rightarrow> LinkGroupID option \<Rightarrow> LinkGroupID option \<Rightarrow>
    edit_normalizer \<Rightarrow> edit_error + clip_state \<times> clip_state" where
  "splitClipStates current splitAt output leftGroupID rightGroupID n =
    andThen (orError ErrEditInvalid (RationalTime_Subtract splitAt (tr_Start (clip_TimelineRange current)))) (\<lambda>offset.
    if \<not> RationalTime_IsPositive offset then Inl ErrEditInvalid else
    andThen (orError ErrEditInvalid (RationalTime_Compare offset (tr_Duration (clip_TimelineRange current)))) (\<lambda>comparison.
    if comparison \<ge> 0 then Inl ErrEditInvalid else
    andThen (orError ErrEditInvalid (RationalTime_Subtract (tr_Duration (clip_TimelineRange current)) offset)) (\<lambda>rightDuration.
    if \<not> RationalTime_IsPositive rightDuration then Inl ErrEditInvalid else
    andThen (orError ErrEditInvalid (RationalTime_Add (tr_Start (clip_SourceRange current)) offset)) (\<lambda>sourceSplit.
    andThen (orError ErrEditInvalid (NewTimeRange (tr_Start (clip_TimelineRange current)) offset)) (\<lambda>leftRange.
    andThen (orError ErrEditInvalid (NewTimeRange splitAt rightDuration)) (\<lambda>rightRange.
    andThen (orError ErrEditInvalid (NewTimeRange (tr_Start (clip_SourceRange current)) offset)) (\<lambda>leftSource.
    andThen (orError ErrEditInvalid (NewTimeRange sourceSplit rightDuration)) (\<lambda>rightSource.
    andThen (allocatedClipID (spo_LeftAs output) n) (\<lambda>leftID.
    andThen (allocatedClipID (spo_RightAs output) n) (\<lambda>rightID.
    Inr (current\<lparr>clip_ID := leftID, clip_Revision := 1, clip_SourceRange := leftSource, clip_TimelineRange := leftRange,
           clip_LinkGroupID := leftGroupID, clip_Tombstoned := False\<rparr>,
         current\<lparr>clip_ID := rightID, clip_Revision := 1, clip_SourceRange := rightSource, clip_TimelineRange := rightRange,
           clip_LinkGroupID := rightGroupID, clip_Tombstoned := False\<rparr>)))))))))))"

definition splitMember :: "rational_time \<Rightarrow> (string, split_output) gomap \<Rightarrow> LinkGroupID option \<Rightarrow> LinkGroupID option \<Rightarrow>
    ClipID \<Rightarrow> edit_normalizer \<Rightarrow> edit_error + edit_normalizer" where
  "splitMember splitAt outputs leftGroupID rightGroupID memberID n =
    (let current = gm_get zero_clip (n_clips n) memberID in
    andThen (fetch outputs memberID) (\<lambda>output.
    andThen (splitClipStates current splitAt output leftGroupID rightGroupID n) (\<lambda>(leftState, rightState).
    andThen (mustNext (clip_Revision current)) (\<lambda>revision.
    andThen (putExistingClip current (current\<lparr>clip_Revision := revision, clip_Tombstoned := True\<rparr>) True n) (\<lambda>n.
    andThen (putNewClip leftState n) (\<lambda>n.
    putNewClip rightState n))))))"

definition splitClip :: "edit_operation \<Rightarrow> edit_normalizer \<Rightarrow> edit_error + edit_normalizer" where
  "splitClip operation n =
    andThen (clipMutationMembers operation True n) (\<lambda>(members, seed).
    let outputs = foldl (\<lambda>m output. gm_set m (ref_ID (spo_Clip output)) output) [] (op_SplitOutputs operation) in
    if gm_size outputs \<noteq> length members then Inl ErrEditInvalid
    else if \<not> list_all (gm_has outputs) members then Inl ErrEditInvalid else
    andThen (deref (op_Scope operation)) (\<lambda>scope.
    andThen (if scope = ClipScopeLinked then
        andThen (deref (op_LeftLinkGroupAs operation)) (\<lambda>leftAs.
        andThen (createLinkGroup leftAs n) (\<lambda>(left, n).
        andThen (deref (op_RightLinkGroupAs operation)) (\<lambda>rightAs.
        andThen (createLinkGroup rightAs n) (\<lambda>(right, n).
        Inr (Some left, Some right, n)))))
      else Inr (None, None, n)) (\<lambda>(leftGroupID, rightGroupID, n).
    andThen (if members = [] then Inr n else andThen (deref (op_SplitAt operation)) (\<lambda>splitAt.
      forEach (splitMember splitAt outputs leftGroupID rightGroupID) members n)) (\<lambda>n.
    if scope = ClipScopeLinked then
      andThen (someOr ErrEditInvalid (clip_LinkGroupID seed)) (\<lambda>groupID. tombstoneLinkGroup groupID n)
    else case clip_LinkGroupID seed of
      Some groupID \<Rightarrow> finishSingleMembershipRemoval groupID n
    | None \<Rightarrow> Inr n))))"

definition removeMember :: "ClipID \<Rightarrow> edit_normalizer \<Rightarrow> edit_error + edit_normalizer" where
  "removeMember memberID n =
    (let current = gm_get zero_clip (n_clips n) memberID in
    andThen (mustNext (clip_Revision current)) (\<lambda>revision.
    putExistingClip current (current\<lparr>clip_Revision := revision, clip_Tombstoned := True\<rparr>) True n))"

definition removeClip :: "edit_operation \<Rightarrow> edit_normalizer \<Rightarrow> edit_error + edit_normalizer" where
  "removeClip operation n =
    andThen (clipMutationMembers operation True n) (\<lambda>(members, seed).
    andThen (forEach removeMember members n) (\<lambda>n.
    case clip_LinkGroupID seed of
      None \<Rightarrow> Inr n
    | Some groupID \<Rightarrow>
        andThen (deref (op_Scope operation)) (\<lambda>scope.
        if scope = ClipScopeLinked then tombstoneLinkGroup groupID n
        else finishSingleMembershipRemoval groupID n)))"

definition linkMember :: "LinkGroupID \<Rightarrow> edit_reference \<Rightarrow> edit_normalizer \<times> ClipID list \<Rightarrow> edit_error + edit_normalizer \<times> ClipID list" where
  "linkMember groupID reference accumulated =
    (let (n, members) = accumulated in
    andThen (orError ErrEditInvalid (ParseID (ref_ID reference))) (\<lambda>ident.
    andThen (fetch (n_clips n) ident) (\<lambda>current.
    if ID_IsZero (clip_ID current) \<or> clip_Tombstoned current \<or> clip_SequenceID current \<noteq> n_sequence n \<or>
       clip_LinkGroupID current \<noteq> None then Inl ErrEditInvalid else
    andThen (require EntityClip ident (clip_Revision current) n) (\<lambda>_.
    andThen (mustNext (clip_Revision current)) (\<lambda>revision.
    andThen (putExistingClip current (current\<lparr>clip_Revision := revision, clip_LinkGroupID := Some groupID\<rparr>) False n) (\<lambda>n.
    Inr (n, members @ [ident])))))))"

definition linkClips :: "edit_operation \<Rightarrow> edit_normalizer \<Rightarrow> edit_error + edit_normalizer" where
  "linkClips operation n =
    andThen (deref (op_CreateLinkGroupAs operation)) (\<lambda>local.
    andThen (createLinkGroup local n) (\<lambda>(groupID, n).
    andThen (forEach (linkMember groupID) (op_Clips operation) (n, [])) (\<lambda>(n, members).
    Inr (n\<lparr>n_linkGroupClips := gm_set (n_linkGroupClips n) groupID members\<rparr>))))"

definition unlinkGroupMember :: "LinkGroupID \<Rightarrow> ClipID \<Rightarrow> edit_normalizer \<Rightarrow> edit_error + edit_normalizer" where
  "unlinkGroupMember groupID memberID n =
    (let current = gm_get zero_clip (n_clips n) memberID in
    if clip_Tombstoned current \<or> clip_LinkGroupID current \<noteq> Some groupID then Inl ErrEditInvalid else
    andThen (require EntityClip memberID (clip_Revision current) n) (\<lambda>_.
    andThen (mustNext (clip_Revision current)) (\<lambda>revision.
    putExistingClip current (current\<lparr>clip_Revision := revision, clip_LinkGroupID := None\<rparr>) False n)))"

definition unlinkClips :: "edit_operation \<Rightarrow> edit_normalizer \<Rightarrow> edit_error + edit_normalizer" where
  "unlinkClips operation n =
    andThen (deref (op_LinkGroup operation)) (\<lambda>reference.
    andThen (orError ErrEditInvalid (ParseID (ref_ID reference))) (\<lambda>groupID.
    andThen (fetch (n_linkGroups n) groupID) (\<lambda>group.
    if lg_Tombstoned group then Inl ErrEditInvalid else
    andThen (require EntityLinkGroup groupID (lg_Revision group) n) (\<lambda>_.
    andThen (forEach (unlinkGroupMember groupID) (gm_get [] (n_linkGroupClips n) groupID) n) (\<lambda>n.
    tombstoneLinkGroup groupID (n\<lparr>n_linkGroupClips := gm_set (n_linkGroupClips n) groupID []\<rparr>))))))"

definition keepAlignment :: "AlignmentID \<Rightarrow> edit_normalizer \<Rightarrow> edit_error + edit_normalizer" where
  "keepAlignment alignmentID n =
    andThen (fetch (st_Alignments (n_state n)) alignmentID) (\<lambda>alignment.
    Inr (if gm_has (n_alignmentEffects n) alignmentID then n
      else n\<lparr>n_alignmentEffects := gm_set (n_alignmentEffects n) alignmentID (al_Status alignment)\<rparr>))"

definition setClipPlacement :: "edit_operation \<Rightarrow> edit_normalizer \<Rightarrow> edit_error + edit_normalizer" where
  "setClipPlacement operation n =
    andThen (deref (op_Clip operation)) (\<lambda>reference.
    andThen (resolveClipReference reference n) (\<lambda>ident.
    andThen (someOr (EditInvalid (ClipNotLive ident)) (gm_lookup (n_clips n) ident)) (\<lambda>current.
    if clip_Tombstoned current then Inl (EditInvalid (ClipNotLive ident)) else
    andThen (require EntityClip (clip_ID current) (clip_Revision current) n) (\<lambda>_.
    andThen (fetch (st_Tracks (n_state n)) (clip_TrackID current)) (\<lambda>track.
    if ID_IsZero (trk_ID track) then Inl ErrEditInvalid
    else if trk_Type track \<noteq> TrackVideo then Inl (EditInvalid (PlacementOnTrack ident (trk_Type track) (trk_ID track)))
    else
    andThen (require EntityTrack (trk_ID track) (trk_Revision track) n) (\<lambda>_.
    let n = noteTrack track n in
    andThen (mustNext (clip_Revision current)) (\<lambda>revision.
    andThen (case op_Placement operation of
        None \<Rightarrow> Inr None
      | Some placement \<Rightarrow> if ClipPlacement_IsIdentity placement then Inr None
          else case ClipPlacement_Validate placement of
            Inl e \<Rightarrow> Inl (EditInvalid (PlacementInvalid e)) | Inr _ \<Rightarrow> Inr (Some placement)) (\<lambda>placement.
    andThen (forEach keepAlignment (gm_get [] (st_ClipAlignments (n_state n)) (clip_ID current)) n) (\<lambda>n.
    putExistingClip current (current\<lparr>clip_Revision := revision, clip_Placement := placement\<rparr>) False n)))))))))"

section \<open>Checks on the result\<close>

definition linkGroupOk :: "edit_normalizer \<Rightarrow> string \<Rightarrow> bool" where
  "linkGroupOk n key =
    (let (kind, ident) = splitEntityKey key in
     if kind \<noteq> EntityLinkGroup then True
     else let group = gm_get zero_link_group (n_linkGroups n) ident;
              live = length (filter (\<lambda>clipID. let clip = gm_get zero_clip (n_clips n) clipID in
                \<not> clip_Tombstoned clip \<and> clip_LinkGroupID clip = Some ident) (gm_keys (n_clips n)))
          in \<not> ((lg_Tombstoned group \<and> live \<noteq> 0) \<or> (\<not> lg_Tombstoned group \<and> (live < 2 \<or> live > 64))))"

definition validateLinkGroups :: "edit_normalizer \<Rightarrow> bool" where
  "validateLinkGroups n = list_all (linkGroupOk n) (gm_keys (n_touched n))"

definition clipOverlapsNone :: "edit_normalizer \<Rightarrow> string \<Rightarrow> bool" where
  "clipOverlapsNone n key =
    (let (kind, ident) = splitEntityKey key; clip = gm_get zero_clip (n_clips n) ident in
     if kind \<noteq> EntityClip then True
     else if clip_Tombstoned clip then True
     else list_all (\<lambda>otherID. let other = gm_get zero_clip (n_clips n) otherID in
       if otherID = ident \<or> clip_Tombstoned other \<or> clip_TrackID other \<noteq> clip_TrackID clip then True
       else \<not> rangesOverlap (clip_TimelineRange clip) (clip_TimelineRange other)) (gm_keys (n_clips n)))"

definition validateClipOverlaps :: "edit_normalizer \<Rightarrow> bool" where
  "validateClipOverlaps n = list_all (clipOverlapsNone n) (gm_keys (n_touched n))"

section \<open>The handlers take steps of the log machine\<close>

lemma requireTrack_advances:
  assumes "paired n" "requireTrack trackID n = Inr n'"
  shows "advances n n'"
  using assms unfolding requireTrack_def by (auto simp: go_result intro!: noteTrack_advances)

lemma putExistingClip_advances:
  assumes n: "running n" and run: "putExistingClip current next_state trackChanged n = Inr n'"
    and old: "gm_lookup (n_clips n) (clip_ID current) = Some current" "conds n (EntityClip, clip_ID current) = Some (clip_Revision current)"
    and same: "clip_ID next_state = clip_ID current"
  shows "advances n n'"
  using run unfolding putExistingClip_def Let_def
proof (elim andThenE checkE, goal_cases)
  case (1 m revision undone)
  then have mk: "marked (EntityClip, clip_ID current) n m" using n by (intro markTouched_marked) simp_all
  define u where "u = (addChange (existingEntityChange EntityClip (clip_ID current) (clip_Revision current)
      (clip_Revision next_state) (clip_Tombstoned next_state))
      (putEntity (clip_ID current) (PutClip next_state) (PutClip (current\<lparr>clip_Revision := undone\<rparr>)) m))\<lparr>n_sequenceChanged := True\<rparr>"
  have u: "advances n u" using 1 old same mk unfolding u_def
    by (auto simp: go_result intro!: marked_replace [OF n, where cur = "PutClip current"])
  have tracks: "(if trackChanged then forEach requireTrack [clip_TrackID current, clip_TrackID next_state] u else Inr u) = Inr n'"
    unfolding u_def by (rule 1)
  have "advances u n'"
  proof (cases trackChanged)
    case True
    with tracks have "forEach requireTrack [clip_TrackID current, clip_TrackID next_state] u = Inr n'" by simp
    then show ?thesis by (rule forEach_advances [OF advances_running [OF n u]]) (auto intro: requireTrack_advances)
  qed (use tracks u in \<open>auto simp: advances_def keeps_request_def\<close>)
  with u show ?case by (rule advances_trans)
qed

text \<open>A member of a link group that a loop mutates: it has its revision from before the loop.\<close>

lemma putExistingClip_member:
  assumes n: "running n" and old: "gm_lookup (n_clips n) ident = Some c" "conds n (EntityClip, ident) = Some (clip_Revision c)"
    and s: "running s" "advances n s" and current: "current = gm_get zero_clip (n_clips s) ident"
    and same: "clip_ID next_state = clip_ID current" and run: "putExistingClip current next_state trackChanged s = Inr t"
  shows "advances s t"
proof -
  have "log_store (abs_log s) (EntityClip, ident) \<noteq> None"
    using edit_steps_store_mono [of "conds n" "abs_log n" "abs_log s" "(EntityClip, ident)"] s(2) old(1)
    by (simp add: advances_def abs_log_def)
  then obtain d where d: "gm_lookup (n_clips s) ident = Some d" by (auto simp: abs_log_def)
  then have current': "current = d" "clip_ID d = ident" using current running_clip_ID [OF s(1)] by (simp_all add: gm_get_def)
  have untouched: "(EntityClip, ident) \<notin> touched_keys (n_touched s)"
    using run current' by (auto simp: putExistingClip_def markTouched_Inr)
  then have "(EntityClip, ident) \<notin> touched_keys (n_touched n)" using advances_touched [OF s(2)] by blast
  then have "abs_store s (EntityClip, ident) = abs_store n (EntityClip, ident)"
    using running_untouched [OF n] running_untouched [OF s(1) untouched] advances_input [OF s(2)] by metis
  then have "d = c" using d old(1) by simp
  then show ?thesis using putExistingClip_advances [OF s(1) run _ _ same] current' d old(2) advances_conds [OF s(2)] by simp
qed

lemma putNewClip_advances:
  assumes n: "running n" and run: "putNewClip state n = Inr n'" and state: "clip_Revision state = 1" "\<not> clip_Tombstoned state"
  shows "advances n n'"
  using run unfolding putNewClip_def Let_def
proof (elim andThenE checkE, goal_cases)
  case (1 m undone u)
  then have mk: "marked (EntityClip, clip_ID state) n m" using n by (intro markTouched_marked) simp_all
  have "abs_store n (EntityClip, clip_ID state) = None" using 1 by (simp add: gm_has_def)
  then have "input_store (n_state n) (EntityClip, clip_ID state) = None" by (rule untouched_new [OF n mk])
  moreover have "undone = 2" using 1 state by (simp add: go_result)
  ultimately have put: "advances n (addChange (newEntityChange EntityClip (clip_ID state) (clip_Revision state) False)
      (putEntity (clip_ID state) (PutClip state) (PutClip (state\<lparr>clip_Revision := undone, clip_Tombstoned := True\<rparr>)) m))"
    using mk state by (intro marked_create [OF n mk]) simp_all
  have "advances (addChange (newEntityChange EntityClip (clip_ID state) (clip_Revision state) False)
      (putEntity (clip_ID state) (PutClip state) (PutClip (state\<lparr>clip_Revision := undone, clip_Tombstoned := True\<rparr>)) m)) u"
    by (rule requireTrack_advances) (use 1 put in \<open>auto simp: advances_def\<close>)
  with put have "advances n u" by (rule advances_trans)
  then show ?case using 1 by auto
qed

lemma createLinkGroup_advances:
  assumes n: "running n" and run: "createLinkGroup local n = Inr (ident, n')"
  shows "advances n n'"
  using run unfolding createLinkGroup_def Let_def
proof (elim andThenE checkE, goal_cases)
  case (1 allocation i m undone)
  then have mk: "marked (EntityLinkGroup, i) n m" using n by (intro markTouched_marked) simp_all
  have "abs_store n (EntityLinkGroup, i) = None" using 1 by (simp add: gm_has_def)
  then have "input_store (n_state n) (EntityLinkGroup, i) = None" by (rule untouched_new [OF n mk])
  moreover have "undone = 2" using 1 by (simp add: go_result)
  ultimately show ?case using 1 by (auto intro!: marked_create [OF n mk])
qed

lemma tombstoneLinkGroup_advances:
  assumes n: "running n" and run: "tombstoneLinkGroup ident n = Inr n'"
  shows "advances n n'"
  using run unfolding tombstoneLinkGroup_def Let_def
proof (elim andThenE checkE, goal_cases)
  case (1 current m u revision undone)
  then have mk: "marked (EntityLinkGroup, ident) n m" using n by (intro markTouched_marked) simp_all
  have "gm_lookup (n_linkGroups n) ident = Some current" "lg_ID current = ident"
    using 1 running_group_ID [OF n] by (simp_all add: go_result)
  then show ?case using 1 marked_conds [OF mk] mk
    by (auto simp: go_result intro!: marked_replace [OF n, where cur = "PutLinkGroup current"])
qed

lemma advanceLinkGroup_advances:
  assumes n: "running n" and run: "advanceLinkGroup ident members n = Inr n'"
  shows "advances n n'"
  using run unfolding advanceLinkGroup_def Let_def
proof (elim andThenE checkE, goal_cases)
  case (1 current m u revision undone)
  then have mk: "marked (EntityLinkGroup, ident) n m" using n by (intro markTouched_marked) simp_all
  have "gm_lookup (n_linkGroups n) ident = Some current" "lg_ID current = ident"
    using 1 running_group_ID [OF n] by (simp_all add: go_result)
  then show ?case using 1 marked_conds [OF mk] mk
    by (auto simp: go_result intro!: marked_replace [OF n, where cur = "PutLinkGroup current"])
qed

definition member_ok :: "edit_normalizer \<Rightarrow> ClipID \<Rightarrow> bool" where
  "member_ok n ident \<longleftrightarrow> (\<exists>c. gm_lookup (n_clips n) ident = Some c \<and> conds n (EntityClip, ident) = Some (clip_Revision c))"

lemma clipMutationMembers_ok:
  assumes n: "running n" and run: "clipMutationMembers operation change n = Inr (members, seed)" and "ident \<in> set members"
  shows "member_ok n ident"
  using run unfolding clipMutationMembers_def Let_def
proof (elim andThenE checkE, goal_cases)
  case (1 reference seedID seed' u scope)
  then have seed: "gm_lookup (n_clips n) seedID = Some seed'" "clip_ID seed' = seedID"
      "conds n (EntityClip, seedID) = Some (clip_Revision seed')"
    using running_clip_ID [OF n] by (simp_all add: go_result)
  show ?case
  proof (cases "scope = ClipScopeSingle")
    case True
    then show ?thesis using 1 seed assms(3) by (auto simp: member_ok_def go_result)
  next
    case False
    with 1 obtain groupID groupID' found where "forEach (checkMember groupID seedID n) (gm_get [] (n_linkGroupClips n) groupID') False = Inr found"
      "members = sort_slice (<) (gm_get [] (n_linkGroupClips n) groupID')"
      using seed(2) by (auto simp: go_result split: if_splits)
    from this(2) assms(3) have "ident \<in> set (gm_get [] (n_linkGroupClips n) groupID')" by simp
    from forEach_each [OF \<open>forEach _ _ _ = _\<close> this] obtain a b where "checkMember groupID seedID n ident a = Inr b" by blast
    then show ?thesis using running_clip_ID [OF n] by (auto simp: checkMember_def member_ok_def go_result)
  qed
qed

lemma member_put:
  assumes "running n" "member_ok n ident" "running s" "advances n s"
    and "putExistingClip (gm_get zero_clip (n_clips s) ident) next_state b s = Inr t"
    and "clip_ID next_state = clip_ID (gm_get zero_clip (n_clips s) ident)"
  shows "advances s t"
  using assms putExistingClip_member [OF assms(1) _ _ assms(3,4) refl assms(6,5)] unfolding member_ok_def by blast

lemma noteTrack_clips [simp]: "n_clips (noteTrack track n) = n_clips n" "n_input (noteTrack track n) = n_input n"
  by (simp_all add: noteTrack_def)

lemma moveMember_advances:
  assumes n: "running n" "member_ok n ident" and s: "running s" "advances n s" and run: "moveMember operation seed delta ident s = Inr t"
  shows "advances s t"
  using run unfolding moveMember_def Let_def
proof (elim andThenE checkE, goal_cases)
  case (1 revision start pair)
  let ?c = "gm_get zero_clip (n_clips s) ident"
  obtain next_state m where pair: "pair = (next_state, m)" by fastforce
  have next_state: "clip_ID next_state = clip_ID ?c" and m: "advances s m" "n_clips m = n_clips s"
    using 1 s(1) pair by (auto simp: go_result intro!: noteTrack_advances split: if_splits)
  have "advances m t"
  proof (rule member_put [OF n advances_running [OF s(1) m(1)] advances_trans [OF s(2) m(1)]])
    show "putExistingClip (gm_get zero_clip (n_clips m) ident) next_state True m = Inr t" using 1 pair m(2) by simp
  qed (simp add: next_state m(2))
  with m(1) show ?case by (rule advances_trans)
qed

lemma moveClip_advances:
  assumes n: "running n" and run: "moveClip operation n = Inr n'"
  shows "advances n n'"
proof -
  from run obtain members seed delta where *: "clipMutationMembers operation False n = Inr (members, seed)"
    "forEach (moveMember operation seed delta) members n = Inr n'" unfolding moveClip_def by auto
  show ?thesis
    by (rule forEach_advances [OF n *(2)]) (rule moveMember_advances [OF n clipMutationMembers_ok [OF n *(1)]])
qed

lemma trimMember_advances:
  assumes n: "running n" "member_ok n ident" and s: "running s" "advances n s" and run: "trimMember left right ident s = Inr t"
  shows "advances s t"
  using run unfolding trimMember_def Let_def
  by (elim andThenE checkE) (rule member_put [OF n s], assumption, simp)

lemma trimClip_advances:
  assumes n: "running n" and run: "trimClip operation n = Inr n'"
  shows "advances n n'"
proof -
  from run obtain members seed left right where *: "clipMutationMembers operation False n = Inr (members, seed)"
    "forEach (trimMember left right) members n = Inr n'" unfolding trimClip_def by auto
  show ?thesis
    by (rule forEach_advances [OF n *(2)]) (rule trimMember_advances [OF n clipMutationMembers_ok [OF n *(1)]])
qed

lemma removeMember_advances:
  assumes n: "running n" "member_ok n ident" and s: "running s" "advances n s" and run: "removeMember ident s = Inr t"
  shows "advances s t"
  using run unfolding removeMember_def Let_def
  by (elim andThenE checkE) (rule member_put [OF n s], assumption, simp)

lemma unlinkMember_advances:
  assumes n: "running n" "gm_lookup (n_clips n) ident = Some c" and s: "running s" "advances n s" and run: "unlinkMember ident s = Inr t"
  shows "advances s t"
proof -
  have "log_store (abs_log s) (EntityClip, ident) \<noteq> None"
    using edit_steps_store_mono [of "conds n" "abs_log n" "abs_log s" "(EntityClip, ident)"] s(2) n(2)
    by (simp add: advances_def abs_log_def)
  then obtain d where d: "gm_lookup (n_clips s) ident = Some d" by (auto simp: abs_log_def)
  then have "gm_get zero_clip (n_clips s) ident = d" "clip_ID d = ident" using running_clip_ID [OF s(1)] by (simp_all add: gm_get_def)
  with run d show ?thesis unfolding unlinkMember_def Let_def
    by (auto simp: go_result intro!: putExistingClip_advances [OF s(1), of d])
qed

lemma finishSingleMembershipRemoval_advances:
  assumes n: "running n" and run: "finishSingleMembershipRemoval ident n = Inr n'"
  shows "advances n n'"
proof -
  define survivors where "survivors = filter (\<lambda>memberID. let clip = gm_get zero_clip (n_clips n) memberID in
    \<not> clip_Tombstoned clip \<and> clip_LinkGroupID clip = Some ident) (gm_get [] (n_linkGroupClips n) ident)"
  have present: "\<exists>c. gm_lookup (n_clips n) m = Some c" if "m \<in> set survivors" for m
    using that by (auto simp: survivors_def gm_get_def zero_clip_def split: option.splits)
  have loop: "advances n m" if "forEach unlinkMember survivors n = Inr m" for m
    by (rule forEach_advances [OF n that]) (use n present unlinkMember_advances in blast)
  from run consider "advanceLinkGroup ident survivors n = Inr n'" |
    m where "forEach unlinkMember survivors n = Inr m"
      "tombstoneLinkGroup ident (m\<lparr>n_linkGroupClips := gm_set (n_linkGroupClips m) ident []\<rparr>) = Inr n'"
    unfolding finishSingleMembershipRemoval_def survivors_def Let_def by (auto split: if_splits)
  then show ?thesis
  proof cases
    case 2
    have u: "advances n (m\<lparr>n_linkGroupClips := gm_set (n_linkGroupClips m) ident []\<rparr>)" using loop [OF 2(1)] by simp
    with tombstoneLinkGroup_advances [OF advances_running [OF n u] 2(2)] show ?thesis by (metis advances_trans)
  qed (rule advanceLinkGroup_advances [OF n])
qed

lemma removeClip_advances:
  assumes n: "running n" and run: "removeClip operation n = Inr n'"
  shows "advances n n'"
  using run unfolding removeClip_def
proof (elim andThenE checkE, clarify, elim andThenE checkE, goal_cases)
  case (1 members seed m)
  have m: "advances n m"
    by (rule forEach_advances [OF n 1(2)]) (rule removeMember_advances [OF n clipMutationMembers_ok [OF n 1(1)]])
  have "advances m n'"
    using 1(3) tombstoneLinkGroup_advances [OF advances_running [OF n m]]
      finishSingleMembershipRemoval_advances [OF advances_running [OF n m]] m
    by (auto simp: advances_def split: option.splits if_splits)
  with m show ?case by (rule advances_trans)
qed

lemma splitClipStates_new:
  assumes "splitClipStates current splitAt output leftGroupID rightGroupID n = Inr (left, right)"
  shows "clip_Revision left = 1" "\<not> clip_Tombstoned left" "clip_Revision right = 1" "\<not> clip_Tombstoned right"
  using assms unfolding splitClipStates_def by auto

lemma splitMember_advances:
  assumes n: "running n" "member_ok n ident" and s: "running s" "advances n s"
    and run: "splitMember splitAt outputs leftGroupID rightGroupID ident s = Inr t"
  shows "advances s t"
proof -
  let ?c = "gm_get zero_clip (n_clips s) ident"
  from run obtain out left right revision a b where
    states: "splitClipStates ?c splitAt out leftGroupID rightGroupID s = Inr (left, right)"
    and put: "putExistingClip ?c (?c\<lparr>clip_Revision := revision, clip_Tombstoned := True\<rparr>) True s = Inr a"
    and new: "putNewClip left a = Inr b" "putNewClip right b = Inr t"
    unfolding splitMember_def Let_def by auto
  have a: "advances s a" by (rule member_put [OF n s put]) simp
  note ra = advances_running [OF s(1) a]
  have b: "advances a b" by (rule putNewClip_advances [OF ra new(1)]) (use splitClipStates_new [OF states] in simp_all)
  have "advances b t"
    by (rule putNewClip_advances [OF advances_running [OF ra b] new(2)]) (use splitClipStates_new [OF states] in simp_all)
  with a b show ?thesis by (metis advances_trans)
qed

lemma splitClip_advances:
  assumes n: "running n" and run: "splitClip operation n = Inr n'"
  shows "advances n n'"
proof -
  from run obtain members seed outputs scope g h a b where
    members: "clipMutationMembers operation True n = Inr (members, seed)"
    and groups: "(if scope = ClipScopeLinked then
        andThen (deref (op_LeftLinkGroupAs operation)) (\<lambda>leftAs.
        andThen (createLinkGroup leftAs n) (\<lambda>(left, n).
        andThen (deref (op_RightLinkGroupAs operation)) (\<lambda>rightAs.
        andThen (createLinkGroup rightAs n) (\<lambda>(right, n).
        Inr (Some left, Some right, n)))))
      else Inr (None, None, n)) = Inr (g, h, a)"
    and loop: "(if members = [] then Inr a else andThen (deref (op_SplitAt operation)) (\<lambda>splitAt.
      forEach (splitMember splitAt outputs g h) members a)) = Inr b"
    and rest: "(if scope = ClipScopeLinked then
      andThen (someOr ErrEditInvalid (clip_LinkGroupID seed)) (\<lambda>groupID. tombstoneLinkGroup groupID b)
    else case clip_LinkGroupID seed of
      Some groupID \<Rightarrow> finishSingleMembershipRemoval groupID b
    | None \<Rightarrow> Inr b) = Inr n'"
    unfolding splitClip_def Let_def by (elim andThenE casePairE checkE, hypsubst) (rule that)
  have a: "advances n a"
  proof (cases "scope = ClipScopeLinked")
    case True
    with groups obtain leftAs rightAs left right m where
      "createLinkGroup leftAs n = Inr (left, m)" "createLinkGroup rightAs m = Inr (right, a)" by auto
    then show ?thesis using n createLinkGroup_advances advances_running advances_trans by meson
  qed (use groups n in simp)
  note ra = advances_running [OF n a]
  have "advances a b"
  proof (cases "members = []")
    case False
    with loop obtain splitAt where "forEach (splitMember splitAt outputs g h) members a = Inr b" by auto
    then show ?thesis
    proof (rule forEach_advances [OF ra])
      fix x s t
      assume x: "x \<in> set members" and s: "running s" "advances a s" and t: "splitMember splitAt outputs g h x s = Inr t"
      show "advances s t"
        by (rule splitMember_advances [OF n clipMutationMembers_ok [OF n members x] s(1) advances_trans [OF a s(2)] t])
    qed
  qed (use loop ra in simp)
  with a have b: "advances n b" by (rule advances_trans)
  note rb = advances_running [OF n b]
  have "advances b n'"
    using rest rb tombstoneLinkGroup_advances [OF rb] finishSingleMembershipRemoval_advances [OF rb]
    by (auto split: if_splits option.splits)
  with b show ?thesis by (rule advances_trans)
qed

lemma linkMember_advances:
  assumes s: "running s" and run: "linkMember groupID reference (s, members) = Inr (t, members')"
  shows "advances s t"
  using run running_clip_ID [OF s] unfolding linkMember_def Let_def
  by (auto simp: go_result intro!: putExistingClip_advances [OF s])

lemma linkClips_advances:
  assumes n: "running n" and run: "linkClips operation n = Inr n'"
  shows "advances n n'"
proof -
  from run obtain local groupID a b members where
    create: "createLinkGroup local n = Inr (groupID, a)"
    and loop: "forEach (linkMember groupID) (op_Clips operation) (a, []) = Inr (b, members)"
    and n': "n' = b\<lparr>n_linkGroupClips := gm_set (n_linkGroupClips b) groupID members\<rparr>"
    unfolding linkClips_def by auto
  have a: "advances n a" by (rule createLinkGroup_advances [OF n create])
  have "running (fst (b, members)) \<and> advances a (fst (b, members))"
  proof (rule forEach_invariant [OF loop])
    show "running (fst (a, [])) \<and> advances a (fst (a, []))" using advances_running [OF n a] by simp
    fix x s t
    assume step: "linkMember groupID x s = Inr t" and s: "running (fst s) \<and> advances a (fst s)"
    from step have "advances (fst s) (fst t)"
      using s linkMember_advances [of "fst s" groupID x "snd s" "fst t" "snd t"] by simp
    then show "running (fst t) \<and> advances a (fst t)" using s advances_running advances_trans by blast
  qed
  with a show ?thesis by (auto simp: n' intro: advances_trans)
qed

lemma unlinkGroupMember_advances:
  assumes s: "running s" and run: "unlinkGroupMember groupID ident s = Inr t"
  shows "advances s t"
  using run unfolding unlinkGroupMember_def Let_def
proof (elim andThenE checkE, goal_cases)
  case (1 u revision)
  then obtain c where c: "gm_lookup (n_clips s) ident = Some c"
    by (auto simp: gm_get_def zero_clip_def split: option.splits)
  then have "gm_get zero_clip (n_clips s) ident = c" "clip_ID c = ident" using running_clip_ID [OF s] by (simp_all add: gm_get_def)
  with 1 c show ?case by (auto simp: go_result intro!: putExistingClip_advances [OF s, of c])
qed

lemma unlinkClips_advances:
  assumes n: "running n" and run: "unlinkClips operation n = Inr n'"
  shows "advances n n'"
proof -
  from run obtain groupID members a where loop: "forEach (unlinkGroupMember groupID) members n = Inr a"
    and rest: "tombstoneLinkGroup groupID (a\<lparr>n_linkGroupClips := gm_set (n_linkGroupClips a) groupID []\<rparr>) = Inr n'"
    unfolding unlinkClips_def by auto
  have "advances n a" by (rule forEach_advances [OF n loop]) (rule unlinkGroupMember_advances)
  then have a: "advances n (a\<lparr>n_linkGroupClips := gm_set (n_linkGroupClips a) groupID []\<rparr>)" by simp
  with tombstoneLinkGroup_advances [OF advances_running [OF n a] rest] show ?thesis by (metis advances_trans)
qed

lemma keepAlignments_effects:
  assumes "forEach keepAlignment alignments n = Inr n'"
  shows "n' = n\<lparr>n_alignmentEffects := n_alignmentEffects n'\<rparr>"
proof (rule forEach_invariant [OF assms, where P = "\<lambda>s. s = n\<lparr>n_alignmentEffects := n_alignmentEffects s\<rparr>"])
  fix x s t
  assume "keepAlignment x s = Inr t" "s = n\<lparr>n_alignmentEffects := n_alignmentEffects s\<rparr>"
  then show "t = n\<lparr>n_alignmentEffects := n_alignmentEffects t\<rparr>"
    by (cases s; cases n) (auto simp: keepAlignment_def)
qed simp

lemma setClipPlacement_advances:
  assumes n: "running n" and run: "setClipPlacement operation n = Inr n'"
  shows "advances n n'"
  using run unfolding setClipPlacement_def Let_def
proof (elim andThenE checkE, goal_cases)
  case (1 reference ident current u track v revision placement m)
  have current: "gm_lookup (n_clips n) ident = Some current" "clip_ID current = ident"
      "conds n (EntityClip, ident) = Some (clip_Revision current)"
    using 1 running_clip_ID [OF n] by (simp_all add: go_result)
  have "conds n (EntityTrack, trk_ID track) = Some (trk_Revision track)" using 1 by (simp add: go_result)
  then have "advances n (noteTrack track n)" using n by (intro noteTrack_advances) simp_all
  moreover have m: "m = (noteTrack track n)\<lparr>n_alignmentEffects := n_alignmentEffects m\<rparr>"
    by (rule keepAlignments_effects) (rule 1)
  ultimately have adv: "advances n m" by (metis advances_frame(3))
  have "n_clips m = n_clips n" by (subst m) simp
  then have "advances m n'" using 1 current advances_conds [OF adv]
    by (intro putExistingClip_advances [OF advances_running [OF n adv] 1(13)]) simp_all
  with adv show ?case by (rule advances_trans)
qed

lemma resolveClipLinkGroup_advances:
  assumes n: "running n" and run: "resolveClipLinkGroup operation n = Inr (grp, n')"
  shows "advances n n'"
proof (cases "op_CreateLinkGroupAs operation")
  case (Some local)
  with run show ?thesis unfolding resolveClipLinkGroup_def Let_def option.case
  proof (simp only: option.case, elim andThenE checkE, goal_cases)
    case (1 allocation ident m undone)
    then have mk: "marked (EntityLinkGroup, ident) n (m\<lparr>n_linkGroupClips := gm_set (n_linkGroupClips m) ident []\<rparr>)"
      using n by (simp add: markTouched_marked)
    then show ?case using 1 by (auto simp: mustNext_Inr Revision_Next_1 intro!: marked_create [OF n mk])
  qed
next
  case None
  show ?thesis
  proof (cases "op_LinkGroup operation")
    case None
    with \<open>op_CreateLinkGroupAs operation = None\<close> run n show ?thesis by (simp add: resolveClipLinkGroup_def)
  next
    case (Some reference)
    with None run show ?thesis unfolding resolveClipLinkGroup_def Let_def
    proof (simp only: option.case, elim andThenE checkE, goal_cases)
      case (1 v ident current)
      show ?case
      proof (cases "isTouched n EntityLinkGroup ident")
        case False
        with 1(10) show ?thesis
        proof (simp only: if_False, elim andThenE checkE, goal_cases)
          case (1 u m revision undone)
          then have mk: "marked (EntityLinkGroup, ident) n m" using n by (intro markTouched_marked) simp_all
          have "gm_lookup (n_linkGroups n) ident = Some current" "lg_ID current = ident" "\<not> lg_Tombstoned current"
            using \<open>\<not> (lg_Tombstoned current \<or> lg_SequenceID current \<noteq> n_sequence n)\<close> \<open>fetch (n_linkGroups n) ident = Inr current\<close> running_group_ID [OF n] by (simp_all add: go_result)
          then show ?case using 1 mk
            by (auto simp: go_result intro!: marked_replace [OF n, where cur = "PutLinkGroup current"])
        qed
      qed (use 1 n in simp)
    qed
  qed
qed

lemma joinLinkGroup_frame [simp]:
  "advances n (joinLinkGroup g c m) = advances n m" "marked k n (joinLinkGroup g c m) = marked k n m"
  by (simp_all add: joinLinkGroup_def split: option.splits)

lemma addClip_advances:
  assumes n: "running n" and run: "addClip operation n = Inr n'"
  shows "advances n n'"
  using run unfolding addClip_def Let_def
proof (elim andThenE casePairE checkE, goal_cases)
  case (1 createAs allocation clipID m trackID track streamID stream assetID u v sourceRange timelineRange p grp a enabled w)
  then have mk: "marked (EntityClip, clipID) n m" using n by (simp add: markTouched_marked)
  have "advances m a" using 1 by (intro resolveClipLinkGroup_advances [OF marked_running [OF n mk]]) simp
  from marked_advances [OF mk this] have mka: "marked (EntityClip, clipID) n (joinLinkGroup grp clipID a)" by simp
  have "conds n (EntityTrack, trk_ID track) = Some (trk_Revision track)" using 1 marked_conds [OF mk] by (simp add: go_result)
  then show ?case using 1
    by (auto simp: mustNext_Inr Revision_Next_1 intro!: advances_noteTrack marked_create [OF n mka])
qed

end
