(* ===== verification/Normalize_Derivation.thy ===== *)
theory Normalize_Derivation
  imports Normalize_Transcript Normalize_Captions Normalize_Clips
begin

text \<open>
  Deriving captions from an excerpt of a transcript and rough cuts from excerpts:
  \<^verbatim>\<open>edit_normalize_caption_derivation.go\<close> and \<^verbatim>\<open>edit_normalize_rough_cut.go\<close>. Both
  recompute what the request claims to have derived and refuse a request that differs. The grapheme
  counter of \<^verbatim>\<open>github.com/rivo/uniseg\<close> is the parameter \<open>graphemes\<close>.
\<close>

section \<open>Units of evidence\<close>

definition subtractOrZero :: "rational_time \<Rightarrow> rational_time \<Rightarrow> rational_time" where
  "subtractOrZero a b = (case RationalTime_Subtract a b of Inl _ \<Rightarrow> zero_rational_time | Inr t \<Rightarrow> t)"

definition newRangeOrZero :: "rational_time \<Rightarrow> rational_time \<Rightarrow> time_range" where
  "newRangeOrZero start duration = (case NewTimeRange start duration of Inl _ \<Rightarrow> zero_time_range | Inr r \<Rightarrow> r)"

record caption_unit =
  cu_rangeValue :: time_range
  cu_text :: string
  cu_ensureBoundary :: bool
  cu_segmentIDs :: "TranscriptSegmentID list"
  cu_correctionRevision :: "correction_ref option"

record caption_cue =
  cue_SourceRange :: time_range
  cue_TimelineRange :: time_range
  cue_EvidenceSourceRange :: time_range
  cue_Text :: string
  cue_SegmentIDs :: "TranscriptSegmentID list"
  cue_CorrectionRevisions :: "correction_ref list"

definition provideRevision :: "correction_ref \<Rightarrow> (string, revision) gomap \<Rightarrow> edit_error + (string, revision) gomap" where
  "provideRevision reference provided =
    (if gm_has provided (cref_ID reference) then Inl ErrEditInvalid
     else Inr (gm_set provided (cref_ID reference) (cref_Revision reference)))"

definition captionExcerptCorrections :: "source_excerpt_state \<Rightarrow> (string, correction_state) gomap \<Rightarrow> edit_error + correction_state list" where
  "captionExcerptCorrections excerpt state =
    andThen (forEach provideRevision (ev_CorrectionRevisions (exc_Evidence excerpt)) []) (\<lambda>provided.
    collectCorrections (ev_ArtifactID (exc_Evidence excerpt)) (exc_Language excerpt) (exc_SourceRange excerpt) state provided)"

definition segmentByOrdinal :: "edit_segment_state list \<Rightarrow> (uint32, TranscriptSegmentID) gomap" where
  "segmentByOrdinal segments = foldl (\<lambda>m segment. gm_set m (seg_Ordinal segment) (seg_ID segment)) [] segments"

fun evidenceUnits :: "(uint32, TranscriptSegmentID) gomap \<Rightarrow> nat \<Rightarrow> evidence_token list \<Rightarrow> correction_state list \<Rightarrow>
    rational_time option \<Rightarrow> uint32 \<Rightarrow> caption_unit list \<Rightarrow> edit_error + caption_unit list \<times> correction_state list" where
  "evidenceUnits ordinals index [] corrections skippedUntil previousSegment result = Inr (result, corrections)"
| "evidenceUnits ordinals index (current # tokens) corrections skippedUntil previousSegment result =
    (if (case skippedUntil of None \<Rightarrow> False | Some until \<Rightarrow> compareOrZero (token_start current) until < 0)
     then evidenceUnits ordinals (Suc index) tokens corrections skippedUntil previousSegment result
     else if corrections \<noteq> [] \<and> compareOrZero (token_start current) (tr_Start (cor_SourceRange (hd corrections))) = 0
     then let correction = hd corrections in
       evidenceUnits ordinals (Suc index) tokens (tl corrections) (Some (endOrZero (cor_SourceRange correction)))
         (evt_segmentOrdinal current)
         (result @ [\<lparr>cu_rangeValue = cor_SourceRange correction, cu_text = cor_ReplacementText correction,
           cu_ensureBoundary = index > 0, cu_segmentIDs = cor_SegmentIDs correction,
           cu_correctionRevision = Some \<lparr>cref_ID = cor_ID correction, cref_Revision = cor_Revision correction\<rparr>\<rparr>])
     else if corrections \<noteq> [] \<and> compareOrZero (token_start current) (tr_Start (cor_SourceRange (hd corrections))) > 0
     then Inl ErrEditInvalid
     else andThen (fetch ordinals (evt_segmentOrdinal current)) (\<lambda>segmentID.
       evidenceUnits ordinals (Suc index) tokens corrections None (evt_segmentOrdinal current)
         (result @ [\<lparr>cu_rangeValue = tok_SourceRange (evt_token current), cu_text = tok_Text (evt_token current),
           cu_ensureBoundary = index > 0 \<and> evt_segmentOrdinal current \<noteq> previousSegment,
           cu_segmentIDs = [segmentID], cu_correctionRevision = None\<rparr>])))"

definition captionEvidenceUnits :: "edit_segment_state list \<Rightarrow> evidence_token list \<Rightarrow> correction_state list \<Rightarrow>
    edit_error + caption_unit list" where
  "captionEvidenceUnits segments tokens corrections =
    andThen (evidenceUnits (segmentByOrdinal segments) 0 tokens corrections None 0 []) (\<lambda>(result, unused).
    if unused \<noteq> [] \<or> result = [] then Inl ErrEditInvalid else Inr result)"

section \<open>Lines\<close>

definition joinUnits :: "caption_unit list \<Rightarrow> string" where
  "joinUnits units = foldl (\<lambda>result unit_state. appendTranscriptText result (cu_text unit_state) (cu_ensureBoundary unit_state)) '''' units"

definition joinCaptionUnits :: "caption_unit list \<Rightarrow> string" where
  "joinCaptionUnits units = TrimSpace (joinUnits units)"

definition wordBoundary :: "caption_unit list \<Rightarrow> nat \<Rightarrow> bool" where
  "wordBoundary units index =
    (let previous = units ! (index - 1); current = units ! index in
     IsSpace (fst (DecodeLastRune (cu_text previous))) \<or> IsSpace (fst (DecodeRune (cu_text current))) \<or>
     (cu_ensureBoundary current \<and> needsTranscriptSpace (cu_text previous) (cu_text current)))"

definition lastCaptionWordBoundary :: "caption_unit list \<Rightarrow> nat" where
  "lastCaptionWordBoundary units =
    (case filter (wordBoundary units) (rev [1..<length units]) of [] \<Rightarrow> 0 | index # _ \<Rightarrow> index)"

definition wrapUnit :: "(string \<Rightarrow> nat) \<Rightarrow> caption_policy \<Rightarrow> caption_unit \<Rightarrow> caption_unit list list \<times> caption_unit list \<Rightarrow>
    edit_error + caption_unit list list \<times> caption_unit list" where
  "wrapUnit graphemes policy unit_state accumulated =
    (let (lines, current) = accumulated; candidate = current @ [unit_state] in
     if graphemes (joinCaptionUnits candidate) \<le> unat (pol_MaximumLineGraphemes policy) then Inr (lines, candidate)
     else let breakIndex = lastCaptionWordBoundary candidate in
       if breakIndex = 0 then Inl ErrEditInvalid
       else let lines = lines @ [take breakIndex candidate]; current = drop breakIndex candidate in
         if length lines \<ge> unat (pol_MaximumLines policy) \<or>
           graphemes (joinCaptionUnits current) > unat (pol_MaximumLineGraphemes policy) then Inl ErrEditInvalid
         else Inr (lines, current))"

definition strings_Join :: "string list \<Rightarrow> string \<Rightarrow> string" where
  "strings_Join parts separator = (case parts of [] \<Rightarrow> '''' | p # ps \<Rightarrow> foldl (\<lambda>result part. result @ separator @ part) p ps)"

definition NL :: char where "NL = CHR 0x0A"

definition wrapCaptionUnits :: "(string \<Rightarrow> nat) \<Rightarrow> caption_policy \<Rightarrow> caption_unit list \<Rightarrow> edit_error + string" where
  "wrapCaptionUnits graphemes policy units =
    andThen (forEach (wrapUnit graphemes policy) units ([], [])) (\<lambda>(lines, current).
    let lines = (if current \<noteq> [] then lines @ [current] else lines) in
    if lines = [] \<or> length lines > unat (pol_MaximumLines policy) then Inl ErrEditInvalid
    else let value = strings_Join (map joinCaptionUnits lines) [NL] in
      if value = '''' \<or> length value > MaximumAuthoredTextBytes then Inl ErrEditInvalid else Inr value)"

section \<open>Groups\<close>

definition captionUnitEndsTerminal :: "caption_unit \<Rightarrow> bool" where
  "captionUnitEndsTerminal unit_state =
    (let value = TrimSpace (cu_text unit_state) in
     if value = '''' then False
     else fst (DecodeLastRune value) \<in> set [46, 33, 63, 12290, 65281, 65311, 8230])"

definition breakBefore :: "(string \<Rightarrow> nat) \<Rightarrow> caption_policy \<Rightarrow> caption_unit \<Rightarrow> caption_unit list \<Rightarrow> edit_error + bool" where
  "breakBefore graphemes policy unit_state current =
    (if current = [] then Inr False
     else let previous = last current; previousEnd = endOrZero (cu_rangeValue previous);
              start = tr_Start (cu_rangeValue (hd current)) in
       andThen (orError ErrEditInvalid (RationalTime_Subtract (tr_Start (cu_rangeValue unit_state)) previousEnd)) (\<lambda>gap.
       if RationalTime_IsNegative gap then Inl ErrEditInvalid
       else Inr (compareOrZero gap (pol_MaximumGap policy) > 0 \<or>
         compareOrZero (subtractOrZero (endOrZero (cu_rangeValue unit_state)) start) (pol_MaximumDuration policy) > 0 \<or>
         (captionUnitEndsTerminal previous \<and> compareOrZero (subtractOrZero previousEnd start) (pol_MinimumDuration policy) \<ge> 0) \<or>
         \<not> isOk (wrapCaptionUnits graphemes policy (current @ [unit_state])))))"

definition groupUnit :: "(string \<Rightarrow> nat) \<Rightarrow> caption_policy \<Rightarrow> caption_unit \<Rightarrow> caption_unit list list \<times> caption_unit list \<Rightarrow>
    edit_error + caption_unit list list \<times> caption_unit list" where
  "groupUnit graphemes policy unit_state accumulated =
    (let (groups, current) = accumulated in
     if graphemes (TrimSpace (cu_text unit_state)) > unat (pol_MaximumLineGraphemes policy) then Inl ErrEditInvalid else
     andThen (breakBefore graphemes policy unit_state current) (\<lambda>break.
     let (groups, current) = (if break then (groups @ [current], [unit_state]) else (groups, current @ [unit_state])) in
     andThen (wrapCaptionUnits graphemes policy current) (\<lambda>_.
     Inr (groups, current))))"

definition groupCaptionUnits :: "(string \<Rightarrow> nat) \<Rightarrow> caption_policy \<Rightarrow> caption_unit list \<Rightarrow> edit_error + caption_unit list list" where
  "groupCaptionUnits graphemes policy units =
    andThen (forEach (groupUnit graphemes policy) units ([], [])) (\<lambda>(groups, current).
    let groups = (if current \<noteq> [] then groups @ [current] else groups) in
    if groups = [] \<or> length groups > 128 then Inl ErrEditInvalid else Inr groups)"

section \<open>Cues\<close>

definition earlier :: "rational_time \<Rightarrow> rational_time \<Rightarrow> rational_time" where
  "earlier bound value = (if compareOrZero bound value < 0 then bound else value)"

definition later :: "rational_time \<Rightarrow> rational_time \<Rightarrow> rational_time" where
  "later bound value = (if compareOrZero bound value > 0 then bound else value)"

definition captionGroupEvidence :: "caption_unit list \<Rightarrow> TranscriptSegmentID list \<times> correction_ref list" where
  "captionGroupEvidence group_units =
    foldl (\<lambda>(segments, corrections) unit_state.
      (foldl (\<lambda>segments segmentID. if segmentID \<in> set segments then segments else segments @ [segmentID]) segments (cu_segmentIDs unit_state),
       case cu_correctionRevision unit_state of None \<Rightarrow> corrections
       | Some reference \<Rightarrow> if cref_ID reference \<in> set (map cref_ID corrections) then corrections else corrections @ [reference]))
      ([], []) group_units"

definition withoutNewlines :: "string \<Rightarrow> string" where
  "withoutNewlines text = filter (\<lambda>c. c \<noteq> NL) text"

text \<open>One cue: \<open>capEnd\<close> is the start of the next group, or the end of the usable source range.\<close>

definition deriveCue :: "(string \<Rightarrow> nat) \<Rightarrow> caption_policy \<Rightarrow> clip_state \<Rightarrow> rational_time \<Rightarrow> caption_unit list \<Rightarrow> edit_error + caption_cue" where
  "deriveCue graphemes policy clip capEnd group_units =
    andThen (wrapCaptionUnits graphemes policy group_units) (\<lambda>content.
    let evidenceStart = tr_Start (cu_rangeValue (hd group_units)); evidenceEnd = endOrZero (cu_rangeValue (last group_units)) in
    andThen (orError ErrEditInvalid (RationalTime_Add evidenceStart (pol_MinimumDuration policy))) (\<lambda>minimumEnd.
    let desiredEnd = later minimumEnd evidenceEnd in
    andThen (orError ErrEditInvalid (NewRationalTime (word_of_nat (graphemes (withoutNewlines content)))
      (ucast (pol_MaximumReadingRate policy)))) (\<lambda>readingDuration.
    andThen (orError ErrEditInvalid (RationalTime_Add evidenceStart readingDuration)) (\<lambda>readingEnd.
    let desiredEnd = later readingEnd desiredEnd in
    if compareOrZero desiredEnd capEnd > 0 then
      Inl (EditInvalid (CaptionDoesNotFit (graphemes (withoutNewlines content)) (subtractOrZero desiredEnd evidenceStart)
        (pol_MaximumReadingRate policy) (subtractOrZero capEnd evidenceStart)))
    else
    andThen (orError ErrEditInvalid (RationalTime_Subtract desiredEnd evidenceStart)) (\<lambda>duration.
    if \<not> RationalTime_IsPositive duration then Inl ErrEditInvalid
    else if compareOrZero duration (pol_MaximumDuration policy) > 0 then Inl ErrEditInvalid else
    andThen (orError ErrEditInvalid (RationalTime_Subtract evidenceStart (tr_Start (clip_SourceRange clip)))) (\<lambda>sourceOffset.
    andThen (orError ErrEditInvalid (RationalTime_Add (tr_Start (clip_TimelineRange clip)) sourceOffset)) (\<lambda>timelineStart.
    andThen (orError ErrEditInvalid (NewTimeRange timelineStart duration)) (\<lambda>timelineRange.
    if \<not> transcriptRangeContains (clip_TimelineRange clip) timelineRange then Inl ErrEditInvalid else
    let (segmentIDs, correctionRefs) = captionGroupEvidence group_units in
    Inr \<lparr>cue_SourceRange = newRangeOrZero evidenceStart duration, cue_TimelineRange = timelineRange,
      cue_EvidenceSourceRange = newRangeOrZero evidenceStart (subtractOrZero evidenceEnd evidenceStart), cue_Text = content,
      cue_SegmentIDs = segmentIDs, cue_CorrectionRevisions = correctionRefs\<rparr>))))))))"

fun deriveCues :: "(string \<Rightarrow> nat) \<Rightarrow> caption_policy \<Rightarrow> clip_state \<Rightarrow> rational_time \<Rightarrow> caption_unit list list \<Rightarrow> edit_error + caption_cue list" where
  "deriveCues graphemes policy clip finalEnd [] = Inr []"
| "deriveCues graphemes policy clip finalEnd (group_units # groups) =
    andThen (deriveCue graphemes policy clip
      (case groups of [] \<Rightarrow> finalEnd | following # _ \<Rightarrow> tr_Start (cu_rangeValue (hd following))) group_units) (\<lambda>cue.
    andThen (deriveCues graphemes policy clip finalEnd groups) (\<lambda>cues.
    Inr (cue # cues)))"

definition DeriveCaptionCues :: "(string \<Rightarrow> nat) \<Rightarrow> edit_artifact_state \<Rightarrow> source_excerpt_state \<Rightarrow> (string, correction_state) gomap \<Rightarrow>
    clip_state \<Rightarrow> caption_policy \<Rightarrow> edit_error + caption_cue list" where
  "DeriveCaptionCues graphemes artifact excerpt correctionState clip policy =
    (if \<not> CaptionDerivationPolicy_Validate policy \<or> exc_Tombstoned excerpt \<or> clip_Tombstoned clip \<or> \<not> clip_Enabled clip \<or>
        art_ID artifact \<noteq> ev_ArtifactID (exc_Evidence excerpt) \<or> art_AssetID artifact \<noteq> exc_AssetID excerpt \<or>
        art_Fingerprint artifact \<noteq> exc_AcceptedFingerprint excerpt \<or>
        art_SourceStreamID artifact \<noteq> ev_SourceStreamID (exc_Evidence excerpt) \<or>
        clip_AssetID clip \<noteq> exc_AssetID excerpt \<or> \<not> transcriptRangeContains (clip_SourceRange clip) (exc_SourceRange excerpt)
     then Inl ErrEditInvalid else
    andThen (transcriptEvidenceSpan artifact (ev_SegmentIDs (exc_Evidence excerpt)) (exc_SourceRange excerpt)) (\<lambda>(segments, tokens).
    andThen (captionExcerptCorrections excerpt correctionState) (\<lambda>corrections.
    andThen (orError ErrEditInvalid (effectiveTranscriptText tokens corrections)) (\<lambda>effective.
    if effective \<noteq> exc_EffectiveText excerpt then Inl ErrEditInvalid else
    andThen (captionEvidenceUnits segments tokens corrections) (\<lambda>units.
    andThen (groupCaptionUnits graphemes policy units) (\<lambda>groups.
    deriveCues graphemes policy clip (earlier (endOrZero (clip_SourceRange clip)) (endOrZero (exc_SourceRange excerpt))) groups))))))"

section \<open>The caption handler\<close>

definition requireCorrection :: "edit_normalizer \<Rightarrow> correction_ref \<Rightarrow> edit_error + unit" where
  "requireCorrection n reference =
    andThen (fetch (n_corrections n) (cref_ID reference)) (\<lambda>correction.
    if cor_Revision correction \<noteq> cref_Revision reference \<or> cor_Tombstoned correction then Inl ErrEditInvalid
    else require EntityTranscriptCorrection (cref_ID reference) (cref_Revision reference) n)"

definition deriveCaption :: "source_excerpt_state \<Rightarrow> clip_state \<Rightarrow> edit_track_state \<Rightarrow> caption_policy \<Rightarrow>
    caption_cue \<times> derived_caption_output \<Rightarrow> edit_normalizer \<Rightarrow> edit_error + edit_normalizer" where
  "deriveCaption excerpt clip track policy item n =
    (let (cue, output) = item in
     if dco_Text output \<noteq> cue_Text cue \<or> \<not> equalTimeRange (dco_SourceRange output) (cue_SourceRange cue) \<or>
       \<not> equalTimeRange (dco_TimelineRange output) (cue_TimelineRange cue) then Inl ErrEditInvalid else
     andThen (allocated (dco_CaptionAs output) EntityCaption n) (\<lambda>captionAllocation.
     andThen (allocated (dco_AlignmentAs output) EntityAlignment n) (\<lambda>alignmentAllocation.
     andThen (orError ErrEditInvalid (ParseID (alloc_ID captionAllocation))) (\<lambda>captionID.
     andThen (orError ErrEditInvalid (ParseID (alloc_ID alignmentAllocation))) (\<lambda>alignmentID.
     andThen (markTouched EntityCaption captionID n) (\<lambda>n.
     andThen (markTouched EntityAlignment alignmentID n) (\<lambda>n.
     let provenance = \<lparr>prov_Kind = CaptionProvenanceTranscriptDerivation, prov_Derivation = Some
           \<lparr>der_SourceExcerptID = exc_ID excerpt, der_SourceExcerptRevision = exc_Revision excerpt,
            der_AssetID = exc_AssetID excerpt, der_AcceptedFingerprint = exc_AcceptedFingerprint excerpt,
            der_ArtifactID = ev_ArtifactID (exc_Evidence excerpt), der_SourceStreamID = ev_SourceStreamID (exc_Evidence excerpt),
            der_SegmentIDs = cue_SegmentIDs cue, der_CorrectionRevisions = cue_CorrectionRevisions cue,
            der_ClipID = clip_ID clip, der_ClipRevision = clip_Revision clip, der_ClipSourceRange = clip_SourceRange clip,
            der_ClipTimelineRange = clip_TimelineRange clip, der_EvidenceSourceRange = cue_EvidenceSourceRange cue,
            der_Policy = policy, der_DerivedRange = cue_TimelineRange cue, der_DerivedLanguage = exc_Language excerpt,
            der_DerivedText = cue_Text cue\<rparr>\<rparr>;
         caption = \<lparr>cap_ID = captionID, cap_Revision = 1, cap_SequenceID = trk_SequenceID track, cap_TrackID = trk_ID track,
           cap_Range = cue_TimelineRange cue, cap_Language = exc_Language excerpt, cap_Text = cue_Text cue,
           cap_Provenance = provenance, cap_ProvenanceStatus = None, cap_Tombstoned = False\<rparr>;
         alignment = \<lparr>al_ID = alignmentID, al_Revision = 1, al_NarrativeNodeID = exc_ID excerpt,
           al_NarrativeNodeRevision = exc_Revision excerpt, al_SequenceID = trk_SequenceID track,
           al_Targets = [CaptionTarget \<lparr>ctgt_CaptionID = captionID, ctgt_CaptionRevision = 1,
             ctgt_LocalRange = \<lparr>tr_Start = \<lparr>rt_Value = 0, rt_Scale = 1\<rparr>, tr_Duration = tr_Duration (cue_TimelineRange cue)\<rparr>\<rparr>],
           al_Status = AlignmentExact\<rparr> in
     andThen (mustNext 1) (\<lambda>undone.
     let n = addChange (newEntityChange EntityCaption captionID 1 False)
           (putEntity captionID (PutCaption caption) (PutCaption (caption\<lparr>cap_Revision := undone, cap_Tombstoned := True\<rparr>)) n)
     in Inr (addChange (newEntityChange EntityAlignment alignmentID 1 False)
           (putEntity alignmentID (PutAlignment alignment)
             (PutAlignment (alignment\<lparr>al_Revision := undone, al_Status := AlignmentUnbound\<rparr>)) n))))))))))"

definition deriveCaptions :: "edit_env \<Rightarrow> edit_operation \<Rightarrow> edit_normalizer \<Rightarrow> edit_error + edit_normalizer" where
  "deriveCaptions env operation n =
    andThen (deref (op_NarrativeNode operation)) (\<lambda>nodeReference.
    andThen (resolveNodeReference nodeReference n) (\<lambda>nodeID.
    andThen (fetch (n_sourceExcerpts n) nodeID) (\<lambda>excerpt.
    if exc_Tombstoned excerpt then Inl ErrEditInvalid else
    andThen (if ref_ID nodeReference \<noteq> '''' then require EntityNarrativeNode nodeID (exc_Revision excerpt) n else Inr ()) (\<lambda>_.
    andThen (deref (op_Clip operation)) (\<lambda>clipReference.
    andThen (resolveClipReference clipReference n) (\<lambda>clipID.
    andThen (fetch (n_clips n) clipID) (\<lambda>clip.
    if clip_Tombstoned clip \<or> clip_SequenceID clip \<noteq> n_sequence n then Inl ErrEditInvalid else
    andThen (if ref_ID clipReference \<noteq> '''' then require EntityClip (clip_ID clip) (clip_Revision clip) n else Inr ()) (\<lambda>_.
    andThen (deref (op_TrackID operation)) (\<lambda>trackID.
    andThen (fetch (st_Tracks (n_state n)) trackID) (\<lambda>track.
    if ID_IsZero (trk_ID track) \<or> trk_SequenceID track \<noteq> n_sequence n \<or> trk_Type track \<noteq> TrackCaption then Inl ErrEditInvalid else
    andThen (require EntityTrack (trk_ID track) (trk_Revision track) n) (\<lambda>_.
    andThen (fetch (st_TranscriptArtifacts (n_state n)) (ev_ArtifactID (exc_Evidence excerpt))) (\<lambda>artifact.
    andThen (fetch (st_SourceStreams (n_state n)) (ev_SourceStreamID (exc_Evidence excerpt))) (\<lambda>stream.
    if str_AssetID stream \<noteq> exc_AssetID excerpt \<or> str_AssetRevision stream < 1 then Inl ErrEditInvalid else
    andThen (require EntityAsset (exc_AssetID excerpt) (str_AssetRevision stream) n) (\<lambda>_.
    andThen (forEach (\<lambda>reference _. requireCorrection n reference) (ev_CorrectionRevisions (exc_Evidence excerpt)) ()) (\<lambda>_.
    andThen (deref (op_CaptionPolicy operation)) (\<lambda>policy.
    andThen (orError ErrEditInvalid (DeriveCaptionCues (env_graphemes env) artifact excerpt (n_corrections n) clip policy)) (\<lambda>cues.
    if length cues \<noteq> length (op_DerivedCaptions operation) then Inl ErrEditInvalid else
    andThen (forEach (deriveCaption excerpt clip track policy) (zip cues (op_DerivedCaptions operation)) n) (\<lambda>n.
    Inr (noteTrack track (n\<lparr>n_sequenceChanged := True\<rparr>))))))))))))))))))))"

section \<open>Rough cuts\<close>

definition validateRoughCutLane :: "edit_normalization_state \<Rightarrow> source_excerpt_state \<Rightarrow> rough_cut_lane \<Rightarrow> TrackType \<Rightarrow> bool" where
  "validateRoughCutLane state excerpt lane expectedTrack =
    (case (gm_lookup (st_Tracks state) (rcl_TrackID lane), gm_lookup (st_SourceStreams state) (rcl_SourceStreamID lane)) of
       (Some track, Some stream) \<Rightarrow>
         \<not> (ID_IsZero (trk_ID track) \<or> trk_SequenceID track \<noteq> st_SequenceID state \<or> trk_Type track \<noteq> expectedTrack \<or>
            ID_IsZero (str_ID stream) \<or> str_AssetID stream \<noteq> exc_AssetID excerpt \<or> \<not> trackAcceptsStream track stream) \<and>
         sourceRangeWithin (exc_SourceRange excerpt) (str_Descriptor stream)
     | _ \<Rightarrow> False)"

text \<open>The verb \<^verbatim>\<open>%03d\<close> for numbers below 1000.\<close>

definition three_digits :: "nat \<Rightarrow> string" where
  "three_digits k = [char_of (48 + k div 100 mod 10), char_of (48 + k div 10 mod 10), char_of (48 + k mod 10)]"

definition roughCutLocal :: "LocalID \<Rightarrow> string \<Rightarrow> nat \<Rightarrow> edit_error + LocalID" where
  "roughCutLocal prefix kind ordinal =
    orError ErrEditInvalid (ParseLocalID (prefix @ ''_'' @ kind @ ''_'' @ three_digits ordinal))"

definition roughCutLane :: "LocalID \<Rightarrow> string \<Rightarrow> nat \<Rightarrow> rough_cut_lane option \<Rightarrow> edit_error + rough_cut_lane_output option" where
  "roughCutLane prefix kind ordinal lane =
    (case lane of None \<Rightarrow> Inr None
     | Some binding \<Rightarrow> andThen (roughCutLocal prefix kind ordinal) (\<lambda>clipAs.
         Inr (Some \<lparr>rlo_ClipAs = clipAs, rlo_TrackID = rcl_TrackID binding, rlo_SourceStreamID = rcl_SourceStreamID binding\<rparr>)))"

definition buildRoughCutItem :: "edit_normalization_state \<Rightarrow> LocalID \<Rightarrow> nat \<times> rough_cut_item \<Rightarrow> rough_cut_output list \<times> rational_time \<Rightarrow>
    edit_error + rough_cut_output list \<times> rational_time" where
  "buildRoughCutItem state prefix indexed accumulated =
    (let (index, item) = indexed; (outputs, cursor) = accumulated; ordinal = index + 1 in
     andThen (fetch (st_SourceExcerpts state) (rci_SourceExcerptID item)) (\<lambda>excerpt.
     if ID_IsZero (exc_ID excerpt) \<or> exc_Tombstoned excerpt \<or>
       gm_lookup (st_SourceExcerptEvidence state) (exc_ID excerpt) \<noteq> Some SourceExcerptEvidenceExact \<or>
       (rci_Video item = None \<and> rci_Audio item = None) then Inl ErrEditInvalid
     else if (case rci_Video item of None \<Rightarrow> False | Some lane \<Rightarrow> \<not> validateRoughCutLane state excerpt lane TrackVideo) then Inl ErrEditInvalid
     else if (case rci_Audio item of None \<Rightarrow> False | Some lane \<Rightarrow> \<not> validateRoughCutLane state excerpt lane TrackAudio) then Inl ErrEditInvalid
     else
     andThen (orError ErrEditInvalid (NewTimeRange cursor (tr_Duration (exc_SourceRange excerpt)))) (\<lambda>timelineRange.
     andThen (roughCutLocal prefix ''alignment'' ordinal) (\<lambda>alignmentAs.
     andThen (roughCutLane prefix ''video'' ordinal (rci_Video item)) (\<lambda>video.
     andThen (roughCutLane prefix ''audio'' ordinal (rci_Audio item)) (\<lambda>audio.
     andThen (if video \<noteq> None \<and> audio \<noteq> None then andThen (roughCutLocal prefix ''group'' ordinal) (\<lambda>groupAs. Inr (Some groupAs))
       else Inr None) (\<lambda>groupAs.
     let output = \<lparr>rco_SourceExcerptID = exc_ID excerpt, rco_SourceRange = exc_SourceRange excerpt,
       rco_TimelineRange = timelineRange, rco_Video = video, rco_Audio = audio, rco_LinkGroupAs = groupAs,
       rco_AlignmentAs = alignmentAs\<rparr> in
     andThen (orError ErrEditInvalid (TimeRange_End timelineRange)) (\<lambda>cursor.
     Inr (outputs @ [output], cursor)))))))))"

definition BuildRoughCutOperation :: "edit_env \<Rightarrow> edit_normalization_state \<Rightarrow> rational_time \<Rightarrow> LocalID \<Rightarrow> rough_cut_item list \<Rightarrow>
    edit_error + edit_operation" where
  "BuildRoughCutOperation env state timelineStart localPrefix items =
    (if \<not> isOk (RationalTime_Validate timelineStart) \<or> RationalTime_IsNegative timelineStart \<or> items = [] \<or>
        length items > 128 \<or> length localPrefix > 40 then Inl ErrEditInvalid
     else if \<not> isOk (ParseLocalID localPrefix) then Inl ErrEditInvalid else
    andThen (forEach (buildRoughCutItem state localPrefix) (zip [0..<length items] items) ([], timelineStart)) (\<lambda>(outputs, _).
    let operation = zero_operation\<lparr>op_Type := EditDeriveRoughCut, op_RoughCutPolicy := Some PaperEditRoughCutPolicyV1,
      op_RoughCutTimelineStart := Some timelineStart, op_RoughCutLocalPrefix := Some localPrefix,
      op_RoughCutItems := items, op_DerivedRoughCut := outputs\<rparr> in
    andThen (someOr EditDigest (env_roughCutDigest env operation)) (\<lambda>digest.
    Inr (operation\<lparr>op_RoughCutOutputDigest := Some digest\<rparr>))))"

definition zeroTime :: rational_time where
  "zeroTime = newTime 0 1"

definition local_reference :: "LocalID \<Rightarrow> edit_reference" where
  "local_reference local = \<lparr>ref_ID = '''', ref_Local = Some local\<rparr>"

definition roughCutClip :: "source_excerpt_state \<Rightarrow> rough_cut_output \<Rightarrow> bool \<times> rough_cut_lane_output \<Rightarrow> edit_operation" where
  "roughCutClip excerpt output item =
    (let (first, lane) = item in
     zero_operation\<lparr>op_Type := EditAddClip, op_CreateAs := Some (rlo_ClipAs lane), op_TrackID := Some (rlo_TrackID lane),
       op_AssetID := Some (exc_AssetID excerpt), op_SourceStreamID := Some (rlo_SourceStreamID lane),
       op_SourceRange := Some (rco_SourceRange output), op_TimelineRange := Some (rco_TimelineRange output),
       op_Enabled := Some True, op_CreateLinkGroupAs := (if first then rco_LinkGroupAs output else None),
       op_LinkGroup := (if first then None else map_option local_reference (rco_LinkGroupAs output))\<rparr>)"

definition roughCutLanes :: "rough_cut_output \<Rightarrow> (bool \<times> rough_cut_lane_output) list" where
  "roughCutLanes output =
    (case rco_Video output of None \<Rightarrow> [] | Some lane \<Rightarrow> [(True, lane)]) @
    (case rco_Audio output of None \<Rightarrow> [] | Some lane \<Rightarrow> [(False, lane)])"

definition roughCutTarget :: "rough_cut_output \<Rightarrow> bool \<times> rough_cut_lane_output \<Rightarrow> alignment_target_input list \<Rightarrow>
    edit_error + alignment_target_input list" where
  "roughCutTarget output item targets =
    andThen (orError ErrEditInvalid (NewTimeRange zeroTime (tr_Duration (rco_TimelineRange output)))) (\<lambda>localRange.
    Inr (targets @ [\<lparr>ati_Type = AlignmentTargetClip, ati_Caption = None, ati_Clip = Some (local_reference (rlo_ClipAs (snd item))),
      ati_LocalRange = Some localRange, ati_TimelineRange = None, ati_SequenceRevision = None\<rparr>]))"

definition deriveRoughCutOutput :: "rough_cut_output \<Rightarrow> edit_normalizer \<Rightarrow> edit_error + edit_normalizer" where
  "deriveRoughCutOutput output n =
    (let excerpt = gm_get zero_excerpt (n_sourceExcerpts n) (rco_SourceExcerptID output) in
     andThen (forEach (\<lambda>lane. addClip (roughCutClip excerpt output lane)) (roughCutLanes output) n) (\<lambda>n.
     andThen (forEach (roughCutTarget output) (roughCutLanes output) []) (\<lambda>targets.
     bindAlignment (zero_operation\<lparr>op_Type := EditBindAlignment, op_CreateAs := Some (rco_AlignmentAs output),
       op_NarrativeNode := Some \<lparr>ref_ID = rco_SourceExcerptID output, ref_Local = None\<rparr>, op_AlignmentTargets := targets\<rparr>) n)))"

definition deriveRoughCut :: "edit_env \<Rightarrow> edit_operation \<Rightarrow> edit_normalizer \<Rightarrow> edit_error + edit_normalizer" where
  "deriveRoughCut env operation n =
    andThen (deref (op_RoughCutTimelineStart operation)) (\<lambda>timelineStart.
    andThen (deref (op_RoughCutLocalPrefix operation)) (\<lambda>localPrefix.
    andThen (BuildRoughCutOperation env (n_state n) timelineStart localPrefix (op_RoughCutItems operation)) (\<lambda>expected.
    andThen (someOr ErrEditInvalid (env_roughCutDigest env operation)) (\<lambda>suppliedDigest.
    if op_RoughCutOutputDigest operation \<noteq> Some suppliedDigest \<or> op_RoughCutOutputDigest expected \<noteq> Some suppliedDigest
    then Inl ErrEditInvalid
    else forEach deriveRoughCutOutput (op_DerivedRoughCut expected) n))))"

section \<open>The handlers take steps of the log machine\<close>

lemma running_fresh:
  "running n \<Longrightarrow> gm_lookup (n_allocations n) local = Some a \<Longrightarrow> input_store (n_state n) (alloc_Kind a, alloc_ID a) = None"
  unfolding running_def fresh_allocations_def by blast

lemma allocated_Inr: "allocated local kind n = Inr a \<longleftrightarrow> gm_lookup (n_allocations n) local = Some a \<and> alloc_Kind a = kind"
  by (auto simp: allocated_def go_result)

lemma put_touched:
  "addChange c (putEntity i e u (n\<lparr>n_touched := t\<rparr>)) = (addChange c (putEntity i e u n))\<lparr>n_touched := t\<rparr>"
proof (cases e)
  case (PutNarrativeNode w)
  then show ?thesis by (cases w) (simp_all add: addChange_def putEntity_def appendOperation_def)
qed (simp_all add: addChange_def putEntity_def appendOperation_def)

text \<open>Two entities reserved together and then created are created one after the other.\<close>

lemma advances_created_twice:
  assumes n: "running n" and mark: "markTouched kind ident n = Inr m" "markTouched kind' ident' m = Inr m'"
    and kinds: "entity_kind kind" "entity_kind kind'"
    and keys: "entity_key e = (kind, ident)" "entity_key e' = (kind', ident')"
    and new: "input_store (n_state n) (kind, ident) = None" "input_store (n_state n) (kind', ident') = None"
    and puts: "puts ident e m" "\<And>x. puts ident' e' x"
    and e: "entity_revision e = 1" "\<not> entity_dead e" "undo = entity_with_revision 2 (entity_retire e)"
    and e': "entity_revision e' = 1" "\<not> entity_dead e'" "undo' = entity_with_revision 2 (entity_retire e')"
  shows "advances n (addChange (newEntityChange kind' ident' 1 False) (putEntity ident' e' undo'
    (addChange (newEntityChange kind ident 1 False) (putEntity ident e undo m'))))"
proof -
  define x where "x = addChange (newEntityChange kind ident 1 False) (putEntity ident e undo m)"
  have mk: "marked (kind, ident) n m" using n kinds mark by (intro markTouched_marked) simp_all
  have x: "advances n x" unfolding x_def
    by (rule marked_create [OF n mk keys(1) puts(1) new(1) e(1,2,3)]) simp
  have m': "m' = m\<lparr>n_touched := gm_set (n_touched m) (entityKey kind' ident') ()\<rparr>" "(kind', ident') \<notin> touched_keys (n_touched m)"
    using mark(2) kinds by (simp_all add: markTouched_Inr)
  have touched: "n_touched x = n_touched m" "n_input x = n_input n"
    using advances_input [OF x] by (simp_all add: x_def addChange_def putEntity_def appendOperation_def)
  have y: "addChange (newEntityChange kind ident 1 False) (putEntity ident e undo m') =
      x\<lparr>n_touched := gm_set (n_touched x) (entityKey kind' ident') ()\<rparr>"
    unfolding m'(1) put_touched x_def [symmetric] by (simp only: touched)
  have rx: "running x" by (rule advances_running [OF n x])
  have "marked (kind', ident') x (x\<lparr>n_touched := gm_set (n_touched x) (entityKey kind' ident') ()\<rparr>)"
    using rx kinds m'(2) touched by (intro markTouched_marked) (simp_all add: markTouched_Inr)
  from marked_create [OF rx this keys(2) puts(2) _ e'(1,2,3)] new(2) touched
  show ?thesis unfolding y using x by (simp add: advances_trans)
qed

lemma deriveCaption_advances:
  assumes n: "running n" and run: "deriveCaption excerpt clip track policy item n = Inr n'"
  shows "advances n n'"
  using run unfolding deriveCaption_def Let_def
proof (elim casePairE andThenE checkE, goal_cases)
  case (1 cue out captionAllocation alignmentAllocation captionID alignmentID m m' undone)
  have new: "input_store (n_state n) (EntityCaption, captionID) = None" "input_store (n_state n) (EntityAlignment, alignmentID) = None"
    using 1 running_fresh [OF n, of "dco_CaptionAs out" captionAllocation]
      running_fresh [OF n, of "dco_AlignmentAs out" alignmentAllocation]
    by (simp_all add: allocated_Inr go_result ParseID_Inr)
  show ?case using 1 by (auto simp: mustNext_Inr intro!: advances_created_twice [OF n 1(7,8) _ _ _ _ new])
qed

lemma deriveCaptions_advances:
  assumes n: "running n" and run: "deriveCaptions env operation n = Inr n'"
  shows "advances n n'"
  using run unfolding deriveCaptions_def Let_def
proof (elim andThenE checkE, goal_cases)
  case (1 nodeReference nodeID excerpt u1 clipReference clipID clip u2 trackID track u3 artifact stream u4 u5 policy cues m)
  have "advances n m" by (rule forEach_advances [OF n 1(23)]) (rule deriveCaption_advances)
  moreover have "conds n (EntityTrack, trk_ID track) = Some (trk_Revision track)" using 1 by (simp add: go_result)
  ultimately show ?case using 1 by (auto intro!: advances_noteTrack)
qed

lemma deriveRoughCutOutput_advances:
  assumes n: "running n" and run: "deriveRoughCutOutput out n = Inr n'"
  shows "advances n n'"
  using run unfolding deriveRoughCutOutput_def Let_def
proof (elim andThenE, goal_cases)
  case (1 m targets)
  have m: "advances n m" by (rule forEach_advances [OF n 1(1)]) (rule addClip_advances)
  from advances_trans [OF this bindAlignment_advances [OF advances_running [OF n m] 1(3)]] show ?case .
qed

lemma deriveRoughCut_advances:
  assumes n: "running n" and run: "deriveRoughCut env operation n = Inr n'"
  shows "advances n n'"
proof -
  from run obtain outputs where "forEach deriveRoughCutOutput outputs n = Inr n'" unfolding deriveRoughCut_def by auto
  then show ?thesis by (rule forEach_advances [OF n]) (rule deriveRoughCutOutput_advances)
qed

end
