(* ===== verification/Normalize_Frames.thy ===== *)
theory Normalize_Frames
  imports Normalize_Derivation
begin

text \<open>
  What the handlers leave alone. A part of the normalizer that is not changed by the updates a group
  of handlers makes is not changed by the handlers; the narrative is such a part for the handlers of
  captions, clips, link groups, corrections and alignments, and the captions, clips and link groups are
  one for the handlers of alignments.
\<close>

section \<open>Handlers of alignments\<close>

text \<open>A part of the normalizer that writing alignments leaves as it is.\<close>

locale alignment_frame =
  fixes part :: "edit_normalizer \<Rightarrow> 'p"
  assumes part_touched [simp]: "part (n_touched_update f1 n) = part n"
    and part_operations [simp]: "part (n_operations_update f2 n) = part n"
    and part_inverse [simp]: "part (n_inverse_update f3 n) = part n"
    and part_changes [simp]: "part (n_changes_update f4 n) = part n"
    and part_alignments [simp]: "part (n_alignments_update f5 n) = part n"
    and part_effects [simp]: "part (n_alignmentEffects_update f6 n) = part n"
begin

lemma part_markTouched: "markTouched kind ident n = Inr m \<Longrightarrow> part m = part n"
  by (auto simp: markTouched_def split: if_splits)

lemma part_append [simp]: "part (appendOperation operation undo n) = part n" "part (addChange c n) = part n"
  by (simp_all add: appendOperation_def addChange_def)

lemma part_putAlignment [simp]: "part (putEntity ident (PutAlignment a) undo n) = part n"
  by (simp add: putEntity_def)

lemma forEach_part: "forEach f xs n = Inr n' \<Longrightarrow> (\<And>x a b. f x a = Inr b \<Longrightarrow> part b = part a) \<Longrightarrow> part n' = part n"
  by (rule forEach_invariant [where P = "\<lambda>m. part m = part n"]) auto

lemma bindAlignment_part: "bindAlignment operation n = Inr n' \<Longrightarrow> part n' = part n"
  unfolding bindAlignment_def Let_def by (elim andThenE casePairE checkE) (auto dest: part_markTouched)

lemma updateAlignment_part: "updateAlignment ident status n = Inr n' \<Longrightarrow> part n' = part n"
  unfolding updateAlignment_def Let_def by (elim andThenE casePairE checkE) (auto dest: part_markTouched)

lemma remapAlignment_part: "remapAlignment operation n = Inr n' \<Longrightarrow> part n' = part n"
  unfolding remapAlignment_def Let_def
  by (elim andThenE casePairE checkE) (auto dest: part_markTouched split: sum.splits if_splits)

end

section \<open>Handlers of captions, corrections and clips\<close>

text \<open>A part that writing captions leaves as it is too.\<close>

locale caption_frame = alignment_frame part for part :: "edit_normalizer \<Rightarrow> 'p" +
  assumes part_captions [simp]: "part (n_captions_update g1 n) = part n"
    and part_captions_sequence [simp]: "part (n_sequenceChanged_update g6 n) = part n"
    and part_captions_tracks [simp]: "part (n_trackChanges_update g7 n) = part n"
begin

lemma part_putCaption [simp]: "part (putEntity ident (PutCaption c) undo n) = part n" "part (noteTrack track n) = part n"
  by (simp_all add: putEntity_def noteTrack_def)

lemma addCaption_part: "addCaption operation n = Inr n' \<Longrightarrow> part n' = part n"
  unfolding addCaption_def Let_def by (elim andThenE casePairE checkE) (auto dest: part_markTouched)

lemma updateCaption_part: "updateCaption operation remove n = Inr n' \<Longrightarrow> part n' = part n"
  unfolding updateCaption_def Let_def by (elim andThenE casePairE checkE) (auto simp: go_result dest: part_markTouched)

lemma deriveCaption_part: "deriveCaption excerpt clip track policy item n = Inr n' \<Longrightarrow> part n' = part n"
  unfolding deriveCaption_def Let_def by (elim andThenE casePairE checkE) (auto dest!: part_markTouched)

lemma deriveCaptions_part: "deriveCaptions env operation n = Inr n' \<Longrightarrow> part n' = part n"
  unfolding deriveCaptions_def by (elim andThenE casePairE checkE) (auto dest!: forEach_part [OF _ deriveCaption_part])

end

text \<open>A part that writing corrections leaves as it is too.\<close>

locale correction_frame = alignment_frame part for part :: "edit_normalizer \<Rightarrow> 'p" +
  assumes part_corrections [simp]: "part (n_corrections_update g5 n) = part n"
begin

lemma part_putCorrection [simp]: "part (putEntity ident (PutTranscriptCorrection r) undo n) = part n"
  by (simp add: putEntity_def)

lemma addTranscriptCorrection_part: "addTranscriptCorrection operation n = Inr n' \<Longrightarrow> part n' = part n"
  unfolding addTranscriptCorrection_def Let_def by (elim andThenE casePairE checkE) (auto dest!: part_markTouched)

lemma updateTranscriptCorrection_part: "updateTranscriptCorrection operation remove n = Inr n' \<Longrightarrow> part n' = part n"
  unfolding updateTranscriptCorrection_def Let_def by (elim andThenE casePairE checkE) (auto dest!: part_markTouched)

end

text \<open>A part that writing clips and link groups leaves as it is too.\<close>

locale clip_frame = alignment_frame part for part :: "edit_normalizer \<Rightarrow> 'p" +
  assumes part_clips [simp]: "part (n_clips_update g2 n) = part n"
    and part_linkGroups [simp]: "part (n_linkGroups_update g3 n) = part n"
    and part_linkGroupClips [simp]: "part (n_linkGroupClips_update g4 n) = part n"
    and part_sequenceChanged [simp]: "part (n_sequenceChanged_update g6 n) = part n"
    and part_trackChanges [simp]: "part (n_trackChanges_update g7 n) = part n"
begin

lemma part_putClip [simp]:
  "part (putEntity ident (PutClip k) undo n) = part n" "part (putEntity ident (PutLinkGroup g) undo n) = part n"
  "part (noteTrack track n) = part n" "part (joinLinkGroup group_id clip_id n) = part n"
  by (simp_all add: putEntity_def noteTrack_def joinLinkGroup_def split: option.split)

lemma requireTrack_part: "requireTrack track n = Inr n' \<Longrightarrow> part n' = part n"
  unfolding requireTrack_def by auto

lemma putExistingClip_part: "putExistingClip current next_state changed n = Inr n' \<Longrightarrow> part n' = part n"
  unfolding putExistingClip_def Let_def
  by (elim andThenE checkE) (auto dest!: part_markTouched requireTrack_part split: if_splits)

lemma putNewClip_part: "putNewClip state n = Inr n' \<Longrightarrow> part n' = part n"
  unfolding putNewClip_def Let_def by (elim andThenE checkE) (auto dest!: part_markTouched requireTrack_part)

lemma createLinkGroup_part: "createLinkGroup local n = Inr (ident, n') \<Longrightarrow> part n' = part n"
  unfolding createLinkGroup_def Let_def by (elim andThenE checkE) (auto dest!: part_markTouched)

lemma tombstoneLinkGroup_part: "tombstoneLinkGroup ident n = Inr n' \<Longrightarrow> part n' = part n"
  unfolding tombstoneLinkGroup_def Let_def by (elim andThenE checkE) (auto dest!: part_markTouched)

lemma advanceLinkGroup_part: "advanceLinkGroup ident members n = Inr n' \<Longrightarrow> part n' = part n"
  unfolding advanceLinkGroup_def Let_def by (elim andThenE checkE) (auto dest!: part_markTouched)

lemma unlinkMember_part: "unlinkMember member n = Inr n' \<Longrightarrow> part n' = part n"
  unfolding unlinkMember_def Let_def by (auto dest!: putExistingClip_part)

lemma finishSingleMembershipRemoval_part: "finishSingleMembershipRemoval ident n = Inr n' \<Longrightarrow> part n' = part n"
  unfolding finishSingleMembershipRemoval_def Let_def
  by (auto dest!: advanceLinkGroup_part tombstoneLinkGroup_part forEach_part [where f = unlinkMember] unlinkMember_part split: if_splits)

lemma resolveClipLinkGroup_part: "resolveClipLinkGroup operation n = Inr (group_id, n') \<Longrightarrow> part n' = part n"
  unfolding resolveClipLinkGroup_def Let_def by (auto dest!: part_markTouched split: option.splits if_splits)

lemma addClip_part: "addClip operation n = Inr n' \<Longrightarrow> part n' = part n"
  unfolding addClip_def Let_def
  by (elim andThenE casePairE checkE) (auto dest!: part_markTouched resolveClipLinkGroup_part)

lemma moveClip_part: "moveClip operation n = Inr n' \<Longrightarrow> part n' = part n"
  unfolding moveClip_def
  by (elim andThenE casePairE, erule forEach_part)
    (auto simp: moveMember_def Let_def dest!: putExistingClip_part split: if_splits)

lemma trimClip_part: "trimClip operation n = Inr n' \<Longrightarrow> part n' = part n"
  unfolding trimClip_def
  by (elim andThenE casePairE checkE, erule forEach_part) (auto simp: trimMember_def Let_def dest!: putExistingClip_part)

lemma splitMember_part: "splitMember instant outputs left right member n = Inr n' \<Longrightarrow> part n' = part n"
  unfolding splitMember_def Let_def by (auto dest!: putExistingClip_part putNewClip_part)

lemma splitClip_part: "splitClip operation n = Inr n' \<Longrightarrow> part n' = part n"
  unfolding splitClip_def Let_def
  by (elim andThenE casePairE checkE)
    (auto dest!: createLinkGroup_part tombstoneLinkGroup_part finishSingleMembershipRemoval_part
      forEach_part [OF _ splitMember_part] split: if_splits option.splits)

lemma removeMember_part: "removeMember member n = Inr n' \<Longrightarrow> part n' = part n"
  unfolding removeMember_def Let_def by (auto dest!: putExistingClip_part)

lemma removeClip_part: "removeClip operation n = Inr n' \<Longrightarrow> part n' = part n"
  unfolding removeClip_def
  by (elim andThenE casePairE)
    (auto dest!: tombstoneLinkGroup_part finishSingleMembershipRemoval_part forEach_part [OF _ removeMember_part]
      split: if_splits option.splits)

lemma linkMembers_part: "forEach (linkMember group_id) xs (n, ms) = Inr (n', ms') \<Longrightarrow> part n' = part n"
  by (drule forEach_invariant [where P = "\<lambda>(m, _). part m = part n"])
    (auto simp: linkMember_def dest!: putExistingClip_part)

lemma linkClips_part: "linkClips operation n = Inr n' \<Longrightarrow> part n' = part n"
  unfolding linkClips_def by (auto dest!: createLinkGroup_part linkMembers_part)

lemma unlinkGroupMember_part: "unlinkGroupMember group_id member n = Inr n' \<Longrightarrow> part n' = part n"
  unfolding unlinkGroupMember_def Let_def by (auto dest!: putExistingClip_part)

lemma unlinkClips_part: "unlinkClips operation n = Inr n' \<Longrightarrow> part n' = part n"
  unfolding unlinkClips_def by (auto dest!: tombstoneLinkGroup_part forEach_part [OF _ unlinkGroupMember_part])

lemma keepAlignment_part: "keepAlignment a n = Inr n' \<Longrightarrow> part n' = part n"
  unfolding keepAlignment_def by auto

lemma setClipPlacement_part: "setClipPlacement operation n = Inr n' \<Longrightarrow> part n' = part n"
  unfolding setClipPlacement_def Let_def
  by (elim andThenE casePairE checkE) (auto dest!: putExistingClip_part forEach_part [OF _ keepAlignment_part])

lemma deriveRoughCutOutput_part: "deriveRoughCutOutput output n = Inr n' \<Longrightarrow> part n' = part n"
  unfolding deriveRoughCutOutput_def Let_def
  by (elim andThenE) (auto dest!: forEach_part [OF _ addClip_part] bindAlignment_part)

lemma deriveRoughCut_part: "deriveRoughCut env operation n = Inr n' \<Longrightarrow> part n' = part n"
  unfolding deriveRoughCut_def by (elim andThenE checkE) (rule forEach_part [OF _ deriveRoughCutOutput_part])

end

text \<open>A part that writing narrative nodes leaves as it is.\<close>

locale narrative_frame = alignment_frame part for part :: "edit_normalizer \<Rightarrow> 'p" +
  assumes part_sections [simp]: "part (n_sections_update h1 n) = part n"
    and part_texts [simp]: "part (n_texts_update h2 n) = part n"
    and part_sourceExcerpts [simp]: "part (n_sourceExcerpts_update h3 n) = part n"
    and part_visualIntents [simp]: "part (n_visualIntents_update h4 n) = part n"
    and part_notes [simp]: "part (n_notes_update h5 n) = part n"
    and part_sectionChildren [simp]: "part (n_sectionChildren_update h6 n) = part n"
    and part_parentChanges [simp]: "part (n_parentChanges_update h7 n) = part n"
    and part_narrativeChanged [simp]: "part (n_narrativeChanged_update h8 n) = part n"
begin

lemma part_putNode [simp]: "part (putEntity ident (PutNarrativeNode w) undo n) = part n" "part (setNarrativeNode w n) = part n"
  by (cases w; simp add: putEntity_def)+

lemma markNarrativeParentChanged_part [simp]: "part (markNarrativeParentChanged parent n) = part n"
  by (simp add: markNarrativeParentChanged_def split: option.split)

lemma addChildren_part [simp]: "part (addChildren parent k n) = part n"
  by (simp add: addChildren_def)

lemma insertNarrativeNode_part: "insertNarrativeNode operation n = Inr n' \<Longrightarrow> part n' = part n"
  unfolding insertNarrativeNode_def Let_def by (elim andThenE casePairE checkE) (auto dest!: part_markTouched)

lemma updateNarrativeNode_part: "updateNarrativeNode operation n = Inr n' \<Longrightarrow> part n' = part n"
  unfolding updateNarrativeNode_def Let_def by (elim andThenE casePairE checkE) (auto dest!: part_markTouched)

lemma moveNarrativeNode_part: "moveNarrativeNode operation n = Inr n' \<Longrightarrow> part n' = part n"
  unfolding moveNarrativeNode_def Let_def by (elim andThenE casePairE checkE) (auto dest!: part_markTouched)

lemma removeNarrativeNode_part: "removeNarrativeNode operation n = Inr n' \<Longrightarrow> part n' = part n"
  unfolding removeNarrativeNode_def Let_def by (elim andThenE casePairE checkE) (auto dest!: part_markTouched)

lemma insertSourceExcerpt_part: "insertSourceExcerpt operation n = Inr n' \<Longrightarrow> part n' = part n"
  unfolding insertSourceExcerpt_def Let_def by (elim andThenE casePairE checkE) (auto dest!: part_markTouched)

end

locale sequence_frame = caption_frame part + correction_frame part + clip_frame part for part :: "edit_normalizer \<Rightarrow> 'p"

section \<open>The parts\<close>

definition narrative_part where
  "narrative_part n = (n_sections n, n_texts n, n_sourceExcerpts n, n_visualIntents n, n_notes n, n_sectionChildren n, n_allocations n)"

interpretation nf: sequence_frame narrative_part
  by unfold_locales (simp_all add: narrative_part_def)

definition sequence_part where
  "sequence_part n = (n_captions n, n_clips n, n_linkGroups n, n_linkGroupClips n, n_input n)"

interpretation sf: alignment_frame sequence_part
  by unfold_locales (simp_all add: sequence_part_def)

lemma forest_narrative_part: "narrative_part n' = narrative_part n \<Longrightarrow> forest hidden n' \<longleftrightarrow> forest hidden n"
  by (simp add: narrative_part_def forest_def edges_def children_def narrativeNode_def)

lemmas narrative_kept = nf.bindAlignment_part nf.updateAlignment_part nf.remapAlignment_part nf.addCaption_part nf.updateCaption_part
  nf.addClip_part nf.moveClip_part nf.trimClip_part nf.splitClip_part nf.removeClip_part nf.linkClips_part nf.unlinkClips_part
  nf.setClipPlacement_part nf.addTranscriptCorrection_part nf.updateTranscriptCorrection_part nf.deriveCaptions_part
  nf.deriveRoughCut_part

text \<open>The clips with their link groups, and the captions, for the handlers of the other kinds.\<close>

definition clip_part where
  "clip_part n = (n_clips n, n_linkGroups n, n_linkGroupClips n, n_input n)"

interpretation kc: caption_frame clip_part
  by unfold_locales (simp_all add: clip_part_def)

interpretation kr: correction_frame clip_part
  by unfold_locales (simp_all add: clip_part_def)

interpretation kn: narrative_frame clip_part
  by unfold_locales (simp_all add: clip_part_def)

definition caption_part where
  "caption_part n = (n_captions n, n_input n)"

interpretation ck: clip_frame caption_part
  by unfold_locales (simp_all add: caption_part_def)

interpretation cr: correction_frame caption_part
  by unfold_locales (simp_all add: caption_part_def)

interpretation cn: narrative_frame caption_part
  by unfold_locales (simp_all add: caption_part_def)

lemmas clips_kept = kc.bindAlignment_part kc.updateAlignment_part kc.remapAlignment_part kc.addCaption_part kc.updateCaption_part kc.deriveCaptions_part
  kr.addTranscriptCorrection_part kr.updateTranscriptCorrection_part kn.insertNarrativeNode_part kn.updateNarrativeNode_part
  kn.moveNarrativeNode_part kn.removeNarrativeNode_part kn.insertSourceExcerpt_part

lemmas captions_kept = ck.bindAlignment_part ck.updateAlignment_part ck.remapAlignment_part ck.addClip_part ck.moveClip_part ck.trimClip_part
  ck.splitClip_part ck.removeClip_part ck.linkClips_part ck.unlinkClips_part ck.setClipPlacement_part ck.deriveRoughCut_part
  cr.addTranscriptCorrection_part cr.updateTranscriptCorrection_part cn.insertNarrativeNode_part cn.updateNarrativeNode_part
  cn.moveNarrativeNode_part cn.removeNarrativeNode_part cn.insertSourceExcerpt_part

end
