(* ===== verification/Normalize.thy ===== *)
theory Normalize
  imports Normalize_Frames
begin

text \<open>
  The edit normalizer as a whole: \<^verbatim>\<open>NormalizeEditProposal\<close> of \<^verbatim>\<open>edit_normalize.go\<close>, with
  the dispatch of the operations, the checks on the result and the aggregate changes. The
  correctness of the normalizer is stated here: it refines the log machine, so that a proposal
  writes each entity once, replays to the new state, undoes to the old one and holds the revisions
  it was checked against.
\<close>

section \<open>Dispatch\<close>

definition normalizeEntityOperation :: "edit_env \<Rightarrow> edit_operation \<Rightarrow> edit_normalizer \<Rightarrow> edit_error + edit_normalizer" where
  "normalizeEntityOperation env operation n =
    (case op_Type operation of
       EditInsertSection \<Rightarrow> insertNarrativeNode operation n
     | EditInsertAuthoredText \<Rightarrow> insertNarrativeNode operation n
     | EditInsertVisualIntent \<Rightarrow> insertNarrativeNode operation n
     | EditInsertNote \<Rightarrow> insertNarrativeNode operation n
     | EditUpdateSection \<Rightarrow> updateNarrativeNode operation n
     | EditUpdateAuthoredText \<Rightarrow> updateNarrativeNode operation n
     | EditUpdateVisualIntent \<Rightarrow> updateNarrativeNode operation n
     | EditUpdateNote \<Rightarrow> updateNarrativeNode operation n
     | EditMoveNarrativeNode \<Rightarrow> moveNarrativeNode operation n
     | EditRemoveNarrativeNode \<Rightarrow> removeNarrativeNode operation n
     | EditAddCaption \<Rightarrow> addCaption operation n
     | EditUpdateCaption \<Rightarrow> updateCaption operation False n
     | EditRemoveCaption \<Rightarrow> updateCaption operation True n
     | EditAddClip \<Rightarrow> addClip operation n
     | EditMoveClip \<Rightarrow> moveClip operation n
     | EditTrimClip \<Rightarrow> trimClip operation n
     | EditSplitClip \<Rightarrow> splitClip operation n
     | EditSetClipPlacement \<Rightarrow> setClipPlacement operation n
     | EditRemoveClip \<Rightarrow> removeClip operation n
     | EditLinkClips \<Rightarrow> linkClips operation n
     | EditUnlinkClips \<Rightarrow> unlinkClips operation n
     | EditAddTranscriptCorrection \<Rightarrow> addTranscriptCorrection operation n
     | EditUpdateTranscriptCorrection \<Rightarrow> updateTranscriptCorrection operation False n
     | EditRemoveTranscriptCorrection \<Rightarrow> updateTranscriptCorrection operation True n
     | EditInsertSourceExcerpt \<Rightarrow> insertSourceExcerpt operation n
     | EditDeriveCaptions \<Rightarrow> deriveCaptions env operation n
     | EditDeriveRoughCut \<Rightarrow> deriveRoughCut env operation n
     | _ \<Rightarrow> Inr n)"

definition normalizeEntityOperations :: "edit_env \<Rightarrow> edit_normalizer \<Rightarrow> edit_error + edit_normalizer" where
  "normalizeEntityOperations env n = forEach (normalizeEntityOperation env) (in_Operations (ni_Input (n_input n))) n"

definition normalizeAlignmentOperation :: "edit_operation \<Rightarrow> edit_normalizer \<Rightarrow> edit_error + edit_normalizer" where
  "normalizeAlignmentOperation operation n =
    (case op_Type operation of
       EditBindAlignment \<Rightarrow> bindAlignment operation n
     | EditRemapAlignment \<Rightarrow> remapAlignment operation n
     | EditMarkAlignmentStale \<Rightarrow> andThen (deref (op_AlignmentID operation)) (\<lambda>ident. updateAlignment ident AlignmentStale n)
     | EditUnbindAlignment \<Rightarrow> andThen (deref (op_AlignmentID operation)) (\<lambda>ident. updateAlignment ident AlignmentUnbound n)
     | _ \<Rightarrow> Inr n)"

definition normalizeAlignmentOperations :: "edit_normalizer \<Rightarrow> edit_error + edit_normalizer" where
  "normalizeAlignmentOperations n = forEach normalizeAlignmentOperation (in_Operations (ni_Input (n_input n))) n"

section \<open>Checks on the result\<close>

definition captionOverlapsNone :: "edit_normalizer \<Rightarrow> string \<Rightarrow> bool" where
  "captionOverlapsNone n key =
    (let (kind, ident) = splitEntityKey key; caption = gm_get zero_caption (n_captions n) ident in
     if kind \<noteq> EntityCaption then True
     else if cap_Tombstoned caption then True
     else list_all (\<lambda>(otherID, other).
       if otherID = ident \<or> cap_Tombstoned other \<or> cap_TrackID other \<noteq> cap_TrackID caption then True
       else \<not> rangesOverlap (cap_Range caption) (cap_Range other)) (gm_entries (n_captions n)))"

definition validateCaptionOverlaps :: "edit_normalizer \<Rightarrow> bool" where
  "validateCaptionOverlaps n = list_all (captionOverlapsNone n) (gm_keys (n_touched n))"

definition dependentAlignments :: "edit_normalizer \<Rightarrow> EditEntityKind \<Rightarrow> string \<Rightarrow> AlignmentID list" where
  "dependentAlignments n kind ident =
    (case kind of
       EntityNarrativeNode \<Rightarrow> gm_get [] (st_NodeAlignments (n_state n)) ident
     | EntityCaption \<Rightarrow> gm_get [] (st_CaptionAlignments (n_state n)) ident
     | EntityClip \<Rightarrow> gm_get [] (st_ClipAlignments (n_state n)) ident
     | _ \<Rightarrow> [])"

definition alignmentHandled :: "edit_normalizer \<Rightarrow> AlignmentID \<Rightarrow> bool" where
  "alignmentHandled n alignmentID =
    (case gm_lookup (n_alignmentEffects n) alignmentID of
       None \<Rightarrow> False
     | Some status \<Rightarrow> status = AlignmentExact \<or> status = AlignmentStale \<or> status = AlignmentUnbound)"

definition validateAlignmentEffects :: "edit_normalizer \<Rightarrow> edit_error + unit" where
  "validateAlignmentEffects n =
    forEach (\<lambda>key _. let (kind, ident) = splitEntityKey key in
      forEach (\<lambda>alignmentID _. if alignmentHandled n alignmentID then Inr () else Inl (EditInvalid (StillAnchors kind ident alignmentID)))
        (dependentAlignments n kind ident) ()) (gm_keys (n_touched n)) ()"

section \<open>Aggregate changes\<close>

definition addAggregate :: "EditEntityKind \<Rightarrow> string \<times> revision \<Rightarrow> entity_change list \<Rightarrow> edit_error + entity_change list" where
  "addAggregate kind item changes =
    (let (ident, before) = item in
     andThen (mustNext before) (\<lambda>after. Inr (changes @ [existingEntityChange kind ident before after False])))"

definition changeLess :: "entity_change \<Rightarrow> entity_change \<Rightarrow> bool" where
  "changeLess left right =
    (if chg_Kind left \<noteq> chg_Kind right then EditEntityKind_string (chg_Kind left) < EditEntityKind_string (chg_Kind right)
     else chg_ID left < chg_ID right)"

text \<open>The loop that swaps the ends of a slice until they meet.\<close>

function swapEnds :: "nat \<Rightarrow> nat \<Rightarrow> 'a list \<Rightarrow> 'a list" where
  "swapEnds left right xs =
    (if left < right then swapEnds (left + 1) (right - 1) (xs[left := xs ! right, right := xs ! left]) else xs)"
  by pat_completeness auto
termination
  by (relation "measure (\<lambda>(left, right, _). right - left)") auto

declare swapEnds.simps [simp del]

definition appendAggregateChanges :: "edit_normalizer \<Rightarrow> edit_error + edit_normalizer" where
  "appendAggregateChanges n =
    andThen (forEach (addAggregate EntityNarrativeNode)
      (filter (\<lambda>(ident, _). \<not> isTouched n EntityNarrativeNode ident) (gm_entries (n_parentChanges n))) (n_changes n)) (\<lambda>changes.
    andThen (forEach (addAggregate EntityTrack) (gm_entries (n_trackChanges n)) changes) (\<lambda>changes.
    Inr (n\<lparr>n_changes := sort_slice changeLess changes,
      n_inverse := swapEnds 0 (length (n_inverse n) - 1) (n_inverse n)\<rparr>)))"

section \<open>The proposal\<close>

definition preconditionLess :: "entity_precondition \<Rightarrow> entity_precondition \<Rightarrow> bool" where
  "preconditionLess left right =
    (if pre_Kind left \<noteq> pre_Kind right then EditEntityKind_string (pre_Kind left) < EditEntityKind_string (pre_Kind right)
     else pre_ID left < pre_ID right)"

definition proposalOf :: "normalize_input \<Rightarrow> edit_normalizer \<Rightarrow> edit_proposal" where
  "proposalOf input n = \<lparr>prop_ID = ni_ProposalID input, prop_ProjectID = ni_ProjectID input,
    prop_SequenceID = Some (ni_SequenceID input),
    prop_RunID = (if ID_IsZero (ni_RunID input) then None else Some (ni_RunID input)),
    prop_TurnID = (if ID_IsZero (ni_TurnID input) then None else Some (ni_TurnID input)),
    prop_RequestID = in_RequestID (ni_Input input), prop_Actor = ni_Actor input, prop_Intent = in_Intent (ni_Input input),
    prop_BaseProjectRevision = in_BaseProjectRevision (ni_Input input),
    prop_Preconditions = sort_slice preconditionLess (in_Preconditions (ni_Input input)),
    prop_Allocation = ni_Allocation input, prop_Operations = n_operations n, prop_InversePreview = n_inverse n,
    prop_Changes = n_changes n,
    prop_Impact = \<lparr>imp_Classifier = ''reversible-local-v1'', imp_Class = ''reversible-local'', imp_RequiresApproval = False\<rparr>,
    prop_Digest = '''', prop_Status = ProposalOpen, prop_CreatedAt = ni_CreatedAt input, prop_AppliedTransactionID = None\<rparr>"

text \<open>The steps of the normalizer up to the proposal, on the normalizer.\<close>

definition normalizeOperations :: "edit_env \<Rightarrow> edit_normalizer \<Rightarrow> edit_error + edit_normalizer" where
  "normalizeOperations env n =
    andThen (normalizeEntityOperations env n) (\<lambda>n.
    if \<not> validateLinkGroups n then Inl ErrEditInvalid
    else if \<not> validateCaptionOverlaps n then Inl ErrEditInvalid
    else if \<not> validateClipOverlaps n then Inl ErrEditInvalid else
    andThen (normalizeAlignmentOperations n) (\<lambda>n.
    if length (n_operations n) > 512 \<or> length (n_inverse n) > 512 then Inl ErrEditInvalid else
    andThen (validateAlignmentEffects n) (\<lambda>_. Inr n)))"

definition NormalizeEditProposal :: "edit_env \<Rightarrow> normalize_input \<Rightarrow> edit_error + edit_proposal \<times> string" where
  "NormalizeEditProposal env input =
    andThen (validateNormalizationInput env input) (\<lambda>_.
    andThen (newEditNormalizer input) (\<lambda>n.
    andThen (normalizeOperations env n) (\<lambda>n.
    andThen (appendAggregateChanges n) (\<lambda>n.
    let proposal = proposalOf input n in
    andThen (someOr EditDigest (env_proposalDigest env proposal)) (\<lambda>(canonical, digest).
    Inr (proposal\<lparr>prop_Digest := digest\<rparr>, canonical))))))"

section \<open>The normalizer takes steps of the log machine\<close>

lemma swapEnds_nth:
  "right < length xs \<Longrightarrow> i < length xs \<Longrightarrow>
    swapEnds left right xs ! i = (if left \<le> i \<and> i \<le> right then xs ! (left + right - i) else xs ! i)"
proof (induction left right xs rule: swapEnds.induct)
  case (1 left right xs)
  show ?case
  proof (cases "left < right")
    case True
    then show ?thesis using 1 by (subst swapEnds.simps) (auto simp: nth_list_update)
  next
    case False
    then have "swapEnds left right xs = xs" by (subst swapEnds.simps) simp
    moreover have "left + right - i = i" if "left \<le> i" "i \<le> right" using that False by simp
    ultimately show ?thesis by simp
  qed
qed

lemma length_swapEnds [simp]: "length (swapEnds left right xs) = length xs"
  by (induction left right xs rule: swapEnds.induct) (subst swapEnds.simps, simp)

lemma swapEnds_rev: "swapEnds 0 (length xs - 1) xs = rev xs"
proof (cases "xs = []")
  case False
  then show ?thesis by (intro nth_equalityI) (auto simp: swapEnds_nth rev_nth Suc_le_eq)
qed (simp add: swapEnds.simps)

lemmas handler_advances = insertNarrativeNode_advances updateNarrativeNode_advances moveNarrativeNode_advances
  removeNarrativeNode_advances addCaption_advances updateCaption_advances addClip_advances moveClip_advances
  trimClip_advances splitClip_advances setClipPlacement_advances removeClip_advances linkClips_advances unlinkClips_advances
  addTranscriptCorrection_advances updateTranscriptCorrection_advances insertSourceExcerpt_advances
  deriveCaptions_advances deriveRoughCut_advances bindAlignment_advances remapAlignment_advances updateAlignment_advances

lemma normalizeEntityOperation_advances:
  "running n \<Longrightarrow> normalizeEntityOperation env operation n = Inr n' \<Longrightarrow> advances n n'"
  unfolding normalizeEntityOperation_def by (cases "op_Type operation") (simp_all add: handler_advances)

lemma normalizeAlignmentOperation_advances:
  "running n \<Longrightarrow> normalizeAlignmentOperation operation n = Inr n' \<Longrightarrow> advances n n'"
  unfolding normalizeAlignmentOperation_def
  by (cases "op_Type operation") (auto simp: handler_advances)

lemma normalizeOperations_advances:
  assumes n: "running n" and run: "normalizeOperations env n = Inr n'"
  shows "advances n n'"
proof -
  from run obtain m where m: "normalizeEntityOperations env n = Inr m" "normalizeAlignmentOperations m = Inr n'"
    unfolding normalizeOperations_def by auto
  have a: "advances n m" using m(1) unfolding normalizeEntityOperations_def
    by (rule forEach_advances [OF n]) (rule normalizeEntityOperation_advances)
  have "advances m n'" using m(2) unfolding normalizeAlignmentOperations_def
    by (rule forEach_advances [OF advances_running [OF n a]]) (rule normalizeAlignmentOperation_advances)
  with a show ?thesis by (rule advances_trans)
qed

section \<open>What the caller provides\<close>

text \<open>The entities of the state are filed under their own identifiers, and the allocated identifiers are new.\<close>

definition filed :: "('v \<Rightarrow> string) \<Rightarrow> (string, 'v) gomap \<Rightarrow> bool" where
  "filed ident m \<longleftrightarrow> list_all (\<lambda>(k, v). ident v = k) m"

definition filed_state :: "edit_normalization_state \<Rightarrow> bool" where
  "filed_state state \<longleftrightarrow> filed sec_ID (st_Sections state) \<and> filed txt_ID (st_AuthoredTexts state) \<and>
    filed exc_ID (st_SourceExcerpts state) \<and> filed vis_ID (st_VisualIntents state) \<and> filed note_ID (st_Notes state) \<and>
    filed cap_ID (st_Captions state) \<and> filed al_ID (st_Alignments state) \<and> filed clip_ID (st_Clips state) \<and>
    filed lg_ID (st_LinkGroups state) \<and> filed cor_ID (st_TranscriptCorrections state)"

definition proper_input :: "normalize_input \<Rightarrow> bool" where
  "proper_input input \<longleftrightarrow> filed_state (ni_State input) \<and>
    list_all (\<lambda>a. input_store (ni_State input) (alloc_Kind a, alloc_ID a) = None) (ni_Allocation input)"

lemma filed_lookup: "filed ident m \<Longrightarrow> gm_lookup m k = Some v \<Longrightarrow> ident v = k"
  by (auto simp: filed_def gm_lookup_def list_all_iff dest!: map_of_SomeD)

lemma filed_store_wf:
  assumes "filed_state state"
  shows "store_wf (input_store state)"
  unfolding store_wf_def
proof (intro allI)
  fix k :: entity_key
  show "case input_store state k of None \<Rightarrow> True | Some e \<Rightarrow> entity_key e = k"
    using assms by (cases k; cases "fst k")
      (auto simp: filed_state_def input_store_def store_of_maps_def node_of_maps_def filed_lookup split: option.splits)
qed

lemma addAllocation_Inr: "addAllocation x m = Inr m' \<longleftrightarrow>
    \<not> gm_has m (alloc_Local x) \<and> validateEntityID (alloc_Kind x) (alloc_ID x) \<and> m' = gm_set m (alloc_Local x) x"
  by (auto simp: addAllocation_def)

lemma addAllocations:
  assumes "forEach addAllocation xs m = Inr m'" "gm_lookup m' local = Some a"
  shows "gm_lookup m local = Some a \<or> a \<in> set xs \<and> validateEntityID (alloc_Kind a) (alloc_ID a)"
  using assms
proof (induction xs arbitrary: m)
  case (Cons x xs)
  from Cons.prems(1) have x: "validateEntityID (alloc_Kind x) (alloc_ID x)"
    and rest: "forEach addAllocation xs (gm_set m (alloc_Local x) x) = Inr m'"
    by (auto simp: addAllocation_Inr)
  show ?case using Cons.IH [OF rest Cons.prems(2)] x by (auto split: if_splits)
qed simp

lemma newEditNormalizer_running:
  assumes "proper_input input" "newEditNormalizer input = Inr n"
  shows "running n" "settled n" "n_input n = input"
    "n_conditions n = conditionTable (in_Preconditions (ni_Input input))" "n_changes n = []"
proof -
  from assms(2) show input: "n_input n = input" "n_conditions n = conditionTable (in_Preconditions (ni_Input input))" "n_changes n = []"
    unfolding newEditNormalizer_def Let_def by auto
  have log: "abs_log n = start_log (input_store (ni_State input))"
    using assms(2) unfolding newEditNormalizer_def Let_def
    by (auto simp: abs_log_def start_log_def abs_store_def input_store_def narrativeNode_def [abs_def] aggregates_of_maps_def fun_eq_iff
        split: EditEntityKind.splits)
  then show "settled n" by (simp add: settled_def input)
  have "fresh_allocations n" using assms addAllocations [of "ni_Allocation input" "[]"]
    unfolding newEditNormalizer_def Let_def fresh_allocations_def proper_input_def list_all_iff by fastforce
  moreover have "paired n" using assms(2) unfolding newEditNormalizer_def Let_def by (auto simp: paired_def)
  moreover have "abs_log n = reserve {} (start_log (input_store (ni_State input)))" using log by simp
  ultimately show "running n" using assms(1) filed_store_wf unfolding running_def proper_input_def input(1)
    by blast
qed

section \<open>The document stays a forest\<close>

lemma normalizeEntityOperation_forest:
  assumes n: "forest hidden n" and run: "normalizeEntityOperation env operation n = Inr n'"
    and parsed: "\<And>local a. gm_lookup (n_allocations n) local = Some a \<Longrightarrow> isOk (ParseID (alloc_ID a))"
  shows "forest hidden n'"
proof -
  note kept = narrative_kept [THEN forest_narrative_part, THEN iffD2, OF _ n]
  show ?thesis using run n unfolding normalizeEntityOperation_def
    by (cases "op_Type operation")
      (simp_all add: insertNarrativeNode_forest [OF n] updateNarrativeNode_forest [OF n] moveNarrativeNode_forest [OF n]
        removeNarrativeNode_forest [OF n] insertSourceExcerpt_forest [OF n _ parsed] kept)
qed

lemma normalizeAlignmentOperation_forest:
  assumes n: "forest hidden n" and run: "normalizeAlignmentOperation operation n = Inr n'"
  shows "forest hidden n'"
proof -
  note kept = narrative_kept [THEN forest_narrative_part, THEN iffD2, OF _ n]
  show ?thesis using run n unfolding normalizeAlignmentOperation_def
    by (cases "op_Type operation") (auto simp: kept)
qed

lemma normalizeOperations_forest:
  assumes run: "normalizeOperations env n = Inr n'" and n: "running n" "forest hidden n"
    and parsed: "\<And>local a. gm_lookup (n_allocations n) local = Some a \<Longrightarrow> isOk (ParseID (alloc_ID a))"
  shows "forest hidden n'"
proof -
  from run obtain m where m: "normalizeEntityOperations env n = Inr m" "normalizeAlignmentOperations m = Inr n'"
    unfolding normalizeOperations_def by auto
  have "running m \<and> forest hidden m \<and> n_allocations m = n_allocations n"
    using m(1) unfolding normalizeEntityOperations_def
  proof (rule forEach_invariant [where P = "\<lambda>m. running m \<and> forest hidden m \<and> n_allocations m = n_allocations n"], goal_cases)
    case (2 operation a b)
    then have "advances a b" by (intro normalizeEntityOperation_advances) auto
    then show ?case using 2 parsed normalizeEntityOperation_forest [of hidden a env operation b] advances_running [of a b]
      by (auto simp: advances_def keeps_request_def)
  qed (use n in simp)
  then have "forest hidden m" by simp
  with m(2) show ?thesis unfolding normalizeAlignmentOperations_def
    by (rule forEach_invariant) (rule normalizeAlignmentOperation_forest)
qed

lemma newEditNormalizer_parsed:
  assumes "newEditNormalizer input = Inr n" "gm_lookup (n_allocations n) local = Some a"
  shows "isOk (ParseID (alloc_ID a))"
proof -
  have "validateEntityID (alloc_Kind a) (alloc_ID a)" using assms addAllocations [of "ni_Allocation input" "[]"]
    unfolding newEditNormalizer_def Let_def by fastforce
  then show ?thesis by (cases "alloc_Kind a") simp_all
qed

end
