(* ===== verification/Proposals.thy ===== *)
theory Proposals
  imports Normalize
begin

text \<open>
  What a proposal promises, derived from the refinement of the log machine: every entity is written
  once, the operations replay to the new state, the inverse preview restores the old one, every
  revision the proposal depends on is a precondition of the request, and the changes are listed in
  order without repetition.
\<close>

section \<open>Proposals\<close>

definition required :: "normalize_input \<Rightarrow> entity_key \<Rightarrow> revision option" where
  "required input k =
    (if proper_kind (fst k) then gm_lookup (conditionTable (in_Preconditions (ni_Input input))) (entityKey (fst k) (snd k)) else None)"

definition aggregate_change :: "EditEntityKind \<Rightarrow> string \<times> revision \<Rightarrow> entity_change" where
  "aggregate_change kind item = existingEntityChange kind (fst item) (snd item) (snd item + 1) False"

lemma addAggregate_all:
  "forEach (addAggregate kind) items changes = Inr changes' \<Longrightarrow> changes' = changes @ map (aggregate_change kind) items"
proof (induction items arbitrary: changes)
  case (Cons x items)
  then obtain mid where mid: "addAggregate kind x changes = Inr mid" "forEach (addAggregate kind) items mid = Inr changes'" by auto
  have "mid = changes @ [aggregate_change kind x]"
    using mid(1) by (cases x) (auto simp: addAggregate_def aggregate_change_def mustNext_Inr dest!: Revision_Next_Inr)
  then show ?case using Cons.IH [OF mid(2)] by simp
qed simp

lemma settled_inv: "settled n \<Longrightarrow> log_inv (conds n) (input_store (n_state n)) (abs_log n)"
  unfolding settled_def by (rule log_inv_run)

lemma settled_aggregates:
  assumes "settled n" "gm_lookup (n_parentChanges n) i = Some r"
  shows "\<not> isTouched n EntityNarrativeNode i"
proof -
  have "log_aggregates (abs_log n) (EntityNarrativeNode, i) = Some r" using assms(2) by (simp add: abs_log_def)
  then have "(EntityNarrativeNode, i) \<notin> log_touched (abs_log n)" using settled_inv [OF assms(1)] unfolding log_inv_def by metis
  then show ?thesis by (simp add: isTouched_iff abs_log_def)
qed

lemma appendAggregateChanges_Inr:
  assumes "settled n" "appendAggregateChanges n = Inr n'"
  shows "n_operations n' = n_operations n" "n_inverse n' = rev (n_inverse n)"
    "n_changes n' = sort_slice changeLess (n_changes n @ map (aggregate_change EntityNarrativeNode) (gm_entries (n_parentChanges n)) @
      map (aggregate_change EntityTrack) (gm_entries (n_trackChanges n)))"
proof -
  have "filter (\<lambda>(ident, _). \<not> isTouched n EntityNarrativeNode ident) (gm_entries (n_parentChanges n)) = gm_entries (n_parentChanges n)"
    using settled_aggregates [OF assms(1)] by (auto simp: filter_id_conv set_gm_entries)
  then show "n_operations n' = n_operations n" "n_inverse n' = rev (n_inverse n)"
    "n_changes n' = sort_slice changeLess (n_changes n @ map (aggregate_change EntityNarrativeNode) (gm_entries (n_parentChanges n)) @
      map (aggregate_change EntityTrack) (gm_entries (n_trackChanges n)))"
    using assms(2) unfolding appendAggregateChanges_def by (auto simp: swapEnds_rev [unfolded One_nat_def] dest!: addAggregate_all)
qed

lemma proposal_normalizer:
  assumes "proper_input input" "NormalizeEditProposal env input = Inr (p, canonical)"
  obtains n0 n where "validateNormalizationInput env input = Inr ()" "newEditNormalizer input = Inr n0"
    "normalizeOperations env n0 = Inr n" "running n0" "running n" "settled n" "n_input n = input" "conds n = required input"
    "prop_Operations p = n_operations n" "prop_InversePreview p = rev (n_inverse n)"
    "prop_Changes p = sort_slice changeLess (n_changes n @ map (aggregate_change EntityNarrativeNode) (gm_entries (n_parentChanges n)) @
      map (aggregate_change EntityTrack) (gm_entries (n_trackChanges n)))"
    "prop_Preconditions p = sort_slice preconditionLess (in_Preconditions (ni_Input input))"
proof -
  from assms(2) obtain n0 n n' digest where steps: "validateNormalizationInput env input = Inr ()" "newEditNormalizer input = Inr n0"
      "normalizeOperations env n0 = Inr n" "appendAggregateChanges n = Inr n'" and p: "p = (proposalOf input n')\<lparr>prop_Digest := digest\<rparr>"
    unfolding NormalizeEditProposal_def Let_def by (auto elim!: casePairE)
  note start = newEditNormalizer_running [OF assms(1) steps(2)]
  have adv: "advances n0 n" by (rule normalizeOperations_advances [OF start(1) steps(3)])
  note run = advances_running [OF start(1) adv] advances_settled [OF start(2) adv]
  have cond: "conds n = required input"
    using advances_conds [OF adv] start(4) by (auto simp: conds_def required_def fun_eq_iff)
  have input: "n_input n = input" using advances_input [OF adv] start(3) by simp
  show thesis
    by (rule that [OF steps(1-3) start(1) run input cond])
      (use appendAggregateChanges_Inr [OF run(2) steps(4)] in \<open>simp_all add: p proposalOf_def\<close>)
qed

lemma conditionTable_lookup:
  "gm_lookup (foldl (\<lambda>m c. gm_set m (entityKey (pre_Kind c) (pre_ID c)) (pre_Revision c)) m cs) key = Some r \<Longrightarrow>
    gm_lookup m key = Some r \<or> (\<exists>c \<in> set cs. entityKey (pre_Kind c) (pre_ID c) = key \<and> pre_Revision c = r)"
proof (induction cs arbitrary: m)
  case (Cons c cs)
  from Cons.IH [of "gm_set m (entityKey (pre_Kind c) (pre_ID c)) (pre_Revision c)"] Cons.prems
  show ?case by (auto split: if_splits)
qed simp

lemma preconditions_proper:
  assumes "validateNormalizationInput env input = Inr ()" "c \<in> set (in_Preconditions (ni_Input input))"
  shows "proper_kind (pre_Kind c)"
proof -
  from assms(1) obtain m where "forEach checkPrecondition (in_Preconditions (ni_Input input)) [] = Inr m"
    unfolding validateNormalizationInput_def validateEditProposeInput_def Let_def by auto
  from forEach_each [OF this assms(2)] obtain a b where "checkPrecondition c a = Inr b" by blast
  then have "validateEntityID (pre_Kind c) (pre_ID c)" unfolding checkPrecondition_def by auto
  then show ?thesis by (cases "pre_Kind c") simp_all
qed

lemma required_precondition:
  assumes "validateNormalizationInput env input = Inr ()" "required input k = Some r"
  shows "\<exists>c \<in> set (in_Preconditions (ni_Input input)). pre_Kind c = fst k \<and> pre_ID c = snd k \<and> pre_Revision c = r"
proof -
  have k: "proper_kind (fst k)" "gm_lookup (conditionTable (in_Preconditions (ni_Input input))) (entityKey (fst k) (snd k)) = Some r"
    using assms(2) by (simp_all add: required_def split: if_splits)
  then obtain c where c: "c \<in> set (in_Preconditions (ni_Input input))" "entityKey (pre_Kind c) (pre_ID c) = entityKey (fst k) (snd k)"
      "pre_Revision c = r"
    using conditionTable_lookup [of "[]" "in_Preconditions (ni_Input input)"] unfolding conditionTable_def by auto
  then show ?thesis using entityKey_inject [OF preconditions_proper [OF assms(1) c(1)] k(1)] by blast
qed

definition change_key :: "entity_change \<Rightarrow> entity_key" where
  "change_key c = (chg_Kind c, chg_ID c)"

definition all_changes :: "edit_normalizer \<Rightarrow> entity_change list" where
  "all_changes n = n_changes n @ map (aggregate_change EntityNarrativeNode) (gm_entries (n_parentChanges n)) @
    map (aggregate_change EntityTrack) (gm_entries (n_trackChanges n))"

lemma aggregate_change_simps [simp]:
  "change_key (aggregate_change kind item) = (kind, fst item)" "chg_Before (aggregate_change kind item) = Some (snd item)"
  "chg_After (aggregate_change kind item) = snd item + 1" "\<not> chg_Tombstoned (aggregate_change kind item)"
  "chg_Kind (aggregate_change kind item) = kind" "chg_ID (aggregate_change kind item) = fst item"
  by (simp_all add: change_key_def aggregate_change_def existingEntityChange_def)

lemma entry_change_simps [simp]:
  "change_key (entry_change st0 entry) = entity_key (fst entry)" "chg_After (entry_change st0 entry) = entity_revision (fst entry)"
  "chg_Before (entry_change st0 entry) = map_option entity_revision (st0 (entity_key (fst entry)))"
  "chg_Tombstoned (entry_change st0 entry) = entity_dead (fst entry)"
  by (simp_all add: change_key_def entry_change_def change_of_def)

lemma abs_log_simps [simp]:
  "log_changes (abs_log n) = n_changes n" "log_touched (abs_log n) = touched_keys (n_touched n)"
  "log_store (abs_log n) = abs_store n" "log_entries (abs_log n) = zip (n_operations n) (n_inverse n)"
  "log_aggregates (abs_log n) = aggregates_of_maps (n_parentChanges n) (n_trackChanges n)"
  by (simp_all add: abs_log_def)

lemma settled_changes:
  assumes "settled n"
  shows "map change_key (n_changes n) = map (entity_key \<circ> fst) (zip (n_operations n) (n_inverse n))"
    "change_key ` set (n_changes n) = touched_keys (n_touched n)" "distinct (map change_key (n_changes n))"
proof -
  note inv = settled_inv [OF assms, unfolded log_inv_def abs_log_simps]
  show keys: "map change_key (n_changes n) = map (entity_key \<circ> fst) (zip (n_operations n) (n_inverse n))"
  proof -
    have "n_changes n = map (entry_change (input_store (n_state n))) (zip (n_operations n) (n_inverse n))" using inv by blast
    then show ?thesis by simp
  qed
  show "distinct (map change_key (n_changes n))" using inv unfolding keys by blast
  show "change_key ` set (n_changes n) = touched_keys (n_touched n)" 
  proof -
    have "change_key ` set (n_changes n) = set (map change_key (n_changes n))" by simp
    also have "\<dots> = (entity_key \<circ> fst) ` set (zip (n_operations n) (n_inverse n))" unfolding keys by simp
    also have "\<dots> = touched_keys (n_touched n)" using inv by blast
    finally show ?thesis .
  qed
qed

lemma settled_distinct:
  assumes n: "settled n"
  shows "distinct (map change_key (all_changes n))"
proof -
  have entries: "map change_key (map (aggregate_change kind) (gm_entries m)) = map (Pair kind) (map fst (gm_entries m))" for kind m
    by simp
  have "distinct (map change_key (map (aggregate_change kind) (gm_entries m)))" for kind m
    unfolding entries by (simp only: distinct_map [of "Pair kind"] distinct_gm_entries) (simp add: inj_on_def)
  moreover have "(EntityNarrativeNode, i) \<notin> change_key ` set (n_changes n)" if "(i, r) \<in> set (gm_entries (n_parentChanges n))" for i r
    using that settled_aggregates [OF n] unfolding settled_changes(2) [OF n] by (simp add: set_gm_entries isTouched_iff)
  moreover have "(EntityTrack, i) \<notin> change_key ` set (n_changes n)" for i
    unfolding settled_changes(2) [OF n] by simp
  ultimately show ?thesis using settled_changes(3) [OF n] unfolding all_changes_def by (auto simp: image_iff)
qed

lemma settled_kinds: "settled n \<Longrightarrow> c \<in> set (all_changes n) \<Longrightarrow> proper_kind (chg_Kind c)"
proof -
  assume n: "settled n" and c: "c \<in> set (all_changes n)"
  show ?thesis
  proof (cases "c \<in> set (n_changes n)")
    case True
    then have "change_key c \<in> touched_keys (n_touched n)" using settled_changes(2) [OF n] by blast
    then show ?thesis by (simp add: touched_keys_def change_key_def)
  qed (use c in \<open>auto simp: all_changes_def\<close>)
qed

definition change_order :: "entity_change \<Rightarrow> string \<times> string" where
  "change_order c = (EditEntityKind_string (chg_Kind c), chg_ID c)"

lemma EditEntityKind_string_inject:
  "proper_kind a \<Longrightarrow> proper_kind b \<Longrightarrow> EditEntityKind_string a = EditEntityKind_string b \<longleftrightarrow> a = b"
  using EditEntityKind_of_string by metis

lemma settled_sorted:
  assumes n: "settled n"
  shows "sorted_wrt (\<lambda>a b. change_order a < change_order b) (sort_slice changeLess (all_changes n))"
proof -
  have "sort_slice changeLess (all_changes n) = sort_key change_order (all_changes n)"
    by (rule sort_slice_key)
      (auto simp: changeLess_def change_order_def less_prod_def' EditEntityKind_string_inject settled_kinds [OF n])
  moreover have "distinct (map change_order (all_changes n))"
  proof -
    have "inj_on change_order (set (all_changes n))"
      using settled_distinct [OF n] EditEntityKind_string_inject settled_kinds [OF n]
      by (auto simp: distinct_map inj_on_def change_order_def change_key_def)
    then show ?thesis using settled_distinct [OF n] by (auto simp: distinct_map)
  qed
  ultimately show ?thesis
    by (metis distinct_map distinct_sort set_sort sorted_sort_key strict_sorted_iff sorted_wrt_map)
qed

section \<open>The log of a proposal\<close>

lemma proposal_log:
  assumes "proper_input input" "NormalizeEditProposal env input = Inr (p, canonical)"
  obtains s where "edit_steps (required input) (start_log (input_store (ni_State input))) s"
    "log_inv (required input) (input_store (ni_State input)) s" "prop_Operations p = map fst (log_entries s)"
    "prop_InversePreview p = rev (map snd (log_entries s))"
    "set (prop_Changes p) = set (log_changes s) \<union> {c. \<exists>k r. log_aggregates s k = Some r \<and> c = change_of k (Some r) (r + 1) False}"
proof -
  from assms obtain n0 n where n: "running n" "settled n" "n_input n = input" "conds n = required input"
      "prop_Operations p = n_operations n" "prop_InversePreview p = rev (n_inverse n)"
      "prop_Changes p = sort_slice changeLess (n_changes n @ map (aggregate_change EntityNarrativeNode) (gm_entries (n_parentChanges n)) @
        map (aggregate_change EntityTrack) (gm_entries (n_trackChanges n)))"
    by (rule proposal_normalizer)
  have paired: "length (n_operations n) = length (n_inverse n)" using n(1) by (simp add: running_def paired_def)
  have agg: "aggregates_of_maps parents tracks k = Some r \<longleftrightarrow> (\<exists>i. k = (EntityNarrativeNode, i) \<and> gm_lookup parents i = Some r) \<or>
      (\<exists>i. k = (EntityTrack, i) \<and> gm_lookup tracks i = Some r)" for parents tracks k r
    by (cases k; cases "fst k") (auto simp: aggregates_of_maps_def)
  have change: "change_of (kind, i) (Some r) (r + 1) False = aggregate_change kind (i, r)" for kind i r
    by (simp add: change_of_def aggregate_change_def existingEntityChange_def)
  have "{c. \<exists>k r. log_aggregates (abs_log n) k = Some r \<and> c = change_of k (Some r) (r + 1) False} =
      aggregate_change EntityNarrativeNode ` set (gm_entries (n_parentChanges n)) \<union> aggregate_change EntityTrack ` set (gm_entries (n_trackChanges n))"
    unfolding abs_log_simps agg by (auto simp: change set_gm_entries image_iff) (blast intro: sym)+
  then show thesis
    using n paired settled_inv [OF n(2)] by (intro that [of "abs_log n"]) (auto simp: settled_def)
qed

end
