(* ===== verification/Time_Ranges.thy ===== *)
theory Time_Ranges
  imports Normalize_Derivation
begin

text \<open>
  What the range helpers of the normalizer decide, on the rational numbers the times denote:
  overlap, containment and the comparisons whose errors the code discards. A helper that meets a time
  that is not canonical, or an end that cannot be represented, reports overlap or refuses containment.
\<close>

section \<open>Times\<close>

text \<open>The times a range starts and ends at, as rational numbers.\<close>

definition range_from :: "time_range \<Rightarrow> rat" where
  "range_from r = rt_val (tr_Start r)"

definition range_upto :: "time_range \<Rightarrow> rat" where
  "range_upto r = rt_val (tr_Start r) + rt_val (tr_Duration r)"

text \<open>A range whose bounds are canonical times and whose end can be represented.\<close>

definition range_ok :: "time_range \<Rightarrow> bool" where
  "range_ok r \<longleftrightarrow> isOk (TimeRange_End r)"

lemma End_Inr: "TimeRange_End r = Inr e \<longleftrightarrow> rt_valid (tr_Start r) \<and> rt_valid (tr_Duration r) \<and> rt_valid e \<and> rt_val e = range_upto r"
  by (auto simp: TimeRange_End_def Add_Inr range_upto_def)

lemma range_okE:
  assumes "range_ok r"
  obtains e where "TimeRange_End r = Inr e" "rt_valid e" "rt_val e = range_upto r" "rt_valid (tr_Start r)" "rt_valid (tr_Duration r)"
  using assms that End_Inr [of r] by (cases "TimeRange_End r") (auto simp: range_ok_def)

lemma range_ok_valid [simp]: "range_ok r \<Longrightarrow> rt_valid (tr_Start r)" "range_ok r \<Longrightarrow> rt_valid (tr_Duration r)"
  by (auto elim: range_okE)

lemma NewTimeRange_Inr: "NewTimeRange start duration = Inr r \<longleftrightarrow>
    rt_valid start \<and> rt_valid duration \<and> 0 \<le> rt_val duration \<and> r = \<lparr>tr_Start = start, tr_Duration = duration\<rparr>"
  by (auto simp: NewTimeRange_def Validate_cases rt_val_neg_iff go_result)

lemma range_new [simp]: "range_from \<lparr>tr_Start = start, tr_Duration = duration\<rparr> = rt_val start"
  "range_upto \<lparr>tr_Start = start, tr_Duration = duration\<rparr> = rt_val start + rt_val duration"
  by (simp_all add: range_from_def range_upto_def)

section \<open>Comparisons whose errors are discarded\<close>

lemma compareOrZero_val:
  assumes "rt_valid a" "rt_valid b"
  shows "compareOrZero a b < 0 \<longleftrightarrow> rt_val a < rt_val b" "compareOrZero a b > 0 \<longleftrightarrow> rt_val b < rt_val a"
    "compareOrZero a b = 0 \<longleftrightarrow> rt_val a = rt_val b" "compareOrZero a b \<ge> 0 \<longleftrightarrow> rt_val b \<le> rt_val a"
proof -
  have "RationalTime_Compare a b = Inr (sgn_rat (rt_val a - rt_val b))" using assms by (simp add: Compare_Inr)
  then have "compareOrZero a b = sgn_rat (rt_val a - rt_val b)" by (simp add: compareOrZero_def)
  then show "compareOrZero a b < 0 \<longleftrightarrow> rt_val a < rt_val b" "compareOrZero a b > 0 \<longleftrightarrow> rt_val b < rt_val a"
    "compareOrZero a b = 0 \<longleftrightarrow> rt_val a = rt_val b" "compareOrZero a b \<ge> 0 \<longleftrightarrow> rt_val b \<le> rt_val a"
    by (auto simp: sgn_rat_def)
qed

lemma compareOrZero_invalid: "\<not> (rt_valid a \<and> rt_valid b) \<Longrightarrow> compareOrZero a b = 0"
  by (auto simp: compareOrZero_def Compare_Inr split: sum.split)

lemma zero_rational_time_invalid [simp]: "\<not> rt_valid zero_rational_time"
  by (simp add: zero_rational_time_def rt_valid_iff rt_den_def)

lemma endOrZero_valid [simp]: "rt_valid (endOrZero r) \<longleftrightarrow> range_ok r"
  using End_Inr [of r] by (cases "TimeRange_End r") (auto simp: endOrZero_def range_ok_def)

lemma endOrZero_val [simp]: "range_ok r \<Longrightarrow> rt_val (endOrZero r) = range_upto r"
  using End_Inr [of r] by (cases "TimeRange_End r") (auto simp: endOrZero_def range_ok_def)

lemma subtractOrZero_valid: "rt_valid (subtractOrZero a b) \<Longrightarrow> rt_valid a \<and> rt_valid b \<and> rt_val (subtractOrZero a b) = rt_val a - rt_val b"
  using Subtract_Inr [of a b] by (cases "RationalTime_Subtract a b") (auto simp: subtractOrZero_def)

section \<open>Ranges\<close>

lemma rangesOverlap_iff:
  "\<not> rangesOverlap a b \<longleftrightarrow> range_ok a \<and> range_ok b \<and> (range_upto a \<le> range_from b \<or> range_upto b \<le> range_from a)"
proof (cases "range_ok a \<and> range_ok b")
  case True
  then obtain e f where ends: "TimeRange_End a = Inr e" "rt_valid e" "rt_val e = range_upto a"
    "TimeRange_End b = Inr f" "rt_valid f" "rt_val f = range_upto b" by (auto elim!: range_okE)
  have "RationalTime_Compare (tr_Start a) f = Inr (sgn_rat (range_from a - range_upto b))"
    "RationalTime_Compare (tr_Start b) e = Inr (sgn_rat (range_from b - range_upto a))"
    using True ends by (simp_all add: Compare_Inr range_from_def)
  then show ?thesis using True ends by (auto simp: rangesOverlap_def sgn_rat_def)
next
  case False
  then show ?thesis by (auto simp: rangesOverlap_def range_ok_def split: sum.splits)
qed

lemma transcriptRangeContains_iff:
  "transcriptRangeContains parent child \<longleftrightarrow> range_ok parent \<and> range_ok child \<and>
    range_from parent \<le> range_from child \<and> range_upto child \<le> range_upto parent"
proof (cases "range_ok parent \<and> range_ok child")
  case True
  then obtain e f where ends: "TimeRange_End parent = Inr e" "rt_valid e" "rt_val e = range_upto parent"
    "TimeRange_End child = Inr f" "rt_valid f" "rt_val f = range_upto child" by (auto elim!: range_okE)
  have "RationalTime_Compare (tr_Start child) (tr_Start parent) = Inr (sgn_rat (range_from child - range_from parent))"
    "RationalTime_Compare f e = Inr (sgn_rat (range_upto child - range_upto parent))"
    using True ends by (simp_all add: Compare_Inr range_from_def)
  then show ?thesis using True ends by (auto simp: transcriptRangeContains_def sgn_rat_def)
next
  case False
  then show ?thesis by (auto simp: transcriptRangeContains_def range_ok_def andThen_def split: sum.splits)
qed

lemma rangeWithin_iff:
  "rangeWithin r duration \<longleftrightarrow> range_ok r \<and> rt_valid duration \<and> 0 \<le> range_from r \<and> 0 < rt_val (tr_Duration r) \<and>
    range_upto r \<le> rt_val duration"
proof (cases "range_ok r \<and> rt_valid duration")
  case True
  then obtain e where e: "TimeRange_End r = Inr e" "rt_valid e" "rt_val e = range_upto r" by (auto elim!: range_okE)
  have "RationalTime_Compare e duration = Inr (sgn_rat (range_upto r - rt_val duration))"
    using True e by (simp add: Compare_Inr)
  then show ?thesis using True e
    by (auto simp: rangeWithin_def Validate_cases rt_val_neg_iff rt_val_pos_iff range_from_def sgn_rat_def)
next
  case False
  then show ?thesis by (auto simp: rangeWithin_def Validate_cases range_ok_def andThen_def split: sum.splits)
qed

end
