(* ===== verification/Timeline.thy ===== *)
theory Timeline
  imports Proposals Time_Ranges
begin

text \<open>
  The timeline after a proposal: the live captions of a track stay apart and so do the live clips.
  The checks of the code look at the touched items only; the others are as they were, so what held of
  them before the proposal still holds.
\<close>

section \<open>Lanes\<close>

text \<open>The captions and the clips of a store.\<close>

definition caption_at :: "entity_store \<Rightarrow> string \<Rightarrow> caption_state option" where
  "caption_at st i = (case st (EntityCaption, i) of Some (PutCaption c) \<Rightarrow> Some c | _ \<Rightarrow> None)"

definition clip_at :: "entity_store \<Rightarrow> string \<Rightarrow> clip_state option" where
  "clip_at st i = (case st (EntityClip, i) of Some (PutClip c) \<Rightarrow> Some c | _ \<Rightarrow> None)"

text \<open>No two live items of one track overlap.\<close>

definition apart :: "('v \<Rightarrow> bool) \<Rightarrow> ('v \<Rightarrow> string) \<Rightarrow> ('v \<Rightarrow> time_range) \<Rightarrow> (string \<Rightarrow> 'v option) \<Rightarrow> bool" where
  "apart dead track extent items \<longleftrightarrow>
    (\<forall>i j c d. items i = Some c \<and> items j = Some d \<and> i \<noteq> j \<and> \<not> dead c \<and> \<not> dead d \<and> track c = track d \<longrightarrow>
      range_upto (extent c) \<le> range_from (extent d) \<or> range_upto (extent d) \<le> range_from (extent c))"

definition captions_apart :: "entity_store \<Rightarrow> bool" where
  "captions_apart st \<longleftrightarrow> apart cap_Tombstoned cap_TrackID cap_Range (caption_at st)"

definition clips_apart :: "entity_store \<Rightarrow> bool" where
  "clips_apart st \<longleftrightarrow> apart clip_Tombstoned clip_TrackID clip_TimelineRange (clip_at st)"

text \<open>A kind of item on tracks, with the check that a touched item meets no other.\<close>

locale lane =
  fixes kind :: EditEntityKind and items :: "entity_store \<Rightarrow> string \<Rightarrow> 'v option" and dead :: "'v \<Rightarrow> bool"
    and track :: "'v \<Rightarrow> string" and extent :: "'v \<Rightarrow> time_range" and check :: "edit_normalizer \<Rightarrow> string \<Rightarrow> bool"
  assumes kind: "entity_kind kind"
    and depends: "st (kind, i) = st' (kind, i) \<Longrightarrow> items st i = items st' i"
    and check: "check n (entityKey kind i) \<Longrightarrow> items (abs_store n) i = Some c \<Longrightarrow> \<not> dead c \<Longrightarrow>
      items (abs_store n) j = Some d \<Longrightarrow> i \<noteq> j \<Longrightarrow> \<not> dead d \<Longrightarrow> track d = track c \<Longrightarrow> \<not> rangesOverlap (extent c) (extent d)"
begin

lemma checked_apart:
  assumes n: "running n" and ok: "list_all (check n) (gm_keys (n_touched n))"
    and start: "apart dead track extent (items (input_store (n_state n)))"
  shows "apart dead track extent (items (abs_store n))"
  unfolding apart_def
proof (intro allI impI)
  fix i j c d
  assume pair: "items (abs_store n) i = Some c \<and> items (abs_store n) j = Some d \<and> i \<noteq> j \<and> \<not> dead c \<and> \<not> dead d \<and> track c = track d"
  have checked: "check n (entityKey kind x)" if "(kind, x) \<in> touched_keys (n_touched n)" for x
    using that ok by (auto simp: touched_keys_def list_all_iff set_gm_keys)
  have old: "items (abs_store n) x = items (input_store (n_state n)) x" if "(kind, x) \<notin> touched_keys (n_touched n)" for x
    by (rule depends) (rule running_untouched [OF n that])
  consider "(kind, i) \<in> touched_keys (n_touched n)" | "(kind, j) \<in> touched_keys (n_touched n)"
    | "(kind, i) \<notin> touched_keys (n_touched n)" "(kind, j) \<notin> touched_keys (n_touched n)" by blast
  then show "range_upto (extent c) \<le> range_from (extent d) \<or> range_upto (extent d) \<le> range_from (extent c)"
  proof cases
    case 1
    then show ?thesis using check [OF checked, of i c j d] pair by (auto simp: rangesOverlap_iff)
  next
    case 2
    then show ?thesis using check [OF checked, of j d i c] pair by (auto simp: rangesOverlap_iff)
  next
    case 3
    then show ?thesis using start pair unfolding apart_def by (metis old)
  qed
qed

end

interpretation captions: lane EntityCaption caption_at cap_Tombstoned cap_TrackID cap_Range captionOverlapsNone
proof unfold_locales
  fix n i c j d
  assume "captionOverlapsNone n (entityKey EntityCaption i)" "caption_at (abs_store n) i = Some c" "\<not> cap_Tombstoned c"
    "caption_at (abs_store n) j = Some d" "i \<noteq> j" "\<not> cap_Tombstoned d" "cap_TrackID d = cap_TrackID c"
  then show "\<not> rangesOverlap (cap_Range c) (cap_Range d)"
    by (auto simp: captionOverlapsNone_def caption_at_def gm_get_def list_all_iff set_gm_entries split: option.splits if_splits)
qed (simp_all add: caption_at_def)

interpretation clips: lane EntityClip clip_at clip_Tombstoned clip_TrackID clip_TimelineRange clipOverlapsNone
proof unfold_locales
  fix n i c j d
  assume "clipOverlapsNone n (entityKey EntityClip i)" "clip_at (abs_store n) i = Some c" "\<not> clip_Tombstoned c"
    "clip_at (abs_store n) j = Some d" "i \<noteq> j" "\<not> clip_Tombstoned d" "clip_TrackID d = clip_TrackID c"
  then show "\<not> rangesOverlap (clip_TimelineRange c) (clip_TimelineRange d)"
    by (auto simp: clipOverlapsNone_def clip_at_def gm_get_def gm_has_def list_all_iff set_gm_keys split: option.splits if_splits)
qed (simp_all add: clip_at_def)

section \<open>The checks of a proposal\<close>

text \<open>The state after the entity operations, which the checks are made on; what follows writes alignments only.\<close>

lemma normalizeAlignmentOperation_sequence_part:
  "normalizeAlignmentOperation operation n = Inr n' \<Longrightarrow> sequence_part n' = sequence_part n"
  unfolding normalizeAlignmentOperation_def
  by (cases "op_Type operation") (auto dest: sf.bindAlignment_part sf.remapAlignment_part sf.updateAlignment_part)

lemma normalizeOperations_checked:
  assumes n: "running n" and run: "normalizeOperations env n = Inr n'"
  obtains m where "running m" "advances m n'" "validateLinkGroups m" "validateCaptionOverlaps m" "validateClipOverlaps m" "sequence_part n' = sequence_part m"
    "n_input m = n_input n"
proof -
  from run obtain m where m: "normalizeEntityOperations env n = Inr m" "normalizeAlignmentOperations m = Inr n'"
    and checks: "validateLinkGroups m" "validateCaptionOverlaps m" "validateClipOverlaps m"
    unfolding normalizeOperations_def by auto
  have a: "advances n m" using m(1) unfolding normalizeEntityOperations_def
    by (rule forEach_advances [OF n]) (rule normalizeEntityOperation_advances)
  note r = advances_running [OF n a]
  have b: "advances m n'" using m(2) unfolding normalizeAlignmentOperations_def
    by (rule forEach_advances [OF r]) (rule normalizeAlignmentOperation_advances)
  have "sequence_part n' = sequence_part m" using m(2) unfolding normalizeAlignmentOperations_def
    by (rule forEach_invariant [where P = "\<lambda>x. sequence_part x = sequence_part m"]) (auto dest: normalizeAlignmentOperation_sequence_part)
  then show thesis using that r b checks advances_input [OF a] by blast
qed

lemma proposal_store:
  assumes "settled n" "paired n" "prop_Operations p = n_operations n"
  shows "abs_store n = replay (input_store (n_state n)) (prop_Operations p)"
proof -
  have "map fst (zip (n_operations n) (n_inverse n)) = n_operations n" using assms(2) by (simp add: paired_def)
  then show ?thesis using settled_inv [OF assms(1)] unfolding log_inv_def abs_log_simps assms(3) by metis
qed

lemma checked_timeline:
  assumes "proper_input input" "NormalizeEditProposal env input = Inr (p, canonical)"
    and start: "captions_apart (input_store (ni_State input))" "clips_apart (input_store (ni_State input))"
  shows "captions_apart (replay (input_store (ni_State input)) (prop_Operations p))"
    "clips_apart (replay (input_store (ni_State input)) (prop_Operations p))"
proof -
  from assms(1,2) obtain n0 n where n0: "newEditNormalizer input = Inr n0" "normalizeOperations env n0 = Inr n" "running n0"
    and n: "running n" "settled n" "n_input n = input" "prop_Operations p = n_operations n" by (rule proposal_normalizer)
  have input: "n_input n0 = input" by (rule newEditNormalizer_running(3) [OF assms(1) n0(1)])
  have store: "abs_store n = replay (input_store (ni_State input)) (prop_Operations p)"
    using proposal_store [OF n(2) _ n(4)] n(1,3) by simp
  from n0(3,2) obtain m where m: "running m" "validateCaptionOverlaps m" "validateClipOverlaps m" "sequence_part n = sequence_part m" "n_input m = n_input n0"
    by (rule normalizeOperations_checked)
  have same: "caption_at (abs_store n) = caption_at (abs_store m)" "clip_at (abs_store n) = clip_at (abs_store m)"
    using m(4) by (auto simp: caption_at_def clip_at_def sequence_part_def)
  show "captions_apart (replay (input_store (ni_State input)) (prop_Operations p))"
    using captions.checked_apart [OF m(1)] m(2,5) start(1) same(1) input store
    by (simp add: captions_apart_def validateCaptionOverlaps_def)
  show "clips_apart (replay (input_store (ni_State input)) (prop_Operations p))"
    using clips.checked_apart [OF m(1)] m(3,5) start(2) same(2) input store
    by (simp add: clips_apart_def validateClipOverlaps_def)
qed

end
