(* ===== verification/Validated_Requests.thy ===== *)
theory Validated_Requests
  imports Normalize Time_Ranges
begin

text \<open>
  What the validation of a request promises its normalization: the fields each type of operation has, and
  that no handler meets a missing one. Every dereference of an optional field in the normalizer is guarded by the
  validator, so a request that passed validation never makes it panic on a nil pointer.
\<close>

section \<open>The fields of a validated operation\<close>

lemma forEach_all: "forEach f xs s = Inr s' \<Longrightarrow> (\<And>x a b. f x a = Inr b \<Longrightarrow> P x) \<Longrightarrow> list_all P xs"
  by (induction xs arbitrary: s) auto

lemma validated_operations:
  assumes "validateNormalizationInput env input = Inr ()"
  shows "list_all (validateEditOperation (env_bcp47 env)) (in_Operations (ni_Input input))"
proof -
  from assms have "validateEditProposeInput (env_bcp47 env) (ni_Input input) = Inr ()"
    unfolding validateNormalizationInput_def by (auto split: if_splits)
  then obtain tables where "forEach (checkOperation (env_bcp47 env)) (zip [0..<length (in_Operations (ni_Input input))] (in_Operations (ni_Input input))) ([], []) = Inr tables"
    unfolding validateEditProposeInput_def Let_def by (elim andThenE checkE) auto
  then have "list_all (\<lambda>x. validateEditOperation (env_bcp47 env) (snd x)) (zip [0..<length (in_Operations (ni_Input input))] (in_Operations (ni_Input input)))"
    by (rule forEach_all) (auto simp: checkOperation_def split: if_splits)
  then show ?thesis by (auto simp: list_all_length)
qed

text \<open>A validated range is an interval of the timeline, or of a source.\<close>

lemma validRange_Some: "validRange v \<longleftrightarrow> (\<exists>r. v = Some r \<and> range_ok r \<and> 0 \<le> range_from r \<and> 0 < rt_val (tr_Duration r))"
  by (cases v) (auto simp: validRange_def range_ok_def [symmetric] Validate_cases rt_val_neg_iff rt_val_pos_iff range_from_def split: if_splits)

lemma validSourceRange_Some: "validSourceRange v \<longleftrightarrow> (\<exists>r. v = Some r \<and> range_ok r \<and> 0 < rt_val (tr_Duration r))"
  by (cases v) (auto simp: validSourceRange_def range_ok_def [symmetric] Validate_cases rt_val_pos_iff split: if_splits)

lemma validTime_Some: "validTime v \<longleftrightarrow> (\<exists>t. v = Some t \<and> rt_valid t \<and> 0 \<le> rt_val t)"
  by (cases v) (auto simp: validTime_def Validate_cases rt_val_neg_iff split: if_splits)

lemma valid_Some [simp]: "validText v \<Longrightarrow> v \<noteq> None" "validLanguage bcp47 w \<Longrightarrow> w \<noteq> None" "validAuthoredPurpose p \<Longrightarrow> p \<noteq> None"
  "validVisualPurpose q \<Longrightarrow> q \<noteq> None" "validExistingReference r \<Longrightarrow> r \<noteq> None" "validCorrectionText v \<Longrightarrow> v \<noteq> None"
  "validRange i \<Longrightarrow> i \<noteq> None" "validSourceRange i \<Longrightarrow> i \<noteq> None" "validTime t \<Longrightarrow> t \<noteq> None"
  by (auto simp: validText_def validLanguage_def validAuthoredPurpose_def validVisualPurpose_def validExistingReference_def validCorrectionText_def
    validRange_def validSourceRange_def validTime_def split: option.splits)

lemmas valid_ex [simp] = valid_Some [unfolded not_None_eq]

lemmas validate_narrative = validateEditOperation_def validateNarrativeOperation_def narrativeOperation_def writingOperation_def isClipMutationOperation_def

lemmas validate_sequence = validateEditOperation_def validateSequenceOperation_def sequenceOperation_def narrativeOperation_def writingOperation_def
  isClipMutationOperation_def

lemmas validate_transcript = validateEditOperation_def validateTranscriptOperation_def sequenceOperation_def narrativeOperation_def writingOperation_def
  isClipMutationOperation_def

lemmas validate_clips = validateEditOperation_def validateClipMutationOperation_def isClipMutationOperation_def

text \<open>The fields of each type of operation that the normalizer reads.\<close>

lemma narrative_fields:
  assumes "validateEditOperation bcp47 operation"
  shows "op_Type operation \<in> {EditInsertSection, EditInsertAuthoredText, EditInsertVisualIntent, EditInsertNote} \<Longrightarrow>
      op_CreateAs operation \<noteq> None \<and> op_ParentID operation \<noteq> None \<and> validLanguage bcp47 (op_Language operation)"
    and "op_Type operation \<in> {EditUpdateSection, EditUpdateAuthoredText, EditUpdateVisualIntent, EditUpdateNote} \<Longrightarrow>
      op_NodeID operation \<noteq> None \<and> validLanguage bcp47 (op_Language operation)"
    and "op_Type operation \<in> {EditInsertSection, EditUpdateSection} \<Longrightarrow> validText (op_Title operation)"
    and "op_Type operation \<in> {EditInsertAuthoredText, EditUpdateAuthoredText} \<Longrightarrow> validAuthoredPurpose (op_AuthoredTextPurpose operation) \<and> validText (op_Text operation)"
    and "op_Type operation \<in> {EditInsertVisualIntent, EditUpdateVisualIntent} \<Longrightarrow> validVisualPurpose (op_VisualIntentPurpose operation) \<and> validText (op_Description operation)"
    and "op_Type operation \<in> {EditInsertNote, EditUpdateNote} \<Longrightarrow> validText (op_Text operation)"
    and "op_Type operation = EditMoveNarrativeNode \<Longrightarrow> op_NodeID operation \<noteq> None \<and> op_ParentID operation \<noteq> None"
    and "op_Type operation = EditRemoveNarrativeNode \<Longrightarrow> op_NodeID operation \<noteq> None"
  by (insert assms, safe) (simp_all add: validate_narrative split: if_splits)

lemma caption_fields:
  assumes "validateEditOperation bcp47 operation"
  shows "op_Type operation = EditAddCaption \<Longrightarrow> op_CreateAs operation \<noteq> None \<and> op_TrackID operation \<noteq> None"
    and "op_Type operation = EditUpdateCaption \<or> op_Type operation = EditRemoveCaption \<Longrightarrow> op_CaptionID operation \<noteq> None"
    and "op_Type operation = EditAddCaption \<or> op_Type operation = EditUpdateCaption \<Longrightarrow>
      validRange (op_Range operation) \<and> validLanguage bcp47 (op_Language operation) \<and> validText (op_Text operation)"
  by (insert assms, safe) (simp_all add: validate_sequence split: if_splits)

lemma alignment_fields:
  assumes "validateEditOperation bcp47 operation"
  shows "op_Type operation = EditBindAlignment \<Longrightarrow> op_CreateAs operation \<noteq> None \<and> op_NarrativeNode operation \<noteq> None"
    and "op_Type operation \<in> {EditRemapAlignment, EditMarkAlignmentStale, EditUnbindAlignment} \<Longrightarrow> op_AlignmentID operation \<noteq> None"
    and "op_Type operation = EditBindAlignment \<or> op_Type operation = EditRemapAlignment \<Longrightarrow> validAlignmentTargetInputs (op_AlignmentTargets operation)"
  by (insert assms, safe) (simp_all add: validate_sequence split: if_splits)

lemma clip_fields:
  assumes "validateEditOperation bcp47 operation"
  shows "op_Type operation = EditAddClip \<Longrightarrow> op_CreateAs operation \<noteq> None \<and> op_TrackID operation \<noteq> None \<and> op_AssetID operation \<noteq> None \<and>
      op_SourceStreamID operation \<noteq> None \<and> op_Enabled operation \<noteq> None \<and> validSourceRange (op_SourceRange operation) \<and> validRange (op_TimelineRange operation)"
    and "op_Type operation = EditSetClipPlacement \<Longrightarrow> validExistingReference (op_Clip operation)"
  by (insert assms, safe) (simp_all add: validate_sequence split: if_splits)

lemma clip_mutation_fields:
  assumes "validateEditOperation bcp47 operation"
  shows "op_Type operation \<in> {EditMoveClip, EditTrimClip, EditSplitClip, EditRemoveClip} \<Longrightarrow>
      validExistingReference (op_Clip operation) \<and> (op_Scope operation = Some ClipScopeLinked \<or> op_Scope operation = Some ClipScopeSingle)"
    and "op_Type operation = EditMoveClip \<Longrightarrow> op_TrackID operation \<noteq> None \<and> validTime (op_TimelineStart operation)"
    and "op_Type operation = EditTrimClip \<Longrightarrow> validSourceRange (op_SourceRange operation) \<and> validRange (op_TimelineRange operation)"
    and "op_Type operation = EditSplitClip \<Longrightarrow> validTime (op_SplitAt operation) \<and>
      (op_Scope operation = Some ClipScopeLinked \<longrightarrow> op_LeftLinkGroupAs operation \<noteq> None \<and> op_RightLinkGroupAs operation \<noteq> None)"
    and "op_Type operation = EditLinkClips \<Longrightarrow> op_CreateLinkGroupAs operation \<noteq> None"
    and "op_Type operation = EditUnlinkClips \<Longrightarrow> validExistingReference (op_LinkGroup operation)"
  by (insert assms, safe) (simp_all add: validate_clips validScope_def split: if_splits)

lemma transcript_fields:
  assumes "validateEditOperation bcp47 operation"
  shows "op_Type operation = EditAddTranscriptCorrection \<Longrightarrow> op_CreateAs operation \<noteq> None \<and> op_TranscriptArtifactID operation \<noteq> None \<and>
      op_AssetID operation \<noteq> None \<and> validSourceRange (op_SourceRange operation) \<and> validLanguage bcp47 (op_Language operation) \<and> validCorrectionText (op_Text operation)"
    and "op_Type operation = EditUpdateTranscriptCorrection \<Longrightarrow> op_TranscriptCorrectionID operation \<noteq> None \<and>
      validLanguage bcp47 (op_Language operation) \<and> validCorrectionText (op_Text operation)"
    and "op_Type operation = EditRemoveTranscriptCorrection \<Longrightarrow> op_TranscriptCorrectionID operation \<noteq> None"
    and "op_Type operation = EditInsertSourceExcerpt \<Longrightarrow> op_CreateAs operation \<noteq> None \<and> op_ParentID operation \<noteq> None \<and>
      op_TranscriptArtifactID operation \<noteq> None \<and> op_AssetID operation \<noteq> None \<and> op_AcceptedFingerprint operation \<noteq> None \<and>
      validSourceRange (op_SourceRange operation) \<and> validLanguage bcp47 (op_Language operation)"
    and "op_Type operation = EditDeriveCaptions \<Longrightarrow> op_NarrativeNode operation \<noteq> None \<and> op_Clip operation \<noteq> None \<and> op_TrackID operation \<noteq> None \<and>
      op_CaptionPolicy operation \<noteq> None \<and> validDerivedCaptionOutputs (op_DerivedCaptions operation)"
  by (insert assms, safe) (simp_all add: validate_transcript split: if_splits option.splits)

lemma rough_cut_fields:
  assumes "validateEditOperation bcp47 operation" "op_Type operation = EditDeriveRoughCut"
  shows "op_RoughCutTimelineStart operation \<noteq> None \<and> op_RoughCutLocalPrefix operation \<noteq> None"
  using assms by (auto simp: validateEditOperation_def validateRoughCutOperation_def split: if_splits option.splits)

section \<open>No nil dereference\<close>

definition safe :: "edit_error + 'a \<Rightarrow> bool" where
  "safe m \<longleftrightarrow> m \<noteq> Inl PanicNil"

named_theorems nil_safe \<open>calls that never dereference a nil pointer\<close>

lemma safe_simps [simp]:
  "safe (Inr x)" "safe (Inl e) \<longleftrightarrow> e \<noteq> PanicNil" "e \<noteq> PanicNil \<Longrightarrow> safe (orError e r)" "e \<noteq> PanicNil \<Longrightarrow> safe (someOr e p)"
  "safe (deref q) \<longleftrightarrow> q \<noteq> None" "safe (fetch m k)"
  by (auto simp: safe_def go_result fetch_def)

lemma safe_andThen [simp]: "safe (andThen m f) \<longleftrightarrow> safe m \<and> (\<forall>x. m = Inr x \<longrightarrow> safe (f x))"
  by (cases m) (auto simp: safe_def)

lemma safe_if [simp]: "safe (if b then x else y) \<longleftrightarrow> (b \<longrightarrow> safe x) \<and> (\<not> b \<longrightarrow> safe y)"
  by simp

lemma safe_forEach: "(\<And>x s. x \<in> set xs \<Longrightarrow> safe (f x s)) \<Longrightarrow> safe (forEach f xs s)"
  by (induction xs arbitrary: s) auto

lemma helpers_safe [nil_safe]:
  "safe (markTouched kind ident n)" "safe (require kind ident revision n)" "safe (allocated local kind n)"
  "safe (resolveReference reference kind n)" "safe (resolveTyped kind reference n)" "safe (resolveNodeReference reference n)"
  "safe (resolveCaptionReference reference n)" "safe (resolveClipReference reference n)" "safe (mustNext r)"
  by (auto simp: markTouched_def require_def allocated_def resolveReference_def resolveTyped_def resolveNodeReference_def
    resolveCaptionReference_def resolveClipReference_def mustNext_def split: option.split sum.split)

lemma narrative_helpers_safe [nil_safe]:
  "safe (requireNarrativeParent parent n)" "safe (resolveNarrativeNodeReference r n)"
  by (auto simp: requireNarrativeParent_def resolveNarrativeNodeReference_def nil_safe split: option.split sum.split)

lemma newNarrativeNode_safe [nil_safe]:
  assumes "validateEditOperation bcp47 operation"
  shows "safe (newNarrativeNode operation ident parent after)"
  using narrative_fields [OF assms] by (auto simp: newNarrativeNode_def split: EditOperationType.split)

lemma updatedNarrativeNode_safe [nil_safe]:
  assumes "validateEditOperation bcp47 operation" "operationMatchesNarrativeKind (op_Type operation) node"
  shows "safe (updatedNarrativeNode operation revision node)"
  using narrative_fields [OF assms(1)] assms(2) by (cases node) auto

lemma narrative_safe [nil_safe]:
  assumes v: "validateEditOperation bcp47 operation"
  shows "op_Type operation \<in> {EditInsertSection, EditInsertAuthoredText, EditInsertVisualIntent, EditInsertNote} \<Longrightarrow> safe (insertNarrativeNode operation n)"
    and "op_Type operation \<in> {EditUpdateSection, EditUpdateAuthoredText, EditUpdateVisualIntent, EditUpdateNote} \<Longrightarrow> safe (updateNarrativeNode operation n)"
    and "op_Type operation = EditMoveNarrativeNode \<Longrightarrow> safe (moveNarrativeNode operation n)"
    and "op_Type operation = EditRemoveNarrativeNode \<Longrightarrow> safe (removeNarrativeNode operation n)"
  using narrative_fields [OF v]
  by (auto simp: insertNarrativeNode_def updateNarrativeNode_def moveNarrativeNode_def removeNarrativeNode_def Let_def nil_safe
    newNarrativeNode_safe [OF v] updatedNarrativeNode_safe [OF v])

lemma caption_safe [nil_safe]:
  assumes "validateEditOperation bcp47 operation"
  shows "op_Type operation = EditAddCaption \<Longrightarrow> safe (addCaption operation n)"
    and "op_Type operation = EditUpdateCaption \<Longrightarrow> safe (updateCaption operation False n)"
    and "op_Type operation = EditRemoveCaption \<Longrightarrow> safe (updateCaption operation True n)"
  using caption_fields [OF assms] by (auto simp: addCaption_def updateCaption_def Let_def nil_safe)

text \<open>A target has the fields of its type.\<close>

definition target_fields :: "alignment_target_input \<Rightarrow> bool" where
  "target_fields input \<longleftrightarrow>
    (ati_Type input = AlignmentTargetCaption \<longrightarrow> ati_Caption input \<noteq> None \<and> ati_LocalRange input \<noteq> None) \<and>
    (ati_Type input = AlignmentTargetClip \<longrightarrow> ati_Clip input \<noteq> None \<and> ati_LocalRange input \<noteq> None) \<and>
    (ati_Type input = AlignmentTargetTimeline \<longrightarrow> ati_SequenceRevision input \<noteq> None \<and> ati_TimelineRange input \<noteq> None)"

lemma validated_target: "validAlignmentTargetInput kind input \<Longrightarrow> target_fields input"
  by (cases "ati_Type input") (auto simp: validAlignmentTargetInput_def target_fields_def split: if_splits option.splits)

lemma validated_targets: "validAlignmentTargetInputs inputs \<Longrightarrow> list_all target_fields inputs"
  unfolding validAlignmentTargetInputs_def by (auto simp: list_all_iff intro: validated_target split: if_splits)

lemma normalizeAlignmentTargets_safe [nil_safe]:
  assumes "list_all target_fields inputs"
  shows "safe (normalizeAlignmentTargets inputs allowTouched n)"
proof -
  have "safe (normalizeAlignmentTarget allowTouched n x s)" if "x \<in> set inputs" for x s
    using assms that
    by (auto simp: list_all_iff target_fields_def normalizeAlignmentTarget_def nil_safe split: if_splits AlignmentTargetType.splits)
  then show ?thesis by (auto simp: normalizeAlignmentTargets_def Let_def intro!: safe_forEach)
qed

lemma updateAlignment_safe [nil_safe]: "safe (updateAlignment ident status n)"
  by (simp add: updateAlignment_def Let_def nil_safe)

lemma bindAlignment_safe [nil_safe]:
  assumes "op_CreateAs operation \<noteq> None" "op_NarrativeNode operation \<noteq> None" "list_all target_fields (op_AlignmentTargets operation)"
  shows "safe (bindAlignment operation n)"
  using assms by (auto simp: bindAlignment_def Let_def nil_safe)

lemma remapAlignment_safe [nil_safe]:
  assumes "op_AlignmentID operation \<noteq> None" "list_all target_fields (op_AlignmentTargets operation)"
  shows "safe (remapAlignment operation n)"
  using assms(1) normalizeAlignmentTargets_safe [OF assms(2)]
  by (auto simp: remapAlignment_def Let_def nil_safe safe_def [of "normalizeAlignmentTargets _ _ _"] split: sum.splits)

lemma clip_helpers_safe [nil_safe]:
  "safe (requireTrack track n)" "safe (resolveClipLinkGroup operation n)" "safe (createLinkGroup local n)" "safe (tombstoneLinkGroup ident n)"
  "safe (advanceLinkGroup ident members n)" "safe (allocatedClipID local n)" "safe (rangeWithBoundaryDeltas r a b)" "safe (keepAlignment alignment n)"
  by (auto simp: requireTrack_def resolveClipLinkGroup_def createLinkGroup_def tombstoneLinkGroup_def advanceLinkGroup_def allocatedClipID_def
    rangeWithBoundaryDeltas_def keepAlignment_def Let_def nil_safe split: option.split)

lemma putClip_safe [nil_safe]: "safe (putExistingClip current next_state changed n)" "safe (putNewClip state n)"
  by (auto simp: putExistingClip_def putNewClip_def Let_def nil_safe)

lemma unlinkMember_safe [nil_safe]: "safe (unlinkMember ident n)"
  by (simp add: unlinkMember_def Let_def nil_safe)

lemma finishSingleMembershipRemoval_safe [nil_safe]: "safe (finishSingleMembershipRemoval ident n)"
  by (auto simp: finishSingleMembershipRemoval_def Let_def nil_safe intro!: safe_forEach)

lemma addClip_safe [nil_safe]:
  assumes "op_CreateAs operation \<noteq> None" "op_TrackID operation \<noteq> None" "op_AssetID operation \<noteq> None" "op_SourceStreamID operation \<noteq> None"
    "op_Enabled operation \<noteq> None" "op_SourceRange operation \<noteq> None" "op_TimelineRange operation \<noteq> None"
  shows "safe (addClip operation n)"
  using assms by (auto simp: addClip_def Let_def nil_safe split: prod.split)

lemma clipMutationMembers_safe [nil_safe]:
  assumes "op_Clip operation \<noteq> None" "op_Scope operation \<noteq> None"
  shows "safe (clipMutationMembers operation change n)"
  using assms by (auto simp: clipMutationMembers_def Let_def checkMember_def nil_safe split: option.split intro!: safe_forEach)

lemma move_trim_safe [nil_safe]:
  assumes "op_Clip operation \<noteq> None" "op_Scope operation \<noteq> None"
  shows "op_TrackID operation \<noteq> None \<Longrightarrow> op_TimelineStart operation \<noteq> None \<Longrightarrow> safe (moveClip operation n)"
    and "op_SourceRange operation \<noteq> None \<Longrightarrow> op_TimelineRange operation \<noteq> None \<Longrightarrow> safe (trimClip operation n)"
  using assms
  by (auto simp: moveClip_def moveMember_def trimClip_def trimMember_def Let_def nil_safe split: prod.split intro!: safe_forEach)

lemma splitMember_safe [nil_safe]: "safe (splitMember t outputs left right ident n)"
  by (auto simp: splitMember_def splitClipStates_def Let_def nil_safe split: prod.split)

lemma splitClip_safe [nil_safe]:
  assumes "op_Clip operation \<noteq> None" "op_Scope operation \<noteq> None" "op_SplitAt operation \<noteq> None"
    "op_Scope operation = Some ClipScopeLinked \<longrightarrow> op_LeftLinkGroupAs operation \<noteq> None \<and> op_RightLinkGroupAs operation \<noteq> None"
  shows "safe (splitClip operation n)"
  using assms by (auto simp: splitClip_def Let_def nil_safe split: prod.split option.split intro!: safe_forEach)

lemma removeClip_safe [nil_safe]:
  assumes "op_Clip operation \<noteq> None" "op_Scope operation \<noteq> None"
  shows "safe (removeClip operation n)"
  using assms by (auto simp: removeClip_def removeMember_def Let_def nil_safe split: prod.split option.split intro!: safe_forEach)

lemma link_safe [nil_safe]:
  "op_CreateLinkGroupAs operation \<noteq> None \<Longrightarrow> safe (linkClips operation n)"
  "op_LinkGroup operation \<noteq> None \<Longrightarrow> safe (unlinkClips operation n)"
  by (auto simp: linkClips_def linkMember_def unlinkClips_def unlinkGroupMember_def Let_def nil_safe split: prod.split intro!: safe_forEach)

lemma setClipPlacement_safe [nil_safe]: "op_Clip operation \<noteq> None \<Longrightarrow> safe (setClipPlacement operation n)"
  by (auto simp: setClipPlacement_def Let_def nil_safe split: option.split sum.split intro!: safe_forEach)

lemma transcript_helpers_safe [nil_safe]:
  "safe (transcriptEvidenceSpan artifact ids r)" "safe (collectCorrections artifact_id language r corrections provided)"
  "safe (sourceExcerptCorrections artifact_id language r references n)"
  by (auto simp: transcriptEvidenceSpan_def addSegment_def addTokens_def addToken_def tokenInside_def collectCorrections_def takeCorrection_def
    sourceExcerptCorrections_def provideCorrection_def Let_def nil_safe split: prod.split intro!: safe_forEach)

lemma effectiveTokens_safe: "safe (effectiveTokens k tokens corrections skipped previous acc)"
  by (induction k tokens corrections skipped previous acc rule: effectiveTokens.induct) auto

lemma effectiveTranscriptText_safe [nil_safe]: "safe (effectiveTranscriptText tokens corrections)"
  by (auto simp: effectiveTranscriptText_def effectiveTokens_safe Let_def split: prod.split)

lemma transcript_safe [nil_safe]:
  assumes "validateEditOperation bcp47 operation"
  shows "op_Type operation = EditAddTranscriptCorrection \<Longrightarrow> safe (addTranscriptCorrection operation n)"
    and "op_Type operation = EditUpdateTranscriptCorrection \<Longrightarrow> safe (updateTranscriptCorrection operation False n)"
    and "op_Type operation = EditRemoveTranscriptCorrection \<Longrightarrow> safe (updateTranscriptCorrection operation True n)"
    and "op_Type operation = EditInsertSourceExcerpt \<Longrightarrow> safe (insertSourceExcerpt operation n)"
  using transcript_fields [OF assms]
  by (auto simp: addTranscriptCorrection_def updateTranscriptCorrection_def insertSourceExcerpt_def Let_def nil_safe split: prod.split)

lemma deriveCaptions_safe [nil_safe]:
  assumes "validateEditOperation bcp47 operation" "op_Type operation = EditDeriveCaptions"
  shows "safe (deriveCaptions env operation n)"
  using transcript_fields(5) [OF assms]
  by (auto simp: deriveCaptions_def deriveCaption_def requireCorrection_def Let_def nil_safe split: prod.split intro!: safe_forEach)

lemma BuildRoughCutOperation_safe [nil_safe]: "safe (BuildRoughCutOperation env state start prefix items)"
  by (auto simp: BuildRoughCutOperation_def buildRoughCutItem_def roughCutLane_def roughCutLocal_def Let_def split: prod.split option.split
    intro!: safe_forEach)

lemma deriveRoughCutOutput_safe [nil_safe]: "safe (deriveRoughCutOutput output_lanes n)"
proof -
  have "safe (addClip (roughCutClip excerpt output_lanes lane) m)" for excerpt lane m
    by (rule addClip_safe) (auto simp: roughCutClip_def Let_def split: prod.split)
  moreover have "list_all target_fields targets" if "forEach (roughCutTarget output_lanes) lanes [] = Inr targets" for lanes targets
    using that by (rule forEach_invariant) (auto simp: roughCutTarget_def target_fields_def)
  ultimately show ?thesis
    by (auto simp: deriveRoughCutOutput_def Let_def roughCutTarget_def intro!: safe_forEach bindAlignment_safe)
qed

lemma deriveRoughCut_safe [nil_safe]:
  assumes "validateEditOperation bcp47 operation" "op_Type operation = EditDeriveRoughCut"
  shows "safe (deriveRoughCut env operation n)"
  using rough_cut_fields [OF assms] by (auto simp: deriveRoughCut_def nil_safe intro!: safe_forEach)

lemma normalizeEntityOperation_safe:
  assumes v: "validateEditOperation bcp47 operation"
  shows "safe (normalizeEntityOperation env operation n)"
  using clip_fields [OF v] clip_mutation_fields [OF v]
  by (auto simp: normalizeEntityOperation_def narrative_safe [OF v] caption_safe [OF v] transcript_safe [OF v] deriveCaptions_safe [OF v]
    deriveRoughCut_safe [OF v] addClip_safe move_trim_safe splitClip_safe removeClip_safe link_safe setClipPlacement_safe
    split: EditOperationType.split)

lemma normalizeAlignmentOperation_safe:
  assumes v: "validateEditOperation bcp47 operation"
  shows "safe (normalizeAlignmentOperation operation n)"
  using alignment_fields [OF v] validated_targets
  by (auto simp: normalizeAlignmentOperation_def bindAlignment_safe remapAlignment_safe nil_safe split: EditOperationType.split)

lemma declareLocal_safe [nil_safe]: "safe (declareLocal parse entry created)"
  by (auto simp: declareLocal_def Let_def split: prod.split)

lemma declareOptional_safe [nil_safe]: "safe (declareOptional local kind created)"
  by (simp add: declareOptional_def nil_safe split: option.split)

lemma validateEditProposeInput_safe [nil_safe]: "safe (validateEditProposeInput bcp47 input)"
  by (auto simp: validateEditProposeInput_def checkPrecondition_def checkOperation_def declareOperation_def checkReferences_def Let_def nil_safe
    split: prod.split option.split intro!: safe_forEach)

lemma input_safe [nil_safe]: "safe (validateNormalizationInput env input)" "safe (newEditNormalizer input)"
  by (auto simp: validateNormalizationInput_def newEditNormalizer_def addAllocation_def Let_def nil_safe split: CreativeActor.split intro!: safe_forEach)

text \<open>The handlers keep the request, whatever state they start from.\<close>

interpretation rs: sequence_frame n_input
  by unfold_locales simp_all

interpretation rn: narrative_frame n_input
  by unfold_locales simp_all

lemmas request_kept = rs.addCaption_part rs.updateCaption_part rs.deriveCaptions_part rs.addTranscriptCorrection_part rs.updateTranscriptCorrection_part
  rs.addClip_part rs.moveClip_part rs.trimClip_part rs.splitClip_part rs.removeClip_part rs.linkClips_part rs.unlinkClips_part
  rs.setClipPlacement_part rs.deriveRoughCut_part rn.insertNarrativeNode_part rn.updateNarrativeNode_part rn.moveNarrativeNode_part
  rn.removeNarrativeNode_part rn.insertSourceExcerpt_part

lemma normalizeEntityOperations_input:
  assumes "normalizeEntityOperations env n = Inr m"
  shows "n_input m = n_input n"
proof -
  have "n_input b = n_input a" if "normalizeEntityOperation env operation a = Inr b" for operation a b
    using that unfolding normalizeEntityOperation_def by (cases "op_Type operation") (auto dest: request_kept)
  with assms show ?thesis unfolding normalizeEntityOperations_def by (rule rs.forEach_part)
qed

lemma normalizeOperations_safe:
  assumes "list_all (validateEditOperation bcp47) (in_Operations (ni_Input (n_input n)))"
  shows "safe (normalizeOperations env n)"
proof -
  have "safe (normalizeEntityOperations env n)" using assms unfolding normalizeEntityOperations_def list_all_iff
    by (auto intro!: safe_forEach normalizeEntityOperation_safe)
  moreover have "safe (normalizeAlignmentOperations m)" if "normalizeEntityOperations env n = Inr m" for m
    using assms normalizeEntityOperations_input [OF that] unfolding normalizeAlignmentOperations_def list_all_iff
    by (auto intro!: safe_forEach normalizeAlignmentOperation_safe)
  moreover have "safe (validateAlignmentEffects m)" for m
    by (auto simp: validateAlignmentEffects_def split: prod.split intro!: safe_forEach)
  ultimately show ?thesis by (simp add: normalizeOperations_def)
qed

lemma appendAggregateChanges_safe [nil_safe]: "safe (appendAggregateChanges n)"
  by (auto simp: appendAggregateChanges_def addAggregate_def nil_safe split: prod.split intro!: safe_forEach)

text \<open>C13. The normalizer never dereferences a nil pointer: whatever the request, every optional field it reads was
  checked to be present when the request was validated.\<close>

theorem normalizer_nil_safe: "NormalizeEditProposal env input \<noteq> Inl PanicNil"
proof -
  have "safe (normalizeOperations env n)" if "validateNormalizationInput env input = Inr ()" "newEditNormalizer input = Inr n" for n
  proof -
    have "n_input n = input" using that(2) by (auto simp: newEditNormalizer_def Let_def)
    then show ?thesis using normalizeOperations_safe validated_operations [OF that(1)] by simp
  qed
  then have "safe (NormalizeEditProposal env input)"
    by (auto simp: NormalizeEditProposal_def Let_def nil_safe split: prod.split)
  then show ?thesis by (simp add: safe_def)
qed

end
