(* ===== verification/Clip_Soundness.thy ===== *)
theory Clip_Soundness
  imports Timeline Validated_Requests
begin

text \<open>
  Every clip plays what it shows: on the timeline it is as long as in its source, starts at or after zero, and its source
  range lies in its stream. Validation and normalization keep this together: the validator checks the ranges of the
  request, the handlers check them against the streams and compute those of moved, trimmed and split clips.
\<close>

section \<open>Ranges in a stream\<close>

definition stream_start :: "stream_descriptor \<Rightarrow> rat option" where
  "stream_start d = (case sd_StartTime d of None \<Rightarrow> Some 0 | Some t \<Rightarrow> if rt_valid t then Some (rt_val t) else None)"

lemma sourceRangeWithin_iff:
  "sourceRangeWithin s d \<longleftrightarrow> range_ok s \<and> 0 < rt_val (tr_Duration s) \<and>
    (\<exists>from. stream_start d = Some from \<and> from \<le> range_from s \<and>
      (case sd_Duration d of None \<Rightarrow> True
       | Some u \<Rightarrow> rt_valid u \<and> 0 \<le> rt_val u \<and> (\<exists>e. rt_valid e \<and> rt_val e = from + rt_val u) \<and> range_upto s \<le> from + rt_val u))"
proof (cases "range_ok s")
  case True
  then obtain e where e: "TimeRange_End s = Inr e" "rt_valid e" "rt_val e = range_upto s" "rt_valid (tr_Start s)" "rt_valid (tr_Duration s)"
    by (rule range_okE)
  obtain zero where zero: "NewRationalTime 0 1 = Inr zero" "rt_valid zero" "rt_val zero = 0"
    using NewRationalTime_total [of 1 0] NewRationalTime_val [of 0 1] by fastforce
  define cs where "cs = (case sd_StartTime d of None \<Rightarrow> zero | Some t \<Rightarrow> t)"
  show ?thesis
  proof (cases "rt_valid cs")
    case valid: True
    have from_cs: "stream_start d = Some (rt_val cs)" using valid zero by (auto simp: cs_def stream_start_def split: option.split)
    have starts: "RationalTime_Compare (tr_Start s) cs = Inr (sgn_rat (range_from s - rt_val cs))"
      using e valid by (simp add: Compare_Inr range_from_def)
    have ends: "(case andThen (RationalTime_Add cs u) (\<lambda>c. RationalTime_Compare e c) of Inl _ \<Rightarrow> False | Inr k \<Rightarrow> k \<le> 0) \<longleftrightarrow>
        (\<exists>c. rt_valid c \<and> rt_val c = rt_val cs + rt_val u) \<and> range_upto s \<le> rt_val cs + rt_val u" if "rt_valid u" for u
    proof (cases "RationalTime_Add cs u")
      case (Inr c)
      then have c: "rt_valid c" "rt_val c = rt_val cs + rt_val u" using Add_Inr [of cs u c] by auto
      then have "RationalTime_Compare e c = Inr (sgn_rat (range_upto s - rt_val c))" using e by (simp add: Compare_Inr)
      then show ?thesis using Inr c by (auto simp: sgn_rat_def)
    next
      case (Inl _)
      then show ?thesis using Add_Inr [of cs u] valid that by auto
    qed
    have ok: "\<not> (case sd_StartTime d of None \<Rightarrow> False | Some t \<Rightarrow> \<not> isOk (RationalTime_Validate t))"
      using valid by (auto simp: cs_def Validate_cases split: option.splits)
    show ?thesis using e valid ok
      by (auto simp: sourceRangeWithin_def Validate_cases rt_val_pos_iff rt_val_neg_iff zero(1) cs_def [symmetric] starts from_cs ends sgn_rat_def True
        split: option.split)
  next
    case False
    then show ?thesis using zero by (auto simp: sourceRangeWithin_def cs_def stream_start_def Validate_cases e split: option.splits)
  qed
next
  case False
  then show ?thesis by (auto simp: sourceRangeWithin_def range_ok_def split: sum.splits)
qed

lemma sourceRangeWithin_mono:
  "sourceRangeWithin s d \<Longrightarrow> range_ok s' \<Longrightarrow> 0 < rt_val (tr_Duration s') \<Longrightarrow> range_from s \<le> range_from s' \<Longrightarrow> range_upto s' \<le> range_upto s \<Longrightarrow>
    sourceRangeWithin s' d"
  by (auto simp: sourceRangeWithin_iff split: option.splits intro: order_trans)

section \<open>Sound clips\<close>

definition clip_sound :: "edit_normalization_state \<Rightarrow> clip_state \<Rightarrow> bool" where
  "clip_sound state c \<longleftrightarrow> rt_valid (tr_Start (clip_TimelineRange c)) \<and> 0 \<le> range_from (clip_TimelineRange c) \<and>
    rt_valid (tr_Duration (clip_TimelineRange c)) \<and> rt_val (tr_Duration (clip_TimelineRange c)) = rt_val (tr_Duration (clip_SourceRange c)) \<and>
    0 < rt_val (tr_Duration (clip_SourceRange c)) \<and> range_ok (clip_SourceRange c) \<and>
    (\<forall>stream. gm_lookup (st_SourceStreams state) (clip_SourceStreamID c) = Some stream \<longrightarrow>
      sourceRangeWithin (clip_SourceRange c) (str_Descriptor stream) \<and>
      (\<forall>track. gm_lookup (st_Tracks state) (clip_TrackID c) = Some track \<longrightarrow> trackAcceptsStream track stream))"

definition clips_sound :: "edit_normalizer \<Rightarrow> bool" where
  "clips_sound n \<longleftrightarrow> (\<forall>i c. gm_lookup (n_clips n) i = Some c \<longrightarrow> clip_sound (n_state n) c)"

text \<open>The ways a handler writes clips.\<close>

interpretation kk: alignment_frame "\<lambda>n. (n_clips n, n_input n)"
  by unfold_locales simp_all

lemma markTouched_clips: "markTouched kind ident n = Inr m \<Longrightarrow> n_clips m = n_clips n \<and> n_input m = n_input n"
  using kk.part_markTouched by auto

lemma requireTrack_clips: "requireTrack track n = Inr m \<Longrightarrow> n_clips m = n_clips n \<and> n_input m = n_input n"
  unfolding requireTrack_def by auto

lemma putExistingClip_clips:
  assumes "putExistingClip current c changed n = Inr m"
  shows "n_clips m = gm_set (n_clips n) (clip_ID current) c \<and> n_input m = n_input n"
  using assms unfolding putExistingClip_def Let_def
  by (elim andThenE checkE) (auto dest!: markTouched_clips requireTrack_clips simp: addChange_def putEntity_def appendOperation_def split: if_splits)

lemma putNewClip_clips:
  assumes "putNewClip c n = Inr m"
  shows "n_clips m = gm_set (n_clips n) (clip_ID c) c \<and> n_input m = n_input n"
  using assms unfolding putNewClip_def Let_def
  by (elim andThenE checkE) (auto dest!: markTouched_clips requireTrack_clips simp: addChange_def putEntity_def appendOperation_def split: if_splits)

lemma createLinkGroup_clips: "createLinkGroup local n = Inr (ident, m) \<Longrightarrow> n_clips m = n_clips n \<and> n_input m = n_input n"
  unfolding createLinkGroup_def Let_def
  by (elim andThenE checkE) (auto dest!: markTouched_clips simp: addChange_def putEntity_def appendOperation_def)

lemma tombstoneLinkGroup_clips: "tombstoneLinkGroup ident n = Inr m \<Longrightarrow> n_clips m = n_clips n \<and> n_input m = n_input n"
  unfolding tombstoneLinkGroup_def Let_def
  by (elim andThenE checkE) (auto dest!: markTouched_clips simp: addChange_def putEntity_def appendOperation_def)

lemma advanceLinkGroup_clips: "advanceLinkGroup ident members n = Inr m \<Longrightarrow> n_clips m = n_clips n \<and> n_input m = n_input n"
  unfolding advanceLinkGroup_def Let_def
  by (elim andThenE checkE) (auto dest!: markTouched_clips simp: addChange_def putEntity_def appendOperation_def)

lemma resolveClipLinkGroup_clips: "resolveClipLinkGroup operation n = Inr (g, m) \<Longrightarrow> n_clips m = n_clips n \<and> n_input m = n_input n"
  unfolding resolveClipLinkGroup_def Let_def
  by (auto dest!: markTouched_clips simp: addChange_def putEntity_def appendOperation_def split: option.splits if_splits)

text \<open>Clips with the given members stay sound and keep those members.\<close>

definition sound_with :: "ClipID list \<Rightarrow> edit_normalizer \<Rightarrow> bool" where
  "sound_with members n \<longleftrightarrow> clips_sound n \<and> (\<forall>i \<in> set members. gm_has (n_clips n) i)"

lemma sound_with_member: "sound_with members n \<Longrightarrow> i \<in> set members \<Longrightarrow> clip_sound (n_state n) (gm_get zero_clip (n_clips n) i)"
  using gm_has_lookup [of "n_clips n" i zero_clip] by (auto simp: sound_with_def clips_sound_def)

lemma sound_with_put:
  assumes "sound_with members n" "n_clips m = gm_set (n_clips n) k c \<and> n_input m = n_input n" "clip_sound (n_state n) c"
  shows "sound_with members m"
  using assms by (auto simp: sound_with_def clips_sound_def split: if_splits)

lemma sound_with_same: "n_clips m = n_clips n \<and> n_input m = n_input n \<Longrightarrow> sound_with members m \<longleftrightarrow> sound_with members n"
  by (auto simp: sound_with_def clips_sound_def)

lemma clip_sound_marks [simp]:
  "clip_sound state (c\<lparr>clip_Revision := r\<rparr>) = clip_sound state c" "clip_sound state (c\<lparr>clip_Tombstoned := b\<rparr>) = clip_sound state c"
  "clip_sound state (c\<lparr>clip_LinkGroupID := g\<rparr>) = clip_sound state c" "clip_sound state (c\<lparr>clip_Placement := p\<rparr>) = clip_sound state c"
  by (simp_all add: clip_sound_def)

lemma forEach_sound:
  assumes "forEach f xs n = Inr m" "sound_with members n" "\<And>x a b. x \<in> set xs \<Longrightarrow> f x a = Inr b \<Longrightarrow> sound_with members a \<Longrightarrow> sound_with members b"
  shows "sound_with members m"
  using assms by (induction xs arbitrary: n) auto

section \<open>Each handler keeps clips sound\<close>

lemma members_present:
  assumes "running n" "clipMutationMembers operation change n = Inr (members, seed)" "clips_sound n"
  shows "sound_with members n"
  using clipMutationMembers_ok [OF assms(1,2)] assms(3) by (auto simp: sound_with_def member_ok_def dest: gm_lookup_has)

lemma sound_of: "sound_with members n \<Longrightarrow> clips_sound n"
  by (simp add: sound_with_def)

lemma moveMember_sound:
  assumes "moveMember operation seed delta ident n = Inr m" "sound_with members n" "ident \<in> set members"
  shows "sound_with members m"
  using assms(1) unfolding moveMember_def Let_def
proof (elim andThenE checkE casePairE, goal_cases)
  case (1 revision start pair next_state m')
  let ?c = "gm_get zero_clip (n_clips n) ident"
  note c = sound_with_member [OF assms(2,3)]
  have start: "rt_valid start" "0 \<le> rt_val start" using 1(2,3) by (auto simp: go_result Add_Inr rt_val_neg_iff)
  have same: "n_clips m' = n_clips n \<and> n_input m' = n_input n" using 1(4,5) by (auto split: if_splits)
  have "clip_sound (n_state n) next_state" using 1(4,5) c start
    by (auto simp: clip_sound_def range_from_def fetch_def go_result split: if_splits)
  then show ?case using sound_with_put [OF _ putExistingClip_clips [OF 1(6)]] sound_with_same [OF same] assms(2) same by simp
qed

lemma moveClip_sound:
  assumes n: "running n" "clips_sound n" and run: "moveClip operation n = Inr m"
  shows "clips_sound m"
proof -
  from run obtain members seed delta where *: "clipMutationMembers operation False n = Inr (members, seed)"
    "forEach (moveMember operation seed delta) members n = Inr m" unfolding moveClip_def by auto
  show ?thesis by (rule sound_of, rule forEach_sound [OF *(2) members_present [OF n(1) *(1) n(2)]]) (rule moveMember_sound)
qed

lemma boundaryDeltas_Inr:
  assumes "rangeWithBoundaryDeltas current left right = Inr r"
  shows "rt_valid (tr_Start r)" "rt_valid (tr_Duration r)" "0 \<le> range_from r" "0 < rt_val (tr_Duration r)"
    "range_from r = range_from current + rt_val left" "range_upto r = range_upto current + rt_val right"
  using assms unfolding rangeWithBoundaryDeltas_def
  by (elim andThenE checkE; force simp: go_result Add_Inr Subtract_Inr End_Inr NewTimeRange_Inr rt_val_neg_iff rt_val_pos_iff range_from_def range_upto_def)+

lemma trimMember_sound:
  assumes "trimMember left right ident n = Inr m" "sound_with members n" "ident \<in> set members"
  shows "sound_with members m"
  using assms(1) unfolding trimMember_def Let_def
proof (elim andThenE checkE, goal_cases)
  case (1 source timeline stream revision)
  note c = sound_with_member [OF assms(2,3)]
  note s = boundaryDeltas_Inr [OF 1(1)] and t = boundaryDeltas_Inr [OF 1(2)]
  have "rt_val (tr_Duration timeline) = rt_val (tr_Duration source)"
    using s(5,6) t(5,6) c by (simp add: clip_sound_def range_from_def range_upto_def)
  then have "clip_sound (n_state n) ((gm_get zero_clip (n_clips n) ident)\<lparr>clip_Revision := revision, clip_SourceRange := source, clip_TimelineRange := timeline\<rparr>)"
    using c 1(4,5) s(4) t(1,2,3) by (auto simp: clip_sound_def fetch_def go_result sourceRangeWithin_iff)
  then show ?case using sound_with_put [OF assms(2) putExistingClip_clips [OF 1(7)]] by simp
qed

lemma trimClip_sound:
  assumes n: "running n" "clips_sound n" and run: "trimClip operation n = Inr m"
  shows "clips_sound m"
proof -
  from run obtain members seed left right where *: "clipMutationMembers operation False n = Inr (members, seed)"
    "forEach (trimMember left right) members n = Inr m" unfolding trimClip_def by auto
  show ?thesis by (rule sound_of, rule forEach_sound [OF *(2) members_present [OF n(1) *(1) n(2)]]) (rule trimMember_sound)
qed

text \<open>The two halves of a split: each plays its part of the source, and together they cover the clip exactly.\<close>

definition split_halves :: "rational_time \<Rightarrow> clip_state \<Rightarrow> clip_state \<Rightarrow> clip_state \<Rightarrow> bool" where
  "split_halves t current left right \<longleftrightarrow>
    range_from (clip_TimelineRange left) = range_from (clip_TimelineRange current) \<and> range_upto (clip_TimelineRange left) = rt_val t \<and>
    range_from (clip_TimelineRange right) = rt_val t \<and> range_upto (clip_TimelineRange right) = range_upto (clip_TimelineRange current) \<and>
    range_from (clip_SourceRange left) = range_from (clip_SourceRange current) \<and> range_upto (clip_SourceRange left) = range_from (clip_SourceRange right) \<and>
    range_upto (clip_SourceRange right) = range_from (clip_SourceRange current) + rt_val (tr_Duration (clip_TimelineRange current)) \<and>
    tr_Duration (clip_SourceRange left) = tr_Duration (clip_TimelineRange left) \<and> tr_Duration (clip_SourceRange right) = tr_Duration (clip_TimelineRange right) \<and>
    range_from (clip_TimelineRange current) < rt_val t \<and> rt_val t < range_upto (clip_TimelineRange current) \<and>
    clip_SourceStreamID left = clip_SourceStreamID current \<and> clip_SourceStreamID right = clip_SourceStreamID current \<and>
    clip_TrackID left = clip_TrackID current \<and> clip_TrackID right = clip_TrackID current"

lemma splitClipStates_Inr:
  assumes "splitClipStates current t out leftGroup rightGroup n = Inr (left, right)"
  obtains offset rest split_source leftID rightID where
    "rt_valid t" "rt_valid offset" "rt_val offset = rt_val t - rt_val (tr_Start (clip_TimelineRange current))" "0 < rt_val offset"
    "rt_valid rest" "rt_val rest = rt_val (tr_Duration (clip_TimelineRange current)) - rt_val offset" "0 < rt_val rest"
    "rt_valid split_source" "rt_val split_source = rt_val (tr_Start (clip_SourceRange current)) + rt_val offset"
    "rt_valid (tr_Start (clip_TimelineRange current))" "rt_valid (tr_Start (clip_SourceRange current))"
    "left = current\<lparr>clip_ID := leftID, clip_Revision := 1, clip_SourceRange := \<lparr>tr_Start = tr_Start (clip_SourceRange current), tr_Duration = offset\<rparr>,
      clip_TimelineRange := \<lparr>tr_Start = tr_Start (clip_TimelineRange current), tr_Duration = offset\<rparr>, clip_LinkGroupID := leftGroup, clip_Tombstoned := False\<rparr>"
    "right = current\<lparr>clip_ID := rightID, clip_Revision := 1, clip_SourceRange := \<lparr>tr_Start = split_source, tr_Duration = rest\<rparr>,
      clip_TimelineRange := \<lparr>tr_Start = t, tr_Duration = rest\<rparr>, clip_LinkGroupID := rightGroup, clip_Tombstoned := False\<rparr>"
  using assms unfolding splitClipStates_def
proof (elim andThenE checkE, goal_cases)
  case (1 offset comparison rest split_source leftRange rightRange leftSource rightSource leftID rightID)
  show ?case by (rule 1(1) [of offset rest split_source leftID rightID])
    (use 1(2-) in \<open>auto simp: go_result Subtract_Inr Add_Inr NewTimeRange_Inr rt_val_pos_iff\<close>)
qed

lemma splitClipStates_halves:
  assumes "splitClipStates current t out leftGroup rightGroup n = Inr (left, right)"
  shows "split_halves t current left right"
  using assms by (rule splitClipStates_Inr) (simp add: split_halves_def range_from_def range_upto_def)

lemma splitClipStates_sound:
  assumes states: "splitClipStates current t out leftGroup rightGroup n = Inr (left, right)" and c: "clip_sound state current"
  shows "clip_sound state left" "clip_sound state right"
proof -
  from states obtain offset rest split_source leftID rightID where
    v: "rt_valid t" "rt_valid offset" "rt_val offset = rt_val t - rt_val (tr_Start (clip_TimelineRange current))" "0 < rt_val offset"
    "rt_valid rest" "rt_val rest = rt_val (tr_Duration (clip_TimelineRange current)) - rt_val offset" "0 < rt_val rest"
    "rt_valid split_source" "rt_val split_source = rt_val (tr_Start (clip_SourceRange current)) + rt_val offset"
    "rt_valid (tr_Start (clip_TimelineRange current))" "rt_valid (tr_Start (clip_SourceRange current))"
    and left: "left = current\<lparr>clip_ID := leftID, clip_Revision := 1, clip_SourceRange := \<lparr>tr_Start = tr_Start (clip_SourceRange current), tr_Duration = offset\<rparr>,
      clip_TimelineRange := \<lparr>tr_Start = tr_Start (clip_TimelineRange current), tr_Duration = offset\<rparr>, clip_LinkGroupID := leftGroup, clip_Tombstoned := False\<rparr>"
    and right: "right = current\<lparr>clip_ID := rightID, clip_Revision := 1, clip_SourceRange := \<lparr>tr_Start = split_source, tr_Duration = rest\<rparr>,
      clip_TimelineRange := \<lparr>tr_Start = t, tr_Duration = rest\<rparr>, clip_LinkGroupID := rightGroup, clip_Tombstoned := False\<rparr>"
    by (rule splitClipStates_Inr)
  let ?s = "clip_SourceRange current"
  have ok: "range_ok \<lparr>tr_Start = tr_Start ?s, tr_Duration = offset\<rparr>" "range_ok \<lparr>tr_Start = split_source, tr_Duration = rest\<rparr>"
  proof -
    obtain e where "TimeRange_End ?s = Inr e" using c by (auto simp: clip_sound_def range_ok_def isOk_iff)
    then have e: "rt_valid e" "rt_val e = range_upto ?s" by (simp_all add: End_Inr)
    have "TimeRange_End \<lparr>tr_Start = tr_Start ?s, tr_Duration = offset\<rparr> = Inr split_source" using v by (simp add: End_Inr)
    moreover have "TimeRange_End \<lparr>tr_Start = split_source, tr_Duration = rest\<rparr> = Inr e"
      using v e c by (simp add: End_Inr clip_sound_def range_upto_def)
    ultimately show "range_ok \<lparr>tr_Start = tr_Start ?s, tr_Duration = offset\<rparr>" "range_ok \<lparr>tr_Start = split_source, tr_Duration = rest\<rparr>"
      by (simp_all add: range_ok_def)
  qed
  show "clip_sound state left" "clip_sound state right"
    using c v ok by (auto simp: clip_sound_def left right range_from_def range_upto_def elim!: sourceRangeWithin_mono)
qed

lemma splitMember_sound:
  assumes "splitMember t outputs g h ident n = Inr m" "sound_with members n" "ident \<in> set members"
  shows "sound_with members m"
proof -
  let ?c = "gm_get zero_clip (n_clips n) ident"
  from assms(1) obtain out left right revision a b where
    states: "splitClipStates ?c t out g h n = Inr (left, right)"
    and put: "putExistingClip ?c (?c\<lparr>clip_Revision := revision, clip_Tombstoned := True\<rparr>) True n = Inr a"
    and new: "putNewClip left a = Inr b" "putNewClip right b = Inr m"
    unfolding splitMember_def Let_def by auto
  note c = sound_with_member [OF assms(2,3)]
  note halves = splitClipStates_sound [OF states c]
  have a: "sound_with members a" "n_input a = n_input n" using sound_with_put [OF assms(2) putExistingClip_clips [OF put]] putExistingClip_clips [OF put] c by simp_all
  then have "sound_with members b" "n_input b = n_input a" using sound_with_put [OF a(1) putNewClip_clips [OF new(1)]] putNewClip_clips [OF new(1)] halves(1) by simp_all
  then show ?thesis using sound_with_put [OF _ putNewClip_clips [OF new(2)]] halves(2) a(2) by simp
qed

lemma unlinkMember_sound:
  assumes "unlinkMember ident n = Inr m" "sound_with members n" "ident \<in> set members"
  shows "sound_with members m"
  using assms(1) sound_with_member [OF assms(2,3)] sound_with_put [OF assms(2) putExistingClip_clips] unfolding unlinkMember_def Let_def by fastforce

lemma finishSingleMembershipRemoval_sound:
  assumes "finishSingleMembershipRemoval ident n = Inr m" "clips_sound n"
  shows "clips_sound m"
proof -
  define survivors where "survivors = filter (\<lambda>memberID. let clip = gm_get zero_clip (n_clips n) memberID in
    \<not> clip_Tombstoned clip \<and> clip_LinkGroupID clip = Some ident) (gm_get [] (n_linkGroupClips n) ident)"
  have n: "sound_with survivors n" using assms(2)
    by (auto simp: sound_with_def survivors_def gm_get_def zero_clip_def gm_has_def split: option.splits)
  from assms(1) consider "advanceLinkGroup ident survivors n = Inr m" |
    a where "forEach unlinkMember survivors n = Inr a"
      "tombstoneLinkGroup ident (a\<lparr>n_linkGroupClips := gm_set (n_linkGroupClips a) ident []\<rparr>) = Inr m"
    unfolding finishSingleMembershipRemoval_def survivors_def Let_def by (auto split: if_splits)
  then show ?thesis
  proof cases
    case 1
    then show ?thesis using assms(2) advanceLinkGroup_clips [OF 1] by (simp add: clips_sound_def)
  next
    case 2
    have "clips_sound a" by (rule sound_of, rule forEach_sound [OF 2(1) n]) (rule unlinkMember_sound)
    then show ?thesis using tombstoneLinkGroup_clips [OF 2(2)] by (simp add: clips_sound_def)
  qed
qed

lemma splitClip_sound:
  assumes n: "running n" "clips_sound n" and run: "splitClip operation n = Inr n'"
  shows "clips_sound n'"
proof -
  from run obtain members seed outputs scope g h a b where
    members: "clipMutationMembers operation True n = Inr (members, seed)"
    and groups: "(if scope = ClipScopeLinked then
        andThen (deref (op_LeftLinkGroupAs operation)) (\<lambda>leftAs.
        andThen (createLinkGroup leftAs n) (\<lambda>(left, n).
        andThen (deref (op_RightLinkGroupAs operation)) (\<lambda>rightAs.
        andThen (createLinkGroup rightAs n) (\<lambda>(right, n).
        Inr (Some left, Some right, n)))))
      else Inr (None, None, n)) = Inr (g, h, a)"
    and loop: "(if members = [] then Inr a else andThen (deref (op_SplitAt operation)) (\<lambda>splitAt.
      forEach (splitMember splitAt outputs g h) members a)) = Inr b"
    and rest: "(if scope = ClipScopeLinked then
      andThen (someOr ErrEditInvalid (clip_LinkGroupID seed)) (\<lambda>groupID. tombstoneLinkGroup groupID b)
    else case clip_LinkGroupID seed of
      Some groupID \<Rightarrow> finishSingleMembershipRemoval groupID b
    | None \<Rightarrow> Inr b) = Inr n'"
    unfolding splitClip_def Let_def by (elim andThenE casePairE checkE, hypsubst) (rule that)
  have "n_clips a = n_clips n \<and> n_input a = n_input n" using groups by (auto dest!: createLinkGroup_clips split: if_splits)
  then have a: "sound_with members a" using members_present [OF n(1) members n(2)] sound_with_same by blast
  have "clips_sound b"
  proof (cases "members = []")
    case False
    with loop obtain t where "forEach (splitMember t outputs g h) members a = Inr b" by auto
    then show ?thesis by (rule sound_of [OF forEach_sound [OF _ a]]) (rule splitMember_sound)
  qed (use loop a in \<open>simp add: sound_with_def\<close>)
  then show ?thesis using rest tombstoneLinkGroup_clips finishSingleMembershipRemoval_sound
    by (fastforce simp: clips_sound_def split: if_splits option.splits)
qed

lemma removeClip_sound:
  assumes n: "running n" "clips_sound n" and run: "removeClip operation n = Inr n'"
  shows "clips_sound n'"
proof -
  from run obtain members seed a where members: "clipMutationMembers operation True n = Inr (members, seed)"
    and loop: "forEach removeMember members n = Inr a"
    and rest: "(case clip_LinkGroupID seed of None \<Rightarrow> Inr a | Some groupID \<Rightarrow>
      andThen (deref (op_Scope operation)) (\<lambda>scope. if scope = ClipScopeLinked then tombstoneLinkGroup groupID a
        else finishSingleMembershipRemoval groupID a)) = Inr n'"
    unfolding removeClip_def by (elim andThenE casePairE, hypsubst) (rule that)
  have "clips_sound a"
  proof (rule sound_of [OF forEach_sound [OF loop members_present [OF n(1) members n(2)]]])
    fix x s t
    assume "x \<in> set members" "removeMember x s = Inr t" "sound_with members s"
    then show "sound_with members t" using sound_with_member [of members s x] sound_with_put [OF _ putExistingClip_clips]
      unfolding removeMember_def Let_def by fastforce
  qed
  then show ?thesis using rest tombstoneLinkGroup_clips finishSingleMembershipRemoval_sound
    by (fastforce simp: clips_sound_def split: if_splits option.splits)
qed

lemma linkClips_sound:
  assumes n: "running n" "clips_sound n" and run: "linkClips operation n = Inr n'"
  shows "clips_sound n'"
proof -
  from run obtain local groupID a b members where create: "createLinkGroup local n = Inr (groupID, a)"
    and loop: "forEach (linkMember groupID) (op_Clips operation) (a, []) = Inr (b, members)"
    and n': "n' = b\<lparr>n_linkGroupClips := gm_set (n_linkGroupClips b) groupID members\<rparr>"
    unfolding linkClips_def by auto
  have a: "clips_sound a" using createLinkGroup_clips [OF create] n(2) by (simp add: clips_sound_def)
  have "(\<lambda>(s, _). clips_sound s) (b, members)"
  proof (rule forEach_invariant [OF loop])
    fix x p q
    assume run: "linkMember groupID x p = Inr q" and p: "(\<lambda>(s, _). clips_sound s) p"
    from run obtain ident c r t where "gm_lookup (n_clips (fst p)) ident = Some c" "fst q = t"
      "putExistingClip c (c\<lparr>clip_Revision := r, clip_LinkGroupID := Some groupID\<rparr>) False (fst p) = Inr t"
      unfolding linkMember_def Let_def by (auto simp: fetch_def go_result split: prod.splits)
    then show "(\<lambda>(s, _). clips_sound s) q" using p putExistingClip_clips [of c _ False "fst p" t]
      by (auto simp: clips_sound_def split: prod.splits if_splits)
  qed (use a in simp)
  then show ?thesis by (simp add: n' clips_sound_def)
qed

lemma unlinkClips_sound:
  assumes n: "running n" "clips_sound n" and run: "unlinkClips operation n = Inr n'"
  shows "clips_sound n'"
proof -
  from run obtain groupID a where loop: "forEach (unlinkGroupMember groupID) (gm_get [] (n_linkGroupClips n) groupID) n = Inr a"
    and rest: "tombstoneLinkGroup groupID (a\<lparr>n_linkGroupClips := gm_set (n_linkGroupClips a) groupID []\<rparr>) = Inr n'"
    unfolding unlinkClips_def by auto
  have "clips_sound a"
  proof (rule forEach_invariant [OF loop])
    fix x s t
    assume run: "unlinkGroupMember groupID x s = Inr t" and s: "clips_sound s"
    let ?c = "gm_get zero_clip (n_clips s) x"
    from run obtain r where put: "putExistingClip ?c (?c\<lparr>clip_Revision := r, clip_LinkGroupID := None\<rparr>) False s = Inr t" and "clip_LinkGroupID ?c = Some groupID"
      unfolding unlinkGroupMember_def Let_def by auto
    then have "gm_lookup (n_clips s) x = Some ?c" by (auto simp: gm_get_def zero_clip_def split: option.splits)
    then show "clips_sound t" using s putExistingClip_clips [OF put] by (auto simp: clips_sound_def split: if_splits)
  qed (rule n(2))
  then show ?thesis using tombstoneLinkGroup_clips [OF rest] by (simp add: clips_sound_def)
qed

lemma setClipPlacement_sound:
  assumes n: "running n" "clips_sound n" and run: "setClipPlacement operation n = Inr n'"
  shows "clips_sound n'"
proof -
  have kept: "n_clips b = n_clips a \<and> n_input b = n_input a" if "keepAlignment x a = Inr b" for x a b
    using that by (auto simp: keepAlignment_def)
  from run obtain ident current track revision placement m where current: "gm_lookup (n_clips n) ident = Some current"
    and loop: "forEach keepAlignment (gm_get [] (st_ClipAlignments (n_state n)) (clip_ID current)) (noteTrack track n) = Inr m"
    and put: "putExistingClip current (current\<lparr>clip_Revision := revision, clip_Placement := placement\<rparr>) False m = Inr n'"
    unfolding setClipPlacement_def Let_def by (elim andThenE checkE) (auto simp: go_result)
  have m: "n_clips m = n_clips n \<and> n_input m = n_input n"
    by (rule forEach_invariant [OF loop]) (use kept in auto)
  then show ?thesis using current n(2) putExistingClip_clips [OF put] by (auto simp: clips_sound_def split: if_splits)
qed

definition media_filed :: "edit_normalization_state \<Rightarrow> bool" where
  "media_filed state \<longleftrightarrow> filed trk_ID (st_Tracks state) \<and> filed str_ID (st_SourceStreams state)"

lemma putClip_maps [simp]:
  "n_clips (addChange c n) = n_clips n" "n_input (addChange c n) = n_input n"
  "n_clips (putEntity i (PutClip k) u n) = gm_set (n_clips n) i k" "n_input (putEntity i (PutClip k) u n) = n_input n"
  "n_clips (joinLinkGroup g i n) = n_clips n" "n_input (joinLinkGroup g i n) = n_input n"
  by (simp_all add: addChange_def putEntity_def appendOperation_def joinLinkGroup_def split: option.split)

lemma addClip_sound:
  assumes n: "clips_sound n" "media_filed (n_state n)" and run: "addClip operation n = Inr n'"
    and ranges: "op_TimelineRange operation = Some r" "0 \<le> range_from r" "rt_valid (tr_Start r)"
  shows "clips_sound n'"
  using run unfolding addClip_def Let_def
proof (elim andThenE checkE casePairE, goal_cases)
  case (1 createAs allocation clipID m trackID track streamID stream assetID u v sourceRange timelineRange pair linkGroupID m' enabled undone)
  have m: "n_clips m = n_clips n \<and> n_input m = n_input n" by (rule markTouched_clips [OF 1(5)])
  have "resolveClipLinkGroup operation m = Inr (linkGroupID, m')" using 1 by simp
  from resolveClipLinkGroup_clips [OF this] m have m': "n_clips m' = n_clips n \<and> n_input m' = n_input n" by simp
  have lookups: "gm_lookup (st_Tracks (n_state n)) trackID = Some track" "gm_lookup (st_SourceStreams (n_state n)) streamID = Some stream"
    "timelineRange = r" using 1 m ranges(1) by (simp_all add: fetch_def go_result)
  have ids: "gm_lookup (st_Tracks (n_state n)) (trk_ID track) = Some track" "gm_lookup (st_SourceStreams (n_state n)) (str_ID stream) = Some stream"
    using lookups n(2) filed_lookup [of trk_ID "st_Tracks (n_state n)" trackID track]
      filed_lookup [of str_ID "st_SourceStreams (n_state n)" streamID stream] by (simp_all add: media_filed_def)
  have source: "sourceRangeWithin sourceRange (str_Descriptor stream)" and "RationalTime_Compare (tr_Duration sourceRange) (tr_Duration r) = Inr 0"
    and accepts: "trackAcceptsStream track stream"
    using 1 lookups(3) by (auto simp: trackAcceptsStream_def)
  then have "rt_valid (tr_Duration r)" "rt_val (tr_Duration r) = rt_val (tr_Duration sourceRange)"
    by (auto simp: Compare_Inr sgn_rat_def split: if_splits)
  then have "clip_sound (n_state n) \<lparr>clip_ID = clipID, clip_Revision = 1, clip_SequenceID = n_sequence m', clip_TrackID = trk_ID track,
      clip_AssetID = str_AssetID stream, clip_SourceStreamID = str_ID stream, clip_SourceRange = sourceRange,
      clip_TimelineRange = timelineRange, clip_Enabled = enabled, clip_LinkGroupID = linkGroupID, clip_Placement = None, clip_Tombstoned = False\<rparr>"
    using source accepts ranges lookups(3) ids by (auto simp: clip_sound_def sourceRangeWithin_iff)
  then show ?case using 1 m' n(1) by (auto simp: clips_sound_def split: if_splits)
qed

definition on_timeline :: "time_range \<Rightarrow> bool" where
  "on_timeline r \<longleftrightarrow> rt_valid (tr_Start r) \<and> 0 \<le> range_from r"

lemma buildRoughCutItem_on_timeline:
  assumes "buildRoughCutItem state prefix indexed (outs, cursor) = Inr (outs', cursor')"
    and "list_all (\<lambda>out. on_timeline (rco_TimelineRange out)) outs" "rt_valid cursor" "0 \<le> rt_val cursor"
  shows "list_all (\<lambda>out. on_timeline (rco_TimelineRange out)) outs' \<and> rt_valid cursor' \<and> 0 \<le> rt_val cursor'"
  using assms unfolding buildRoughCutItem_def Let_def
  by (elim andThenE checkE casePairE) (auto simp: go_result NewTimeRange_Inr End_Inr on_timeline_def)

lemma BuildRoughCutOperation_on_timeline:
  assumes "BuildRoughCutOperation env state start prefix items = Inr operation"
  shows "list_all (\<lambda>out. on_timeline (rco_TimelineRange out)) (op_DerivedRoughCut operation)"
proof -
  from assms obtain outs cursor where run: "forEach (buildRoughCutItem state prefix) (zip [0..<length items] items) ([], start) = Inr (outs, cursor)"
    and operation: "op_DerivedRoughCut operation = outs" and start: "rt_valid start" "0 \<le> rt_val start"
    unfolding BuildRoughCutOperation_def Let_def
    by (elim andThenE casePairE checkE) (auto simp: Validate_cases rt_val_neg_iff split: if_splits)
  have "(\<lambda>(outs, cursor). list_all (\<lambda>out. on_timeline (rco_TimelineRange out)) outs \<and> rt_valid cursor \<and> 0 \<le> rt_val cursor) (outs, cursor)"
    by (rule forEach_invariant [OF run]) (use start buildRoughCutItem_on_timeline in \<open>auto split: prod.splits\<close>)
  then show ?thesis by (simp add: operation)
qed

lemma bindAlignment_clips: "bindAlignment operation n = Inr m \<Longrightarrow> n_clips m = n_clips n \<and> n_input m = n_input n"
  by (drule kk.bindAlignment_part) simp

lemma addClip_request: "addClip operation n = Inr m \<Longrightarrow> n_input m = n_input n"
  by (rule rs.addClip_part)

lemma deriveRoughCutOutput_sound:
  assumes run: "deriveRoughCutOutput out n = Inr n'" and n: "clips_sound n" "media_filed (n_state n)" and out: "on_timeline (rco_TimelineRange out)"
  shows "clips_sound n' \<and> n_input n' = n_input n"
proof -
  from run obtain excerpt m operation where loop: "forEach (\<lambda>lane. addClip (roughCutClip excerpt out lane)) (roughCutLanes out) n = Inr m"
    and bind: "bindAlignment operation m = Inr n'" unfolding deriveRoughCutOutput_def Let_def by auto
  have "clips_sound m \<and> n_input m = n_input n"
  proof (rule forEach_invariant [OF loop])
    fix lane a b
    assume add: "addClip (roughCutClip excerpt out lane) a = Inr b" and a: "clips_sound a \<and> n_input a = n_input n"
    have "op_TimelineRange (roughCutClip excerpt out lane) = Some (rco_TimelineRange out)" by (simp add: roughCutClip_def split: prod.split)
    then show "clips_sound b \<and> n_input b = n_input n" using addClip_sound [OF _ _ add] addClip_request [OF add] a n(2) out
      by (simp add: on_timeline_def)
  qed (use n in simp)
  then show ?thesis using bindAlignment_clips [OF bind] by (auto simp: clips_sound_def)
qed

lemma deriveRoughCut_sound:
  assumes n: "clips_sound n" "media_filed (n_state n)" and run: "deriveRoughCut env operation n = Inr n'"
  shows "clips_sound n'"
proof -
  from run obtain start prefix expected where build: "BuildRoughCutOperation env (n_state n) start prefix (op_RoughCutItems operation) = Inr expected"
    and loop: "forEach deriveRoughCutOutput (op_DerivedRoughCut expected) n = Inr n'" unfolding deriveRoughCut_def by auto
  note outs = BuildRoughCutOperation_on_timeline [OF build]
  have "clips_sound n' \<and> n_input n' = n_input n"
  proof (rule forEach_invariant [OF loop])
    fix out a b
    assume "out \<in> set (op_DerivedRoughCut expected)" "deriveRoughCutOutput out a = Inr b" "clips_sound a \<and> n_input a = n_input n"
    then show "clips_sound b \<and> n_input b = n_input n"
      using deriveRoughCutOutput_sound [of out a b] outs n(2) by (auto simp: list_all_iff)
  qed (use n(1) in simp)
  then show ?thesis ..
qed

section \<open>The proposal keeps clips sound\<close>

lemma clip_part_sound: "clip_part n' = clip_part n \<Longrightarrow> clips_sound n' \<longleftrightarrow> clips_sound n"
  by (auto simp: clip_part_def clips_sound_def)

lemma normalizeEntityOperation_sound:
  assumes n: "running n" "clips_sound n" "media_filed (n_state n)" and v: "validateEditOperation bcp47 operation"
    and run: "normalizeEntityOperation env operation n = Inr n'"
  shows "clips_sound n'"
proof -
  note kept = clips_kept [THEN clip_part_sound, THEN iffD2, OF _ n(2)]
  have add: "clips_sound n'" if "op_Type operation = EditAddClip" "addClip operation n = Inr n'"
    using clip_fields(1) [OF v that(1)] addClip_sound [OF n(2,3) that(2)] by (auto simp: validRange_Some)
  show ?thesis using run n(2) unfolding normalizeEntityOperation_def
    by (cases "op_Type operation") (simp_all add: kept add moveClip_sound [OF n(1,2)] trimClip_sound [OF n(1,2)] splitClip_sound [OF n(1,2)]
      removeClip_sound [OF n(1,2)] linkClips_sound [OF n(1,2)] unlinkClips_sound [OF n(1,2)] setClipPlacement_sound [OF n(1,2)] deriveRoughCut_sound [OF n(2,3)])
qed

lemma proposal_clips_sound:
  assumes proper: "proper_input input" "media_filed (ni_State input)" and run: "NormalizeEditProposal env input = Inr (p, canonical)"
    and start: "\<And>i c. clip_at (input_store (ni_State input)) i = Some c \<Longrightarrow> clip_sound (ni_State input) c"
    and clip: "clip_at (replay (input_store (ni_State input)) (prop_Operations p)) i = Some c"
  shows "clip_sound (ni_State input) c"
proof -
  from proper(1) run obtain n0 n where n0: "newEditNormalizer input = Inr n0" "normalizeOperations env n0 = Inr n" "running n0"
    and n: "running n" "settled n" "n_input n = input" "prop_Operations p = n_operations n" by (rule proposal_normalizer)
  have valid: "validateNormalizationInput env input = Inr ()" using run unfolding NormalizeEditProposal_def by auto
  have input: "n_input n0 = input" by (rule newEditNormalizer_running(3) [OF proper(1) n0(1)])
  have store: "abs_store n = replay (input_store (ni_State input)) (prop_Operations p)" using proposal_store [OF n(2) _ n(4)] n(1,3) by simp
  from n0(2) obtain m where m: "normalizeEntityOperations env n0 = Inr m" "normalizeAlignmentOperations m = Inr n"
    unfolding normalizeOperations_def by auto
  have "gm_lookup (n_clips n0) i = gm_lookup (st_Clips (ni_State input)) i" for i
    using n0(1) unfolding newEditNormalizer_def Let_def by auto
  then have "gm_lookup (n_clips n0) i = Some c \<Longrightarrow> clip_sound (ni_State input) c" for i c
    using start [of i c] by (simp add: clip_at_def input_store_def store_of_maps_def)
  then have "clips_sound n0" using input by (auto simp: clips_sound_def)
  moreover have ops: "list_all (validateEditOperation (env_bcp47 env)) (in_Operations (ni_Input (n_input n0)))"
    using validated_operations [OF valid] input by simp
  ultimately have "running m \<and> clips_sound m \<and> n_input m = input" using m(1) unfolding normalizeEntityOperations_def
  proof (elim forEach_invariant [where P = "\<lambda>m. running m \<and> clips_sound m \<and> n_input m = input"], goal_cases)
    case (2 x s t)
    then have "advances s t" by (intro normalizeEntityOperation_advances) auto
    then show ?case using 2 advances_running advances_input [of s t] proper(2) normalizeEntityOperation_sound [of s _ x env t]
      by (auto simp: list_all_iff)
  qed (use n0(3) input in simp)
  moreover have "sequence_part n = sequence_part m" using m(2) unfolding normalizeAlignmentOperations_def
    by (rule forEach_invariant [where P = "\<lambda>x. sequence_part x = sequence_part m"]) (auto dest: normalizeAlignmentOperation_sequence_part)
  ultimately have "clips_sound n" by (auto simp: sequence_part_def clips_sound_def)
  then show ?thesis using clip n(3) unfolding store [symmetric] by (auto simp: clip_at_def clips_sound_def split: option.splits)
qed

end
