(* ===== verification/Sample_Times.thy ===== *)
theory Sample_Times
  imports Time_Ranges
begin

text \<open>
  Times of whole seconds and the results of the operations on them, with which the sample requests
  are evaluated.
\<close>

section \<open>Whole seconds\<close>

definition seconds :: "int \<Rightarrow> rational_time" where
  "seconds k = \<lparr>rt_Value = word_of_int k, rt_Scale = 1\<rparr>"

definition seconds_range :: "int \<Rightarrow> int \<Rightarrow> time_range" where
  "seconds_range a b = \<lparr>tr_Start = seconds a, tr_Duration = seconds (b - a)\<rparr>"

abbreviation small :: "int \<Rightarrow> bool" where "small k \<equiv> \<bar>k\<bar> < 1000000"

lemma seconds_val: "small k \<Longrightarrow> rt_valid (seconds k) \<and> rt_val (seconds k) = of_int k"
  by (simp add: seconds_def rt_valid_iff rt_num_def rt_den_def rt_val_def signed_of_int signed_take_bit_int_eq_self)

lemma seconds_inject: "small a \<Longrightarrow> small b \<Longrightarrow> seconds a = seconds b \<longleftrightarrow> a = b"
  using seconds_val [of a] seconds_val [of b] by (metis of_int_eq_iff)

lemma seconds_ops [simp]:
  "small a \<Longrightarrow> RationalTime_Validate (seconds a) = Inr ()"
  "small a \<Longrightarrow> RationalTime_IsNegative (seconds a) \<longleftrightarrow> a < 0"
  "small a \<Longrightarrow> RationalTime_IsPositive (seconds a) \<longleftrightarrow> 0 < a"
  "small a \<Longrightarrow> small b \<Longrightarrow> small (a + b) \<Longrightarrow> RationalTime_Add (seconds a) (seconds b) = Inr (seconds (a + b))"
  "small a \<Longrightarrow> small b \<Longrightarrow> small (a - b) \<Longrightarrow> RationalTime_Subtract (seconds a) (seconds b) = Inr (seconds (a - b))"
  "small a \<Longrightarrow> small b \<Longrightarrow> RationalTime_Compare (seconds a) (seconds b) = Inr (sgn (a - b))"
  using seconds_val [of a] seconds_val [of b] seconds_val [of "a + b"] seconds_val [of "a - b"]
  by (simp_all add: Validate_cases rt_val_neg_iff rt_val_pos_iff Add_Inr Subtract_Inr Compare_Inr sgn_rat_def sgn_if)

lemma seconds_range_simps [simp]:
  "tr_Start (seconds_range a b) = seconds a" "tr_Duration (seconds_range a b) = seconds (b - a)"
  "small a \<Longrightarrow> small b \<Longrightarrow> small (b - a) \<Longrightarrow> TimeRange_End (seconds_range a b) = Inr (seconds b)"
  "small a \<Longrightarrow> small d \<Longrightarrow> 0 \<le> d \<Longrightarrow> NewTimeRange (seconds a) (seconds d) = Inr (seconds_range a (a + d))"
  using seconds_ops [of a] by (simp_all add: seconds_range_def TimeRange_End_def NewTimeRange_def)

end
