(* ===== verification/Sample_Edit.thy ===== *)
theory Sample_Edit
  imports Proposals Sample_Times
begin

text \<open>
  A concrete request that the normalizer accepts, evaluated by rewriting. It shows that the
  hypotheses of the theorems on proposals can be met.
\<close>

section \<open>A sample request\<close>

text \<open>
  A document with a root section and a note, and a sequence with a caption track and a caption from the
  first to the second second; the request inserts a second note, rewords the first and adds a caption
  that starts where the first ends.
\<close>

definition sample_id :: "char \<Rightarrow> string" where
  "sample_id c = ''00000000-0000-7000-8000-00000000000'' @ [c]"

definition sample_section :: section_state where
  "sample_section = \<lparr>sec_ID = sample_id CHR ''4'', sec_Revision = 3, sec_DocumentID = sample_id CHR ''2'', sec_ParentID = None,
    sec_AfterNodeID = None, sec_Title = ''Root'', sec_Language = ''en'', sec_Tombstoned = False\<rparr>"

definition sample_note :: note_state where
  "sample_note = \<lparr>note_ID = sample_id CHR ''5'', note_Revision = 7, note_DocumentID = sample_id CHR ''2'',
    note_ParentID = sample_id CHR ''4'', note_AfterNodeID = None, note_Language = ''en'', note_Text = ''old'', note_Tombstoned = False\<rparr>"

definition sample_track :: edit_track_state where
  "sample_track = \<lparr>trk_ID = sample_id CHR ''7'', trk_SequenceID = sample_id CHR ''3'', trk_Revision = 2, trk_Type = TrackCaption\<rparr>"

definition sample_caption :: caption_state where
  "sample_caption = \<lparr>cap_ID = sample_id CHR ''a'', cap_Revision = 5, cap_SequenceID = sample_id CHR ''3'', cap_TrackID = sample_id CHR ''7'',
    cap_Range = seconds_range 1 2, cap_Language = ''en'', cap_Text = ''first'',
    cap_Provenance = \<lparr>prov_Kind = CaptionProvenanceManual, prov_Derivation = None\<rparr>, cap_ProvenanceStatus = None, cap_Tombstoned = False\<rparr>"

definition sample_state :: edit_normalization_state where
  "sample_state = \<lparr>st_ProjectID = sample_id CHR ''1'', st_ProjectRevision = 1, st_DocumentID = sample_id CHR ''2'',
    st_DocumentRevision = 1, st_SequenceID = sample_id CHR ''3'', st_SequenceRevision = 1,
    st_Sections = [(sample_id CHR ''4'', sample_section)], st_Tracks = [(sample_id CHR ''7'', sample_track)], st_AuthoredTexts = [], st_SourceExcerpts = [],
    st_VisualIntents = [], st_Notes = [(sample_id CHR ''5'', sample_note)], st_SectionChildCounts = [(sample_id CHR ''4'', 1)],
    st_SourceExcerptEvidence = [], st_TranscriptCorrections = [], st_TranscriptArtifacts = [], st_Captions = [(sample_id CHR ''a'', sample_caption)], st_Clips = [],
    st_LinkGroups = [], st_LinkGroupClips = [], st_SourceStreams = [], st_Alignments = [], st_NodeAlignments = [],
    st_CaptionAlignments = [], st_ClipAlignments = []\<rparr>"

definition sample_request :: propose_input where
  "sample_request = \<lparr>in_RequestID = ''request-0001'', in_Intent = ''Reword'', in_BaseProjectRevision = 1,
    in_Preconditions = [\<lparr>pre_Kind = EntityNarrativeNode, pre_ID = sample_id CHR ''5'', pre_Revision = 7\<rparr>,
      \<lparr>pre_Kind = EntityNarrativeNode, pre_ID = sample_id CHR ''4'', pre_Revision = 3\<rparr>,
      \<lparr>pre_Kind = EntityTrack, pre_ID = sample_id CHR ''7'', pre_Revision = 2\<rparr>],
    in_Operations = [
      zero_operation\<lparr>op_Type := EditInsertNote, op_CreateAs := Some ''note'', op_ParentID := Some (sample_id CHR ''4''),
        op_Language := Some ''en'', op_Text := Some ''new''\<rparr>,
      zero_operation\<lparr>op_Type := EditUpdateNote, op_NodeID := Some (sample_id CHR ''5''),
        op_Language := Some ''en'', op_Text := Some ''reworded''\<rparr>,
      zero_operation\<lparr>op_Type := EditAddCaption, op_CreateAs := Some ''caption'', op_TrackID := Some (sample_id CHR ''7''),
        op_Range := Some (seconds_range 2 3), op_Language := Some ''en'', op_Text := Some ''second''\<rparr>]\<rparr>"

definition sample_input :: normalize_input where
  "sample_input = \<lparr>ni_ProposalID = sample_id CHR ''8'', ni_ProjectID = sample_id CHR ''1'', ni_SequenceID = sample_id CHR ''3'',
    ni_RunID = '''', ni_TurnID = '''', ni_Actor = \<lparr>actor_Kind = ActorCreator, actor_CreatorID = Some (sample_id CHR ''9''), actor_AgentID = None\<rparr>,
    ni_Allocation = [\<lparr>alloc_Local = ''note'', alloc_Kind = EntityNarrativeNode, alloc_ID = sample_id CHR ''6''\<rparr>,
      \<lparr>alloc_Local = ''caption'', alloc_Kind = EntityCaption, alloc_ID = sample_id CHR ''b''\<rparr>],
    ni_Input = sample_request, ni_CreatedAt = 1, ni_State = sample_state\<rparr>"

definition sample_env :: edit_env where
  "sample_env = \<lparr>env_bcp47 = (\<lambda>v. Some (v, 0)), env_graphemes = length, env_roughCutDigest = (\<lambda>_. None),
    env_proposalDigest = (\<lambda>_. Some (''canonical'', ''digest''))\<rparr>"

lemma andThen_weak_cong: "m = m' \<Longrightarrow> andThen m f = andThen m' f"
  by simp

lemma sample_id_inject [simp]: "sample_id c = sample_id d \<longleftrightarrow> c = d"
  by (simp add: sample_id_def)

lemma sample_id_nonempty [simp]: "sample_id c \<noteq> []" "[] \<noteq> sample_id c"
  by (simp_all add: sample_id_def)

lemma sample_id_parse [simp]: "c \<in> set ''0123456789abcdef'' \<Longrightarrow> ParseID (sample_id c) = Inr (sample_id c)"
  by (simp add: sample_id_def ParseID_def isUUIDv7_def upt_rec)

lemmas sample_defs = sample_track_def sample_caption_def sample_section_def sample_note_def sample_state_def sample_request_def sample_input_def sample_env_def

lemmas eval_cong = andThen_weak_cong let_weak_cong

lemma sample_proper: "proper_input sample_input"
  by (simp add: sample_defs proper_input_def filed_state_def filed_def input_store_def store_of_maps_def node_of_maps_def)

lemmas text_eval = ValidString.simps TrimLeftSpace.simps TrimRightSpace.simps TrimSpace_def DecodeRune_def DecodeLastRune_def byte_at_def
  IsSpace_def is_cont_def

lemma sample_language: "CaptionLanguage_Validate (env_bcp47 sample_env) ''en''"
  by (simp add: sample_env_def CaptionLanguage_Validate_def ParseCaptionLanguage_def text_eval)

lemma sample_texts: "ValidString ''new''" "ValidString ''reworded''" "ValidString ''second''" "validateEditIntent ''Reword'' False"
  by (simp_all add: text_eval validateEditIntent_def)

lemmas valid_eval = validateEditProposeInput_def ParseRequestID_def requestIDPattern_def ParseLocalID_def localIDPattern_def
  is_lower_def is_upper_def is_digit_def checkPrecondition_def checkOperation_def declareOperation_def declareLocal_def
  declareOptional_def checkReferences_def validateEditReferences_def validateEditOperation_def hasLocalReferenceCycle_def
  validateNarrativeOperation_def validateSequenceOperation_def

lemmas field_eval = validRange_def noNode_def noAlignment_def noClip_def noTranscript_def noCaption_def validateOptionalReference_def validText_def validLanguage_def noCreate_def noNarrativeExternalFields_def
  noNewClipMutationFields_def noRoughCutFields_def  isClipMutationOperation_def
  narrativeOperation_def sequenceOperation_def writingOperation_def

lemmas map_eval = gm_set_def gm_delete_def gm_keys_def gm_size_def gm_entries_def

lemma sample_valid: "validateEditProposeInput (env_bcp47 sample_env) sample_request = Inr ()"
  by (simp add: sample_request_def valid_eval field_eval map_eval sample_texts sample_language zero_operation_def upt_rec  cong: eval_cong)

lemma sample_allocation: "validateAllocationMatchesOperations
    (ni_Allocation sample_input) (in_Operations sample_request)"
  by (simp add: validateAllocationMatchesOperations_def sample_request_def sample_input_def expectOperation_def setOptional_def zero_operation_def
    Let_def map_eval)

lemma sample_input_valid: "validateNormalizationInput sample_env sample_input = Inr ()"
  using sample_allocation by (simp add: sample_input_def validateNormalizationInput_def ActorRef_Validate_def ActorRef_IDString_def ID_IsZero_def sample_state_def
    sample_valid)

definition sample_start :: edit_normalizer where
  "sample_start = \<lparr>n_input = sample_input, n_allocations = map (\<lambda>a. (alloc_Local a, a)) (ni_Allocation sample_input),
    n_conditions = conditionTable (in_Preconditions sample_request),
    n_sections = st_Sections sample_state, n_texts = [],
    n_sourceExcerpts = [], n_visualIntents = [],
    n_notes = st_Notes sample_state, n_sectionChildren = st_SectionChildCounts sample_state,
    n_corrections = [], n_captions = st_Captions sample_state, n_clips = [], n_linkGroups = [], n_linkGroupClips = [], n_alignments = [],
    n_touched = [], n_alignmentEffects = [], n_operations = [], n_inverse = [], n_changes = [],
    n_narrativeChanged = False, n_sequenceChanged = False, n_parentChanges = [], n_trackChanges = []\<rparr>"

lemma sample_start: "newEditNormalizer sample_input = Inr sample_start"
  by (simp add: newEditNormalizer_def sample_start_def sample_input_def addAllocation_def gm_set_def sample_request_def sample_state_def)

lemmas normalizer_eval = normalizeEntityOperations_def normalizeEntityOperation_def normalizeAlignmentOperations_def normalizeAlignmentOperation_def
  insertNarrativeNode_def updateNarrativeNode_def addCaption_def parseOrZero_def noteTrack_def allocated_def fetch_def narrativeNodeExists_def narrativeNode_def node_of_maps_def
  requireNarrativeParent_def require_def conditionTable_def resolveNarrativeNodeReference_def newNarrativeNode_def
  mustNext_def markTouched_def isTouched_def ID_IsZero_def
  putEntity_def appendOperation_def addChange_def markNarrativeParentChanged_def addChildren_def Revision_Next_def NewRevision_def

lemmas result_eval = rangesOverlap_def validateLinkGroups_def validateCaptionOverlaps_def validateClipOverlaps_def linkGroupOk_def captionOverlapsNone_def
  clipOverlapsNone_def validateAlignmentEffects_def dependentAlignments_def appendAggregateChanges_def addAggregate_def 
  proposalOf_def normalizeOperations_def

lemma sample_proposal:
  obtains p canonical where "NormalizeEditProposal sample_env sample_input = Inr (p, canonical)"
    "map entity_key (prop_Operations p) = [(EntityNarrativeNode, sample_id CHR ''6''), (EntityNarrativeNode, sample_id CHR ''5''),
      (EntityCaption, sample_id CHR ''b'')]"
    "set (prop_Changes p) = {change_of (EntityNarrativeNode, sample_id CHR ''4'') (Some 3) 4 False,
      change_of (EntityNarrativeNode, sample_id CHR ''5'') (Some 7) 8 False, change_of (EntityNarrativeNode, sample_id CHR ''6'') None 1 False,
      change_of (EntityTrack, sample_id CHR ''7'') (Some 2) 3 False, change_of (EntityCaption, sample_id CHR ''b'') None 1 False}"
proof -
  have "\<exists>p canonical. NormalizeEditProposal sample_env sample_input = Inr (p, canonical) \<and>
    map entity_key (prop_Operations p) = [(EntityNarrativeNode, sample_id CHR ''6''), (EntityNarrativeNode, sample_id CHR ''5''),
      (EntityCaption, sample_id CHR ''b'')] \<and>
    set (prop_Changes p) = {change_of (EntityNarrativeNode, sample_id CHR ''4'') (Some 3) 4 False,
      change_of (EntityNarrativeNode, sample_id CHR ''5'') (Some 7) 8 False, change_of (EntityNarrativeNode, sample_id CHR ''6'') None 1 False,
      change_of (EntityTrack, sample_id CHR ''7'') (Some 2) 3 False, change_of (EntityCaption, sample_id CHR ''b'') None 1 False}"
    unfolding NormalizeEditProposal_def sample_input_valid sample_start andThen_Inr
    by (simp add: normalizer_eval result_eval sample_start_def sample_defs zero_operation_def map_eval Let_def change_of_def
      newEntityChange_def existingEntityChange_def insert_commute cong: eval_cong)
  then show thesis by (elim exE conjE) (rule that)
qed

end
