(* ===== verification/Clip_Theorems.thy ===== *)
theory Clip_Theorems
  imports Clip_Soundness Sample_Edit
begin

text \<open>
  The theorems on clips, and a second concrete request, which splits the one clip on a video track: it shows that their
  hypotheses can be met.
\<close>

section \<open>A sample cut\<close>

definition cut_track :: edit_track_state where
  "cut_track = \<lparr>trk_ID = sample_id CHR ''7'', trk_SequenceID = sample_id CHR ''3'', trk_Revision = 2, trk_Type = TrackVideo\<rparr>"

definition cut_stream :: edit_stream_state where
  "cut_stream = \<lparr>str_ID = sample_id CHR ''d'', str_AssetID = sample_id CHR ''e'', str_AssetRevision = 1,
    str_Descriptor = \<lparr>sd_Index = 0, sd_MediaType = MediaVideo, sd_Codec = ''h264'', sd_CodecProfile = '''', sd_CodecTag = '''',
      sd_TimeBase = seconds 1, sd_StartTime = None, sd_Duration = Some (seconds 9), sd_Language = '''', sd_Dispositions = [],
      sd_Video = None, sd_Audio = None\<rparr>\<rparr>"

definition cut_clip :: clip_state where
  "cut_clip = \<lparr>clip_ID = sample_id CHR ''f'', clip_Revision = 4, clip_SequenceID = sample_id CHR ''3'', clip_TrackID = sample_id CHR ''7'',
    clip_AssetID = sample_id CHR ''e'', clip_SourceStreamID = sample_id CHR ''d'', clip_SourceRange = seconds_range 1 5,
    clip_TimelineRange = seconds_range 0 4, clip_Enabled = True, clip_LinkGroupID = None, clip_Placement = None, clip_Tombstoned = False\<rparr>"

definition cut_state :: edit_normalization_state where
  "cut_state = sample_state\<lparr>st_Tracks := [(sample_id CHR ''7'', cut_track)], st_Captions := [], st_Clips := [(sample_id CHR ''f'', cut_clip)],
    st_SourceStreams := [(sample_id CHR ''d'', cut_stream)]\<rparr>"

definition cut_output :: split_output where
  "cut_output = \<lparr>spo_Clip = \<lparr>ref_ID = sample_id CHR ''f'', ref_Local = None\<rparr>, spo_LeftAs = ''left'', spo_RightAs = ''right''\<rparr>"

definition cut_request :: propose_input where
  "cut_request = \<lparr>in_RequestID = ''request-0002'', in_Intent = ''Split'', in_BaseProjectRevision = 1,
    in_Preconditions = [\<lparr>pre_Kind = EntityClip, pre_ID = sample_id CHR ''f'', pre_Revision = 4\<rparr>,
      \<lparr>pre_Kind = EntityTrack, pre_ID = sample_id CHR ''7'', pre_Revision = 2\<rparr>],
    in_Operations = [zero_operation\<lparr>op_Type := EditSplitClip, op_Clip := Some \<lparr>ref_ID = sample_id CHR ''f'', ref_Local = None\<rparr>,
      op_Scope := Some ClipScopeSingle, op_SplitAt := Some (seconds 3), op_SplitOutputs := [cut_output]\<rparr>]\<rparr>"

definition cut_input :: normalize_input where
  "cut_input = sample_input\<lparr>ni_Allocation := [\<lparr>alloc_Local = ''left'', alloc_Kind = EntityClip, alloc_ID = sample_id CHR ''a''\<rparr>,
      \<lparr>alloc_Local = ''right'', alloc_Kind = EntityClip, alloc_ID = sample_id CHR ''b''\<rparr>], ni_Input := cut_request, ni_State := cut_state\<rparr>"

lemmas cut_defs = cut_track_def cut_stream_def cut_clip_def cut_state_def cut_output_def cut_request_def cut_input_def

lemma cut_proper: "proper_input cut_input" "media_filed cut_state"
  by (simp_all add: cut_defs sample_defs proper_input_def media_filed_def filed_state_def filed_def input_store_def store_of_maps_def node_of_maps_def)

lemma cut_valid: "validateEditProposeInput (env_bcp47 sample_env) cut_request = Inr ()"
proof -
  have "validateEditIntent ''Split'' False" by (simp add: text_eval validateEditIntent_def)
  then show ?thesis
    by (simp add: cut_request_def cut_output_def valid_eval field_eval map_eval zero_operation_def upt_rec validateClipMutationOperation_def clipMutationBaseClear_def
      validScope_def validTime_def validSplitOutputs_def validExistingReference_def validateReference_def cong: eval_cong)
qed

lemma cut_input_valid: "validateNormalizationInput sample_env cut_input = Inr ()"
proof -
  have "validateAllocationMatchesOperations (ni_Allocation cut_input) (in_Operations cut_request)"
    by (simp add: validateAllocationMatchesOperations_def cut_request_def cut_input_def cut_output_def expectOperation_def setOptional_def zero_operation_def
      Let_def map_eval)
  then show ?thesis by (simp add: cut_input_def sample_input_def validateNormalizationInput_def ActorRef_Validate_def ActorRef_IDString_def ID_IsZero_def
    cut_state_def sample_state_def cut_valid)
qed

definition cut_start :: edit_normalizer where
  "cut_start = sample_start\<lparr>n_input := cut_input, n_allocations := map (\<lambda>a. (alloc_Local a, a)) (ni_Allocation cut_input),
    n_conditions := conditionTable (in_Preconditions cut_request), n_captions := [], n_clips := st_Clips cut_state\<rparr>"

lemma cut_start: "newEditNormalizer cut_input = Inr cut_start"
  by (simp add: newEditNormalizer_def cut_start_def sample_start_def sample_input_def cut_defs addAllocation_def gm_set_def sample_state_def)

lemma cut_proposal:
  obtains p canonical where "NormalizeEditProposal sample_env cut_input = Inr (p, canonical)"
    "prop_Operations p = [PutClip (cut_clip\<lparr>clip_Revision := 5, clip_Tombstoned := True\<rparr>),
      PutClip (cut_clip\<lparr>clip_ID := sample_id CHR ''a'', clip_Revision := 1, clip_SourceRange := seconds_range 1 4, clip_TimelineRange := seconds_range 0 3\<rparr>),
      PutClip (cut_clip\<lparr>clip_ID := sample_id CHR ''b'', clip_Revision := 1, clip_SourceRange := seconds_range 4 5, clip_TimelineRange := seconds_range 3 4\<rparr>)]"
proof -
  have "\<exists>p canonical. NormalizeEditProposal sample_env cut_input = Inr (p, canonical) \<and>
    prop_Operations p = [PutClip (cut_clip\<lparr>clip_Revision := 5, clip_Tombstoned := True\<rparr>),
      PutClip (cut_clip\<lparr>clip_ID := sample_id CHR ''a'', clip_Revision := 1, clip_SourceRange := seconds_range 1 4, clip_TimelineRange := seconds_range 0 3\<rparr>),
      PutClip (cut_clip\<lparr>clip_ID := sample_id CHR ''b'', clip_Revision := 1, clip_SourceRange := seconds_range 4 5, clip_TimelineRange := seconds_range 3 4\<rparr>)]"
    unfolding NormalizeEditProposal_def cut_input_valid cut_start andThen_Inr
    by (simp add: normalizer_eval result_eval cut_start_def sample_start_def cut_defs sample_defs zero_operation_def map_eval Let_def
      splitClip_def splitMember_def splitClipStates_def clipMutationMembers_def allocatedClipID_def putExistingClip_def putNewClip_def requireTrack_def
      newEntityChange_def existingEntityChange_def cong: eval_cong)
  then show thesis by (elim exE conjE) (rule that)
qed

section \<open>Clips stay sound\<close>

text \<open>C6. When every clip of the edited version plays its source range at unit speed inside its stream, on a track that takes
  the stream's kind, from a non-negative position, then so does every clip that an accepted proposal leaves, whichever of
  the ten clip operations it used.\<close>

theorem proposal_keeps_clips_sound:
  assumes "proper_input input" "media_filed (ni_State input)" "NormalizeEditProposal env input = Inr (p, canonical)"
    and "\<And>i c. clip_at (input_store (ni_State input)) i = Some c \<Longrightarrow> clip_sound (ni_State input) c"
    and "clip_at (replay (input_store (ni_State input)) (prop_Operations p)) i = Some c"
  shows "clip_sound (ni_State input) c"
  using assms by (rule proposal_clips_sound)

lemma cut_clip_sound: "clip_at (input_store cut_state) i = Some c \<Longrightarrow> clip_sound cut_state c"
proof -
  have range: "range_ok (seconds_range 1 5)" "range_from (seconds_range 1 5) = 1" "range_upto (seconds_range 1 5) = 5" "range_from (seconds_range 0 4) = 0"
    by (simp_all add: range_ok_def range_from_def range_upto_def seconds_val)
  have nine: "\<exists>e. rt_valid e \<and> rt_val e = 9" using seconds_val [of 9] by auto
  assume "clip_at (input_store cut_state) i = Some c"
  then have "c = cut_clip" by (auto simp: clip_at_def input_store_def store_of_maps_def cut_state_def split: if_splits)
  then show ?thesis using nine by (auto simp: cut_defs sample_defs clip_sound_def seconds_val range sourceRangeWithin_iff stream_start_def trackAcceptsStream_def)
qed

theorem proposal_keeps_clips_sound_witness:
  "\<exists>p canonical c. NormalizeEditProposal sample_env cut_input = Inr (p, canonical) \<and>
    clip_at (replay (input_store cut_state) (prop_Operations p)) (sample_id CHR ''b'') = Some c \<and> clip_TimelineRange c = seconds_range 3 4 \<and>
    clip_sound cut_state c"
proof -
  obtain p canonical where run: "NormalizeEditProposal sample_env cut_input = Inr (p, canonical)"
    and ops: "prop_Operations p = [PutClip (cut_clip\<lparr>clip_Revision := 5, clip_Tombstoned := True\<rparr>),
      PutClip (cut_clip\<lparr>clip_ID := sample_id CHR ''a'', clip_Revision := 1, clip_SourceRange := seconds_range 1 4, clip_TimelineRange := seconds_range 0 3\<rparr>),
      PutClip (cut_clip\<lparr>clip_ID := sample_id CHR ''b'', clip_Revision := 1, clip_SourceRange := seconds_range 4 5, clip_TimelineRange := seconds_range 3 4\<rparr>)]"
    by (rule cut_proposal)
  have state: "ni_State cut_input = cut_state" by (simp add: cut_input_def)
  let ?c = "cut_clip\<lparr>clip_ID := sample_id CHR ''b'', clip_Revision := 1, clip_SourceRange := seconds_range 4 5, clip_TimelineRange := seconds_range 3 4\<rparr>"
  have at: "clip_at (replay (input_store cut_state) (prop_Operations p)) (sample_id CHR ''b'') = Some ?c" by (simp add: ops clip_at_def cut_clip_def replay_def put_entity_def)
  then show ?thesis using proposal_keeps_clips_sound [OF cut_proper(1) _ run, unfolded state, OF cut_proper(2) cut_clip_sound at] run by auto
qed

text \<open>C7. Splitting a clip covers it exactly: on the timeline the first part starts where the clip starts, the second ends where it ends, they meet at the split
  and neither is empty; in the source the first part starts where the clip starts, the second follows it, each lasts as long as its part of the timeline, and together they
  last as long as the clip does on the timeline. Where the clip plays its source at unit speed, as every clip of a proposal does, the second part also ends where the
  source of the clip ends. Both play the same stream on the same track.\<close>

theorem split_covers_clip:
  assumes "splitClipStates current splitAt out leftGroup rightGroup n = Inr (left, right)"
  shows "split_halves splitAt current left right \<and>
    (rt_val (tr_Duration (clip_SourceRange current)) = rt_val (tr_Duration (clip_TimelineRange current)) \<longrightarrow>
      range_upto (clip_SourceRange right) = range_upto (clip_SourceRange current))"
  using splitClipStates_halves [OF assms] by (auto simp: split_halves_def range_upto_def range_from_def)

theorem split_covers_clip_witness:
  "\<exists>left right. splitClipStates cut_clip (seconds 3) cut_output None None cut_start = Inr (left, right) \<and> split_halves (seconds 3) cut_clip left right \<and>
    range_upto (clip_SourceRange right) = range_upto (clip_SourceRange cut_clip)"
proof -
  have "\<exists>left right. splitClipStates cut_clip (seconds 3) cut_output None None cut_start = Inr (left, right)"
    by (simp add: splitClipStates_def cut_clip_def cut_output_def cut_start_def cut_input_def allocatedClipID_def allocated_def normalizer_eval map_eval)
  moreover have "rt_val (tr_Duration (clip_SourceRange cut_clip)) = rt_val (tr_Duration (clip_TimelineRange cut_clip))" by (simp add: cut_clip_def)
  ultimately show ?thesis using split_covers_clip by blast
qed

end
