(* ===== verification/Caption_Cues.thy ===== *)
theory Caption_Cues
  imports Time_Ranges
begin

text \<open>
  What deriving captions from a transcript guarantees: the tokens of a span are those of its segments
  that lie in the range, the units of evidence carry the effective text of the span, grouping the
  units loses none of them, and the cues are readable, lie inside the clip and do not overlap.
\<close>

section \<open>Spans of a transcript\<close>

text \<open>The tokens of a segment that meet a range.\<close>

definition meets :: "time_range \<Rightarrow> transcript_token \<Rightarrow> bool" where
  "meets r token \<longleftrightarrow> range_from (tok_SourceRange token) < range_upto r \<and> range_from r < range_upto (tok_SourceRange token)"

definition span_tokens :: "time_range \<Rightarrow> edit_segment_state \<Rightarrow> evidence_token list" where
  "span_tokens r segment = map (\<lambda>t. \<lparr>evt_segmentOrdinal = seg_Ordinal segment, evt_token = t\<rparr>) (filter (meets r) (seg_Tokens segment))"

lemma tokenInside_Inr:
  assumes "tokenInside r stop token = Inr inside" "TimeRange_End r = Inr stop"
  shows "inside \<longleftrightarrow> meets r token" "inside \<Longrightarrow> transcriptRangeContains r (tok_SourceRange token)"
proof -
  from assms(1) obtain e where e: "TimeRange_End (tok_SourceRange token) = Inr e" unfolding tokenInside_def by (auto simp: go_result)
  have valid: "rt_valid e" "rt_val e = range_upto (tok_SourceRange token)" "rt_valid stop" "rt_val stop = range_upto r"
    "rt_valid (tr_Start r)" "rt_valid (tr_Start (tok_SourceRange token))" "range_ok r" "range_ok (tok_SourceRange token)"
    using e assms(2) End_Inr [of r stop] End_Inr [of "tok_SourceRange token" e] by (simp_all add: range_ok_def)
  note c = compareOrZero_val [OF valid(6,5)] compareOrZero_val [OF valid(1,3)]
  show "inside \<longleftrightarrow> meets r token" "inside \<Longrightarrow> transcriptRangeContains r (tok_SourceRange token)"
    using assms(1) valid c unfolding tokenInside_def e
    by (auto simp: go_result Compare_Inr meets_def transcriptRangeContains_iff range_from_def sgn_rat_def split: if_splits)
qed

lemma addTokens_Inr:
  assumes "addTokens r stop segment tokens = Inr tokens'" "TimeRange_End r = Inr stop"
  shows "tokens' = tokens @ span_tokens r segment \<and> (\<forall>t \<in> set (span_tokens r segment). transcriptRangeContains r (tok_SourceRange (evt_token t)))"
proof -
  have "forEach (addToken r stop (seg_Ordinal segment)) ts tokens = Inr tokens' \<Longrightarrow>
      tokens' = tokens @ map (\<lambda>t. \<lparr>evt_segmentOrdinal = seg_Ordinal segment, evt_token = t\<rparr>) (filter (meets r) ts) \<and>
      (\<forall>t \<in> set ts. meets r t \<longrightarrow> transcriptRangeContains r (tok_SourceRange t))" for ts
  proof (induction ts arbitrary: tokens)
    case (Cons t ts)
    then obtain mid where mid: "addToken r stop (seg_Ordinal segment) t tokens = Inr mid"
      "forEach (addToken r stop (seg_Ordinal segment)) ts mid = Inr tokens'" by auto
    from mid(1) obtain inside where inside: "tokenInside r stop t = Inr inside"
      "mid = (if inside then tokens @ [\<lparr>evt_segmentOrdinal = seg_Ordinal segment, evt_token = t\<rparr>] else tokens)"
      unfolding addToken_def by auto
    show ?case using Cons.IH [OF mid(2)] tokenInside_Inr [OF inside(1) assms(2)] inside(2) by auto
  qed simp
  from this [of "seg_Tokens segment"] assms(1) show ?thesis unfolding addTokens_def span_tokens_def by auto
qed

lemma allTokens_Inr:
  assumes "forEach (addTokens r stop) segments tokens = Inr tokens'" "TimeRange_End r = Inr stop"
  shows "tokens' = tokens @ concat (map (span_tokens r) segments) \<and>
    (\<forall>t \<in> set (concat (map (span_tokens r) segments)). transcriptRangeContains r (tok_SourceRange (evt_token t)))"
  using assms(1)
proof (induction segments arbitrary: tokens)
  case (Cons s segments)
  then obtain mid where "addTokens r stop s tokens = Inr mid" "forEach (addTokens r stop) segments mid = Inr tokens'" by auto
  then show ?case using Cons.IH [of mid] addTokens_Inr [OF _ assms(2), of s tokens mid] by auto
qed simp

lemma addSegments_Inr:
  assumes "forEach (addSegment artifact) ids (segments, seen) = Inr (segments', seen')"
    "map Some segments = map (gm_lookup (art_Segments artifact)) seen" "distinct seen"
    "successively (\<lambda>a b. seg_Ordinal b = seg_Ordinal a + 1) segments"
  shows "map Some segments' = map (gm_lookup (art_Segments artifact)) seen' \<and> distinct seen' \<and> seen' = seen @ ids \<and>
    successively (\<lambda>a b. seg_Ordinal b = seg_Ordinal a + 1) segments'"
  using assms
proof (induction ids arbitrary: segments seen)
  case (Cons i ids)
  then obtain mid where mid: "addSegment artifact i (segments, seen) = Inr mid" "forEach (addSegment artifact) ids mid = Inr (segments', seen')"
    by auto
  from mid(1) obtain s where s: "gm_lookup (art_Segments artifact) i = Some s" "i \<notin> set seen" "mid = (segments @ [s], seen @ [i])"
    "segments \<noteq> [] \<Longrightarrow> seg_Ordinal s = seg_Ordinal (last segments) + 1"
    unfolding addSegment_def by (auto simp: go_result)
  have "length segments = length seen" using Cons.prems(2) by (metis length_map)
  then show ?case using Cons.IH [of "segments @ [s]" "seen @ [i]"] mid(2) s Cons.prems
    by (auto simp: successively_append_iff)
qed simp

text \<open>Consecutive ordinals do not wrap around within one span.\<close>

lemma successive_ordinals:
  "successively (\<lambda>a b. seg_Ordinal b = seg_Ordinal a + 1) segments \<Longrightarrow> i < length segments \<Longrightarrow>
    seg_Ordinal (segments ! i) = seg_Ordinal (hd segments) + of_nat i"
proof (induction segments arbitrary: i)
  case (Cons s segments)
  then show ?case by (cases i; cases segments) auto
qed simp

lemma distinct_ordinals:
  assumes "successively (\<lambda>a b. seg_Ordinal b = seg_Ordinal a + 1) segments" "length segments \<le> 256"
  shows "inj_on seg_Ordinal (set segments)"
proof (rule inj_onI)
  fix a b
  assume "a \<in> set segments" "b \<in> set segments" and eq: "seg_Ordinal a = seg_Ordinal b"
  then obtain i j where ij: "i < length segments" "j < length segments" "a = segments ! i" "b = segments ! j" by (auto simp: in_set_conv_nth)
  then have "(word_of_nat i :: uint32) = word_of_nat j" using eq successive_ordinals [OF assms(1)] by simp
  moreover have "unat (word_of_nat i :: uint32) = i" "unat (word_of_nat j :: uint32) = j"
    using ij assms(2) by (simp_all add: unat_of_nat)
  ultimately have "i = j" by metis
  then show "a = b" using ij by simp
qed

lemma span_Inr:
  assumes "transcriptEvidenceSpan artifact ids r = Inr (segments, tokens)"
  shows "map Some segments = map (gm_lookup (art_Segments artifact)) ids" "distinct ids"
    "successively (\<lambda>a b. seg_Ordinal b = seg_Ordinal a + 1) segments"
    "tokens = concat (map (span_tokens r) segments)" "\<forall>s \<in> set segments. span_tokens r s \<noteq> []"
    "\<forall>t \<in> set tokens. transcriptRangeContains r (tok_SourceRange (evt_token t))"
    "tokens \<noteq> []" "range_from (tok_SourceRange (evt_token (hd tokens))) = range_from r"
    "range_upto (tok_SourceRange (evt_token (last tokens))) = range_upto r" "range_ok r"
  using assms unfolding transcriptEvidenceSpan_def
proof (atomize (full), elim andThenE casePairE checkE, goal_cases)
  case (1 acc segments' seen stop tokens')
  have seg: "segments' = segments" "tokens' = tokens" using 1 by auto
  have r: "TimeRange_End r = Inr stop" "range_ok r" using 1 by (auto simp: go_result range_ok_def)
  have S: "map Some segments = map (gm_lookup (art_Segments artifact)) ids" "distinct ids"
    "successively (\<lambda>a b. seg_Ordinal b = seg_Ordinal a + 1) segments"
    using 1 addSegments_Inr [of artifact ids "[]" "[]" segments seen] seg by auto
  have T: "tokens = concat (map (span_tokens r) segments)" "\<forall>t \<in> set tokens. transcriptRangeContains r (tok_SourceRange (evt_token t))"
    using 1 allTokens_Inr [OF _ r(1), of segments "[]" tokens] seg by auto
  have ok: "tokens \<noteq> []" "range_ok (tok_SourceRange (evt_token (hd tokens)))" "range_ok (tok_SourceRange (evt_token (last tokens)))"
    using 1 T(2) seg by (auto simp: transcriptRangeContains_iff)
  then have ends: "range_from (tok_SourceRange (evt_token (hd tokens))) = range_from r" "range_upto (tok_SourceRange (evt_token (last tokens))) = range_upto r"
    using 1 r seg End_Inr [of r stop] by (auto simp: compareOrZero_val range_from_def)
  have used: "span_tokens r s \<noteq> []" if s: "s \<in> set segments" for s
  proof -
    have "\<exists>t \<in> set tokens. evt_segmentOrdinal t = seg_Ordinal s" using 1 s seg by (auto simp: list_all_iff list_ex_iff)
    then obtain s' where s': "s' \<in> set segments" "span_tokens r s' \<noteq> []" "seg_Ordinal s' = seg_Ordinal s"
      unfolding T(1) by (auto simp: span_tokens_def filter_empty_conv)
    have "length segments \<le> 256" using 1 arg_cong [OF S(1), of length] by simp
    then have "s' = s" using distinct_ordinals [OF S(3)] s s' by (auto dest: inj_onD)
    then show ?thesis using s' by simp
  qed
  show ?case using S T ok ends r used by simp
qed

section \<open>Corrections\<close>

lemma collectCorrections_Inr:
  assumes "collectCorrections artifactID language r corrections provided = Inr result"
  shows "\<forall>c \<in> set result. transcriptRangeContains r (cor_SourceRange c)"
proof -
  from assms obtain found rest where run: "forEach (takeCorrection artifactID language r) (gm_entries corrections) ([], provided) = Inr (found, rest)"
    and result: "set result = set found"
    unfolding collectCorrections_def Let_def by (elim andThenE casePairE checkE) auto
  have "\<forall>c \<in> set (fst (found, rest)). transcriptRangeContains r (cor_SourceRange c)" using run
    by (rule forEach_invariant [where P = "\<lambda>a. \<forall>c \<in> set (fst a). transcriptRangeContains r (cor_SourceRange c)"])
      (auto simp: takeCorrection_def split: if_splits)
  then show ?thesis by (simp add: result)
qed

section \<open>Units of evidence\<close>

text \<open>The units carry the effective text: joining them is what applying the corrections to the tokens yields.\<close>

lemma joinUnits_snoc: "joinUnits (units @ [u]) = appendTranscriptText (joinUnits units) (cu_text u) (cu_ensureBoundary u)"
  by (simp add: joinUnits_def)

lemma evidenceUnits_text:
  "evidenceUnits ordinals index tokens corrections skipped previous units = Inr (units', rest) \<Longrightarrow>
    effectiveTokens index tokens corrections skipped previous (joinUnits units) = Inr (joinUnits units', rest)"
proof (induction ordinals index tokens corrections skipped previous units rule: evidenceUnits.induct)
  case (2 ordinals index current tokens corrections skipped previous units)
  then show ?case by (auto simp: joinUnits_snoc Let_def split: if_splits option.splits)
qed simp

lemma evidenceUnits_ranges:
  "evidenceUnits ordinals index tokens corrections skipped previous units = Inr (units', rest) \<Longrightarrow>
    list_all (\<lambda>t. P (tok_SourceRange (evt_token t))) tokens \<Longrightarrow> list_all (\<lambda>c. P (cor_SourceRange c)) corrections \<Longrightarrow>
    list_all (\<lambda>u. P (cu_rangeValue u)) units \<Longrightarrow> list_all (\<lambda>u. P (cu_rangeValue u)) units'"
proof (induction ordinals index tokens corrections skipped previous units rule: evidenceUnits.induct)
  case (2 ordinals index current tokens corrections skipped previous units)
  have rest: "list_all (\<lambda>c. P (cor_SourceRange c)) (tl corrections)" "corrections \<noteq> [] \<Longrightarrow> P (cor_SourceRange (hd corrections))"
    using "2.prems"(3) by (cases corrections; simp)+
  show ?case using "2.prems" "2.IH" rest by (auto simp: Let_def split: if_splits option.splits)
qed simp

section \<open>The policy\<close>

lemma newTime_val: "0 < sint (s :: int32) \<Longrightarrow> rt_valid (newTime v s) \<and> rt_val (newTime v s) = of_int (sint v) / of_int (sint s)"
  using NewRationalTime_total [of s v] NewRationalTime_val [of v s] by (auto simp: newTime_def)

lemma policy_values:
  "rt_valid (pol_MinimumDuration ReadableCaptionPolicyV1)" "rt_val (pol_MinimumDuration ReadableCaptionPolicyV1) = 1"
  "rt_valid (pol_MaximumDuration ReadableCaptionPolicyV1)" "rt_val (pol_MaximumDuration ReadableCaptionPolicyV1) = 6"
  "pol_MaximumLines ReadableCaptionPolicyV1 = 2" "pol_MaximumLineGraphemes ReadableCaptionPolicyV1 = 42"
  "pol_MaximumReadingRate ReadableCaptionPolicyV1 = 20"
  using newTime_val [of 1 1] newTime_val [of 1 6] by (simp_all add: ReadableCaptionPolicyV1_def)

lemma policy_fixed: "CaptionDerivationPolicy_Validate policy \<longleftrightarrow> policy = ReadableCaptionPolicyV1"
proof
  assume "CaptionDerivationPolicy_Validate policy"
  moreover then have "pol_MinimumDuration policy = pol_MinimumDuration ReadableCaptionPolicyV1"
    "pol_MaximumDuration policy = pol_MaximumDuration ReadableCaptionPolicyV1" "pol_MaximumGap policy = pol_MaximumGap ReadableCaptionPolicyV1"
    unfolding CaptionDerivationPolicy_Validate_def Let_def by (auto dest!: rt.compare_equal)
  ultimately show "policy = ReadableCaptionPolicyV1"
    unfolding CaptionDerivationPolicy_Validate_def Let_def by (cases policy, cases "ReadableCaptionPolicyV1") simp
qed (use newTime_val [of 1 1] newTime_val [of 1 6] newTime_val [of 4 3] in
  \<open>simp add: CaptionDerivationPolicy_Validate_def ReadableCaptionPolicyV1_def Compare_Inr sgn_rat_def\<close>)

section \<open>Groups\<close>

lemma groupUnit_partition:
  assumes "groupUnit graphemes policy u (groups, current) = Inr (groups', current')"
  shows "concat groups' @ current' = concat groups @ current @ [u]" "current' \<noteq> []"
    "isOk (wrapCaptionUnits graphemes policy current')" "set groups' \<subseteq> insert current (set groups)" "current = [] \<Longrightarrow> groups' = groups"
  using assms unfolding groupUnit_def Let_def
  by (auto simp: breakBefore_def Let_def split: if_splits)

lemma groups_partition:
  assumes "forEach (groupUnit graphemes policy) us (groups, current) = Inr (groups', current')"
    "\<forall>g \<in> set groups. g \<noteq> [] \<and> isOk (wrapCaptionUnits graphemes policy g)"
    "current \<noteq> [] \<Longrightarrow> isOk (wrapCaptionUnits graphemes policy current)"
  shows "concat groups' @ current' = concat groups @ current @ us \<and>
    (\<forall>g \<in> set groups'. g \<noteq> [] \<and> isOk (wrapCaptionUnits graphemes policy g)) \<and>
    (current' \<noteq> [] \<longrightarrow> isOk (wrapCaptionUnits graphemes policy current'))"
  using assms
proof (induction us arbitrary: groups current)
  case (Cons u us)
  then obtain gs cur where step: "groupUnit graphemes policy u (groups, current) = Inr (gs, cur)"
    and rest: "forEach (groupUnit graphemes policy) us (gs, cur) = Inr (groups', current')" by auto
  note P = groupUnit_partition [OF step]
  have gs: "\<forall>g \<in> set gs. g \<noteq> [] \<and> isOk (wrapCaptionUnits graphemes policy g)"
    using P(4,5) Cons.prems(2,3) by (cases "current = []") auto
  show ?case using Cons.IH [OF rest gs] P(1,3) by auto
qed auto

lemma groupCaptionUnits_partition:
  assumes "groupCaptionUnits graphemes policy units = Inr groups"
  shows "concat groups = units" "\<forall>g \<in> set groups. g \<noteq> [] \<and> isOk (wrapCaptionUnits graphemes policy g)" "groups \<noteq> []"
    "length groups \<le> 128"
proof -
  from assms obtain gs cur where run: "forEach (groupUnit graphemes policy) units ([], []) = Inr (gs, cur)"
    and groups: "groups = (if cur \<noteq> [] then gs @ [cur] else gs)" "groups \<noteq> []" "length groups \<le> 128"
    unfolding groupCaptionUnits_def Let_def by (elim andThenE casePairE checkE) (simp_all add: not_less)
  note P = groups_partition [OF run]
  show "concat groups = units" "\<forall>g \<in> set groups. g \<noteq> [] \<and> isOk (wrapCaptionUnits graphemes policy g)"
    using P by (auto simp: groups(1))
  show "groups \<noteq> []" "length groups \<le> 128" by fact+
qed

section \<open>Cues\<close>

lemma later_valid:
  assumes "rt_valid a"
  shows "rt_valid (later a b) \<longleftrightarrow> rt_valid b" "rt_valid b \<Longrightarrow> rt_val (later a b) = max (rt_val a) (rt_val b)"
  using assms compareOrZero_val [of a b] compareOrZero_invalid [of a b] by (cases "rt_valid b"; auto simp: later_def)+

lemma reading_time:
  assumes "k < 2 ^ 63" "NewRationalTime (word_of_nat k) 20 = Inr t"
  shows "rt_valid t" "rt_val t = of_nat k / 20"
proof -
  have "sint (word_of_nat k :: int64) = int k" using assms(1) by (simp add: signed_of_nat signed_take_bit_int_eq_self)
  then show "rt_valid t" "rt_val t = of_nat k / 20" using NewRationalTime_val [OF assms(2)] by simp_all
qed


lemma wrapped_length: "wrapCaptionUnits graphemes policy units = Inr content \<Longrightarrow> length content \<le> MaximumAuthoredTextBytes"
  unfolding wrapCaptionUnits_def Let_def by (auto split: if_splits)

lemma deriveCue_times:
  assumes "deriveCue graphemes ReadableCaptionPolicyV1 clip capEnd units = Inr cue"
    and count: "\<And>x. graphemes x \<le> length x"
  shows "tr_Start (cue_SourceRange cue) = tr_Start (cu_rangeValue (hd units))"
    "tr_Duration (cue_TimelineRange cue) = tr_Duration (cue_SourceRange cue)"
    "range_upto (cu_rangeValue (last units)) \<le> range_upto (cue_SourceRange cue)"
    "rt_valid capEnd \<Longrightarrow> range_upto (cue_SourceRange cue) \<le> rt_val capEnd"
    "1 \<le> rt_val (tr_Duration (cue_SourceRange cue))" "rt_val (tr_Duration (cue_SourceRange cue)) \<le> 6"
    "of_nat (graphemes (withoutNewlines (cue_Text cue))) \<le> 20 * rt_val (tr_Duration (cue_SourceRange cue))"
    "range_from (cue_TimelineRange cue) - range_from (clip_TimelineRange clip) = range_from (cue_SourceRange cue) - range_from (clip_SourceRange clip)"
    "transcriptRangeContains (clip_TimelineRange clip) (cue_TimelineRange cue)"
    "wrapCaptionUnits graphemes ReadableCaptionPolicyV1 units = Inr (cue_Text cue)" "rt_valid (tr_Start (cu_rangeValue (hd units)))"
  using assms(1) unfolding deriveCue_def Let_def
proof (atomize (full), elim andThenE casePairE checkE, goal_cases)
  case (1 content minimumEnd readingDuration readingEnd duration sourceOffset timelineStart timelineRange segmentIDs correctionRefs)
  note v = policy_values
  define start where "start = tr_Start (cu_rangeValue (hd units))"
  define stop where "stop = endOrZero (cu_rangeValue (last units))"
  define desired where "desired = later readingEnd (later minimumEnd stop)"
  have minimum: "rt_valid minimumEnd" "rt_val minimumEnd = rt_val start + 1" "rt_valid start"
    using 1 v by (auto simp: go_result Add_Inr start_def)
  have reading: "rt_valid readingEnd" "rt_val readingEnd = rt_val start + of_nat (graphemes (withoutNewlines content)) / 20"
  proof -
    have "length (withoutNewlines content) \<le> length content" by (simp add: withoutNewlines_def)
    then have "graphemes (withoutNewlines content) < 2 ^ 63"
      using 1(1) count [of "withoutNewlines content"] by (auto dest!: wrapped_length)
    then show "rt_valid readingEnd" "rt_val readingEnd = rt_val start + of_nat (graphemes (withoutNewlines content)) / 20"
      using 1 v reading_time by (auto simp: go_result Add_Inr start_def)
  qed
  have duration: "rt_valid desired" "rt_valid duration" "rt_val duration = rt_val desired - rt_val start"
    using 1 by (auto simp: go_result Subtract_Inr start_def stop_def desired_def)
  then have stop: "range_ok (cu_rangeValue (last units))" "rt_val stop = range_upto (cu_rangeValue (last units))"
    using minimum reading by (auto simp: desired_def later_valid stop_def)
  have desired: "rt_val desired = max (rt_val readingEnd) (max (rt_val minimumEnd) (rt_val stop))"
    using minimum reading stop by (simp add: desired_def later_valid stop_def)
  have range: "newRangeOrZero start duration = \<lparr>tr_Start = start, tr_Duration = duration\<rparr>"
  proof -
    have "0 \<le> rt_val duration" using minimum duration(3) desired by simp
    then have "NewTimeRange start duration = Inr \<lparr>tr_Start = start, tr_Duration = duration\<rparr>"
      using minimum duration by (simp add: NewTimeRange_Inr)
    then show ?thesis by (simp add: newRangeOrZero_def)
  qed
  have cap: "rt_valid capEnd \<Longrightarrow> rt_val desired \<le> rt_val capEnd"
    using 1 duration(1) compareOrZero_val(2) [of desired capEnd] by (auto simp: desired_def stop_def)
  have longest: "rt_val duration \<le> 6" using 1 duration(2) v compareOrZero_val(2) [of duration "pol_MaximumDuration ReadableCaptionPolicyV1"] by auto
  have timeline: "timelineRange = \<lparr>tr_Start = timelineStart, tr_Duration = duration\<rparr>"
    "rt_val timelineStart - range_from (clip_TimelineRange clip) = rt_val start - range_from (clip_SourceRange clip)"
    using 1 by (auto simp: go_result NewTimeRange_Inr Add_Inr Subtract_Inr range_from_def start_def)
  have cue: "cue_SourceRange cue = \<lparr>tr_Start = start, tr_Duration = duration\<rparr>" "cue_TimelineRange cue = timelineRange" "cue_Text cue = content"
    using 1 range by (auto simp: start_def)
  have "rt_val readingEnd \<le> rt_val desired" "rt_val minimumEnd \<le> rt_val desired" "rt_val stop \<le> rt_val desired"
    by (simp_all add: desired)
  then have bounds: "1 \<le> rt_val duration" "of_nat (graphemes (withoutNewlines content)) \<le> 20 * rt_val duration"
    "range_upto (cu_rangeValue (last units)) \<le> rt_val start + rt_val duration" "rt_val start + rt_val duration = rt_val desired"
    using minimum(2) reading(2) stop(2) duration(3) by simp_all
  have inside: "transcriptRangeContains (clip_TimelineRange clip) timelineRange" "wrapCaptionUnits graphemes ReadableCaptionPolicyV1 units = Inr content"
    using 1 by blast+
  show ?case using cap bounds longest inside minimum(3) timeline by (simp add: cue start_def)
qed

lemma deriveCues_ordered:
  assumes "deriveCues graphemes ReadableCaptionPolicyV1 clip finalEnd groups = Inr cues" "\<And>x. graphemes x \<le> length x" "rt_valid finalEnd"
  shows "sorted_wrt (\<lambda>a b. range_upto (cue_SourceRange a) \<le> range_from (cue_SourceRange b)) cues"
    "\<And>c. c \<in> set cues \<Longrightarrow> range_upto (cue_SourceRange c) \<le> rt_val finalEnd \<and>
      (\<exists>g \<in> set groups. \<exists>capEnd. deriveCue graphemes ReadableCaptionPolicyV1 clip capEnd g = Inr c)"
    "groups \<noteq> [] \<Longrightarrow> cues \<noteq> [] \<and> tr_Start (cue_SourceRange (hd cues)) = tr_Start (cu_rangeValue (hd (hd groups)))"
  using assms(1)
proof (atomize (full), induction groups arbitrary: cues)
  case (Cons g groups)
  then obtain cue rest capEnd where cue: "deriveCue graphemes ReadableCaptionPolicyV1 clip capEnd g = Inr cue"
    and rest: "deriveCues graphemes ReadableCaptionPolicyV1 clip finalEnd groups = Inr rest" "cues = cue # rest"
    and cap: "capEnd = (case groups of [] \<Rightarrow> finalEnd | following # _ \<Rightarrow> tr_Start (cu_rangeValue (hd following)))"
    by (auto simp only: deriveCues.simps elim!: andThenE)
  note IH = Cons.IH [OF rest(1)]
  note D = deriveCue_times [OF cue assms(2)]
  have each: "range_from (cue_SourceRange c) \<le> range_upto (cue_SourceRange c)" if "c \<in> set rest" for c
  proof -
    from IH that obtain e g' where "deriveCue graphemes ReadableCaptionPolicyV1 clip e g' = Inr c" by blast
    from deriveCue_times(5) [OF this assms(2)] show ?thesis by (simp add: range_from_def range_upto_def)
  qed
  have next_start: "range_upto (cue_SourceRange cue) \<le> range_from (cue_SourceRange c)" if c: "c \<in> set rest" for c
  proof (cases groups)
    case Nil
    then show ?thesis using rest c by simp
  next
    case (Cons following more)
    have first: "rest \<noteq> []" "tr_Start (cue_SourceRange (hd rest)) = capEnd" using IH Cons cap by auto
    then have "hd rest \<in> set rest" by simp
    then obtain e g' where "deriveCue graphemes ReadableCaptionPolicyV1 clip e g' = Inr (hd rest)" using IH by blast
    from deriveCue_times(1,11) [OF this assms(2)] have "rt_valid capEnd" using first(2) by simp
    then have "range_upto (cue_SourceRange cue) \<le> range_from (cue_SourceRange (hd rest))" using D(4) first(2) by (simp add: range_from_def)
    moreover have "c = hd rest \<or> range_upto (cue_SourceRange (hd rest)) \<le> range_from (cue_SourceRange c)"
      using IH c first(1) by (cases rest) auto
    ultimately show ?thesis using each [OF \<open>hd rest \<in> set rest\<close>] by auto
  qed
  have final: "range_upto (cue_SourceRange cue) \<le> rt_val finalEnd"
  proof (cases groups)
    case Nil
    then show ?thesis using D(4) cap assms(3) by simp
  next
    case (Cons following more)
    then have "hd rest \<in> set rest" using IH by simp
    then have "range_upto (cue_SourceRange (hd rest)) \<le> rt_val finalEnd" using IH by blast
    then show ?thesis using next_start [OF \<open>hd rest \<in> set rest\<close>] each [OF \<open>hd rest \<in> set rest\<close>] by linarith
  qed
  show ?case using IH D(1) next_start final cue unfolding rest(2) by auto
qed simp

text \<open>A derivation that succeeds, with the units and groups it went through.\<close>

lemma DeriveCaptionCues_parts:
  assumes "DeriveCaptionCues graphemes artifact excerpt corrections clip policy = Inr cues"
  obtains units groups where "policy = ReadableCaptionPolicyV1" "transcriptRangeContains (clip_SourceRange clip) (exc_SourceRange excerpt)"
    "joinCaptionUnits units = exc_EffectiveText excerpt" "groupCaptionUnits graphemes policy units = Inr groups"
    "list_all (\<lambda>u. transcriptRangeContains (exc_SourceRange excerpt) (cu_rangeValue u)) units"
    "deriveCues graphemes policy clip (earlier (endOrZero (clip_SourceRange clip)) (endOrZero (exc_SourceRange excerpt))) groups = Inr cues"
  using assms unfolding DeriveCaptionCues_def
proof (elim andThenE casePairE checkE, goal_cases)
  case (1 span segments tokens found effective units groups)
  from 1 obtain rest where units: "evidenceUnits (segmentByOrdinal segments) 0 tokens found None 0 [] = Inr (units, rest)" "rest = []"
    unfolding captionEvidenceUnits_def by auto
  have contained: "\<forall>t \<in> set tokens. transcriptRangeContains (exc_SourceRange excerpt) (tok_SourceRange (evt_token t))"
    "\<forall>c \<in> set found. transcriptRangeContains (exc_SourceRange excerpt) (cor_SourceRange c)"
    using 1 span_Inr(6) collectCorrections_Inr unfolding captionExcerptCorrections_def by (auto dest!: collectCorrections_Inr)
  have "list_all (\<lambda>u. transcriptRangeContains (exc_SourceRange excerpt) (cu_rangeValue u)) units"
    using evidenceUnits_ranges [OF units(1)] contained by (simp add: list_all_iff)
  moreover have "joinCaptionUnits units = exc_EffectiveText excerpt"
    using evidenceUnits_text [OF units(1)] 1 units(2)
    by (auto simp: effectiveTranscriptText_def joinUnits_def joinCaptionUnits_def go_result Let_def)
  ultimately show thesis using 1 policy_fixed that by blast
qed

end
