(* ===== verification/Caption_Theorems.thy ===== *)
theory Caption_Theorems
  imports Caption_Cues Sample_Times Sample_Edit
begin

text \<open>
  The theorems on deriving captions, with a small derivation on which they are applied: two
  captions derived from one segment of three tokens and a clip four seconds long.
\<close>

section \<open>A sample derivation\<close>

lemma policy_seconds: "pol_MinimumDuration ReadableCaptionPolicyV1 = seconds 1" "pol_MaximumDuration ReadableCaptionPolicyV1 = seconds 6"
  using rt.val_eq [of "pol_MinimumDuration ReadableCaptionPolicyV1" "seconds 1"] rt.val_eq [of "pol_MaximumDuration ReadableCaptionPolicyV1" "seconds 6"]
    policy_values seconds_val [of 1] seconds_val [of 6] by simp_all

definition sample_token :: "int \<Rightarrow> int \<Rightarrow> string \<Rightarrow> transcript_token" where
  "sample_token a b content = \<lparr>tok_ID = ''token'', tok_Ordinal = 0, tok_SourceRange = seconds_range a b, tok_Text = content, tok_Confidence = None\<rparr>"

definition sample_artifact :: edit_artifact_state where
  "sample_artifact = \<lparr>art_ID = ''artifact'', art_AssetID = ''asset'', art_Fingerprint = ''print'', art_SourceStreamID = ''stream'',
    art_Language = ''en'', art_Segments = [(''segment'', \<lparr>seg_ID = ''segment'', seg_Ordinal = 0, seg_SourceRange = seconds_range 0 4,
      seg_Text = ''Hi there. Bye.'', seg_Tokens = [sample_token 0 1 ''Hi'', sample_token 1 2 '' there.'', sample_token 2 4 '' Bye.'']\<rparr>)]\<rparr>"

definition sample_excerpt :: source_excerpt_state where
  "sample_excerpt = zero_excerpt\<lparr>exc_ID := ''excerpt'', exc_AssetID := ''asset'', exc_AcceptedFingerprint := ''print'',
    exc_SourceRange := seconds_range 0 4, exc_Language := ''en'', exc_EffectiveText := ''Hi there. Bye.'',
    exc_Evidence := \<lparr>ev_ArtifactID = ''artifact'', ev_SourceStreamID = ''stream'', ev_SegmentIDs = [''segment''], ev_CorrectionRevisions = []\<rparr>\<rparr>"

definition sample_clip :: clip_state where
  "sample_clip = zero_clip\<lparr>clip_ID := ''clip'', clip_AssetID := ''asset'', clip_SourceRange := seconds_range 0 4,
    clip_TimelineRange := seconds_range 10 14, clip_Enabled := True\<rparr>"

lemmas span_eval = transcriptEvidenceSpan_def sample_artifact_def sample_token_def addSegment_def addTokens_def addToken_def tokenInside_def
  compareOrZero_def endOrZero_def fetch_def ID_IsZero_def

definition sample_evidence :: "evidence_token list" where
  "sample_evidence = map (\<lambda>t. \<lparr>evt_segmentOrdinal = 0, evt_token = t\<rparr>) [sample_token 0 1 ''Hi'', sample_token 1 2 '' there.'', sample_token 2 4 '' Bye.'']"

lemma sample_span: "transcriptEvidenceSpan sample_artifact [''segment''] (seconds_range 0 4) = Inr (map snd (art_Segments sample_artifact), sample_evidence)"
  by (simp add: span_eval sample_evidence_def cong: eval_cong)

lemma sample_effective: "effectiveTranscriptText sample_evidence [] = Inr ''Hi there. Bye.''"
  by (simp add: effectiveTranscriptText_def sample_evidence_def sample_token_def appendTranscriptText_def text_eval cong: eval_cong)

definition sample_unit :: "int \<Rightarrow> int \<Rightarrow> string \<Rightarrow> caption_unit" where
  "sample_unit a b content = \<lparr>cu_rangeValue = seconds_range a b, cu_text = content, cu_ensureBoundary = False,
    cu_segmentIDs = [''segment''], cu_correctionRevision = None\<rparr>"

definition sample_units :: "caption_unit list" where
  "sample_units = [sample_unit 0 1 ''Hi'', sample_unit 1 2 '' there.'', sample_unit 2 4 '' Bye.'']"

lemma sample_captionUnits: "captionEvidenceUnits (map snd (art_Segments sample_artifact)) sample_evidence [] = Inr sample_units"
  by (simp add: captionEvidenceUnits_def sample_artifact_def sample_evidence_def sample_token_def sample_units_def sample_unit_def
    segmentByOrdinal_def fetch_def map_eval cong: eval_cong)

lemma policy_numbers: "unat (pol_MaximumLineGraphemes ReadableCaptionPolicyV1) = 42" "unat (pol_MaximumLines ReadableCaptionPolicyV1) = 2"
  by (simp_all add: policy_values)

lemma sample_joins:
  "joinCaptionUnits [sample_unit 0 1 ''Hi''] = ''Hi''" "joinCaptionUnits [sample_unit 0 1 ''Hi'', sample_unit 1 2 '' there.''] = ''Hi there.''"
  "joinCaptionUnits [sample_unit 0 1 ''Hi'', sample_unit 1 2 '' there.'', sample_unit 2 4 '' Bye.''] = ''Hi there. Bye.''"
  "joinCaptionUnits [sample_unit 2 4 '' Bye.''] = ''Bye.''"
  by (simp_all add: joinCaptionUnits_def joinUnits_def sample_unit_def appendTranscriptText_def text_eval)

lemma sample_wraps:
  "wrapCaptionUnits length ReadableCaptionPolicyV1 [sample_unit 0 1 ''Hi''] = Inr ''Hi''"
  "wrapCaptionUnits length ReadableCaptionPolicyV1 [sample_unit 0 1 ''Hi'', sample_unit 1 2 '' there.''] = Inr ''Hi there.''"
  "wrapCaptionUnits length ReadableCaptionPolicyV1 [sample_unit 2 4 '' Bye.''] = Inr ''Bye.''"
  by (simp_all add: wrapCaptionUnits_def wrapUnit_def Let_def policy_numbers sample_joins strings_Join_def)

lemma sample_unit_simps [simp]: "cu_rangeValue (sample_unit a b content) = seconds_range a b" "cu_text (sample_unit a b content) = content"
  by (simp_all add: sample_unit_def)

lemma sample_trims: "TrimSpace ''Hi'' = ''Hi''" "TrimSpace '' there.'' = ''there.''" "TrimSpace '' Bye.'' = ''Bye.''"
  by (simp_all add: text_eval)

lemma sample_gap: "compareOrZero (seconds 0) (pol_MaximumGap ReadableCaptionPolicyV1) = -1"
proof -
  have "rt_valid (pol_MaximumGap ReadableCaptionPolicyV1)" "rt_val (pol_MaximumGap ReadableCaptionPolicyV1) = 3 / 4"
    using newTime_val [of 4 3] by (simp_all add: ReadableCaptionPolicyV1_def)
  then have "RationalTime_Compare (seconds 0) (pol_MaximumGap ReadableCaptionPolicyV1) = Inr (- 1)"
    using seconds_val [of 0] by (simp add: Compare_Inr sgn_rat_def)
  then show ?thesis by (simp add: compareOrZero_def)
qed

lemma sample_terminal: "\<not> captionUnitEndsTerminal (sample_unit 0 1 ''Hi'')" "captionUnitEndsTerminal (sample_unit 1 2 '' there.'')"
  by (simp_all add: captionUnitEndsTerminal_def sample_trims text_eval)

lemma sample_breaks:
  "breakBefore length ReadableCaptionPolicyV1 (sample_unit 1 2 '' there.'') [sample_unit 0 1 ''Hi''] = Inr False"
  "breakBefore length ReadableCaptionPolicyV1 (sample_unit 2 4 '' Bye.'') [sample_unit 0 1 ''Hi'', sample_unit 1 2 '' there.''] = Inr True"
  by (simp_all add: breakBefore_def Let_def endOrZero_def sample_gap sample_terminal sample_wraps subtractOrZero_def policy_seconds
    compareOrZero_def [where b = "seconds _"])

lemma sample_groups: "groupCaptionUnits length ReadableCaptionPolicyV1 sample_units =
    Inr [[sample_unit 0 1 ''Hi'', sample_unit 1 2 '' there.''], [sample_unit 2 4 '' Bye.'']]"
proof -
  have "breakBefore length ReadableCaptionPolicyV1 (sample_unit 0 1 ''Hi'') [] = Inr False" by (simp add: breakBefore_def)
  then show ?thesis
    by (simp add: groupCaptionUnits_def sample_units_def groupUnit_def Let_def policy_numbers sample_wraps sample_trims sample_breaks cong: eval_cong)
qed

lemma time_val: "0 < sint (d :: int32) \<Longrightarrow> coprime (sint v) (sint d) \<Longrightarrow>
    rt_valid \<lparr>rt_Value = v, rt_Scale = d\<rparr> \<and> rt_val \<lparr>rt_Value = v, rt_Scale = d\<rparr> = of_int (sint v) / of_int (sint d)"
  by (simp add: rt_valid_iff rt_val_def rt_num_def rt_den_def)

abbreviation sample_time :: "int64 \<Rightarrow> int32 \<Rightarrow> rational_time" where
  "sample_time v d \<equiv> \<lparr>rt_Value = v, rt_Scale = d\<rparr>"

lemma sample_times:
  "rt_valid (sample_time 9 20)" "rt_val (sample_time 9 20) = 9 / 20" "rt_valid (sample_time 1 5)" "rt_val (sample_time 1 5) = 1 / 5"
  "rt_valid (sample_time 11 5)" "rt_val (sample_time 11 5) = 11 / 5"
  by (simp_all add: rt_valid_iff rt_val_def rt_num_def rt_den_def coprime_iff_gcd_eq_1 gcd_non_0_int)

lemma sample_reading:
  "NewRationalTime (word_of_nat 9) 20 = Inr (sample_time 9 20)" "NewRationalTime (word_of_nat 4) 20 = Inr (sample_time 1 5)"
proof -
  have unique: "NewRationalTime v 20 = Inr t" if "rt_valid t" "rt_val t = of_int (sint v) / 20" for v t
  proof -
    obtain u where u: "NewRationalTime v 20 = Inr u" using NewRationalTime_total [of 20 v] by auto
    then have "u = t" using NewRationalTime_val [OF u] rt.val_eq [of u t] that by simp
    then show ?thesis using u by simp
  qed
  show "NewRationalTime (word_of_nat 9) 20 = Inr (sample_time 9 20)" "NewRationalTime (word_of_nat 4) 20 = Inr (sample_time 1 5)"
    by (rule unique; simp add: sample_times)+
qed

lemma sample_readingEnd:
  "RationalTime_Add (seconds 0) (sample_time 9 20) = Inr (sample_time 9 20)" "RationalTime_Add (seconds 2) (sample_time 1 5) = Inr (sample_time 11 5)"
  using seconds_val [of 0] seconds_val [of 2] by (simp_all add: Add_Inr sample_times)

lemma sample_later:
  "later (sample_time 9 20) (seconds 2) = seconds 2" "later (sample_time 11 5) (seconds 4) = seconds 4"
  "later (seconds 1) (seconds 2) = seconds 2" "later (seconds 3) (seconds 4) = seconds 4"
  using seconds_val [of 1] seconds_val [of 2] seconds_val [of 3] seconds_val [of 4]
  by (simp_all add: later_def compareOrZero_val sample_times)

lemma sample_group_evidence:
  "captionGroupEvidence [sample_unit 0 1 ''Hi'', sample_unit 1 2 '' there.''] = ([''segment''], [])"
  "captionGroupEvidence [sample_unit 2 4 '' Bye.''] = ([''segment''], [])"
  by (simp_all add: captionGroupEvidence_def sample_unit_def)

lemma sample_fields [simp]:
  "exc_Evidence sample_excerpt = \<lparr>ev_ArtifactID = ''artifact'', ev_SourceStreamID = ''stream'', ev_SegmentIDs = [''segment''], ev_CorrectionRevisions = []\<rparr>"
  "exc_SourceRange sample_excerpt = seconds_range 0 4" "exc_AssetID sample_excerpt = ''asset''" "exc_AcceptedFingerprint sample_excerpt = ''print''"
  "exc_EffectiveText sample_excerpt = ''Hi there. Bye.''" "\<not> exc_Tombstoned sample_excerpt"
  "clip_SourceRange sample_clip = seconds_range 0 4" "clip_TimelineRange sample_clip = seconds_range 10 14"
  "clip_Enabled sample_clip" "\<not> clip_Tombstoned sample_clip" "clip_AssetID sample_clip = ''asset''"
  "art_ID sample_artifact = ''artifact''" "art_AssetID sample_artifact = ''asset''" "art_Fingerprint sample_artifact = ''print''"
  "art_SourceStreamID sample_artifact = ''stream''"
  by (simp_all add: sample_excerpt_def zero_excerpt_def sample_clip_def zero_clip_def sample_artifact_def)

lemma sample_deriveCue:
  "deriveCue length ReadableCaptionPolicyV1 sample_clip (seconds 2) [sample_unit 0 1 ''Hi'', sample_unit 1 2 '' there.''] =
    Inr \<lparr>cue_SourceRange = seconds_range 0 2, cue_TimelineRange = seconds_range 10 12, cue_EvidenceSourceRange = seconds_range 0 2,
      cue_Text = ''Hi there.'', cue_SegmentIDs = [''segment''], cue_CorrectionRevisions = []\<rparr>"
  "deriveCue length ReadableCaptionPolicyV1 sample_clip (seconds 4) [sample_unit 2 4 '' Bye.''] =
    Inr \<lparr>cue_SourceRange = seconds_range 2 4, cue_TimelineRange = seconds_range 12 14, cue_EvidenceSourceRange = seconds_range 2 4,
      cue_Text = ''Bye.'', cue_SegmentIDs = [''segment''], cue_CorrectionRevisions = []\<rparr>"
  by (simp_all add: deriveCue_def sample_wraps Let_def endOrZero_def policy_seconds policy_values withoutNewlines_def NL_def
    sample_reading [simplified] sample_readingEnd sample_later compareOrZero_def transcriptRangeContains_def newRangeOrZero_def
    subtractOrZero_def sample_group_evidence cong: eval_cong)

lemma sample_cues: "\<exists>a b. DeriveCaptionCues length sample_artifact sample_excerpt [] sample_clip ReadableCaptionPolicyV1 = Inr [a, b]"
proof -
  have corrections: "captionExcerptCorrections sample_excerpt [] = Inr []"
    by (simp add: captionExcerptCorrections_def collectCorrections_def map_eval sort_slice_def)
  have "earlier (seconds 4) (seconds 4) = seconds 4" by (simp add: earlier_def)
  then show ?thesis
    unfolding DeriveCaptionCues_def
    by (simp add: corrections policy_fixed transcriptRangeContains_def sample_span sample_effective sample_captionUnits
      sample_groups sample_deriveCue endOrZero_def cong: eval_cong)
qed

section \<open>What deriving captions guarantees\<close>

text \<open>C19. A span of a transcript, when \<^verbatim>\<open>transcriptEvidenceSpan\<close> accepts it: its segments are those of the
  identifiers, in order and with consecutive ordinals; its tokens are exactly the tokens of those
  segments that meet the range, at least one from every segment; each lies inside the range, the
  first starts where the range starts and the last ends where it ends.\<close>

theorem evidence_span_exact:
  assumes "transcriptEvidenceSpan artifact ids r = Inr (segments, tokens)"
  shows "map Some segments = map (gm_lookup (art_Segments artifact)) ids \<and> distinct ids \<and>
    successively (\<lambda>a b. seg_Ordinal b = seg_Ordinal a + 1) segments \<and>
    tokens = concat (map (span_tokens r) segments) \<and> list_all (\<lambda>s. span_tokens r s \<noteq> []) segments \<and>
    list_all (\<lambda>t. range_from r \<le> range_from (tok_SourceRange (evt_token t)) \<and> range_upto (tok_SourceRange (evt_token t)) \<le> range_upto r) tokens \<and>
    range_from (tok_SourceRange (evt_token (hd tokens))) = range_from r \<and> range_upto (tok_SourceRange (evt_token (last tokens))) = range_upto r"
  using span_Inr [OF assms] by (simp add: list_all_iff transcriptRangeContains_iff)

theorem evidence_span_exact_witness:
  "successively (\<lambda>a b. seg_Ordinal b = seg_Ordinal a + 1) (map snd (art_Segments sample_artifact)) \<and>
    sample_evidence = concat (map (span_tokens (seconds_range 0 4)) (map snd (art_Segments sample_artifact)))"
  using evidence_span_exact [OF sample_span] by blast

text \<open>C18. The units of evidence carry the effective text: joining the units that \<^verbatim>\<open>captionEvidenceUnits\<close> makes of
  tokens and corrections gives the text that \<^verbatim>\<open>effectiveTranscriptText\<close> computes from them, and it
  fails only for being empty or too long.\<close>

theorem caption_units_carry_text:
  assumes "captionEvidenceUnits segments tokens corrections = Inr units"
  shows "effectiveTranscriptText tokens corrections =
    (if joinCaptionUnits units = '''' \<or> length (joinCaptionUnits units) > MaximumAuthoredTextBytes then Inl ErrEditInvalid
     else Inr (joinCaptionUnits units))"
proof -
  from assms obtain rest where "evidenceUnits (segmentByOrdinal segments) 0 tokens corrections None 0 [] = Inr (units, rest)" "rest = []"
    unfolding captionEvidenceUnits_def by auto
  from evidenceUnits_text [OF this(1)] this(2) show ?thesis
    by (simp add: effectiveTranscriptText_def joinCaptionUnits_def joinUnits_def Let_def)
qed

theorem caption_units_carry_text_witness:
  "joinCaptionUnits sample_units = ''Hi there. Bye.'' \<and> effectiveTranscriptText sample_evidence [] = Inr (joinCaptionUnits sample_units)"
proof -
  have "joinCaptionUnits sample_units = ''Hi there. Bye.''" by (simp add: sample_units_def sample_joins)
  then show ?thesis using caption_units_carry_text [OF sample_captionUnits] by simp
qed

text \<open>C20. Grouping loses nothing: the groups that \<^verbatim>\<open>groupCaptionUnits\<close> makes are the units cut into consecutive
  runs, none empty, at most 128 of them, and each can be wrapped into the lines of a caption.\<close>

theorem caption_groups_partition:
  assumes "groupCaptionUnits graphemes policy units = Inr groups"
  shows "concat groups = units \<and> groups \<noteq> [] \<and> length groups \<le> 128 \<and>
    list_all (\<lambda>g. g \<noteq> [] \<and> isOk (wrapCaptionUnits graphemes policy g)) groups"
  using groupCaptionUnits_partition [OF assms] by (simp add: list_all_iff)

theorem caption_groups_partition_witness:
  "concat [[sample_unit 0 1 ''Hi'', sample_unit 1 2 '' there.''], [sample_unit 2 4 '' Bye.'']] = sample_units"
  using caption_groups_partition [OF sample_groups] by blast

text \<open>What a cue promises its reader: it lies inside the clip on the timeline and inside the excerpt in the source,
  is placed where the clip puts its source, lasts from one to six seconds and shows at most twenty graphemes a second.\<close>

definition cue_fits :: "(string \<Rightarrow> nat) \<Rightarrow> source_excerpt_state \<Rightarrow> clip_state \<Rightarrow> caption_cue \<Rightarrow> bool" where
  "cue_fits graphemes excerpt clip c \<longleftrightarrow>
    range_from (clip_TimelineRange clip) \<le> range_from (cue_TimelineRange c) \<and>
    range_upto (cue_TimelineRange c) \<le> range_upto (clip_TimelineRange clip) \<and>
    range_from (exc_SourceRange excerpt) \<le> range_from (cue_SourceRange c) \<and>
    range_upto (cue_SourceRange c) \<le> range_upto (exc_SourceRange excerpt) \<and>
    range_from (cue_TimelineRange c) - range_from (clip_TimelineRange clip) = range_from (cue_SourceRange c) - range_from (clip_SourceRange clip) \<and>
    tr_Duration (cue_TimelineRange c) = tr_Duration (cue_SourceRange c) \<and>
    1 \<le> rt_val (tr_Duration (cue_TimelineRange c)) \<and> rt_val (tr_Duration (cue_TimelineRange c)) \<le> 6 \<and>
    of_nat (graphemes (withoutNewlines (cue_Text c))) \<le> 20 * rt_val (tr_Duration (cue_TimelineRange c))"

lemma deriveCues_fit:
  assumes clip: "transcriptRangeContains (clip_SourceRange clip) (exc_SourceRange excerpt)"
    and groups: "groupCaptionUnits graphemes ReadableCaptionPolicyV1 units = Inr groups"
    and units: "list_all (\<lambda>u. transcriptRangeContains (exc_SourceRange excerpt) (cu_rangeValue u)) units"
    and cues: "deriveCues graphemes ReadableCaptionPolicyV1 clip (earlier (endOrZero (clip_SourceRange clip)) (endOrZero (exc_SourceRange excerpt))) groups = Inr cues"
    and counts: "\<And>x. graphemes x \<le> length x"
  shows "sorted_wrt (\<lambda>a b. range_upto (cue_SourceRange a) \<le> range_from (cue_SourceRange b)) cues" "\<And>c. c \<in> set cues \<Longrightarrow> cue_fits graphemes excerpt clip c"
proof -
  let ?final = "earlier (endOrZero (clip_SourceRange clip)) (endOrZero (exc_SourceRange excerpt))"
  have final: "rt_valid ?final" "rt_val ?final = range_upto (exc_SourceRange excerpt)"
    using clip by (auto simp: earlier_def transcriptRangeContains_iff compareOrZero_val)
  note ordered = deriveCues_ordered [OF cues counts final(1)]
  show "sorted_wrt (\<lambda>a b. range_upto (cue_SourceRange a) \<le> range_from (cue_SourceRange b)) cues" by (rule ordered(1))
  fix c assume c: "c \<in> set cues"
  from ordered(2) [OF c] final(2) obtain g capEnd where g: "g \<in> set groups" "deriveCue graphemes ReadableCaptionPolicyV1 clip capEnd g = Inr c"
    and upto: "range_upto (cue_SourceRange c) \<le> range_upto (exc_SourceRange excerpt)" by auto
  note D = deriveCue_times [OF g(2) counts]
  have "g \<noteq> []" "set g \<subseteq> set units" using groupCaptionUnits_partition(1,2) [OF groups] g(1) by auto
  then have "hd g \<in> set units" using hd_in_set by blast
  then have "range_from (exc_SourceRange excerpt) \<le> range_from (cue_SourceRange c)"
    using units D(1) by (auto simp: list_all_iff transcriptRangeContains_iff range_from_def)
  then show "cue_fits graphemes excerpt clip c" unfolding cue_fits_def
    using upto D(2,5,6,7,8,9) by (simp add: transcriptRangeContains_iff)
qed

text \<open>C17. Derived captions are readable and apart: when \<^verbatim>\<open>DeriveCaptionCues\<close> succeeds, its cues follow each other
  without overlap, in the source and on the timeline, and each fits its clip and the reading limits.\<close>

theorem caption_cues_fit:
  assumes derived: "DeriveCaptionCues graphemes artifact excerpt corrections clip policy = Inr cues"
    and counts: "\<And>x. graphemes x \<le> length x"
  shows "sorted_wrt (\<lambda>a b. range_upto (cue_SourceRange a) \<le> range_from (cue_SourceRange b) \<and>
      range_upto (cue_TimelineRange a) \<le> range_from (cue_TimelineRange b)) cues \<and>
    list_all (cue_fits graphemes excerpt clip) cues"
proof -
  from derived obtain units groups where "policy = ReadableCaptionPolicyV1" "transcriptRangeContains (clip_SourceRange clip) (exc_SourceRange excerpt)"
    "groupCaptionUnits graphemes policy units = Inr groups" "list_all (\<lambda>u. transcriptRangeContains (exc_SourceRange excerpt) (cu_rangeValue u)) units"
    "deriveCues graphemes policy clip (earlier (endOrZero (clip_SourceRange clip)) (endOrZero (exc_SourceRange excerpt))) groups = Inr cues"
    by (rule DeriveCaptionCues_parts)
  note fit = deriveCues_fit [OF this(2) _ this(4) _ counts, folded this(1), OF this(3,5)]
  have "range_upto (cue_TimelineRange a) \<le> range_from (cue_TimelineRange b)"
    if "a \<in> set cues" "b \<in> set cues" "range_upto (cue_SourceRange a) \<le> range_from (cue_SourceRange b)" for a b
    using fit(2) [OF that(1)] fit(2) [OF that(2)] that(3) by (simp add: cue_fits_def range_from_def range_upto_def)
  then show ?thesis using sorted_wrt_mono_rel [OF _ fit(1)] fit(2) by (simp add: list_all_iff)
qed

theorem caption_cues_fit_witness:
  "\<exists>a b. DeriveCaptionCues length sample_artifact sample_excerpt [] sample_clip ReadableCaptionPolicyV1 = Inr [a, b] \<and>
    range_upto (cue_TimelineRange a) \<le> range_from (cue_TimelineRange b) \<and> cue_fits length sample_excerpt sample_clip a"
proof -
  obtain a b where cues: "DeriveCaptionCues length sample_artifact sample_excerpt [] sample_clip ReadableCaptionPolicyV1 = Inr [a, b]"
    using sample_cues by blast
  from caption_cues_fit [OF cues] cues show ?thesis by simp
qed

end
