(* ===== verification/Rough_Cut.thy ===== *)
theory Rough_Cut
  imports Caption_Theorems
begin

text \<open>
  The rough cut that \<^verbatim>\<open>BuildRoughCutOperation\<close> lays out: one output per item, in order and without gaps from
  the chosen start, each as long as its excerpt, and all local names different.
\<close>

section \<open>What an output of a rough cut is\<close>

text \<open>The output of an item: its excerpt with the tracks and streams the item names.\<close>

definition lane_of :: "rough_cut_lane option \<Rightarrow> rough_cut_lane_output option \<Rightarrow> bool" where
  "lane_of lane out \<longleftrightarrow>
    map_option (\<lambda>l. (rcl_TrackID l, rcl_SourceStreamID l)) lane = map_option (\<lambda>w. (rlo_TrackID w, rlo_SourceStreamID w)) out"

definition cut_of :: "edit_normalization_state \<Rightarrow> rough_cut_item \<Rightarrow> rough_cut_output \<Rightarrow> bool" where
  "cut_of state item out \<longleftrightarrow> (\<exists>excerpt. gm_lookup (st_SourceExcerpts state) (rci_SourceExcerptID item) = Some excerpt \<and>
    \<not> exc_Tombstoned excerpt \<and> gm_lookup (st_SourceExcerptEvidence state) (exc_ID excerpt) = Some SourceExcerptEvidenceExact \<and>
    rco_SourceExcerptID out = exc_ID excerpt \<and> rco_SourceRange out = exc_SourceRange excerpt \<and>
    tr_Duration (rco_TimelineRange out) = tr_Duration (exc_SourceRange excerpt) \<and>
    (rco_Video out \<noteq> None \<or> rco_Audio out \<noteq> None) \<and> lane_of (rci_Video item) (rco_Video out) \<and> lane_of (rci_Audio item) (rco_Audio out) \<and>
    (rco_LinkGroupAs out \<noteq> None \<longleftrightarrow> rco_Video out \<noteq> None \<and> rco_Audio out \<noteq> None))"

text \<open>Outputs that follow each other on the timeline from a time on.\<close>

primrec laid_out :: "rat \<Rightarrow> rough_cut_output list \<Rightarrow> bool" where
  "laid_out t [] \<longleftrightarrow> True"
| "laid_out t (out # outs) \<longleftrightarrow> range_ok (rco_TimelineRange out) \<and> range_from (rco_TimelineRange out) = t \<and>
     laid_out (range_upto (rco_TimelineRange out)) outs"

text \<open>The local names an output uses.\<close>

definition cut_names :: "rough_cut_output \<Rightarrow> LocalID list" where
  "cut_names out = rco_AlignmentAs out # map rlo_ClipAs (map snd (roughCutLanes out)) @
    (case rco_LinkGroupAs out of None \<Rightarrow> [] | Some g \<Rightarrow> [g])"

section \<open>Local names\<close>

definition cut_name :: "LocalID \<Rightarrow> nat \<Rightarrow> string \<Rightarrow> LocalID" where
  "cut_name prefix ordinal kind = prefix @ ''_'' @ kind @ ''_'' @ three_digits ordinal"

lemma three_digits_inject:
  assumes "i < 1000" "j < 1000"
  shows "three_digits i = three_digits j \<longleftrightarrow> i = j"
proof -
  have digit: "char_of (48 + x mod 10) = (char_of (48 + y mod 10) :: char) \<longleftrightarrow> x mod 10 = y mod 10" for x y :: nat
  proof -
    have "take_bit 8 (48 + x mod 10) = 48 + x mod 10" "take_bit 8 (48 + y mod 10) = 48 + y mod 10" by (simp_all add: take_bit_nat_eq_self_iff)
    then show ?thesis by (simp add: char_of_eq_iff of_char_of)
  qed
  show ?thesis
  proof
    assume "three_digits i = three_digits j"
    then have "i div 100 mod 10 = j div 100 mod 10" "i div 10 mod 10 = j div 10 mod 10" "i mod 10 = j mod 10"
      using digit [of "i div 100" "j div 100"] digit [of "i div 10" "j div 10"] digit [of i j] by (simp_all add: three_digits_def)
    moreover have "k = 100 * (k div 100 mod 10) + 10 * (k div 10 mod 10) + k mod 10" if "k < 1000" for k :: nat
    proof -
      have "k = 10 * (k div 10) + k mod 10" "k div 10 = 10 * (k div 10 div 10) + k div 10 mod 10" by simp_all
      moreover have "k div 10 div 10 = k div 100" "k div 100 mod 10 = k div 100" using that by (simp_all add: div_mult2_eq [symmetric])
      ultimately show ?thesis by linarith
    qed
    ultimately show "i = j" using assms by metis
  qed simp
qed

lemma cut_name_inject:
  assumes "i < 1000" "j < 1000"
  shows "cut_name prefix i kind = cut_name prefix j kind' \<longleftrightarrow> i = j \<and> kind = kind'"
proof -
  have "length (three_digits i) = length (three_digits j)" by (simp add: three_digits_def)
  then have "cut_name prefix i kind = cut_name prefix j kind' \<longleftrightarrow> kind @ ''_'' = kind' @ ''_'' \<and> three_digits i = three_digits j"
    using append_eq_append_conv [of "three_digits i" "three_digits j" "kind @ ''_''" "kind' @ ''_''"] by (simp add: cut_name_def)
  then show ?thesis using three_digits_inject [OF assms] by auto
qed

lemma roughCutLocal_Inr: "roughCutLocal prefix kind ordinal = Inr name \<Longrightarrow> name = cut_name prefix ordinal kind"
  by (auto simp: roughCutLocal_def cut_name_def go_result ParseLocalID_def)

lemma roughCutLane_Inr:
  assumes "roughCutLane prefix kind ordinal lane = Inr out"
  shows "lane_of lane out \<and> (\<forall>w. out = Some w \<longrightarrow> rlo_ClipAs w = cut_name prefix ordinal kind)"
  using assms unfolding roughCutLane_def by (auto simp: lane_of_def split: option.splits dest: roughCutLocal_Inr)

lemma lane_of_None: "lane_of lane out \<Longrightarrow> out = None \<longleftrightarrow> lane = None"
  by (auto simp: lane_of_def)

text \<open>The names of one output.\<close>

definition named :: "LocalID \<Rightarrow> nat \<Rightarrow> rough_cut_output \<Rightarrow> bool" where
  "named prefix ordinal out \<longleftrightarrow> (\<exists>kinds. distinct kinds \<and> cut_names out = map (cut_name prefix ordinal) kinds)"

lemma buildRoughCutItem_Inr:
  assumes "buildRoughCutItem state prefix (index, item) (outs, cursor) = Inr (outs', cursor')"
  obtains out where "outs' = outs @ [out]" "cut_of state item out" "named prefix (index + 1) out" "range_ok (rco_TimelineRange out)"
    "range_from (rco_TimelineRange out) = rt_val cursor" "rt_val cursor' = range_upto (rco_TimelineRange out)"
  using assms unfolding buildRoughCutItem_def Let_def prod.case
proof (elim andThenE checkE, goal_cases)
  case (1 excerpt timelineRange alignmentAs video audio groupAs cursor'')
  have names: "alignmentAs = cut_name prefix (index + 1) ''alignment''" by (rule roughCutLocal_Inr [OF 1(7)])
  note v = roughCutLane_Inr [OF 1(8)]
  note a = roughCutLane_Inr [OF 1(9)]
  have g: "groupAs = (if video \<noteq> None \<and> audio \<noteq> None then Some (cut_name prefix (index + 1) ''group'') else None)"
    using 1(10) by (auto split: if_splits dest: roughCutLocal_Inr)
  let ?out = "\<lparr>rco_SourceExcerptID = exc_ID excerpt, rco_SourceRange = exc_SourceRange excerpt,
       rco_TimelineRange = timelineRange, rco_Video = video, rco_Audio = audio, rco_LinkGroupAs = groupAs,
       rco_AlignmentAs = alignmentAs\<rparr>"
  let ?kinds = "''alignment'' # (if video = None then [] else [''video'']) @ (if audio = None then [] else [''audio'']) @
    (if video \<noteq> None \<and> audio \<noteq> None then [''group''] else [])"
  have "cut_names ?out = map (cut_name prefix (index + 1)) ?kinds"
    using v a by (auto simp: cut_names_def roughCutLanes_def names g split: option.splits)
  moreover have "distinct ?kinds" by simp
  ultimately have nm: "named prefix (index + 1) ?out" unfolding named_def by blast
  have range: "timelineRange = \<lparr>tr_Start = cursor, tr_Duration = tr_Duration (exc_SourceRange excerpt)\<rparr>"
    "TimeRange_End timelineRange = Inr cursor''" "outs' = outs @ [?out]" "cursor' = cursor''"
    using 1(6,11,12) by (simp_all add: go_result NewTimeRange_Inr)
  have "cut_of state item ?out"
    using 1(2,3) v a g range(1) lane_of_None [of "rci_Video item" video] lane_of_None [of "rci_Audio item" audio]
    by (simp add: cut_of_def fetch_def go_result)
  then show ?case using nm range End_Inr [of timelineRange cursor''] by (intro that [of ?out]) (simp_all add: range_ok_def)
qed

lemma rough_cut_laid_out:
  assumes "forEach (buildRoughCutItem state prefix) indexed (outs, cursor) = Inr (outs', cursor')"
  shows "\<exists>new. outs' = outs @ new \<and> list_all2 (\<lambda>(index, item) out. cut_of state item out \<and> named prefix (index + 1) out) indexed new \<and>
    laid_out (rt_val cursor) new"
  using assms
proof (induction indexed arbitrary: outs cursor)
  case (Cons x indexed)
  obtain index item where x: "x = (index, item)" by fastforce
  with Cons.prems obtain mid c where step: "buildRoughCutItem state prefix (index, item) (outs, cursor) = Inr (mid, c)"
    and rest: "forEach (buildRoughCutItem state prefix) indexed (mid, c) = Inr (outs', cursor')" by auto
  from step obtain out where out: "mid = outs @ [out]" "cut_of state item out" "named prefix (index + 1) out" "range_ok (rco_TimelineRange out)"
    "range_from (rco_TimelineRange out) = rt_val cursor" "rt_val c = range_upto (rco_TimelineRange out)" by (rule buildRoughCutItem_Inr)
  from Cons.IH [OF rest] obtain new where "outs' = mid @ new"
    "list_all2 (\<lambda>(index, item) out. cut_of state item out \<and> named prefix (index + 1) out) indexed new" "laid_out (rt_val c) new" by blast
  then show ?case using out x by (intro exI [of _ "out # new"]) simp
qed simp

lemma named_distinct:
  assumes "list_all2 (\<lambda>index out. named prefix (index + 1) out) indices outs" "distinct indices" "list_all (\<lambda>i. i < 900) indices"
  shows "distinct (concat (map cut_names outs))" "\<forall>name \<in> set (concat (map cut_names outs)). \<exists>i kind. i \<in> set indices \<and> name = cut_name prefix (i + 1) kind"
  using assms
proof (induction rule: list_all2_induct)
  case (Cons i indices out outs)
  {
    case 1
    from Cons.hyps(1) obtain kinds where kinds: "distinct kinds" "cut_names out = map (cut_name prefix (i + 1)) kinds" by (auto simp: named_def)
    have "inj_on (cut_name prefix (i + 1)) (set kinds)" using 1 by (auto simp: inj_on_def cut_name_inject)
    moreover have "cut_name prefix (i + 1) kind \<noteq> cut_name prefix (j + 1) kind'" if "j \<in> set indices" for j kind kind'
      using 1 that by (auto simp: cut_name_inject list_all_iff)
    ultimately show ?case using Cons.IH 1 kinds by (fastforce simp: distinct_map)
  next
    case 2
    then show ?case using Cons.hyps(1) Cons.IH(2) by (fastforce simp: named_def)
  }
qed simp_all

section \<open>The rough cut\<close>

text \<open>C14. A rough cut has one output per item, in the order of the items: the first starts where it was asked to, every
  other where the one before ends, each lasts as long as its excerpt and plays it on the tracks of its item. All the local
  names the outputs use are different.\<close>

theorem rough_cut_contiguous:
  assumes "BuildRoughCutOperation env state timelineStart localPrefix items = Inr operation"
  shows "list_all2 (cut_of state) items (op_DerivedRoughCut operation) \<and> laid_out (rt_val timelineStart) (op_DerivedRoughCut operation) \<and>
    distinct (concat (map cut_names (op_DerivedRoughCut operation)))"
proof -
  from assms obtain outs cursor where run: "forEach (buildRoughCutItem state localPrefix) (zip [0..<length items] items) ([], timelineStart) = Inr (outs, cursor)"
    and operation: "op_DerivedRoughCut operation = outs" and few: "length items \<le> 128"
    unfolding BuildRoughCutOperation_def Let_def by (elim andThenE casePairE checkE) auto
  from rough_cut_laid_out [OF run] have outs: "list_all2 (\<lambda>(index, item) out. cut_of state item out \<and> named localPrefix (index + 1) out)
      (zip [0..<length items] items) outs" "laid_out (rt_val timelineStart) outs" by simp_all
  from outs(1) have "list_all2 (cut_of state) items outs" "list_all2 (\<lambda>index out. named localPrefix (index + 1) out) [0..<length items] outs"
    by (simp_all add: list_all2_conv_all_nth)
  then show ?thesis using outs(2) operation named_distinct(1) [of localPrefix "[0..<length items]" outs] few
    by (simp add: list_all_iff)
qed

definition sample_stream :: edit_stream_state where
  "sample_stream = \<lparr>str_ID = ''stream'', str_AssetID = ''asset'', str_AssetRevision = 1, str_Descriptor =
    \<lparr>sd_Index = 0, sd_MediaType = MediaVideo, sd_Codec = '''', sd_CodecProfile = '''', sd_CodecTag = '''', sd_TimeBase = seconds 1,
      sd_StartTime = Some (seconds 0), sd_Duration = Some (seconds 9), sd_Language = '''', sd_Dispositions = [], sd_Video = None, sd_Audio = None\<rparr>\<rparr>"

definition sample_cut_state :: edit_normalization_state where
  "sample_cut_state = sample_state\<lparr>st_SourceExcerpts := [(''excerpt'', sample_excerpt)],
    st_SourceExcerptEvidence := [(''excerpt'', SourceExcerptEvidenceExact)], st_SourceStreams := [(''stream'', sample_stream)],
    st_Tracks := [(''track'', sample_track\<lparr>trk_Type := TrackVideo\<rparr>)]\<rparr>"

definition sample_item :: rough_cut_item where
  "sample_item = \<lparr>rci_SourceExcerptID = ''excerpt'', rci_Video = Some \<lparr>rcl_TrackID = ''track'', rcl_SourceStreamID = ''stream''\<rparr>, rci_Audio = None\<rparr>"

definition sample_cut_env :: edit_env where
  "sample_cut_env = sample_env\<lparr>env_roughCutDigest := (\<lambda>_. Some ''digest'')\<rparr>"

lemma sample_lane: "validateRoughCutLane sample_cut_state sample_excerpt \<lparr>rcl_TrackID = ''track'', rcl_SourceStreamID = ''stream''\<rparr> TrackVideo"
proof -
  have zero: "NewRationalTime 0 1 = Inr (seconds 0)"
    using NewRationalTime_total [of 1 0] NewRationalTime_val [of 0 1] rt.val_eq seconds_val [of 0] by force
  show ?thesis
    by (simp add: validateRoughCutLane_def sample_cut_state_def sample_state_def sample_track_def sample_stream_def ID_IsZero_def
      trackAcceptsStream_def sourceRangeWithin_def zero)
qed

lemma sample_cut: "\<exists>operation. BuildRoughCutOperation sample_cut_env sample_cut_state (seconds 2) ''cut'' [sample_item, sample_item] = Inr operation"
proof -
  have locals: "ParseLocalID ''cut'' = Inr ''cut''" "roughCutLocal ''cut'' ''alignment'' (Suc 0) = Inr ''cut_alignment_001''" "roughCutLocal ''cut'' ''video'' (Suc 0) = Inr ''cut_video_001''"
    "roughCutLocal ''cut'' ''alignment'' (Suc (Suc 0)) = Inr ''cut_alignment_002''" "roughCutLocal ''cut'' ''video'' (Suc (Suc 0)) = Inr ''cut_video_002''"
    by (simp_all add: ParseLocalID_def roughCutLocal_def localIDPattern_def is_lower_def is_digit_def three_digits_def char_of_def bit_0)
  have excerpt: "exc_ID sample_excerpt = ''excerpt''" by (simp add: sample_excerpt_def)
  have state_maps: "st_SourceExcerpts sample_cut_state = [(''excerpt'', sample_excerpt)]"
    "st_SourceExcerptEvidence sample_cut_state = [(''excerpt'', SourceExcerptEvidenceExact)]" by (simp_all add: sample_cut_state_def)
  show ?thesis
    by (simp add: fetch_def ID_IsZero_def upt_rec BuildRoughCutOperation_def buildRoughCutItem_def roughCutLane_def locals sample_lane sample_item_def excerpt state_maps sample_cut_env_def)
qed

theorem rough_cut_contiguous_witness:
  "\<exists>operation. BuildRoughCutOperation sample_cut_env sample_cut_state (seconds 2) ''cut'' [sample_item, sample_item] = Inr operation \<and>
    laid_out 2 (op_DerivedRoughCut operation)"
  using sample_cut rough_cut_contiguous [of sample_cut_env sample_cut_state "seconds 2" "''cut''" "[sample_item, sample_item]"] seconds_val [of 2]
  by auto

end
