(* ===== verification/Release_Version.thy ===== *)
theory Release_Version
  imports Identity "HOL-Library.List_Lexorder" "HOL-Library.Char_ord" "HOL-Library.Product_Lexorder"
begin

text \<open>
  Release versions (\<^verbatim>\<open>internal/release/version.go\<close>): the pattern of a canonical version, parsing, comparison and display.
  A text is a version exactly when it is the canonical text of one, and the comparison is the lexicographic order.
\<close>

section \<open>Versions\<close>

record version =
  ver_Major :: uint64
  ver_Minor :: uint64
  ver_Patch :: uint64
  ver_Channel :: string
  ver_Number :: uint64
  ver_raw :: string

text \<open>The regular expression: decimal numbers without leading zeros and a channel of lower case letters, digits and inner dashes.\<close>

definition channel_char :: "char \<Rightarrow> bool" where
  "channel_char c \<longleftrightarrow> is_lower c \<or> is_digit c"

definition channelPattern :: "string \<Rightarrow> bool" where
  "channelPattern s \<longleftrightarrow> s \<noteq> [] \<and> channel_char (hd s) \<and> channel_char (last s) \<and> list_all (\<lambda>c. channel_char c \<or> c = CHR ''-'') s"

definition canonicalVersionPattern :: "string \<Rightarrow> (string \<times> string \<times> string \<times> string \<times> string) option" where
  "canonicalVersionPattern value =
    (let (major, rest) = strings_cut CHR ''.'' value; (minor, rest) = strings_cut CHR ''.'' rest;
         (patch, rest) = strings_cut CHR ''-'' rest; (channel, number) = strings_cut CHR ''.'' rest
     in if value = major @ CHR ''.'' # minor @ CHR ''.'' # patch @ CHR ''-'' # channel @ CHR ''.'' # number \<and>
          isCanonicalDecimal major False \<and> isCanonicalDecimal minor False \<and> isCanonicalDecimal patch False \<and>
          channelPattern channel \<and> isCanonicalDecimal number False
        then Some (major, minor, patch, channel, number) else None)"

datatype version_error =
    VersionSyntax string
  | VersionRange string
  | VersionChannel string string

definition parsePart :: "string \<Rightarrow> string \<Rightarrow> version_error + uint64" where
  "parsePart value source = (case ParseUint source of None \<Rightarrow> Inl (VersionRange value) | Some parsed \<Rightarrow> Inr (word_of_int parsed))"

definition ParseVersion :: "string \<Rightarrow> version_error + version" where
  "ParseVersion value = (case canonicalVersionPattern value of
     None \<Rightarrow> Inl (VersionSyntax value)
   | Some (major, minor, patch, channel, number) \<Rightarrow>
       andThen (parsePart value major) (\<lambda>a.
       andThen (parsePart value minor) (\<lambda>b.
       andThen (parsePart value patch) (\<lambda>c.
       andThen (parsePart value number) (\<lambda>d.
       Inr \<lparr>ver_Major = a, ver_Minor = b, ver_Patch = c, ver_Channel = channel, ver_Number = d, ver_raw = value\<rparr>)))))"

definition ParseVersionForChannel :: "string \<Rightarrow> string \<Rightarrow> version_error + version" where
  "ParseVersionForChannel value channel =
    andThen (ParseVersion value) (\<lambda>version.
    if ver_Channel version \<noteq> channel then Inl (VersionChannel (ver_Channel version) channel) else Inr version)"

definition Version_String :: "version \<Rightarrow> string" where
  "Version_String v = ver_raw v"

fun compareParts :: "uint64 list \<Rightarrow> uint64 list \<Rightarrow> int option" where
  "compareParts (l # left) (r # right) = (if l < r then Some (-1) else if l > r then Some 1 else compareParts left right)"
| "compareParts _ _ = None"

definition Version_Compare :: "version \<Rightarrow> version \<Rightarrow> int" where
  "Version_Compare v w =
    (case compareParts [ver_Major v, ver_Minor v, ver_Patch v, ver_Number v] [ver_Major w, ver_Minor w, ver_Patch w, ver_Number w] of
       Some c \<Rightarrow> c
     | None \<Rightarrow> if ver_Channel v < ver_Channel w then -1 else if ver_Channel v > ver_Channel w then 1 else 0)"

definition Version_Display :: "version \<Rightarrow> string" where
  "Version_Display v = (if ver_Channel v = ''stable''
     then format_nat (unat (ver_Major v)) @ ''.'' @ format_nat (unat (ver_Minor v)) @ ''.'' @ format_nat (unat (ver_Patch v))
     else ver_raw v)"

section \<open>Canonical texts\<close>

definition decimal :: "uint64 \<Rightarrow> string" where
  "decimal x = Revision_String x"

definition version_text :: "version \<Rightarrow> string" where
  "version_text v = decimal (ver_Major v) @ CHR ''.'' # decimal (ver_Minor v) @ CHR ''.'' # decimal (ver_Patch v) @ CHR ''-'' #
    ver_Channel v @ CHR ''.'' # decimal (ver_Number v)"

lemma decimal_iff: "isCanonicalDecimal s False \<and> parsePart value s = Inr x \<longleftrightarrow> s = decimal x"
  using parseCanonicalUint64_Inr [of s x] by (auto simp: parseCanonicalUint64_def parsePart_def decimal_def split: option.splits if_splits)

lemma decimal_free: "c \<in> set (decimal x) \<Longrightarrow> is_digit c"
  using format_nat_digits [of "nat (uint x)"] by (auto simp: decimal_def Revision_String_def format_int_def list_all_iff)

lemma channel_no_dot: "channelPattern s \<Longrightarrow> CHR ''.'' \<notin> set s"
  by (auto simp: channelPattern_def list_all_iff channel_char_def is_lower_def is_digit_def)

lemma canonical_no_mark: "isCanonicalDecimal s False \<Longrightarrow> CHR ''.'' \<notin> set s" "isCanonicalDecimal s False \<Longrightarrow> CHR ''-'' \<notin> set s"
  by (auto simp: isCanonicalDecimal_def is_digit_def list_all_iff split: if_splits)

lemma canonicalVersionPattern_iff:
  "canonicalVersionPattern value = Some (a, b, c, ch, d) \<longleftrightarrow>
    value = a @ CHR ''.'' # b @ CHR ''.'' # c @ CHR ''-'' # ch @ CHR ''.'' # d \<and>
    isCanonicalDecimal a False \<and> isCanonicalDecimal b False \<and> isCanonicalDecimal c False \<and> channelPattern ch \<and> isCanonicalDecimal d False"
  (is "?l \<longleftrightarrow> ?r")
proof
  show "?l \<Longrightarrow> ?r" by (auto simp: canonicalVersionPattern_def Let_def split: prod.splits if_splits)
  show "?r \<Longrightarrow> ?l"
    by (elim conjE) (simp add: canonicalVersionPattern_def strings_cut_append canonical_no_mark channel_no_dot)
qed

lemma ParseVersion_Inr:
  "ParseVersion s = Inr v \<longleftrightarrow> ver_raw v = s \<and> s = version_text v \<and> channelPattern (ver_Channel v)"
proof -
  have "ParseVersion s = Inr v \<longleftrightarrow> (\<exists>a b c ch d. canonicalVersionPattern s = Some (a, b, c, ch, d) \<and> ver_raw v = s \<and> ver_Channel v = ch \<and>
      parsePart s a = Inr (ver_Major v) \<and> parsePart s b = Inr (ver_Minor v) \<and> parsePart s c = Inr (ver_Patch v) \<and> parsePart s d = Inr (ver_Number v))"
    by (cases v) (auto simp: ParseVersion_def go_result split: option.splits)
  then show ?thesis
    unfolding canonicalVersionPattern_iff version_text_def using decimal_iff [of _ s] by metis
qed

section \<open>The order of versions\<close>

type_synonym version_key = "uint64 \<times> uint64 \<times> uint64 \<times> uint64 \<times> string"

definition version_key :: "version \<Rightarrow> version_key" where
  "version_key v = (ver_Major v, ver_Minor v, ver_Patch v, ver_Number v, ver_Channel v)"

lemma Version_Compare_key:
  "Version_Compare v w = (if version_key v < version_key w then -1 else if version_key w < version_key v then 1 else 0)"
  by (auto simp: Version_Compare_def version_key_def less_prod_def)

lemma parsed_key_inject:
  assumes "ParseVersion s = Inr v" "ParseVersion t = Inr w" "version_key v = version_key w"
  shows "s = t"
  using assms by (simp add: ParseVersion_Inr version_key_def version_text_def)

text \<open>C26. A text parses as a version exactly when it is the canonical text of that version and its channel is well formed, so the parser
  loses nothing and no second spelling of a version is accepted. A channel mismatch is the one further error of the parser for a channel.\<close>

theorem version_text_roundtrip:
  "(ParseVersion s = Inr v \<longleftrightarrow> Version_String v = s \<and> s = version_text v \<and> channelPattern (ver_Channel v)) \<and>
   (ParseVersionForChannel s channel = Inr v \<longleftrightarrow> ParseVersion s = Inr v \<and> ver_Channel v = channel)"
  by (auto simp: ParseVersion_Inr Version_String_def ParseVersionForChannel_def go_result)

text \<open>C27. The comparison of versions is the lexicographic order of major, minor, patch, number and channel. Versions that were parsed
  compare equal exactly when their texts are equal.\<close>

theorem version_compare_lexicographic:
  assumes "ParseVersion s = Inr v" "ParseVersion t = Inr w"
  shows "(Version_Compare v w < 0 \<longleftrightarrow> version_key v < version_key w) \<and> (Version_Compare v w = 0 \<longleftrightarrow> s = t) \<and>
    Version_Compare w v = - Version_Compare v w"
  using parsed_key_inject [OF assms] assms by (auto simp: Version_Compare_key)

theorem version_compare_lexicographic_witness:
  "\<exists>v w. ParseVersion ''1.2.9-beta.3'' = Inr v \<and> ParseVersion ''1.10.0-beta.1'' = Inr w \<and> Version_Compare v w < 0 \<and> Version_Compare w v = 1"
proof -
  have "\<exists>v w. ParseVersion ''1.2.9-beta.3'' = Inr v \<and> ParseVersion ''1.10.0-beta.1'' = Inr w \<and> version_key v < version_key w \<and> Version_Compare v w = -1"
    by (simp add: ParseVersion_def canonicalVersionPattern_def strings_cut_def isCanonicalDecimal_def is_digit_def channelPattern_def channel_char_def is_lower_def
      parsePart_def ParseUint_def digits_value_def IsUint64_def version_key_def Version_Compare_def)
  then obtain v w where "ParseVersion ''1.2.9-beta.3'' = Inr v" "ParseVersion ''1.10.0-beta.1'' = Inr w" "Version_Compare v w = -1" by blast
  then show ?thesis using version_compare_lexicographic [of "''1.2.9-beta.3''" v "''1.10.0-beta.1''" w] by auto
qed

end
