(* ===== verification/Runtime_State.thy ===== *)
theory Runtime_State
  imports Release_Version
begin

text \<open>
  The state of the installed releases (\<^verbatim>\<open>internal/state/state.go\<close>) and the decisions of launcher and updater about it
  (\<^verbatim>\<open>internal/launcher/launcher.go\<close>, \<^verbatim>\<open>internal/update/genesis.go\<close>, \<^verbatim>\<open>internal/update/journal.go\<close>): a runtime state names the active version, a candidate under trial and the last good version.
  The state file is represented by the document it holds, \<open>None\<close> when there is none; reading, writing and the JSON text are not modelled.
\<close>

section \<open>The runtime state\<close>

record runtime =
  run_Schema :: int
  run_Generation :: uint64
  run_Active :: string
  run_Candidate :: string
  run_LastGood :: string
  run_Attempt :: uint64

definition state_Schema :: int where
  "state_Schema = 1"

definition state_Empty :: runtime where
  "state_Empty = \<lparr>run_Schema = state_Schema, run_Generation = 0, run_Active = '''', run_Candidate = '''', run_LastGood = '''', run_Attempt = 0\<rparr>"

text \<open>The names are checked in the order in which a Go map is ranged over, which is not fixed: the error does not say which name it is about.\<close>

datatype state_error =
    UnsupportedSchema int
  | InvalidName
  | ActiveNotLastGood
  | CandidatePending string
  | CandidateVersion version_error
  | CannotConfirm string string
  | NoCandidate

definition Runtime_Validate :: "string \<Rightarrow> runtime \<Rightarrow> state_error + unit" where
  "Runtime_Validate channel runtime =
    (if run_Schema runtime \<noteq> state_Schema then Inl (UnsupportedSchema (run_Schema runtime))
     else if \<not> list_all (\<lambda>value. value = '''' \<or> isOk (ParseVersionForChannel value channel))
       [run_Active runtime, run_Candidate runtime, run_LastGood runtime] then Inl InvalidName
     else if run_Candidate runtime = '''' \<and> run_Active runtime \<noteq> run_LastGood runtime then Inl ActiveNotLastGood
     else Inr ())"

definition state_Load :: "runtime option \<Rightarrow> string \<Rightarrow> state_error + runtime" where
  "state_Load document channel = (case document of
     None \<Rightarrow> Inr state_Empty
   | Some runtime \<Rightarrow> andThen (Runtime_Validate channel runtime) (\<lambda>_. Inr runtime))"

definition state_Save :: "string \<Rightarrow> runtime \<Rightarrow> state_error + runtime option" where
  "state_Save channel runtime = andThen (Runtime_Validate channel runtime) (\<lambda>_. Inr (Some runtime))"

definition Prepare :: "runtime \<Rightarrow> string \<Rightarrow> string \<Rightarrow> state_error + runtime" where
  "Prepare current channel candidate =
    andThen (Runtime_Validate channel current) (\<lambda>_.
    if run_Candidate current \<noteq> '''' then Inl (CandidatePending (run_Candidate current)) else
    case ParseVersionForChannel candidate channel of
      Inl e \<Rightarrow> Inl (CandidateVersion e)
    | Inr _ \<Rightarrow> Inr (current\<lparr>run_Generation := run_Generation current + 1, run_Attempt := run_Attempt current + 1,
        run_Candidate := candidate\<rparr>))"

definition Confirm :: "runtime \<Rightarrow> string \<Rightarrow> string \<Rightarrow> state_error + runtime" where
  "Confirm current channel candidate =
    andThen (Runtime_Validate channel current) (\<lambda>_.
    if candidate = '''' \<or> run_Candidate current \<noteq> candidate then Inl (CannotConfirm candidate (run_Candidate current)) else
    Inr (current\<lparr>run_Generation := run_Generation current + 1, run_Active := candidate, run_LastGood := candidate, run_Candidate := ''''\<rparr>))"

definition Rollback :: "runtime \<Rightarrow> string \<Rightarrow> state_error + runtime" where
  "Rollback current channel =
    andThen (Runtime_Validate channel current) (\<lambda>_.
    if run_Candidate current = '''' then Inl NoCandidate else
    Inr (current\<lparr>run_Generation := run_Generation current + 1, run_Candidate := '''', run_Active := run_LastGood current\<rparr>))"

section \<open>Its use by the launcher and the updater\<close>

text \<open>The launcher starts the candidate if there is one and the active version otherwise.\<close>

definition selectedVersion :: "runtime \<Rightarrow> string \<times> bool" where
  "selectedVersion runtime =
    (let selected = run_Candidate runtime; isCandidate = selected \<noteq> ''''
     in (if selected = '''' then run_Active runtime else selected, isCandidate))"

definition failCandidate :: "string \<Rightarrow> runtime \<Rightarrow> bool \<Rightarrow> runtime option \<Rightarrow> state_error + runtime option" where
  "failCandidate channel runtimeState isCandidate document =
    (if \<not> isCandidate then Inr document else
     andThen (Rollback runtimeState channel) (state_Save channel))"

definition confirmSelected :: "string \<Rightarrow> runtime \<Rightarrow> string \<Rightarrow> bool \<Rightarrow> runtime option \<Rightarrow> state_error + runtime option" where
  "confirmSelected channel runtimeState selected isCandidate document =
    (if isCandidate then andThen (Confirm runtimeState channel selected) (state_Save channel) else Inr document)"

definition prepareUpdate :: "string \<Rightarrow> runtime \<Rightarrow> string \<Rightarrow> state_error + runtime option" where
  "prepareUpdate channel runtimeState version = andThen (Prepare runtimeState channel version) (state_Save channel)"

text \<open>
  Before it downloads a release whose metadata is verified, the installer loads the state and decides: nothing is to be done when the version is
  already the candidate or active, another pending candidate is an error, and so is a version that is not newer than the active one. Errors of
  the parser are ignored there, as in the code.
\<close>

datatype install_error =
    CandidateAlreadyPending string
  | ReleaseRollback string string
  | RecoveryBlocked string string

definition zero_version :: version where
  "zero_version = \<lparr>ver_Major = 0, ver_Minor = 0, ver_Patch = 0, ver_Channel = '''', ver_Number = 0, ver_raw = ''''\<rparr>"

definition parsedVersion :: "string \<Rightarrow> string \<Rightarrow> version" where
  "parsedVersion value channel = (case ParseVersionForChannel value channel of Inr v \<Rightarrow> v | Inl _ \<Rightarrow> zero_version)"

definition admitInstall :: "string \<Rightarrow> runtime \<Rightarrow> string \<Rightarrow> install_error + bool" where
  "admitInstall channel runtimeState version =
    (if run_Candidate runtimeState \<noteq> '''' then
       (if run_Candidate runtimeState = version then Inr False else Inl (CandidateAlreadyPending (run_Candidate runtimeState)))
     else if run_Active runtimeState = version then Inr False
     else if run_Active runtimeState \<noteq> '''' \<and>
         Version_Compare (parsedVersion version channel) (parsedVersion (run_Active runtimeState) channel) \<le> 0
       then Inl (ReleaseRollback (run_Active runtimeState) version)
     else Inr True)"

text \<open>The recovery of an interrupted update, for the version its journal names: \<open>False\<close> when only the journal is left to remove.\<close>

definition admitRecovery :: "runtime \<Rightarrow> string \<Rightarrow> install_error + bool" where
  "admitRecovery runtimeState version =
    (if run_Active runtimeState = version \<or> run_Candidate runtimeState = version then Inr False
     else if run_Candidate runtimeState \<noteq> '''' then Inl (RecoveryBlocked version (run_Candidate runtimeState))
     else Inr True)"

end
