(* ===== verification/Activation.thy ===== *)
theory Activation
  imports Runtime_State
begin

text \<open>
  How a release becomes active on a machine: the launcher, the update requests its broker serves, the installation the launcher runs itself when
  nothing is installed, and the recovery every launcher process runs before it takes the lock, all on one state file
  (\<^verbatim>\<open>internal/launcher/launcher.go\<close>, \<^verbatim>\<open>internal/update/genesis.go\<close>, \<^verbatim>\<open>internal/update/journal.go\<close>).
  Every load of the state and the save of what was made of it are separate steps, between which the others may take theirs.
\<close>

section \<open>The processes\<close>

text \<open>
  An installation belongs to the broker, to the loop of the launcher or to a starting process, which only recovers. The broker serves one request at
  a time and the loop waits for its own installation; nothing orders the two, nor the starting processes. An installation first recovers: it has read the version of a
  journal, then loaded the state, then is to remove the journal. Afterwards it asks an origin for the release, has loaded the state, has written the journal,
  has moved the release to the installed versions and, when the state is saved, is to remove the journal again.
\<close>

datatype owner = Broker | Loop | Startup

datatype installer =
    Reading string
  | Recovering runtime string
  | Recovered
  | Resolving
  | Admitting runtime string
  | Downloading runtime string
  | Promoted runtime string
  | Finishing

fun snapshot :: "installer \<Rightarrow> runtime option" where
  "snapshot (Recovering r v) = Some r"
| "snapshot (Admitting r v) = Some r"
| "snapshot (Downloading r v) = Some r"
| "snapshot (Promoted r v) = Some r"
| "snapshot _ = None"

text \<open>Whether an installation that fails tries to remove the journal, and whether it then asks the next origin.\<close>

fun cleans_up :: "installer \<Rightarrow> bool" where
  "cleans_up (Downloading _ _) = True"
| "cleans_up (Promoted _ _) = True"
| "cleans_up Finishing = True"
| "cleans_up _ = False"

fun tries_next :: "installer \<Rightarrow> bool" where
  "tries_next (Admitting _ _) = True"
| "tries_next i = cleans_up i"

text \<open>The launcher holds the state it loaded, the version it tries and whether that is the candidate.\<close>

datatype launcher = Idle | Bootstrapping | Trial runtime string bool | Serving string

record activation_system =
  sys_document :: "runtime option"
  sys_journal :: "string option"
  sys_versions :: "string list"
  sys_installers :: "(owner \<times> installer) list"
  sys_launcher :: launcher

definition activation_start :: activation_system where
  "activation_start = \<lparr>sys_document = None, sys_journal = None, sys_versions = [], sys_installers = [], sys_launcher = Idle\<rparr>"

definition may_start :: "activation_system \<Rightarrow> owner \<Rightarrow> bool" where
  "may_start s who \<longleftrightarrow> (who = Loop \<longrightarrow> sys_launcher s = Bootstrapping) \<and> (who \<noteq> Startup \<longrightarrow> who \<notin> fst ` set (sys_installers s))"

datatype activation =
    Started owner
  | Loaded owner
  | Dropped owner
  | Admitted owner string
  | Journalled owner
  | Promotion owner string
  | Prepared owner string
  | Finished owner
  | Ended owner
  | Bootstrapped
  | BootstrapDone
  | Launched
  | Confirmed string
  | Kept
  | Failed
  | Exited
  | Crashed

text \<open>
  The steps. Loading the state and deciding on it is one step, and so are changing what was loaded and saving it; the journal is written by steps of its own.
  An installation may end after each of its steps, with an error or because there is nothing to do, and the process of the launcher may end at any point,
  with the installations of its broker and its loop. A release can only be held when it is installed.
\<close>

inductive activates :: "string \<Rightarrow> activation_system \<Rightarrow> activation \<Rightarrow> activation_system \<Rightarrow> bool" for channel where
  started: "may_start s who \<Longrightarrow> i = (case sys_journal s of None \<Rightarrow> Resolving | Some v \<Rightarrow> Reading v) \<Longrightarrow>
    activates channel s (Started who) (s\<lparr>sys_installers := (who, i) # sys_installers s\<rparr>)"
| loaded: "sys_installers s = xs @ (who, Reading v) # ys \<Longrightarrow> state_Load (sys_document s) channel = Inr r \<Longrightarrow> admitRecovery r v = Inr pending \<Longrightarrow>
    activates channel s (Loaded who) (s\<lparr>sys_installers := xs @ (who, if pending then Recovering r v else Recovered) # ys\<rparr>)"
| dropped: "sys_installers s = xs @ (who, Recovering r v) # ys \<Longrightarrow> v \<notin> set (sys_versions s) \<Longrightarrow>
    activates channel s (Dropped who) (s\<lparr>sys_installers := xs @ (who, Recovered) # ys\<rparr>)"
| recovered: "sys_installers s = xs @ (who, Recovering r v) # ys \<Longrightarrow> v \<in> set (sys_versions s) \<Longrightarrow> prepareUpdate channel r v = Inr d \<Longrightarrow>
    activates channel s (Prepared who v) (s\<lparr>sys_installers := xs @ (who, Recovered) # ys, sys_document := d\<rparr>)"
| admitted: "sys_installers s = xs @ (who, Resolving) # ys \<Longrightarrow> who \<noteq> Startup \<Longrightarrow> isOk (ParseVersionForChannel v channel) \<Longrightarrow>
    state_Load (sys_document s) channel = Inr r \<Longrightarrow> admitInstall channel r v = Inr True \<Longrightarrow>
    activates channel s (Admitted who v) (s\<lparr>sys_installers := xs @ (who, Admitting r v) # ys\<rparr>)"
| journalled: "sys_installers s = xs @ (who, i) # ys \<Longrightarrow>
    (i, i') \<in> {(Admitting r v, Downloading r v), (Downloading r v, Downloading r v), (Promoted r v, Promoted r v)} \<Longrightarrow>
    activates channel s (Journalled who) (s\<lparr>sys_installers := xs @ (who, i') # ys, sys_journal := Some v\<rparr>)"
| promotion: "sys_installers s = xs @ (who, Downloading r v) # ys \<Longrightarrow>
    activates channel s (Promotion who v) (s\<lparr>sys_installers := xs @ (who, Promoted r v) # ys, sys_versions := v # sys_versions s\<rparr>)"
| prepared: "sys_installers s = xs @ (who, Promoted r v) # ys \<Longrightarrow> prepareUpdate channel r v = Inr d \<Longrightarrow>
    activates channel s (Prepared who v) (s\<lparr>sys_installers := xs @ (who, Finishing) # ys, sys_document := d\<rparr>)"
| finished: "sys_installers s = xs @ (who, i) # ys \<Longrightarrow> (i, rest) \<in> {(Recovered, [(who, Resolving)]), (Finishing, [])} \<Longrightarrow>
    activates channel s (Finished who) (s\<lparr>sys_installers := xs @ rest @ ys, sys_journal := None\<rparr>)"
| ended: "sys_installers s = xs @ (who, i) # ys \<Longrightarrow> journal = sys_journal s \<or> cleans_up i \<and> journal = None \<Longrightarrow>
    rest = [] \<or> tries_next i \<and> rest = [(who, Resolving)] \<Longrightarrow>
    activates channel s (Ended who) (s\<lparr>sys_installers := xs @ rest @ ys, sys_journal := journal\<rparr>)"
| bootstrapped: "sys_launcher s = Idle \<Longrightarrow> state_Load (sys_document s) channel = Inr r \<Longrightarrow> fst (selectedVersion r) = '''' \<Longrightarrow>
    activates channel s Bootstrapped (s\<lparr>sys_launcher := Bootstrapping\<rparr>)"
| bootstrap_done: "sys_launcher s = Bootstrapping \<Longrightarrow> Loop \<notin> fst ` set (sys_installers s) \<Longrightarrow>
    activates channel s BootstrapDone (s\<lparr>sys_launcher := Idle\<rparr>)"
| launched: "sys_launcher s = Idle \<Longrightarrow> state_Load (sys_document s) channel = Inr r \<Longrightarrow> selectedVersion r = (selected, isCandidate) \<Longrightarrow>
    selected \<noteq> '''' \<Longrightarrow> activates channel s Launched (s\<lparr>sys_launcher := Trial r selected isCandidate\<rparr>)"
| held: "sys_launcher s = Trial r selected isCandidate \<Longrightarrow> selected \<in> set (sys_versions s) \<Longrightarrow>
    confirmSelected channel r selected isCandidate (sys_document s) = Inr d \<Longrightarrow>
    activates channel s (if isCandidate then Confirmed selected else Kept) (s\<lparr>sys_document := d, sys_launcher := Serving selected\<rparr>)"
| failed: "sys_launcher s = Trial r selected isCandidate \<Longrightarrow> failCandidate channel r isCandidate (sys_document s) = Inr d \<Longrightarrow>
    activates channel s Failed (s\<lparr>sys_document := d, sys_launcher := Idle\<rparr>)"
| exited: "sys_launcher s = Serving selected \<Longrightarrow> activates channel s Exited (s\<lparr>sys_launcher := Idle\<rparr>)"
| crashed: "activates channel s Crashed (s\<lparr>sys_launcher := Idle, sys_installers := filter (\<lambda>(who, _). who = Startup) (sys_installers s)\<rparr>)"

inductive activation_run :: "string \<Rightarrow> activation list \<Rightarrow> activation_system \<Rightarrow> bool" for channel where
  start: "activation_run channel [] activation_start"
| event: "activation_run channel events s \<Longrightarrow> activates channel s e s' \<Longrightarrow> activation_run channel (events @ [e]) s'"

section \<open>Only a version that was held becomes active\<close>

fun promoted :: "installer \<Rightarrow> string option" where
  "promoted (Promoted r v) = Some v"
| "promoted _ = None"

definition held_runtime :: "string \<Rightarrow> activation list \<Rightarrow> string list \<Rightarrow> runtime \<Rightarrow> bool" where
  "held_runtime channel events versions r \<longleftrightarrow> Runtime_Validate channel r = Inr () \<and> run_LastGood r = run_Active r \<and>
    (run_Active r = '''' \<or> Confirmed (run_Active r) \<in> set events \<and> run_Active r \<in> set versions) \<and>
    (run_Candidate r = '''' \<or> (\<exists>who. Prepared who (run_Candidate r) \<in> set events) \<and> run_Candidate r \<in> set versions)"

lemma held_runtime_mono:
  "held_runtime channel events versions r \<Longrightarrow> set events \<subseteq> set events' \<Longrightarrow> set versions \<subseteq> set versions' \<Longrightarrow> held_runtime channel events' versions' r"
  unfolding held_runtime_def by blast

definition held_system :: "string \<Rightarrow> activation list \<Rightarrow> activation_system \<Rightarrow> bool" where
  "held_system channel events s \<longleftrightarrow> (\<exists>r. state_Load (sys_document s) channel = Inr r \<and> held_runtime channel events (sys_versions s) r) \<and>
    (\<forall>i \<in> snd ` set (sys_installers s). \<forall>r. snapshot i = Some r \<longrightarrow> held_runtime channel events (sys_versions s) r) \<and>
    (\<forall>i \<in> snd ` set (sys_installers s). \<forall>v. promoted i = Some v \<longrightarrow> v \<in> set (sys_versions s)) \<and>
    (\<forall>r selected isCandidate. sys_launcher s = Trial r selected isCandidate \<longrightarrow> held_runtime channel events (sys_versions s) r)"

lemma not_version_empty [simp]: "\<not> isOk (ParseVersionForChannel '''' channel)"
  by (auto simp: isOk_iff ParseVersionForChannel_def ParseVersion_Inr go_result version_text_def)

lemma prepareUpdate_Inr:
  assumes "prepareUpdate channel r v = Inr d"
  shows "Runtime_Validate channel r = Inr ()" "run_Candidate r = ''''" "isOk (ParseVersionForChannel v channel)"
    "d = Some (r\<lparr>run_Generation := run_Generation r + 1, run_Attempt := run_Attempt r + 1, run_Candidate := v\<rparr>)"
    "Runtime_Validate channel (r\<lparr>run_Generation := run_Generation r + 1, run_Attempt := run_Attempt r + 1, run_Candidate := v\<rparr>) = Inr ()"
  using assms by (auto simp: prepareUpdate_def Prepare_def state_Save_def go_result isOk_iff split: if_splits sum.splits)

lemma confirmSelected_Inr:
  assumes "confirmSelected channel r selected True d = Inr d'"
  shows "run_Candidate r = selected" "selected \<noteq> ''''"
    "d' = Some (r\<lparr>run_Generation := run_Generation r + 1, run_Active := selected, run_LastGood := selected, run_Candidate := ''''\<rparr>)"
    "Runtime_Validate channel (r\<lparr>run_Generation := run_Generation r + 1, run_Active := selected, run_LastGood := selected, run_Candidate := ''''\<rparr>) = Inr ()"
  using assms by (auto simp: confirmSelected_def Confirm_def state_Save_def go_result split: if_splits)

lemma failCandidate_Inr:
  assumes "failCandidate channel r True d = Inr d'"
  shows "run_Candidate r \<noteq> ''''" "d' = Some (r\<lparr>run_Generation := run_Generation r + 1, run_Candidate := '''', run_Active := run_LastGood r\<rparr>)"
    "Runtime_Validate channel (r\<lparr>run_Generation := run_Generation r + 1, run_Candidate := '''', run_Active := run_LastGood r\<rparr>) = Inr ()"
  using assms by (auto simp: failCandidate_def Rollback_def state_Save_def go_result split: if_splits)

lemma prepared_held:
  assumes "prepareUpdate channel r v = Inr d" "held_runtime channel events versions r" "Prepared who v \<in> set events" "v \<in> set versions"
  shows "\<exists>r'. state_Load d channel = Inr r' \<and> held_runtime channel events versions r'"
  using prepareUpdate_Inr(4,5) [OF assms(1)] assms(2-) by (auto simp: state_Load_def held_runtime_def)

lemma confirmed_held:
  assumes "confirmSelected channel r selected isCandidate document = Inr d" "selected \<in> set versions" "isCandidate \<Longrightarrow> Confirmed selected \<in> set events"
    and "\<exists>r'. state_Load document channel = Inr r' \<and> held_runtime channel events versions r'"
  shows "\<exists>r'. state_Load d channel = Inr r' \<and> held_runtime channel events versions r'"
proof (cases isCandidate)
  case True
  then show ?thesis using confirmSelected_Inr(3,4) [of channel r selected document d] assms(1-3) by (auto simp: state_Load_def held_runtime_def)
qed (use assms in \<open>simp add: confirmSelected_def\<close>)

lemma failed_held:
  assumes "failCandidate channel r isCandidate document = Inr d" "held_runtime channel events versions r"
    and "\<exists>r'. state_Load document channel = Inr r' \<and> held_runtime channel events versions r'"
  shows "\<exists>r'. state_Load d channel = Inr r' \<and> held_runtime channel events versions r'"
proof (cases isCandidate)
  case True
  then show ?thesis using failCandidate_Inr(2,3) [of channel r document d] assms(1,2) by (auto simp: state_Load_def held_runtime_def)
qed (use assms in \<open>simp add: failCandidate_def\<close>)

lemma activates_versions: "activates channel s e s' \<Longrightarrow> set (sys_versions s) \<subseteq> set (sys_versions s')"
  by (erule activates.cases) auto

lemma activates_held:
  assumes "activates channel s e s'" "held_system channel events s"
  shows "held_system channel (events @ [e]) s'"
proof -
  let ?held = "held_runtime channel (events @ [e]) (sys_versions s')"
  have up: "held_runtime channel events (sys_versions s) r \<Longrightarrow> ?held r" for r
    by (erule held_runtime_mono) (use activates_versions [OF assms(1)] in auto)
  note h = assms(2) [unfolded held_system_def]
  have doc: "\<exists>r. state_Load (sys_document s) channel = Inr r \<and> ?held r"
    using conjunct1 [OF h] up by blast
  have sessions: "\<forall>i \<in> snd ` set (sys_installers s). \<forall>r. snapshot i = Some r \<longrightarrow> ?held r"
    using h [THEN conjunct2, THEN conjunct1] up by blast
  have installed: "\<forall>i \<in> snd ` set (sys_installers s). \<forall>v. promoted i = Some v \<longrightarrow> v \<in> set (sys_versions s)"
    using h by blast
  have trial: "\<forall>r selected isCandidate. sys_launcher s = Trial r selected isCandidate \<longrightarrow> ?held r"
    using h [THEN conjunct2, THEN conjunct2, THEN conjunct2] up by blast
  note sys = doc sessions installed trial
  have "\<exists>r. state_Load (sys_document s') channel = Inr r \<and> ?held r"
    using assms(1)
  proof cases
    case (recovered xs who r v ys d)
    have "?held r" using sessions recovered(3) by fastforce
    then show ?thesis using prepared_held [of channel r v d "events @ [e]" "sys_versions s'" who] recovered by simp
  next
    case (prepared xs who r v ys d)
    have "?held r" "v \<in> set (sys_versions s)" using sessions installed prepared(3) by fastforce+
    then show ?thesis using prepared_held [of channel r v d "events @ [e]" "sys_versions s'" who] prepared by simp
  next
    case (held r selected isCandidate d)
    show ?thesis by (rule confirmed_held [of channel r selected isCandidate "sys_document s"]) (use held doc in simp_all)
  next
    case (failed r selected isCandidate d)
    show ?thesis by (rule failed_held [of channel r isCandidate "sys_document s"]) (use failed doc trial in simp_all)
  qed (use doc in simp_all)
  moreover have "\<forall>i \<in> snd ` set (sys_installers s'). \<forall>r. snapshot i = Some r \<longrightarrow> ?held r"
    using assms(1) sys by cases (auto split: if_splits option.splits)
  moreover have "\<forall>i \<in> snd ` set (sys_installers s'). \<forall>v. promoted i = Some v \<longrightarrow> v \<in> set (sys_versions s')"
    using assms(1) installed by cases (auto split: if_splits option.splits)
  moreover have "\<forall>r selected isCandidate. sys_launcher s' = Trial r selected isCandidate \<longrightarrow> ?held r"
    using assms(1) doc trial by cases auto
  ultimately show ?thesis unfolding held_system_def by blast
qed

lemma run_held: "activation_run channel events s \<Longrightarrow> held_system channel events s"
proof (induction rule: activation_run.induct)
  case start
  show ?case by (simp add: held_system_def activation_start_def state_Load_def state_Empty_def held_runtime_def Runtime_Validate_def)
qed (rule activates_held)

section \<open>Installations one at a time\<close>

text \<open>Paths in which at most one installation runs at any time; the launcher, its crashes and the ends of the installation interleave freely.\<close>

inductive calm_path :: "string \<Rightarrow> activation_system \<Rightarrow> activation list \<Rightarrow> activation_system \<Rightarrow> bool" for channel s where
  nil: "calm_path channel s [] s"
| step: "calm_path channel s events t \<Longrightarrow> activates channel t e t' \<Longrightarrow> length (sys_installers t') \<le> 1 \<Longrightarrow> calm_path channel s (events @ [e]) t'"

text \<open>What the history of the events says: the active version, the candidate, whether the running trial is that of the candidate, and the number of writes and attempts.\<close>

record activation_history =
  h_active :: string
  h_candidate :: string
  h_trial :: bool
  h_writes :: nat
  h_attempts :: nat

definition on_event :: "activation_history \<Rightarrow> activation \<Rightarrow> activation_history" where
  "on_event h e = (case e of
     Prepared _ version \<Rightarrow> h\<lparr>h_candidate := version, h_writes := h_writes h + 1, h_attempts := h_attempts h + 1\<rparr>
   | Launched \<Rightarrow> h\<lparr>h_trial := h_candidate h \<noteq> ''''\<rparr>
   | Confirmed version \<Rightarrow> h\<lparr>h_active := version, h_candidate := '''', h_trial := False, h_writes := h_writes h + 1\<rparr>
   | Failed \<Rightarrow> if h_trial h then h\<lparr>h_candidate := '''', h_trial := False, h_writes := h_writes h + 1\<rparr> else h
   | Crashed \<Rightarrow> h\<lparr>h_trial := False\<rparr>
   | _ \<Rightarrow> h)"

definition history :: "activation list \<Rightarrow> activation_history" where
  "history events = foldl on_event \<lparr>h_active = '''', h_candidate = '''', h_trial = False, h_writes = 0, h_attempts = 0\<rparr> events"

definition runtime_of :: "activation_history \<Rightarrow> runtime" where
  "runtime_of h = \<lparr>run_Schema = state_Schema, run_Generation = of_nat (h_writes h), run_Active = h_active h, run_Candidate = h_candidate h,
    run_LastGood = h_active h, run_Attempt = of_nat (h_attempts h)\<rparr>"

definition version_name :: "string \<Rightarrow> string \<Rightarrow> bool" where
  "version_name channel s \<longleftrightarrow> s = '''' \<or> isOk (ParseVersionForChannel s channel)"

definition newer :: "string \<Rightarrow> string \<Rightarrow> string \<Rightarrow> bool" where
  "newer channel v w \<longleftrightarrow> w = '''' \<or> Version_Compare (parsedVersion v channel) (parsedVersion w channel) > 0"

lemma newer_trans: "newer channel v w \<Longrightarrow> newer channel w u \<Longrightarrow> w \<noteq> '''' \<Longrightarrow> newer channel v u"
  by (auto simp: newer_def Version_Compare_key split: if_splits)

lemma admitInstall_newer:
  "isOk (ParseVersionForChannel v channel) \<Longrightarrow> admitInstall channel r v = Inr True \<longleftrightarrow> run_Candidate r = '''' \<and> newer channel v (run_Active r)"
  by (auto simp: admitInstall_def newer_def Version_Compare_key split: if_splits)

definition history_wf :: "string \<Rightarrow> activation_history \<Rightarrow> bool" where
  "history_wf channel h \<longleftrightarrow> version_name channel (h_active h) \<and> version_name channel (h_candidate h) \<and> (h_trial h \<longrightarrow> h_candidate h \<noteq> '''') \<and>
    (h_candidate h \<noteq> '''' \<longrightarrow> newer channel (h_candidate h) (h_active h))"

definition launcher_follows :: "activation_history \<Rightarrow> launcher \<Rightarrow> bool" where
  "launcher_follows h l = (case l of
     Trial runtime selected isCandidate \<Rightarrow> isCandidate = h_trial h \<and> (isCandidate \<longrightarrow> runtime = runtime_of h \<and> selected = h_candidate h)
   | _ \<Rightarrow> \<not> h_trial h)"

definition journal_follows :: "string \<Rightarrow> activation_history \<Rightarrow> string option \<Rightarrow> bool" where
  "journal_follows channel h journal = (case journal of None \<Rightarrow> True
   | Some v \<Rightarrow> isOk (ParseVersionForChannel v channel) \<and>
      (if h_candidate h \<noteq> '''' then v = h_candidate h else v = h_active h \<or> newer channel v (h_active h)))"

text \<open>An installation that holds a state holds the one the history gives, without candidate, and installs a newer version.\<close>

definition installs_newer :: "string \<Rightarrow> activation_history \<Rightarrow> runtime \<Rightarrow> string \<Rightarrow> bool" where
  "installs_newer channel h r v \<longleftrightarrow> r = runtime_of h \<and> h_candidate h = '''' \<and> isOk (ParseVersionForChannel v channel) \<and> newer channel v (h_active h)"

definition installer_follows :: "string \<Rightarrow> activation_history \<Rightarrow> string option \<Rightarrow> installer \<Rightarrow> bool" where
  "installer_follows channel h journal i = (case i of
     Reading v \<Rightarrow> journal = Some v
   | Recovering r v \<Rightarrow> installs_newer channel h r v \<and> journal = Some v
   | Admitting r v \<Rightarrow> installs_newer channel h r v
   | Downloading r v \<Rightarrow> installs_newer channel h r v \<and> journal = Some v
   | Promoted r v \<Rightarrow> installs_newer channel h r v \<and> journal = Some v
   | _ \<Rightarrow> True)"

definition system_follows :: "string \<Rightarrow> activation_history \<Rightarrow> activation_system \<Rightarrow> bool" where
  "system_follows channel h s \<longleftrightarrow> history_wf channel h \<and> state_Load (sys_document s) channel = Inr (runtime_of h) \<and>
    launcher_follows h (sys_launcher s) \<and> journal_follows channel h (sys_journal s) \<and>
    list_all (installer_follows channel h (sys_journal s)) (map snd (sys_installers s)) \<and> length (sys_installers s) \<le> 1"

lemma validate_runtime_of: "history_wf channel h \<Longrightarrow> Runtime_Validate channel (runtime_of h) = Inr ()"
  by (auto simp: Runtime_Validate_def runtime_of_def history_wf_def version_name_def)

lemma Load_Some: "history_wf channel h \<Longrightarrow> state_Load (Some (runtime_of h)) channel = Inr (runtime_of h)"
  by (simp add: state_Load_def validate_runtime_of)

lemma prepared_wf: "history_wf channel h \<Longrightarrow> installs_newer channel h r v \<Longrightarrow> history_wf channel (on_event h (Prepared who v))"
  by (auto simp: history_wf_def installs_newer_def on_event_def version_name_def)

lemma prepared_runtime_of:
  assumes "history_wf channel h" "installs_newer channel h r v"
  shows "prepareUpdate channel r v = Inr (Some (runtime_of (on_event h (Prepared who v))))"
proof -
  have "r\<lparr>run_Generation := run_Generation r + 1, run_Attempt := run_Attempt r + 1, run_Candidate := v\<rparr> = runtime_of (on_event h (Prepared who v))"
    using assms(2) by (simp add: installs_newer_def runtime_of_def on_event_def add.commute)
  then show ?thesis using validate_runtime_of [OF assms(1)] validate_runtime_of [OF prepared_wf [OF assms], of who] assms(2)
    by (auto simp: prepareUpdate_def Prepare_def state_Save_def isOk_iff installs_newer_def runtime_of_def split: sum.splits)
qed

lemma confirmed_wf: "history_wf channel h \<Longrightarrow> history_wf channel (on_event h (Confirmed (h_candidate h)))"
  by (auto simp: history_wf_def on_event_def version_name_def)

lemma confirmed_runtime_of:
  assumes "history_wf channel h" "h_trial h"
  shows "confirmSelected channel (runtime_of h) (h_candidate h) True d = Inr (Some (runtime_of (on_event h (Confirmed (h_candidate h)))))"
proof -
  have "(runtime_of h)\<lparr>run_Generation := run_Generation (runtime_of h) + 1, run_Active := h_candidate h, run_LastGood := h_candidate h, run_Candidate := ''''\<rparr>
      = runtime_of (on_event h (Confirmed (h_candidate h)))"
    by (simp add: runtime_of_def on_event_def add.commute)
  moreover have "h_candidate h \<noteq> ''''" "run_Candidate (runtime_of h) = h_candidate h" using assms by (simp_all add: history_wf_def runtime_of_def)
  ultimately show ?thesis using validate_runtime_of [OF assms(1)] validate_runtime_of [OF confirmed_wf [OF assms(1)]]
    by (simp add: confirmSelected_def Confirm_def state_Save_def)
qed

lemma failed_wf: "history_wf channel h \<Longrightarrow> history_wf channel (on_event h Failed)"
  by (auto simp: history_wf_def on_event_def version_name_def)

lemma failed_runtime_of:
  assumes "history_wf channel h" "h_trial h"
  shows "failCandidate channel (runtime_of h) True d = Inr (Some (runtime_of (on_event h Failed)))"
proof -
  have "(runtime_of h)\<lparr>run_Generation := run_Generation (runtime_of h) + 1, run_Candidate := '''', run_Active := run_LastGood (runtime_of h)\<rparr> = runtime_of (on_event h Failed)"
    using assms(2) by (simp add: runtime_of_def on_event_def add.commute)
  moreover have "run_Candidate (runtime_of h) \<noteq> ''''" using assms by (simp add: history_wf_def runtime_of_def)
  ultimately show ?thesis using validate_runtime_of [OF assms(1)] validate_runtime_of [OF failed_wf [OF assms(1)]]
    by (simp add: failCandidate_def Rollback_def state_Save_def)
qed

lemma single_installer: "length (xs @ x # ys) \<le> 1 \<Longrightarrow> xs = [] \<and> ys = []"
  by auto

lemma follows_trial_update [simp]:
  "runtime_of (h\<lparr>h_trial := b\<rparr>) = runtime_of h"
  "journal_follows channel (h\<lparr>h_trial := b\<rparr>) = journal_follows channel h"
  "installer_follows channel (h\<lparr>h_trial := b\<rparr>) = installer_follows channel h"
  by (simp_all add: fun_eq_iff runtime_of_def journal_follows_def installer_follows_def installs_newer_def split: installer.splits option.splits)

lemma follows_prepared:
  assumes "system_follows channel h s" "sys_installers s = [(who, i)]" "i = Recovering r v \<or> i = Promoted r v" "prepareUpdate channel r v = Inr d"
    and "i' = Recovered \<or> i' = Finishing"
  shows "system_follows channel (on_event h (Prepared who v)) (s\<lparr>sys_installers := [(who, i')], sys_document := d\<rparr>)"
proof -
  have wf: "history_wf channel h" and new: "installs_newer channel h r v" "sys_journal s = Some v"
    using assms(1-3) by (auto simp: system_follows_def installer_follows_def)
  have d: "d = Some (runtime_of (on_event h (Prepared who v)))" using assms(4) prepared_runtime_of [OF wf new(1)] by simp
  have "\<not> h_trial h" "v \<noteq> ''''" using wf new by (auto simp: history_wf_def installs_newer_def)
  then have "launcher_follows (on_event h (Prepared who v)) (sys_launcher s)" "journal_follows channel (on_event h (Prepared who v)) (Some v)"
    using assms(1) new by (auto simp: system_follows_def launcher_follows_def journal_follows_def installs_newer_def on_event_def split: launcher.splits)
  moreover have "installer_follows channel h' j i'" for h' j using assms(5) by (auto simp: installer_follows_def)
  ultimately show ?thesis using prepared_wf [OF wf new(1), of who] Load_Some new(2) by (auto simp: system_follows_def d)
qed

lemma trial_installer:
  assumes "history_wf channel h" "h_trial h" "installer_follows channel h j i"
  shows "installer_follows channel h' j i"
  using assms by (auto simp: installer_follows_def installs_newer_def history_wf_def split: installer.splits)

lemma follows_trial:
  assumes "system_follows channel h s" "h_trial h" "e = Confirmed (h_candidate h) \<or> e = Failed" "d = Some (runtime_of (on_event h e))" "\<forall>r v c. l \<noteq> Trial r v c"
  shows "system_follows channel (on_event h e) (s\<lparr>sys_document := d, sys_launcher := l\<rparr>)"
proof -
  have wf: "history_wf channel h" and j: "journal_follows channel h (sys_journal s)" and "list_all (installer_follows channel h (sys_journal s)) (map snd (sys_installers s))"
    using assms(1) by (auto simp: system_follows_def)
  then have "list_all (installer_follows channel (on_event h e) (sys_journal s)) (map snd (sys_installers s))"
    using trial_installer [OF wf assms(2)] by (auto simp: list_all_iff)
  moreover have "history_wf channel (on_event h e)" using assms(3) confirmed_wf failed_wf wf by auto
  moreover have "launcher_follows (on_event h e) l" using assms(3,5) by (auto simp: launcher_follows_def on_event_def split: launcher.splits)
  moreover have "journal_follows channel (on_event h e) (sys_journal s)"
    using j wf assms(2,3) by (auto simp: journal_follows_def on_event_def history_wf_def split: option.splits)
  ultimately show ?thesis using assms(1,4) Load_Some by (auto simp: system_follows_def)
qed

lemma journal_follows_None [simp]: "journal_follows channel h None"
  by (simp add: journal_follows_def)

lemmas follows_defs = system_follows_def on_event_def installer_follows_def installs_newer_def

lemma launcher_activates_follows:
  assumes "activates channel s e s'" "system_follows channel h s" "length (sys_installers s') \<le> 1" "sys_launcher s \<noteq> sys_launcher s'"
  shows "system_follows channel (on_event h e) s'"
proof -
  have wf: "history_wf channel h" and follows: "launcher_follows h (sys_launcher s)" using assms(2) by (auto simp: system_follows_def)
  from assms(1) show ?thesis
  proof cases
    case (held r selected isCandidate d)
    show ?thesis
    proof (cases isCandidate)
      case True
      then have t: "h_trial h" "r = runtime_of h" "selected = h_candidate h" using held follows by (auto simp: launcher_follows_def)
      then show ?thesis using held True follows_trial [OF assms(2) t(1), of e d "Serving selected"] confirmed_runtime_of [OF wf t(1)] by simp
    qed (use held assms(2) in \<open>auto simp: follows_defs launcher_follows_def confirmSelected_def\<close>)
  next
    case (failed r selected isCandidate d)
    show ?thesis
    proof (cases isCandidate)
      case True
      then have t: "h_trial h" "r = runtime_of h" using failed follows by (auto simp: launcher_follows_def)
      then show ?thesis using failed True follows_trial [OF assms(2) t(1), of e d Idle] failed_runtime_of [OF wf t(1)] by simp
    qed (use failed assms(2) in \<open>auto simp: follows_defs launcher_follows_def failCandidate_def\<close>)
  next
    case (launched r selected isCandidate)
    then show ?thesis using assms(2)
      by (auto simp: system_follows_def on_event_def launcher_follows_def history_wf_def selectedVersion_def Let_def runtime_of_def split: if_splits)
  next
    case crashed
    have "list_all (installer_follows channel h (sys_journal s)) (map snd (filter (\<lambda>(who, _). who = Startup) (sys_installers s)))"
      using assms(2) by (auto simp: system_follows_def list_all_iff)
    then show ?thesis using crashed assms(2,3) by (auto simp: system_follows_def on_event_def launcher_follows_def history_wf_def)
  qed (use assms(2,4) in \<open>auto simp: follows_defs launcher_follows_def\<close>)
qed

lemma activates_follows:
  assumes "activates channel s e s'" "system_follows channel h s" "length (sys_installers s') \<le> 1"
  shows "system_follows channel (on_event h e) s'"
proof (cases "sys_launcher s = sys_launcher s'")
  case True
  have alone: "xs = [] \<and> ys = []" if "sys_installers s = xs @ x # ys" for xs x ys
    using assms(2) that by (intro single_installer [of _ x]) (simp add: system_follows_def)
  from assms(1) show ?thesis
  proof cases
    case (recovered xs who r v ys d)
    then show ?thesis using alone [OF recovered(3)] follows_prepared [OF assms(2), of who "Recovering r v"] by simp
  next
    case (prepared xs who r v ys d)
    then show ?thesis using alone [OF prepared(3)] follows_prepared [OF assms(2), of who "Promoted r v"] by simp
  next
    case (loaded xs who v ys r pending)
    then show ?thesis using alone [OF loaded(3)] assms(2) by (auto simp: follows_defs journal_follows_def admitRecovery_def runtime_of_def split: if_splits)
  next
    case (admitted xs who ys v r)
    then show ?thesis using alone [OF admitted(3)] assms(2) by (auto simp: follows_defs admitInstall_newer runtime_of_def)
  next
    case (journalled xs who i ys i' r v)
    then show ?thesis using alone [OF journalled(3)] assms(2) by (auto simp: follows_defs journal_follows_def)
  next
    case (started who i)
    then show ?thesis using assms(2,3) by (auto simp: follows_defs split: option.splits)
  next
    case (ended xs who i ys journal rest)
    then show ?thesis using alone [OF ended(3)] assms(2) by (auto simp: system_follows_def on_event_def installer_follows_def)
  next
    case (finished xs who i ys rest)
    then show ?thesis using alone [OF finished(3)] assms(2) by (auto simp: system_follows_def on_event_def installer_follows_def)
  next
    case (dropped xs who r v ys)
    then show ?thesis using alone [OF dropped(3)] assms(2) by (auto simp: follows_defs)
  next
    case (promotion xs who r v ys)
    then show ?thesis using alone [OF promotion(3)] assms(2) by (auto simp: follows_defs)
  next
    case crashed
    have "list_all (installer_follows channel h (sys_journal s)) (map snd (filter (\<lambda>(who, _). who = Startup) (sys_installers s)))"
      using assms(2) by (auto simp: system_follows_def list_all_iff)
    then show ?thesis using crashed assms(2,3) by (auto simp: system_follows_def on_event_def launcher_follows_def history_wf_def)
  qed (use True in auto)
qed (rule launcher_activates_follows [OF assms])

lemma calm_follows: "calm_path channel s events t \<Longrightarrow> system_follows channel h s \<Longrightarrow> system_follows channel (foldl on_event h events) t"
  by (induction rule: calm_path.induct) (simp_all add: activates_follows)

lemma start_follows: "system_follows channel (history []) activation_start"
  by (simp add: system_follows_def launcher_follows_def history_wf_def version_name_def activation_start_def state_Load_def state_Empty_def runtime_of_def history_def)

lemma calm_run_follows: "calm_path channel activation_start events s \<Longrightarrow> system_follows channel (history events) s"
  using calm_follows [OF _ start_follows] by (simp add: history_def)

lemma follows_load: "system_follows channel h s \<Longrightarrow> state_Load (sys_document s) channel = Inr (runtime_of h)"
  by (simp add: system_follows_def)

section \<open>Without concurrent installations the active version only moves forward\<close>

lemma activates_forward:
  assumes "activates channel s e s'" "system_follows channel h s"
  shows "h_active (on_event h e) = h_active h \<or>
    isOk (ParseVersionForChannel (h_active (on_event h e)) channel) \<and> newer channel (h_active (on_event h e)) (h_active h)"
  using assms(1)
proof cases
  case (held r selected isCandidate d)
  then show ?thesis using assms(2) by (cases isCandidate) (auto simp: system_follows_def launcher_follows_def history_wf_def version_name_def on_event_def)
qed (auto simp: on_event_def)

lemma calm_forward:
  assumes "calm_path channel s events t" "system_follows channel h s"
  shows "h_active (foldl on_event h events) = h_active h \<or>
    isOk (ParseVersionForChannel (h_active (foldl on_event h events)) channel) \<and> newer channel (h_active (foldl on_event h events)) (h_active h)"
  using assms
proof (induction rule: calm_path.induct)
  case (step events t e t')
  let ?h = "foldl on_event h events"
  have "h_active ?h = '''' \<Longrightarrow> h_active h = ''''" using step by (auto simp: newer_def)
  moreover have "newer channel v ''''" for v by (simp add: newer_def)
  ultimately show ?case using activates_forward [OF step(2) calm_follows [OF step(1) step.prems]] step.IH [OF step.prems]
      newer_trans [of channel "h_active (on_event ?h e)" "h_active ?h" "h_active h"] by fastforce
qed simp

lemma calm_append: "calm_path channel t rest u \<Longrightarrow> calm_path channel s events t \<Longrightarrow> calm_path channel s (events @ rest) u"
proof (induction rule: calm_path.induct)
  case (step rest u e u')
  then show ?case using calm_path.step [of channel s "events @ rest" u e u'] by simp
qed simp

section \<open>Without concurrent installations every newer version can become active\<close>

lemma calm_step: "activates channel s e t \<Longrightarrow> length (sys_installers t) \<le> 1 \<Longrightarrow> calm_path channel t rest u \<Longrightarrow> calm_path channel s (e # rest) u"
  using calm_append [of channel t rest u s "[e]"] calm_path.step [OF calm_path.nil, of channel s e t] by simp

lemma settle:
  assumes "system_follows channel h s"
  obtains events t where "length events \<le> 2" "calm_path channel s events t" "sys_installers t = []" "sys_launcher t = Idle"
    "h_active (foldl on_event h events) = h_active h"
proof -
  define t where "t = s\<lparr>sys_launcher := Idle, sys_installers := filter (\<lambda>(who, _). who = Startup) (sys_installers s)\<rparr>"
  have one: "length (sys_installers t) \<le> 1" using assms order_trans [OF length_filter_le] by (auto simp: system_follows_def t_def)
  have step: "calm_path channel s [Crashed] t" by (rule calm_step [OF _ one calm_path.nil]) (simp add: t_def crashed)
  show thesis
  proof (cases "sys_installers t")
    case Nil
    then show thesis using that [of "[Crashed]", OF _ step] by (simp add: t_def on_event_def)
  next
    case (Cons x xs)
    then obtain who i where x: "sys_installers t = [(who, i)]" using one by (cases x) simp
    have "activates channel t (Ended who) (t\<lparr>sys_installers := [] @ [] @ [], sys_journal := sys_journal t\<rparr>)" by (rule ended [of t _ who i]) (simp_all add: x)
    from calm_append [OF calm_step [OF this _ calm_path.nil] step]
    have "calm_path channel s [Crashed, Ended who] (t\<lparr>sys_installers := []\<rparr>)" by simp
    then show thesis by (rule that [rotated]) (simp_all add: t_def on_event_def)
  qed
qed

text \<open>The recovery at the start of an installation always finishes and leaves no journal.\<close>

lemma read_journal:
  assumes f: "system_follows channel h s" and s: "sys_installers s = []" "sys_journal s = Some w"
  obtains events t where "length events \<le> 3" "calm_path channel s events t" "sys_installers t = [(Broker, Recovered)]" "sys_launcher t = sys_launcher s"
    "h_active (foldl on_event h events) = h_active h"
proof -
  let ?at = "\<lambda>i. s\<lparr>sys_installers := [(Broker, i)]\<rparr>" and ?r = "runtime_of h"
  have load: "state_Load (sys_document s) channel = Inr ?r" and wf: "history_wf channel h" using f by (simp_all add: system_follows_def)
  have 1: "activates channel s (Started Broker) (?at (Reading w))"
    using started [of s Broker "Reading w" channel] s by (simp add: may_start_def)
  have 2: "activates channel (?at (Reading w)) (Loaded Broker) (?at (if p then Recovering ?r w else Recovered))" if "admitRecovery ?r w = Inr p" for p
    using loaded [of "?at (Reading w)" "[]" Broker w "[]" channel ?r p] load that by simp
  show thesis
  proof (cases "w = h_active h \<or> w = h_candidate h")
    case True
    then have "admitRecovery ?r w = Inr False" by (auto simp: admitRecovery_def runtime_of_def)
    from calm_step [OF 1 _ calm_step [OF 2 [OF this] _ calm_path.nil]] show thesis by (rule that [rotated]) (simp_all add: on_event_def)
  next
    case False
    then have new: "installs_newer channel h ?r w" and p: "admitRecovery ?r w = Inr True"
      using f s by (auto simp: system_follows_def journal_follows_def installs_newer_def admitRecovery_def runtime_of_def split: if_splits)
    show thesis
    proof (cases "w \<in> set (sys_versions s)")
      case True
      have "activates channel (?at (Recovering ?r w)) (Prepared Broker w) ((?at Recovered)\<lparr>sys_document := Some (runtime_of (on_event h (Prepared Broker w)))\<rparr>)"
        using recovered [of "?at (Recovering ?r w)" "[]" Broker ?r w "[]" channel] prepared_runtime_of [OF wf new, of Broker] True by simp
      from calm_step [OF 1 _ calm_step [OF 2 [OF p, simplified] _ calm_step [OF this _ calm_path.nil]]]
      show thesis by (rule that [rotated]) (simp_all add: on_event_def)
    next
      case False
      have "activates channel (?at (Recovering ?r w)) (Dropped Broker) (?at Recovered)"
        using dropped [of "?at (Recovering ?r w)" "[]" Broker ?r w "[]" channel] False by simp
      from calm_step [OF 1 _ calm_step [OF 2 [OF p, simplified] _ calm_step [OF this _ calm_path.nil]]]
      show thesis by (rule that [rotated]) (simp_all add: on_event_def)
    qed
  qed
qed

lemma remove_journal:
  assumes f: "system_follows channel h s" and s: "sys_installers s = []"
  obtains events t where "length events \<le> 5" "calm_path channel s events t" "sys_installers t = []" "sys_journal t = None" "sys_launcher t = sys_launcher s"
    "h_active (foldl on_event h events) = h_active h"
proof (cases "sys_journal s")
  case None
  then show thesis by (intro that [of "[]" s]) (simp_all add: s calm_path.nil)
next
  case (Some w)
  obtain events t where t: "length events \<le> 3" "calm_path channel s events t" "sys_installers t = [(Broker, Recovered)]" "sys_launcher t = sys_launcher s"
    "h_active (foldl on_event h events) = h_active h" by (rule read_journal [OF f s Some])
  let ?u = "t\<lparr>sys_installers := [(Broker, Resolving)], sys_journal := None\<rparr>"
  have 1: "activates channel t (Finished Broker) ?u" using finished [of t "[]" Broker Recovered "[]" "[(Broker, Resolving)]" channel] t by simp
  have 2: "activates channel ?u (Ended Broker) (t\<lparr>sys_installers := [], sys_journal := None\<rparr>)" using ended [of ?u "[]" Broker Resolving "[]" None "[]" channel] by simp
  from calm_append [OF calm_step [OF 1 _ calm_step [OF 2 _ calm_path.nil]] t(2)]
  show thesis by (rule that [rotated]) (use t in \<open>simp_all add: on_event_def\<close>)
qed

lemma launch_candidate:
  assumes "system_follows channel h s" "sys_launcher s = Idle" "h_candidate h \<noteq> ''''"
  shows "activates channel s Launched (s\<lparr>sys_launcher := Trial (runtime_of h) (h_candidate h) True\<rparr>)"
  by (rule launched [OF assms(2) follows_load [OF assms(1)]]) (use assms(3) in \<open>simp_all add: selectedVersion_def runtime_of_def\<close>)

lemma drop_candidate:
  assumes f: "system_follows channel h s" and s: "sys_installers s = []" "sys_journal s = None" "sys_launcher s = Idle"
  obtains events t where "length events \<le> 2" "calm_path channel s events t" "sys_installers t = []" "sys_journal t = None" "sys_launcher t = Idle"
    "h_active (foldl on_event h events) = h_active h" "h_candidate (foldl on_event h events) = ''''"
proof (cases "h_candidate h = ''''")
  case True
  then show thesis by (intro that [of "[]" s]) (simp_all add: s calm_path.nil)
next
  case False
  let ?t = "s\<lparr>sys_launcher := Trial (runtime_of h) (h_candidate h) True\<rparr>" and ?h = "on_event h Launched"
  have 1: "activates channel s Launched ?t" by (rule launch_candidate [OF f s(3) False])
  have h: "history_wf channel ?h" "h_trial ?h" "runtime_of ?h = runtime_of h"
    using activates_follows [OF 1 f] s False by (simp_all add: system_follows_def on_event_def)
  have 2: "activates channel ?t Failed (s\<lparr>sys_document := Some (runtime_of (on_event ?h Failed)), sys_launcher := Idle\<rparr>)"
    using failed [of ?t "runtime_of h" "h_candidate h" True channel] failed_runtime_of [OF h(1,2)] h(3) by simp
  from calm_step [OF 1 _ calm_step [OF 2 _ calm_path.nil]] show thesis by (rule that [rotated]) (use s False in \<open>simp_all add: on_event_def\<close>)
qed

abbreviation update_events :: "string \<Rightarrow> activation list" where
  "update_events v \<equiv> [Started Broker, Admitted Broker v, Journalled Broker, Promotion Broker v, Prepared Broker v, Finished Broker]"

lemma install_newer:
  assumes f: "system_follows channel h s" and s: "sys_installers s = []" "sys_journal s = None" "sys_launcher s = Idle"
    and v: "h_candidate h = ''''" "isOk (ParseVersionForChannel v channel)" "newer channel v (h_active h)"
  obtains t where "calm_path channel s (update_events v) t" "sys_installers t = []" "sys_launcher t = Idle" "v \<in> set (sys_versions t)"
proof -
  let ?at = "\<lambda>i. s\<lparr>sys_installers := [(Broker, i)]\<rparr>" and ?r = "runtime_of h"
  let ?d = "Some (runtime_of (on_event h (Prepared Broker v)))" and ?vs = "v # sys_versions s"
  have load: "state_Load (sys_document s) channel = Inr ?r" and wf: "history_wf channel h" using f by (simp_all add: system_follows_def)
  have new: "installs_newer channel h ?r v" using v by (simp add: installs_newer_def)
  have 1: "activates channel s (Started Broker) (?at Resolving)" using started [of s Broker Resolving channel] s by (simp add: may_start_def)
  have 2: "activates channel (?at Resolving) (Admitted Broker v) (?at (Admitting ?r v))"
    using admitted [of "?at Resolving" "[]" Broker "[]" v channel ?r] load v admitInstall_newer [OF v(2)] by (simp add: runtime_of_def)
  let ?s3 = "(?at (Downloading ?r v))\<lparr>sys_journal := Some v\<rparr>"
  have 3: "activates channel (?at (Admitting ?r v)) (Journalled Broker) ?s3"
    using journalled [of "?at (Admitting ?r v)" "[]" Broker "Admitting ?r v" "[]" "Downloading ?r v" ?r v channel] by simp
  have 4: "activates channel ?s3 (Promotion Broker v) (?s3\<lparr>sys_installers := [(Broker, Promoted ?r v)], sys_versions := ?vs\<rparr>)"
    using promotion [of ?s3 "[]" Broker ?r v "[]" channel] by simp
  let ?s4 = "?s3\<lparr>sys_installers := [(Broker, Promoted ?r v)], sys_versions := ?vs\<rparr>"
  have 5: "activates channel ?s4 (Prepared Broker v) (?s4\<lparr>sys_installers := [(Broker, Finishing)], sys_document := ?d\<rparr>)"
    using prepared [of ?s4 "[]" Broker ?r v "[]" channel ?d] prepared_runtime_of [OF wf new, of Broker] by simp
  let ?s5 = "?s4\<lparr>sys_installers := [(Broker, Finishing)], sys_document := ?d\<rparr>"
  have 6: "activates channel ?s5 (Finished Broker) (?s5\<lparr>sys_installers := [], sys_journal := None\<rparr>)"
    using finished [of ?s5 "[]" Broker Finishing "[]" "[]" channel] by simp
  note path = calm_step [OF 1 _ calm_step [OF 2 _ calm_step [OF 3 _ calm_step [OF 4 _ calm_step [OF 5 _ calm_step [OF 6 _ calm_path.nil]]]]]]
  show thesis by (rule that [OF path]) (simp_all add: s)
qed

lemma confirm_candidate:
  assumes f: "system_follows channel h s" and s: "sys_installers s = []" "sys_launcher s = Idle" "h_candidate h = v" "v \<noteq> ''''" "v \<in> set (sys_versions s)"
  obtains t where "calm_path channel s [Launched, Confirmed v] t"
proof -
  let ?t = "s\<lparr>sys_launcher := Trial (runtime_of h) v True\<rparr>" and ?h = "on_event h Launched"
  have 1: "activates channel s Launched ?t" using launch_candidate [OF f s(2)] s by simp
  have h: "history_wf channel ?h" "h_trial ?h" "runtime_of ?h = runtime_of h" "h_candidate ?h = v"
    using activates_follows [OF 1 f] s by (simp_all add: system_follows_def on_event_def)
  have "activates channel ?t (Confirmed v) (?t\<lparr>sys_document := Some (runtime_of (on_event ?h (Confirmed v))), sys_launcher := Serving v\<rparr>)"
    using held [of ?t "runtime_of h" v True channel] confirmed_runtime_of [OF h(1,2)] h(3,4) s by simp
  from calm_step [OF 1 _ calm_step [OF this _ calm_path.nil]] show thesis by (rule that) (simp_all add: s)
qed

lemma newer_activates:
  assumes f: "system_follows channel h s" and v: "isOk (ParseVersionForChannel v channel)" "newer channel v (h_active h)"
  obtains events t where "length events \<le> 17" "calm_path channel s events t" "h_active (foldl on_event h events) = v"
proof -
  obtain a s1 where 1: "length a \<le> 2" "calm_path channel s a s1" "sys_installers s1 = []" "sys_launcher s1 = Idle"
    and h1: "h_active (foldl on_event h a) = h_active h" by (rule settle [OF f])
  obtain b s2 where 2: "length b \<le> 5" "calm_path channel s1 b s2" "sys_installers s2 = []" "sys_journal s2 = None" "sys_launcher s2 = sys_launcher s1"
    and h2: "h_active (foldl on_event (foldl on_event h a) b) = h_active (foldl on_event h a)" by (rule remove_journal [OF calm_follows [OF 1(2) f] 1(3)])
  note p2 = calm_append [OF 2(2) 1(2)]
  obtain c s3 where 3: "length c \<le> 2" "calm_path channel s2 c s3" "sys_installers s3 = []" "sys_journal s3 = None" "sys_launcher s3 = Idle"
    and h3: "h_active (foldl on_event (foldl on_event h (a @ b)) c) = h_active (foldl on_event h (a @ b))" "h_candidate (foldl on_event (foldl on_event h (a @ b)) c) = ''''"
    by (rule drop_candidate [OF calm_follows [OF p2 f] 2(3,4) trans [OF 2(5) 1(4)]])
  note p3 = calm_append [OF 3(2) p2]
  obtain s4 where 4: "calm_path channel s3 (update_events v) s4" "sys_installers s4 = []" "sys_launcher s4 = Idle" "v \<in> set (sys_versions s4)"
    by (rule install_newer [OF calm_follows [OF p3 f] 3(3-5)]) (use v h1 h2 h3 in simp_all)
  note p4 = calm_append [OF 4(1) p3]
  have "v \<noteq> ''''" using v(1) by auto
  then obtain t where 5: "calm_path channel s4 [Launched, Confirmed v] t"
    by (rule confirm_candidate [OF calm_follows [OF p4 f] 4(2,3) _ _ 4(4), rotated]) (simp_all add: on_event_def)
  show thesis by (rule that [OF _ calm_append [OF 5 p4]]) (use 1(1) 2(1) 3(1) in \<open>simp_all add: on_event_def\<close>)
qed

lemma calm_run: "calm_path channel activation_start events s \<Longrightarrow> activation_run channel events s"
  by (induction rule: calm_path.induct) (auto intro: activation_run.intros)

section \<open>Sample runs\<close>

definition sample_version :: string where
  "sample_version = ''1.2.0-beta.1''"

definition sample_update :: string where
  "sample_update = ''1.2.0-beta.2''"

lemmas sample_parse = ParseVersionForChannel_def ParseVersion_def canonicalVersionPattern_def strings_cut_def isCanonicalDecimal_def is_digit_def
  channelPattern_def channel_char_def is_lower_def parsePart_def ParseUint_def digits_value_def IsUint64_def

lemma sample_version_ok: "ParseVersionForChannel sample_version ''beta'' =
    Inr \<lparr>ver_Major = 1, ver_Minor = 2, ver_Patch = 0, ver_Channel = ''beta'', ver_Number = 1, ver_raw = sample_version\<rparr>"
  by (simp add: sample_version_def sample_parse)

lemma sample_update_ok: "ParseVersionForChannel sample_update ''beta'' =
    Inr \<lparr>ver_Major = 1, ver_Minor = 2, ver_Patch = 0, ver_Channel = ''beta'', ver_Number = 2, ver_raw = sample_update\<rparr>"
  by (simp add: sample_update_def sample_parse)

lemma sample_update_newer: "newer ''beta'' sample_update sample_version"
  by (simp add: newer_def parsedVersion_def sample_version_ok sample_update_ok Version_Compare_def)

abbreviation sample_events :: "activation list" where
  "sample_events \<equiv> update_events sample_version @ [Launched, Confirmed sample_version]"

lemma sample_run: "\<exists>s. calm_path ''beta'' activation_start sample_events s"
proof -
  obtain s where s: "calm_path ''beta'' activation_start (update_events sample_version) s" "sys_installers s = []" "sys_launcher s = Idle"
      "sample_version \<in> set (sys_versions s)"
    by (rule install_newer [OF start_follows [of "''beta''"], where v = sample_version])
      (simp_all add: history_def activation_start_def sample_version_ok newer_def)
  obtain t where "calm_path ''beta'' s [Launched, Confirmed sample_version] t"
    by (rule confirm_candidate [OF calm_run_follows [OF s(1)] s(2,3) _ _ s(4)]) (simp_all add: history_def on_event_def sample_version_def)
  from calm_append [OF this s(1)] show ?thesis by blast
qed

lemma sample_active:
  obtains s r where "calm_path ''beta'' activation_start sample_events s" "state_Load (sys_document s) ''beta'' = Inr r" "run_Active r = sample_version"
  using sample_run calm_run_follows [THEN follows_load, of "''beta''" sample_events] by (auto simp: history_def on_event_def runtime_of_def)

text \<open>The states of a first installation by the loop of a launcher while a second process starts.\<close>

definition sample_prepared :: runtime where
  "sample_prepared = state_Empty\<lparr>run_Generation := 1, run_Attempt := 1, run_Candidate := sample_version\<rparr>"

definition sample_confirmed :: runtime where
  "sample_confirmed = sample_prepared\<lparr>run_Generation := 2, run_Active := sample_version, run_LastGood := sample_version, run_Candidate := ''''\<rparr>"

abbreviation race_state :: "runtime option \<Rightarrow> string option \<Rightarrow> string list \<Rightarrow> (owner \<times> installer) list \<Rightarrow> launcher \<Rightarrow> activation_system" where
  "race_state d j vs is l \<equiv> \<lparr>sys_document = d, sys_journal = j, sys_versions = vs, sys_installers = is, sys_launcher = l\<rparr>"

lemma sample_states:
  "Runtime_Validate ''beta'' state_Empty = Inr ()" "Runtime_Validate ''beta'' sample_prepared = Inr ()" "Runtime_Validate ''beta'' sample_confirmed = Inr ()"
  by (simp_all add: Runtime_Validate_def sample_confirmed_def sample_prepared_def state_Empty_def sample_version_ok)

lemma sample_loads:
  "state_Load None ''beta'' = Inr state_Empty" "state_Load (Some sample_prepared) ''beta'' = Inr sample_prepared"
  "state_Load (Some sample_confirmed) ''beta'' = Inr sample_confirmed"
  by (simp_all add: state_Load_def sample_states)

lemma sample_prepare: "prepareUpdate ''beta'' state_Empty sample_version = Inr (Some sample_prepared)"
  using sample_states(1,2) by (simp add: prepareUpdate_def Prepare_def state_Save_def sample_version_ok sample_prepared_def state_Empty_def)

lemma sample_confirm: "confirmSelected ''beta'' sample_prepared sample_version True d = Inr (Some sample_confirmed)"
proof -
  have "sample_version \<noteq> ''''" by (simp add: sample_version_def)
  then show ?thesis using sample_states(2,3)
    by (simp add: confirmSelected_def Confirm_def state_Save_def sample_confirmed_def) (simp add: sample_prepared_def)
qed

lemma run_step: "activation_run channel events s \<Longrightarrow> activates channel s e t \<Longrightarrow> activation_run channel (events @ [e]) t"
  by (rule activation_run.event)

text \<open>The loop has moved the release to the versions, and the second process has read its journal and the state.\<close>

abbreviation race_installers :: "(owner \<times> installer) list" where
  "race_installers \<equiv> [(Startup, Recovering state_Empty sample_version), (Loop, Promoted state_Empty sample_version)]"

lemma race_opens: "activation_run ''beta'' [Bootstrapped, Started Loop, Admitted Loop sample_version, Journalled Loop, Promotion Loop sample_version,
    Started Startup, Loaded Startup] (race_state None (Some sample_version) [sample_version] race_installers Bootstrapping)"
proof -
  let ?v = sample_version and ?E = state_Empty
  have empty: "fst (selectedVersion ?E) = ''''" "admitInstall ''beta'' ?E ?v = Inr True" "admitRecovery ?E ?v = Inr True"
    by (simp_all add: selectedVersion_def admitInstall_def admitRecovery_def state_Empty_def sample_version_def)
  let ?s1 = "race_state None None [] [] Bootstrapping" and ?s2 = "race_state None None [] [(Loop, Resolving)] Bootstrapping"
    and ?s3 = "race_state None None [] [(Loop, Admitting ?E ?v)] Bootstrapping" and ?s4 = "race_state None (Some ?v) [] [(Loop, Downloading ?E ?v)] Bootstrapping"
    and ?s5 = "race_state None (Some ?v) [?v] [(Loop, Promoted ?E ?v)] Bootstrapping"
    and ?s6 = "race_state None (Some ?v) [?v] [(Startup, Reading ?v), (Loop, Promoted ?E ?v)] Bootstrapping"
  have 1: "activates ''beta'' activation_start Bootstrapped ?s1"
    using bootstrapped [of activation_start "''beta''" ?E] sample_loads empty by (simp add: activation_start_def)
  have 2: "activates ''beta'' ?s1 (Started Loop) ?s2" using started [of ?s1 Loop Resolving] by (simp add: may_start_def)
  have 3: "activates ''beta'' ?s2 (Admitted Loop ?v) ?s3" using admitted [of ?s2 "[]" Loop "[]" ?v "''beta''" ?E] sample_loads empty by (simp add: sample_version_ok)
  have 4: "activates ''beta'' ?s3 (Journalled Loop) ?s4" using journalled [of ?s3 "[]" Loop _ "[]" _ ?E ?v] by simp
  have 5: "activates ''beta'' ?s4 (Promotion Loop ?v) ?s5" using promotion [of ?s4 "[]" Loop ?E ?v "[]"] by simp
  have 6: "activates ''beta'' ?s5 (Started Startup) ?s6" using started [of ?s5 Startup "Reading ?v"] by (simp add: may_start_def)
  have 7: "activates ''beta'' ?s6 (Loaded Startup) (race_state None (Some ?v) [?v] race_installers Bootstrapping)"
    using loaded [of ?s6 "[]" Startup ?v _ "''beta''" ?E True] sample_loads empty by simp
  note run = run_step [OF run_step [OF run_step [OF run_step [OF run_step [OF run_step [OF run_step [OF activation_run.start 1] 2] 3] 4] 5] 6] 7]
  then show ?thesis by simp
qed

abbreviation race_events :: "activation list" where
  "race_events \<equiv> [Bootstrapped, Started Loop, Admitted Loop sample_version, Journalled Loop, Promotion Loop sample_version,
    Started Startup, Loaded Startup, Prepared Loop sample_version, Finished Loop, BootstrapDone, Launched, Confirmed sample_version]"

abbreviation raced :: "runtime \<Rightarrow> installer \<Rightarrow> activation_system" where
  "raced d i \<equiv> race_state (Some d) None [sample_version] [(Startup, i)] (Serving sample_version)"

lemma race_confirms: "activation_run ''beta'' race_events (raced sample_confirmed (Recovering state_Empty sample_version))"
proof -
  let ?v = sample_version and ?E = state_Empty and ?P = sample_prepared and ?R = "(Startup, Recovering state_Empty sample_version)"
  let ?s7 = "race_state None (Some ?v) [?v] race_installers Bootstrapping" and ?s8 = "race_state (Some ?P) (Some ?v) [?v] [?R, (Loop, Finishing)] Bootstrapping"
    and ?s9 = "race_state (Some ?P) None [?v] [?R] Bootstrapping" and ?s10 = "race_state (Some ?P) None [?v] [?R] Idle"
    and ?s11 = "race_state (Some ?P) None [?v] [?R] (Trial ?P ?v True)"
  have 8: "activates ''beta'' ?s7 (Prepared Loop ?v) ?s8" using activates.prepared [of ?s7 "[?R]" Loop ?E ?v "[]" "''beta''"] sample_prepare by simp
  have 9: "activates ''beta'' ?s8 (Finished Loop) ?s9" using finished [of ?s8 "[?R]" Loop Finishing "[]" "[]"] by simp
  have 10: "activates ''beta'' ?s9 BootstrapDone ?s10" using bootstrap_done [of ?s9] by simp
  have "selectedVersion ?P = (?v, True)" "?v \<noteq> ''''" by (simp_all add: selectedVersion_def sample_prepared_def sample_version_def)
  then have 11: "activates ''beta'' ?s10 Launched ?s11" using launched [of ?s10 "''beta''" ?P] sample_loads by simp
  have 12: "activates ''beta'' ?s11 (Confirmed ?v) (raced sample_confirmed (Recovering ?E ?v))"
    using held [of ?s11 ?P ?v True "''beta''"] sample_confirm by simp
  note run = run_step [OF run_step [OF run_step [OF run_step [OF run_step [OF race_opens 8] 9] 10] 11] 12]
  then show ?thesis by simp
qed

section \<open>Properties\<close>

text \<open>C8. Whatever the order in which the launcher, the installations of its broker and of its loop, starting processes and crashes act on the state file, it always loads.
  The active version is the last good one; it was installed and held as a candidate to the end of its trial at some point of the history, and a candidate was installed and prepared. In particular
  an update that is lost to another write, interrupted or recovered never makes a version active that was not tried successfully.\<close>

theorem only_held_versions_active:
  assumes "activation_run channel events s"
  shows "\<exists>r. state_Load (sys_document s) channel = Inr r \<and> run_LastGood r = run_Active r \<and>
    (run_Active r = '''' \<or> Confirmed (run_Active r) \<in> set events \<and> run_Active r \<in> set (sys_versions s)) \<and>
    (run_Candidate r = '''' \<or> (\<exists>who. Prepared who (run_Candidate r) \<in> set events) \<and> run_Candidate r \<in> set (sys_versions s))"
  using run_held [OF assms] unfolding held_system_def held_runtime_def by blast

theorem only_held_versions_active_witness:
  "\<exists>s r. activation_run ''beta'' sample_events s \<and> state_Load (sys_document s) ''beta'' = Inr r \<and>
    run_Active r = sample_version \<and> run_LastGood r = sample_version \<and> sample_version \<in> set (sys_versions s)"
proof -
  obtain s r where s: "calm_path ''beta'' activation_start sample_events s" "state_Load (sys_document s) ''beta'' = Inr r" "run_Active r = sample_version"
    by (rule sample_active)
  have "run_Active r \<noteq> ''''" using s(3) by (simp add: sample_version_def)
  then show ?thesis using only_held_versions_active [OF calm_run [OF s(1)]] calm_run [OF s(1)] s(2,3) by fastforce
qed

text \<open>C9. While at most one installation runs at a time, the state file follows the history: it names as active and as last good the version whose
  trial as a candidate was last held to its end, and as candidate the one prepared since and not yet tried; its generation counts the writes and its attempt the updates, modulo \<open>2^64\<close>.
  In particular a failed or interrupted trial never replaces the active version, and an update prepared during a trial is neither lost nor confirmed by it.\<close>

theorem state_follows_history:
  assumes "calm_path channel activation_start events s"
  shows "state_Load (sys_document s) channel = Inr (runtime_of (history events))"
  by (rule follows_load [OF calm_run_follows [OF assms]])

theorem state_follows_history_witness:
  "\<exists>s. calm_path ''beta'' activation_start sample_events s \<and>
    state_Load (sys_document s) ''beta'' = Inr \<lparr>run_Schema = 1, run_Generation = 2, run_Active = sample_version, run_Candidate = '''',
      run_LastGood = sample_version, run_Attempt = 1\<rparr>"
  using sample_run state_follows_history [of "''beta''" sample_events]
  by (auto simp: history_def on_event_def runtime_of_def state_Schema_def)

text \<open>C10. While at most one installation runs at a time, there is no downgrade: from every state reached, each later active version is
  the present one or a version of the channel that is newer, also when interrupted updates are recovered, which checks no order.\<close>

theorem active_version_moves_forward:
  assumes "calm_path channel activation_start events s" "calm_path channel s rest t"
    and "state_Load (sys_document s) channel = Inr r" "state_Load (sys_document t) channel = Inr r'"
  shows "run_Active r' = run_Active r \<or> isOk (ParseVersionForChannel (run_Active r') channel) \<and> newer channel (run_Active r') (run_Active r)"
proof -
  note s = calm_run_follows [OF assms(1)]
  show ?thesis using calm_forward [OF assms(2) s] follows_load [OF s] follows_load [OF calm_follows [OF assms(2) s]] assms(3,4) by (simp add: runtime_of_def)
qed

text \<open>C11. While at most one installation runs at a time, activation never gets stuck: from every state reached, interrupted updates,
  left-over journals and pending candidates included, every version of the channel that is newer than the active one can become active by at most seventeen further steps.\<close>

theorem newer_version_activates:
  assumes "calm_path channel activation_start events s" "state_Load (sys_document s) channel = Inr r"
    and "isOk (ParseVersionForChannel v channel)" "newer channel v (run_Active r)"
  shows "\<exists>rest t r'. length rest \<le> 17 \<and> calm_path channel s rest t \<and>
    state_Load (sys_document t) channel = Inr r' \<and> run_Active r' = v \<and> run_LastGood r' = v"
proof -
  note s = calm_run_follows [OF assms(1)]
  have "newer channel v (h_active (history events))" using assms(2,4) follows_load [OF s] by (auto simp: runtime_of_def)
  then obtain rest t where t: "length rest \<le> 17" "calm_path channel s rest t" "h_active (foldl on_event (history events) rest) = v"
    by (rule newer_activates [OF s assms(3)])
  then show ?thesis using follows_load [OF calm_follows [OF t(2) s]]
    by (intro exI [of _ rest] exI [of _ t] exI [of _ "runtime_of (foldl on_event (history events) rest)"]) (simp add: runtime_of_def)
qed

theorem active_version_moves_forward_witness:
  "\<exists>events rest s t r r'. calm_path ''beta'' activation_start events s \<and> calm_path ''beta'' s rest t \<and>
    state_Load (sys_document s) ''beta'' = Inr r \<and> run_Active r = sample_version \<and> state_Load (sys_document t) ''beta'' = Inr r' \<and>
    run_Active r' = sample_update \<and> newer ''beta'' (run_Active r') (run_Active r)"
proof -
  obtain s r where s: "calm_path ''beta'' activation_start sample_events s" "state_Load (sys_document s) ''beta'' = Inr r" "run_Active r = sample_version"
    by (rule sample_active)
  note f = calm_run_follows [OF s(1)]
  have "h_active (history sample_events) = sample_version" using follows_load [OF f] s(2,3) by (auto simp: runtime_of_def)
  then have n: "newer ''beta'' sample_update (h_active (history sample_events))" "isOk (ParseVersionForChannel sample_update ''beta'')"
    using sample_update_newer by (simp_all add: sample_update_ok)
  obtain rest t where t: "calm_path ''beta'' s rest t" "h_active (foldl on_event (history sample_events) rest) = sample_update"
    by (rule newer_activates [OF f n(2,1)])
  let ?r = "runtime_of (foldl on_event (history sample_events) rest)"
  have load: "state_Load (sys_document t) ''beta'' = Inr ?r" by (rule follows_load [OF calm_follows [OF t(1) f]])
  have act: "run_Active ?r = sample_update" using t(2) by (simp add: runtime_of_def)
  then have "run_Active ?r \<noteq> run_Active r" using s(3) by (simp add: sample_update_def sample_version_def)
  then have "newer ''beta'' (run_Active ?r) (run_Active r)" using active_version_moves_forward [OF s(1) t(1) s(2) load] by simp
  then show ?thesis using s t(1) load act by blast
qed

theorem newer_version_activates_witness:
  "\<exists>s rest t r'. calm_path ''beta'' activation_start sample_events s \<and> length rest \<le> 17 \<and> calm_path ''beta'' s rest t \<and>
    state_Load (sys_document t) ''beta'' = Inr r' \<and> run_Active r' = sample_update"
proof -
  obtain s r where s: "calm_path ''beta'' activation_start sample_events s" "state_Load (sys_document s) ''beta'' = Inr r" "run_Active r = sample_version"
    by (rule sample_active)
  then show ?thesis using newer_version_activates [OF s(1,2), of sample_update] sample_update_newer sample_update_ok by auto
qed

text \<open>C12. Concurrent installations can undo an activation. A launcher installs a first version while a second process starts, which runs its recovery before
  it looks for the lock of the first: it reads the journal and loads the empty state; the launcher prepares the version, tries it and confirms it; then
  the second process saves the state it loaded, with the version as a candidate. After that save the version that was confirmed, and that is still running,
  is neither active nor last good.\<close>

theorem concurrent_recovery_undoes_activation:
  "\<exists>s t r r'. activation_run ''beta'' race_events s \<and> state_Load (sys_document s) ''beta'' = Inr r \<and> run_Active r = sample_version \<and>
    run_LastGood r = sample_version \<and> activates ''beta'' s (Prepared Startup sample_version) t \<and>
    state_Load (sys_document t) ''beta'' = Inr r' \<and> run_Active r' = '''' \<and> run_LastGood r' = '''' \<and> sys_launcher t = Serving sample_version"
proof -
  let ?s = "raced sample_confirmed (Recovering state_Empty sample_version)" and ?t = "raced sample_prepared Recovered"
  have "activates ''beta'' ?s (Prepared Startup sample_version) ?t"
    using recovered [of ?s "[]" Startup state_Empty sample_version "[]" "''beta''"] sample_prepare by simp
  moreover have "run_Active sample_confirmed = sample_version" "run_LastGood sample_confirmed = sample_version"
      "run_Active sample_prepared = ''''" "run_LastGood sample_prepared = ''''"
    by (simp_all add: sample_confirmed_def sample_prepared_def state_Empty_def)
  ultimately show ?thesis using race_confirms sample_loads
    by (intro exI [of _ ?s] exI [of _ ?t] exI [of _ sample_confirmed] exI [of _ sample_prepared]) simp
qed

end
