(* ===== verification/Render_Domain.thy ===== *)
theory Render_Domain
  imports Edit_Domain
begin

text \<open>
  Sequences and tracks (\<^verbatim>\<open>product/domain/project.go\<close>), artifacts (\<^verbatim>\<open>product/domain/media.go\<close>) and the data of a render plan
  (\<^verbatim>\<open>product/domain/render.go\<close>), with the sequence format validator and the runes a caption may show.
\<close>

section \<open>Sequences\<close>

record sequence_format =
  sf_CanvasWidth :: uint32
  sf_CanvasHeight :: uint32
  sf_PixelAspect :: rational_time
  sf_FrameRate :: rational_time
  sf_AudioSampleRate :: uint32
  sf_AudioLayout :: string
  sf_ColorPolicy :: string

definition whole_time :: "int64 \<Rightarrow> rational_time" where
  "whole_time k = (case NewRationalTime k 1 of Inr t \<Rightarrow> t | Inl _ \<Rightarrow> zero_rational_time)"

definition DefaultSequenceFormat :: sequence_format where
  "DefaultSequenceFormat = \<lparr>sf_CanvasWidth = 1920, sf_CanvasHeight = 1080, sf_PixelAspect = whole_time 1, sf_FrameRate = whole_time 30,
    sf_AudioSampleRate = 48000, sf_AudioLayout = ''stereo'', sf_ColorPolicy = ''sdr-rec709''\<rparr>"

definition SequenceFormat_Validate :: "sequence_format \<Rightarrow> bool" where
  "SequenceFormat_Validate format =
    (if sf_CanvasWidth format < 16 \<or> sf_CanvasWidth format > 16384 \<or> sf_CanvasHeight format < 16 \<or> sf_CanvasHeight format > 16384 then False
     else if \<not> isOk (RationalTime_Validate (sf_PixelAspect format)) \<or> \<not> RationalTime_IsPositive (sf_PixelAspect format) then False
     else if \<not> isOk (RationalTime_Validate (sf_FrameRate format)) \<or> \<not> RationalTime_IsPositive (sf_FrameRate format) then False
     else if (case RationalTime_Compare (sf_FrameRate format) (whole_time 240) of Inl _ \<Rightarrow> True | Inr comparison \<Rightarrow> comparison > 0) then False
     else if sf_AudioSampleRate format < 8000 \<or> sf_AudioSampleRate format > 384000 \<or> sf_AudioLayout format \<noteq> ''stereo'' \<or>
       sf_ColorPolicy format \<noteq> ''sdr-rec709'' then False
     else True)"

record track =
  tk_ID :: TrackID
  tk_Revision :: revision
  tk_Type :: TrackType
  tk_Label :: string
  tk_OrderKey :: string

record sequence =
  seq_ID :: SequenceID
  seq_Revision :: revision
  seq_Name :: string
  seq_Role :: string
  seq_Format :: sequence_format
  seq_Tracks :: "track list"

section \<open>Artifacts\<close>

datatype ArtifactKind = ArtifactMediaFacts | ArtifactFrameSet | ArtifactProxy | ArtifactRenderInput | ArtifactWaveform | ArtifactTranscript
  | ArtifactKindOther string

datatype ArtifactState = ArtifactReady | ArtifactEvicted | ArtifactStateOther string

record artifact_summary =
  asum_ID :: ArtifactID
  asum_Kind :: ArtifactKind
  asum_ProducerVersion :: string
  asum_InputFingerprint :: Digest
  asum_State :: ArtifactState
  asum_ByteSize :: uint64
  asum_ContentDigest :: Digest
  asum_CreatedAt :: int

section \<open>Runes of a caption\<close>

text \<open>\<^verbatim>\<open>unicode.IsControl\<close> and the categories Cf, Zl and Zp in Unicode 15.0.\<close>

definition format_runes :: "(nat \<times> nat) list" where
  "format_runes = [(0xAD, 0xAD), (0x600, 0x605), (0x61C, 0x61C), (0x6DD, 0x6DD), (0x70F, 0x70F), (0x890, 0x891), (0x8E2, 0x8E2),
    (0x180E, 0x180E), (0x200B, 0x200F), (0x202A, 0x202E), (0x2060, 0x2064), (0x2066, 0x206F), (0xFEFF, 0xFEFF), (0xFFF9, 0xFFFB),
    (0x110BD, 0x110BD), (0x110CD, 0x110CD), (0x13430, 0x1343F), (0x1BCA0, 0x1BCA3), (0x1D173, 0x1D17A), (0xE0001, 0xE0001), (0xE0020, 0xE007F)]"

definition IsControl :: "nat \<Rightarrow> bool" where
  "IsControl r \<longleftrightarrow> r < 0x20 \<or> (0x7F \<le> r \<and> r < 0xA0)"

definition IsRenderCaptionRune :: "nat \<Rightarrow> bool" where
  "IsRenderCaptionRune r =
    (if r = 10 \<or> r = 9 \<or> r = 0x200C \<or> r = 0x200D then True
     else \<not> IsControl r \<and> \<not> (list_ex (\<lambda>(first, final). first \<le> r \<and> r \<le> final) format_runes \<or> r = 0x2028 \<or> r = 0x2029))"

section \<open>Render plans\<close>

datatype RenderPlanPurpose = RenderPurposeSequencePreview | RenderPurposeExport | RenderPurposeOther string

record render_video_input =
  vin_SourceStreamID :: SourceStreamID
  vin_SourceStart :: rational_time
  vin_MaterialStart :: rational_time
  vin_SourceTimeBase :: rational_time
  vin_MaterialTimeBase :: rational_time
  vin_TimeMapDigest :: Digest
  vin_Width :: uint32
  vin_Height :: uint32

record render_audio_input =
  ain_SourceStreamID :: SourceStreamID
  ain_SourceStart :: rational_time
  ain_MaterialStart :: rational_time
  ain_SourceTimeBase :: rational_time
  ain_MaterialTimeBase :: rational_time
  ain_SampleRate :: uint32
  ain_ChannelLayout :: string
  ain_DecodedSampleCount :: uint64

record render_plan_input =
  rin_ArtifactID :: ArtifactID
  rin_ArtifactDigest :: Digest
  rin_ProducerVersion :: string
  rin_Profile :: string
  rin_AssetID :: AssetID
  rin_AssetRevision :: revision
  rin_Fingerprint :: Digest
  rin_SourceEpoch :: rational_time
  rin_MediaDigest :: Digest
  rin_Video :: "render_video_input option"
  rin_Audio :: "render_audio_input option"

record render_placement =
  rp_CropX :: uint16
  rp_CropY :: uint16
  rp_CropWidth :: uint16
  rp_CropHeight :: uint16
  rp_ScaleX :: exact_rational
  rp_ScaleY :: exact_rational
  rp_TranslateX :: exact_rational
  rp_TranslateY :: exact_rational
  rp_AnchorX :: uint16
  rp_AnchorY :: uint16
  rp_Opacity :: uint16
  rp_FitPolicy :: string

record render_video_instruction =
  vi_ClipID :: ClipID
  vi_ClipRevision :: revision
  vi_TrackID :: TrackID
  vi_TrackRevision :: revision
  vi_Layer :: uint16
  vi_InputArtifactID :: ArtifactID
  vi_SourceStreamID :: SourceStreamID
  vi_SourceRange :: time_range
  vi_TimelineRange :: time_range
  vi_Orientation :: string
  vi_Placement :: render_placement

record render_audio_instruction =
  ai_ClipID :: ClipID
  ai_ClipRevision :: revision
  ai_TrackID :: TrackID
  ai_TrackRevision :: revision
  ai_Layer :: uint16
  ai_InputArtifactID :: ArtifactID
  ai_SourceStreamID :: SourceStreamID
  ai_SourceRange :: time_range
  ai_TimelineRange :: time_range
  ai_ChannelMapping :: string
  ai_GainMilliDB :: int32

record render_font_resource =
  font_ResourceID :: string
  font_Version :: string
  font_SHA256 :: Digest

record render_caption_style =
  sty_FontResourceID :: string
  sty_FontSize :: uint16
  sty_TextColorRGBA :: string
  sty_OutlineColorRGBA :: string
  sty_Outline :: uint16
  sty_LineHeight :: uint16
  sty_Alignment :: string
  sty_PositionY :: uint16
  sty_SafeWidth :: uint16
  sty_WrapPolicy :: string

record render_caption_instruction =
  ci_CaptionID :: CaptionID
  ci_CaptionRevision :: revision
  ci_TrackID :: TrackID
  ci_TrackRevision :: revision
  ci_Layer :: uint16
  ci_Range :: time_range
  ci_Language :: CaptionLanguage
  ci_Text :: string
  ci_Style :: render_caption_style

record render_evaluation_policy =
  ev_CoordinatePolicy :: string
  ev_ColorPipeline :: string
  ev_ScalePolicy :: string
  ev_BlendPolicy :: string
  ev_AudioGainPolicy :: string
  ev_AudioMixPolicy :: string
  ev_CaptionLayoutPolicy :: string
  ev_CaptionRasterPolicy :: string
  ev_DeterminismPolicy :: string

record render_mux_policy =
  mux_MuxPolicy :: string
  mux_KeyframePolicy :: string
  mux_OpusTrimPolicy :: string

record render_video_output =
  vo_Codec :: string
  vo_Encoder :: string
  vo_EncoderProfile :: byte
  vo_PixelFormat :: string
  vo_ColorRange :: string
  vo_ColorSpace :: string
  vo_ColorTransfer :: string
  vo_ColorPrimaries :: string
  vo_ChromaLocation :: string
  vo_RateControl :: string
  vo_CRF :: byte
  vo_Deadline :: string
  vo_CPUUsed :: byte
  vo_ThreadCount :: byte

record render_audio_output =
  ao_Codec :: string
  ao_Encoder :: string
  ao_SampleRate :: uint32
  ao_ChannelLayout :: string
  ao_BitRate :: uint32
  ao_VariableBitRate :: bool
  ao_FrameDurationMS :: byte
  ao_CompressionLevel :: byte
  ao_ClippingPolicy :: string
  ao_PCMFormat :: string
  ao_DitherPolicy :: string

record render_output_policy =
  out_Profile :: string
  out_Container :: string
  out_CanvasWidth :: uint32
  out_CanvasHeight :: uint32
  out_PixelAspect :: rational_time
  out_FrameRate :: rational_time
  out_VideoFrameCount :: uint64
  out_AudioSampleCount :: uint64
  out_StreamPolicy :: string
  out_VideoSamplingPolicy :: string
  out_AudioSamplingPolicy :: string
  out_TailPolicy :: string
  out_BackgroundRGBA :: string
  out_Evaluation :: render_evaluation_policy
  out_Mux :: render_mux_policy
  out_Video :: render_video_output
  out_Audio :: render_audio_output

record render_plan_payload =
  pay_CompilerVersion :: string
  pay_Purpose :: RenderPlanPurpose
  pay_ProjectID :: ProjectID
  pay_SequenceID :: SequenceID
  pay_SequenceRevision :: revision
  pay_SequenceFormat :: sequence_format
  pay_Duration :: rational_time
  pay_Inputs :: "render_plan_input list"
  pay_Video :: "render_video_instruction list"
  pay_Audio :: "render_audio_instruction list"
  pay_Captions :: "render_caption_instruction list"
  pay_FontResources :: "render_font_resource list"
  pay_Output :: render_output_policy

record render_plan =
  plan_Payload :: render_plan_payload
  plan_Digest :: Digest
  plan_ObservedProjectRevision :: revision

definition zero_render_output :: render_output_policy where
  "zero_render_output = \<lparr>out_Profile = [], out_Container = [], out_CanvasWidth = 0, out_CanvasHeight = 0, out_PixelAspect = zero_rational_time,
    out_FrameRate = zero_rational_time, out_VideoFrameCount = 0, out_AudioSampleCount = 0, out_StreamPolicy = [], out_VideoSamplingPolicy = [],
    out_AudioSamplingPolicy = [], out_TailPolicy = [], out_BackgroundRGBA = [],
    out_Evaluation = \<lparr>ev_CoordinatePolicy = [], ev_ColorPipeline = [], ev_ScalePolicy = [], ev_BlendPolicy = [], ev_AudioGainPolicy = [], ev_AudioMixPolicy = [],
      ev_CaptionLayoutPolicy = [], ev_CaptionRasterPolicy = [], ev_DeterminismPolicy = []\<rparr>,
    out_Mux = \<lparr>mux_MuxPolicy = [], mux_KeyframePolicy = [], mux_OpusTrimPolicy = []\<rparr>,
    out_Video = \<lparr>vo_Codec = [], vo_Encoder = [], vo_EncoderProfile = 0, vo_PixelFormat = [], vo_ColorRange = [], vo_ColorSpace = [], vo_ColorTransfer = [],
      vo_ColorPrimaries = [], vo_ChromaLocation = [], vo_RateControl = [], vo_CRF = 0, vo_Deadline = [], vo_CPUUsed = 0, vo_ThreadCount = 0\<rparr>,
    out_Audio = \<lparr>ao_Codec = [], ao_Encoder = [], ao_SampleRate = 0, ao_ChannelLayout = [], ao_BitRate = 0, ao_VariableBitRate = False, ao_FrameDurationMS = 0,
      ao_CompressionLevel = 0, ao_ClippingPolicy = [], ao_PCMFormat = [], ao_DitherPolicy = []\<rparr>\<rparr>"

section \<open>Facts\<close>

lemma whole_time_val:
  assumes "IsInt64 k"
  shows "rt_valid (whole_time (word_of_int k))" "rt_val (whole_time (word_of_int k)) = of_int k"
  using NewRationalTime_total [of 1 "word_of_int k"] NewRationalTime_val [of "word_of_int k" 1] assms
  by (auto simp: whole_time_def sint_of_int64)

end
