(* ===== verification/Render_Contract.thy ===== *)
theory Render_Contract
  imports Render_Domain Time_Ranges
begin

text \<open>
  The contract between the render plan compiler and the renderer (\<^verbatim>\<open>product/rendercontract\<close>): the output policies derived from
  a sequence format and a duration, and the validator of a published plan.
\<close>

section \<open>Constants\<close>

datatype render_error = ErrRenderPlanInvalid | ErrRenderSequenceEmpty | ErrRenderInputRequired | ErrRenderFontRequired | RenderDigestFailed

definition SourceProxyProfile :: string where
  "SourceProxyProfile = ''webm-vp9-opus-source-v1''"

definition RenderInputProfile :: string where
  "RenderInputProfile = ''matroska-ffv1-pcm-render-input-v1''"

definition MaximumRenderPlanItems :: nat where
  "MaximumRenderPlanItems = 65536"

definition MaximumSourceProxySamples :: uint64 where
  "MaximumSourceProxySamples = 8000000000"

definition MaximumRenderDimension :: uint32 where
  "MaximumRenderDimension = 16384"

definition MaximumPreviewVideoFrames :: uint64 where
  "MaximumPreviewVideoFrames = 10000000"

definition MaximumPreviewAudioSamples :: uint64 where
  "MaximumPreviewAudioSamples = 2000000000"

definition ValidFontResource :: "render_font_resource \<Rightarrow> bool" where
  "ValidFontResource font =
    (if font_ResourceID font = '''' \<or> length (font_ResourceID font) > 256 \<or> font_Version font = '''' \<or> length (font_Version font) > 128 then False
     else ParseDigest (font_SHA256 font) \<noteq> None)"

section \<open>Output policies\<close>

definition ceilRenderCount :: "rational_time \<Rightarrow> rational_time \<Rightarrow> render_error + uint64" where
  "ceilRenderCount duration rate =
    (if \<not> isOk (RationalTime_Validate duration) \<or> \<not> RationalTime_IsPositive duration \<or> \<not> isOk (RationalTime_Validate rate) \<or>
        \<not> RationalTime_IsPositive rate then Inl ErrRenderPlanInvalid
     else let numerator = sint (rt_Value duration) * sint (rt_Value rate);
              denominator = sint (rt_Scale duration) * sint (rt_Scale rate);
              quotient = numerator sdiv denominator;
              remainder = numerator smod denominator;
              quotient = (if remainder \<noteq> 0 then quotient + 1 else quotient)
          in if \<not> IsUint64 quotient then Inl ErrRenderPlanInvalid
             else andThen (orError ErrRenderPlanInvalid (NewUInt64 (word_of_int quotient))) (\<lambda>result.
               if result = 0 then Inl ErrRenderPlanInvalid else Inr result))"

definition floorBigRatio :: "int \<Rightarrow> int \<Rightarrow> int" where
  "floorBigRatio numerator denominator =
    (if numerator \<le> 0 \<or> denominator \<le> 0 then 0
     else let result = numerator sdiv denominator in if \<not> IsInt64 result then 0 else result)"

definition minimumInt64 :: "int \<Rightarrow> int \<Rightarrow> int" where
  "minimumInt64 left right = (if left < right then left else right)"

definition evenFloor :: "int \<Rightarrow> int" where
  "evenFloor value = value - value smod 2"

definition SequencePreviewMaximumLongEdge :: int where
  "SequencePreviewMaximumLongEdge = 1280"

definition SequencePreviewAudioSampleRate :: uint32 where
  "SequencePreviewAudioSampleRate = 48000"

definition sequencePreviewDimensions :: "sequence_format \<Rightarrow> render_error + uint32 \<times> uint32" where
  "sequencePreviewDimensions format =
    (if \<not> SequenceFormat_Validate format \<or> \<not> RationalTime_IsPositive (sf_PixelAspect format) then Inl ErrRenderPlanInvalid
     else let displayWidth = uint (sf_CanvasWidth format) * sint (rt_Value (sf_PixelAspect format));
              displayScale = sint (rt_Scale (sf_PixelAspect format));
              heightScaled = uint (sf_CanvasHeight format) * displayScale
          in if displayWidth \<ge> heightScaled then
               let widthLimit = floorBigRatio displayWidth displayScale;
                   width = evenFloor (minimumInt64 widthLimit SequencePreviewMaximumLongEdge);
                   height = evenFloor (floorBigRatio (width * heightScaled) displayWidth)
               in if width < 2 \<or> height < 2 then Inl ErrRenderPlanInvalid else Inr (word_of_int width, word_of_int height)
             else
               let height = evenFloor (minimumInt64 (uint (sf_CanvasHeight format)) SequencePreviewMaximumLongEdge);
                   width = evenFloor (floorBigRatio (height * displayWidth) heightScaled)
               in if width < 2 \<or> height < 2 then Inl ErrRenderPlanInvalid else Inr (word_of_int width, word_of_int height))"

text \<open>The evaluation and mux policies and the fixed policies, which preview and export share.\<close>

definition renderEvaluation :: render_evaluation_policy where
  "renderEvaluation = \<lparr>ev_CoordinatePolicy = ''oriented-crop-fit-anchor-canvas-v1'', ev_ColorPipeline = ''rec709-left-linear-rgba16-integer-v1'',
    ev_ScalePolicy = ''pixel-center-mitchell-fixed-v1'', ev_BlendPolicy = ''source-over-half-even-v1'',
    ev_AudioGainPolicy = ''millidb-q31-integer-v1'', ev_AudioMixPolicy = ''int64-sum-final-s16-hard-limit-v1'',
    ev_CaptionLayoutPolicy = ''explicit-lines-bottom-box-v1'', ev_CaptionRasterPolicy = ''harfbuzz-freetype-fribidi-gray-v1'',
    ev_DeterminismPolicy = ''same-build-target-byte-stable-v1''\<rparr>"

definition renderMux :: render_mux_policy where
  "renderMux = \<lparr>mux_MuxPolicy = ''webm-bitexact-no-segmentuid-v1'', mux_KeyframePolicy = ''frame-zero-two-second-grid-v1'',
    mux_OpusTrimPolicy = ''exact-sample-count-discard-padding-v1''\<rparr>"

definition renderVideoOutput :: "byte \<Rightarrow> byte \<Rightarrow> render_video_output" where
  "renderVideoOutput crf cpuUsed = \<lparr>vo_Codec = ''vp9'', vo_Encoder = ''libvpx-vp9'', vo_EncoderProfile = 0, vo_PixelFormat = ''yuv420p'',
    vo_ColorRange = ''tv'', vo_ColorSpace = ''bt709'', vo_ColorTransfer = ''bt709'', vo_ColorPrimaries = ''bt709'', vo_ChromaLocation = ''left'',
    vo_RateControl = ''constant-quality'', vo_CRF = crf, vo_Deadline = ''good'', vo_CPUUsed = cpuUsed, vo_ThreadCount = 1\<rparr>"

definition renderAudioOutput :: "uint32 \<Rightarrow> render_audio_output" where
  "renderAudioOutput bitRate = \<lparr>ao_Codec = ''opus'', ao_Encoder = ''libopus'', ao_SampleRate = SequencePreviewAudioSampleRate,
    ao_ChannelLayout = ''stereo'', ao_BitRate = bitRate, ao_VariableBitRate = False, ao_FrameDurationMS = 20, ao_CompressionLevel = 10,
    ao_ClippingPolicy = ''hard-limit-v1'', ao_PCMFormat = ''s16'', ao_DitherPolicy = ''none-v1''\<rparr>"

definition renderOutput :: "string \<Rightarrow> uint32 \<Rightarrow> uint32 \<Rightarrow> rational_time \<Rightarrow> uint64 \<Rightarrow> uint64 \<Rightarrow> render_video_output \<Rightarrow> render_audio_output \<Rightarrow>
    render_output_policy" where
  "renderOutput profile width height frameRate frames samples video audio = \<lparr>out_Profile = profile, out_Container = ''webm'',
    out_CanvasWidth = width, out_CanvasHeight = height, out_PixelAspect = whole_time 1, out_FrameRate = frameRate,
    out_VideoFrameCount = frames, out_AudioSampleCount = samples, out_StreamPolicy = ''single-video-single-audio-v1'',
    out_VideoSamplingPolicy = ''source-map-floor-first-fallback-v1'', out_AudioSamplingPolicy = ''render-material-sample-floor-silence-v1'',
    out_TailPolicy = ''ceil-pad-black-silence-v1'', out_BackgroundRGBA = ''#000000ff'', out_Evaluation = renderEvaluation, out_Mux = renderMux,
    out_Video = video, out_Audio = audio\<rparr>"

definition SequencePreviewOutput :: "sequence_format \<Rightarrow> rational_time \<Rightarrow> render_error + render_output_policy" where
  "SequencePreviewOutput format duration =
    andThen (sequencePreviewDimensions format) (\<lambda>(width, height).
    andThen (ceilRenderCount duration (sf_FrameRate format)) (\<lambda>videoFrameCount.
    andThen (ceilRenderCount duration (whole_time 48000)) (\<lambda>audioSampleCount.
    if videoFrameCount > MaximumPreviewVideoFrames \<or> audioSampleCount > MaximumPreviewAudioSamples then Inl ErrRenderPlanInvalid
    else Inr (renderOutput ''webm-vp9-opus-sequence-preview-v1'' width height (sf_FrameRate format) videoFrameCount audioSampleCount
      (renderVideoOutput 34 4) (renderAudioOutput 128000)))))"

definition SequenceExportOutput :: "sequence_format \<Rightarrow> rational_time \<Rightarrow> render_error + render_output_policy" where
  "SequenceExportOutput format duration =
    (if \<not> SequenceFormat_Validate format \<or> sf_CanvasWidth format mod 2 \<noteq> 0 \<or> sf_CanvasHeight format mod 2 \<noteq> 0 then Inl ErrRenderPlanInvalid
     else if (case RationalTime_Compare (sf_PixelAspect format) (whole_time 1) of Inl _ \<Rightarrow> True | Inr equal \<Rightarrow> equal \<noteq> 0) then Inl ErrRenderPlanInvalid
     else andThen (ceilRenderCount duration (sf_FrameRate format)) (\<lambda>videoFrameCount.
     andThen (ceilRenderCount duration (whole_time 48000)) (\<lambda>audioSampleCount.
     if videoFrameCount > MaximumPreviewVideoFrames \<or> audioSampleCount > MaximumPreviewAudioSamples then Inl ErrRenderPlanInvalid
     else Inr (renderOutput ''webm-vp9-opus-v1'' (sf_CanvasWidth format) (sf_CanvasHeight format) (sf_FrameRate format)
       videoFrameCount audioSampleCount (renderVideoOutput 24 2) (renderAudioOutput 192000)))))"

section \<open>The validator of a published plan\<close>

definition validRenderDigest :: "Digest \<Rightarrow> bool" where
  "validRenderDigest value \<longleftrightarrow> ParseDigest value \<noteq> None"

definition validRenderRGBA :: "string \<Rightarrow> bool" where
  "validRenderRGBA value =
    (if length value \<noteq> 9 \<or> value ! 0 \<noteq> CHR ''#'' then False
     else list_all (\<lambda>c. is_digit c \<or> c \<in> set ''abcdef'') (drop 1 value))"

definition validatePositiveRange :: "time_range \<Rightarrow> bool \<Rightarrow> bool" where
  "validatePositiveRange value nonnegativeStart =
    (if \<not> isOk (RationalTime_Validate (tr_Start value)) \<or> \<not> isOk (RationalTime_Validate (tr_Duration value)) \<or>
        \<not> RationalTime_IsPositive (tr_Duration value) \<or> (nonnegativeStart \<and> RationalTime_IsNegative (tr_Start value)) then False
     else isOk (TimeRange_End value))"

definition laterRenderTime :: "rational_time \<Rightarrow> rational_time \<Rightarrow> rational_time" where
  "laterRenderTime left right = (case RationalTime_Compare left right of Inr comparison \<Rightarrow> if comparison < 0 then right else left | Inl _ \<Rightarrow> left)"

definition whole_rational :: "int64 \<Rightarrow> exact_rational" where
  "whole_rational k = (case NewExactRational k 1 of Inr r \<Rightarrow> r | Inl _ \<Rightarrow> \<lparr>er_Value = 0, er_Scale = 0\<rparr>)"

definition validateRenderPlacement :: "render_placement \<Rightarrow> bool" where
  "validateRenderPlacement value =
    (if rp_CropWidth value = 0 \<or> rp_CropHeight value = 0 \<or>
        (ucast (rp_CropX value) + ucast (rp_CropWidth value) :: uint32) > 10000 \<or>
        (ucast (rp_CropY value) + ucast (rp_CropHeight value) :: uint32) > 10000 \<or>
        rp_AnchorX value > 10000 \<or> rp_AnchorY value > 10000 \<or> rp_Opacity value > 10000 \<or>
        \<not> isOk (ExactRational_Validate (rp_ScaleX value)) \<or> \<not> isOk (ExactRational_Validate (rp_ScaleY value)) \<or>
        \<not> isOk (ExactRational_Validate (rp_TranslateX value)) \<or> \<not> isOk (ExactRational_Validate (rp_TranslateY value)) \<or>
        rp_FitPolicy value \<noteq> ''contain'' \<and> rp_FitPolicy value \<noteq> ''cover'' then False
     else if \<not> list_all (\<lambda>scale. case ExactRational_Compare scale (whole_rational 64) of
          Inl _ \<Rightarrow> False | Inr comparison \<Rightarrow> comparison \<le> 0 \<and> ExactRational_IsPositive scale) [rp_ScaleX value, rp_ScaleY value] then False
     else list_all (\<lambda>translation.
          (case ExactRational_Compare translation (whole_rational (- 16)) of Inl _ \<Rightarrow> False | Inr lower \<Rightarrow> lower \<ge> 0) \<and>
          (case ExactRational_Compare translation (whole_rational 16) of Inl _ \<Rightarrow> False | Inr upper \<Rightarrow> upper \<le> 0))
        [rp_TranslateX value, rp_TranslateY value])"

definition validateRenderCaptionStyle :: "render_caption_style \<Rightarrow> (string, render_font_resource) gomap \<Rightarrow> bool" where
  "validateRenderCaptionStyle style fonts \<longleftrightarrow> \<not> (\<not> gm_has fonts (sty_FontResourceID style) \<or> sty_FontSize style = 0 \<or>
    sty_FontSize style > 10000 \<or> sty_Outline style > 10000 \<or> sty_LineHeight style < 10000 \<or> sty_LineHeight style > 30000 \<or>
    sty_PositionY style > 10000 \<or> sty_SafeWidth style = 0 \<or> sty_SafeWidth style > 10000 \<or> sty_Alignment style \<noteq> ''bottom-center'' \<or>
    sty_WrapPolicy style \<noteq> ''explicit-lines-clip-v1'' \<or> \<not> validRenderRGBA (sty_TextColorRGBA style) \<or> \<not> validRenderRGBA (sty_OutlineColorRGBA style))"

definition ValidCaptionText :: "string \<Rightarrow> bool" where
  "ValidCaptionText value =
    (if value = '''' \<or> \<not> ValidString value \<or> length value > MaximumAuthoredTextBytes then False
     else list_all IsRenderCaptionRune (runes value))"

definition validatePublishedRenderVideoInput :: "render_video_input \<Rightarrow> bool" where
  "validatePublishedRenderVideoInput input \<longleftrightarrow> \<not> (ID_IsZero (vin_SourceStreamID input) \<or> \<not> isOk (RationalTime_Validate (vin_SourceStart input)) \<or>
    \<not> isOk (RationalTime_Validate (vin_MaterialStart input)) \<or> \<not> isOk (RationalTime_Validate (vin_SourceTimeBase input)) \<or>
    \<not> RationalTime_IsPositive (vin_SourceTimeBase input) \<or> \<not> isOk (RationalTime_Validate (vin_MaterialTimeBase input)) \<or>
    \<not> RationalTime_IsPositive (vin_MaterialTimeBase input) \<or> \<not> validRenderDigest (vin_TimeMapDigest input) \<or>
    vin_Width input = 0 \<or> vin_Height input = 0 \<or> vin_Width input > MaximumRenderDimension \<or> vin_Height input > MaximumRenderDimension)"

definition validatePublishedRenderAudioInput :: "render_audio_input \<Rightarrow> bool" where
  "validatePublishedRenderAudioInput input \<longleftrightarrow> \<not> (ID_IsZero (ain_SourceStreamID input) \<or> \<not> isOk (RationalTime_Validate (ain_SourceStart input)) \<or>
    \<not> isOk (RationalTime_Validate (ain_MaterialStart input)) \<or> \<not> isOk (RationalTime_Validate (ain_SourceTimeBase input)) \<or>
    \<not> RationalTime_IsPositive (ain_SourceTimeBase input) \<or> \<not> isOk (RationalTime_Validate (ain_MaterialTimeBase input)) \<or>
    \<not> RationalTime_IsPositive (ain_MaterialTimeBase input) \<or> ain_SampleRate input \<noteq> SequencePreviewAudioSampleRate \<or>
    ain_ChannelLayout input \<noteq> ''stereo'' \<or> ain_DecodedSampleCount input = 0 \<or> ain_DecodedSampleCount input > MaximumSourceProxySamples)"

definition publishInput :: "string \<Rightarrow> render_plan_input \<Rightarrow> (string, render_plan_input) gomap \<times> string \<Rightarrow>
    render_error + (string, render_plan_input) gomap \<times> string" where
  "publishInput requiredProfile input acc =
    (let (result, previous) = acc; key = rin_ArtifactID input in
     if ID_IsZero (rin_ArtifactID input) \<or> key \<le> previous \<or> ID_IsZero (rin_AssetID input) \<or> rin_AssetRevision input = 0 \<or>
        rin_Profile input \<noteq> requiredProfile \<or> rin_ProducerVersion input = '''' \<or> length (rin_ProducerVersion input) > 256 \<or>
        \<not> isOk (RationalTime_Validate (rin_SourceEpoch input)) \<or> \<not> validRenderDigest (rin_ArtifactDigest input) \<or>
        \<not> validRenderDigest (rin_Fingerprint input) \<or> \<not> validRenderDigest (rin_MediaDigest input) \<or>
        (rin_Video input = None \<and> rin_Audio input = None) then Inl ErrRenderPlanInvalid
     else if (case rin_Video input of None \<Rightarrow> False | Some video \<Rightarrow> \<not> validatePublishedRenderVideoInput video) then Inl ErrRenderPlanInvalid
     else if (case rin_Audio input of None \<Rightarrow> False | Some audio \<Rightarrow> \<not> validatePublishedRenderAudioInput audio) then Inl ErrRenderPlanInvalid
     else Inr (gm_set result key input, key))"

definition validatePublishedRenderInputs :: "render_plan_input list \<Rightarrow> string \<Rightarrow> render_error + (string, render_plan_input) gomap" where
  "validatePublishedRenderInputs source requiredProfile =
    andThen (forEach (publishInput requiredProfile) source ([], '''')) (\<lambda>(result, previous). Inr result)"

definition publishFont :: "render_font_resource \<Rightarrow> (string, render_font_resource) gomap \<times> string \<Rightarrow>
    render_error + (string, render_font_resource) gomap \<times> string" where
  "publishFont font acc =
    (let (result, previous) = acc in
     if \<not> ValidFontResource font \<or> font_ResourceID font \<le> previous then Inl ErrRenderPlanInvalid
     else Inr (gm_set result (font_ResourceID font) font, font_ResourceID font))"

definition validatePublishedRenderFonts :: "render_font_resource list \<Rightarrow> render_error + (string, render_font_resource) gomap" where
  "validatePublishedRenderFonts source = andThen (forEach publishFont source ([], '''')) (\<lambda>(result, previous). Inr result)"

text \<open>
  The order of instructions, and what the loops over them carry: the latest end so far, the last end on each track, the inputs
  used, and the layer, start and identifier of the previous instruction.
\<close>

type_synonym instruction_order = "uint16 \<times> rational_time \<times> string"

definition videoOrder :: "render_video_instruction \<Rightarrow> instruction_order" where
  "videoOrder v = (vi_Layer v, tr_Start (vi_TimelineRange v), vi_ClipID v)"

definition audioOrder :: "render_audio_instruction \<Rightarrow> instruction_order" where
  "audioOrder a = (ai_Layer a, tr_Start (ai_TimelineRange a), ai_ClipID a)"

definition captionOrder :: "render_caption_instruction \<Rightarrow> instruction_order" where
  "captionOrder c = (ci_Layer c, tr_Start (ci_Range c), ci_CaptionID c)"

definition renderInstructionOrdered :: "instruction_order option \<Rightarrow> instruction_order \<Rightarrow> bool" where
  "renderInstructionOrdered previous current = (case previous of None \<Rightarrow> True
   | Some (previousLayer, previousStart, previousID) \<Rightarrow> (case current of (currentLayer, currentStart, currentID) \<Rightarrow>
       if previousLayer \<noteq> currentLayer then previousLayer < currentLayer
       else (case RationalTime_Compare previousStart currentStart of Inl _ \<Rightarrow> False
         | Inr comparison \<Rightarrow> comparison < 0 \<or> comparison = 0 \<and> previousID < currentID)))"

record published =
  pub_duration :: rational_time
  pub_lastByTrack :: "(string, rational_time) gomap"
  pub_used :: "(string, unit) gomap"
  pub_previous :: "instruction_order option"

definition publishedStart :: "(string, unit) gomap \<Rightarrow> published" where
  "publishedStart used = \<lparr>pub_duration = whole_time 0, pub_lastByTrack = [], pub_used = used, pub_previous = None\<rparr>"

definition placeOnTrack :: "string \<Rightarrow> time_range \<Rightarrow> published \<Rightarrow> render_error + published" where
  "placeOnTrack track placed st =
    (let end_time = (case TimeRange_End placed of Inr e \<Rightarrow> e | Inl _ \<Rightarrow> zero_rational_time) in
     if (case gm_lookup (pub_lastByTrack st) track of None \<Rightarrow> False
       | Some last_end \<Rightarrow> (case RationalTime_Compare (tr_Start placed) last_end of Inl _ \<Rightarrow> True | Inr comparison \<Rightarrow> comparison < 0))
     then Inl ErrRenderPlanInvalid
     else Inr (st\<lparr>pub_lastByTrack := gm_set (pub_lastByTrack st) track end_time, pub_duration := laterRenderTime (pub_duration st) end_time\<rparr>))"

definition sameDuration :: "time_range \<Rightarrow> time_range \<Rightarrow> bool" where
  "sameDuration source timeline =
    (case RationalTime_Compare (tr_Duration source) (tr_Duration timeline) of Inl _ \<Rightarrow> False | Inr equal \<Rightarrow> equal = 0)"

definition publishVideo :: "(string, render_plan_input) gomap \<Rightarrow> render_video_instruction \<Rightarrow> published \<Rightarrow> render_error + published" where
  "publishVideo inputs instruction st =
    (case gm_lookup inputs (vi_InputArtifactID instruction) of None \<Rightarrow> Inl ErrRenderPlanInvalid
     | Some input \<Rightarrow> (case rin_Video input of None \<Rightarrow> Inl ErrRenderPlanInvalid
     | Some video \<Rightarrow>
       if ID_IsZero (vi_ClipID instruction) \<or> vi_ClipRevision instruction = 0 \<or> ID_IsZero (vi_TrackID instruction) \<or>
          vi_TrackRevision instruction = 0 \<or> vi_SourceStreamID instruction \<noteq> vin_SourceStreamID video \<or>
          \<not> validatePositiveRange (vi_SourceRange instruction) False \<or> \<not> validatePositiveRange (vi_TimelineRange instruction) True \<or>
          vi_Orientation instruction \<noteq> ''normalized-by-render-material-v1'' \<or> \<not> validateRenderPlacement (vi_Placement instruction) \<or>
          \<not> renderInstructionOrdered (pub_previous st) (videoOrder instruction) then Inl ErrRenderPlanInvalid
       else if \<not> sameDuration (vi_SourceRange instruction) (vi_TimelineRange instruction) then Inl ErrRenderPlanInvalid
       else andThen (placeOnTrack (vi_TrackID instruction) (vi_TimelineRange instruction) st) (\<lambda>st.
         Inr (st\<lparr>pub_used := gm_set (pub_used st) (vi_InputArtifactID instruction) (), pub_previous := Some (videoOrder instruction)\<rparr>))))"

definition publishAudio :: "(string, render_plan_input) gomap \<Rightarrow> render_audio_instruction \<Rightarrow> published \<Rightarrow> render_error + published" where
  "publishAudio inputs instruction st =
    (case gm_lookup inputs (ai_InputArtifactID instruction) of None \<Rightarrow> Inl ErrRenderPlanInvalid
     | Some input \<Rightarrow> (case rin_Audio input of None \<Rightarrow> Inl ErrRenderPlanInvalid
     | Some audio \<Rightarrow>
       if ID_IsZero (ai_ClipID instruction) \<or> ai_ClipRevision instruction = 0 \<or> ID_IsZero (ai_TrackID instruction) \<or>
          ai_TrackRevision instruction = 0 \<or> ai_SourceStreamID instruction \<noteq> ain_SourceStreamID audio \<or>
          \<not> validatePositiveRange (ai_SourceRange instruction) False \<or> \<not> validatePositiveRange (ai_TimelineRange instruction) True \<or>
          ai_ChannelMapping instruction \<noteq> ''render-material-stereo-v1'' \<or> sint (ai_GainMilliDB instruction) < - 96000 \<or>
          sint (ai_GainMilliDB instruction) > 24000 \<or> \<not> renderInstructionOrdered (pub_previous st) (audioOrder instruction)
       then Inl ErrRenderPlanInvalid
       else if \<not> sameDuration (ai_SourceRange instruction) (ai_TimelineRange instruction) then Inl ErrRenderPlanInvalid
       else andThen (placeOnTrack (ai_TrackID instruction) (ai_TimelineRange instruction) st) (\<lambda>st.
         Inr (st\<lparr>pub_used := gm_set (pub_used st) (ai_InputArtifactID instruction) (), pub_previous := Some (audioOrder instruction)\<rparr>))))"

definition publishCaption :: "language_parser \<Rightarrow> (string, render_font_resource) gomap \<Rightarrow> render_caption_instruction \<Rightarrow> published \<Rightarrow>
    render_error + published" where
  "publishCaption bcp47 fonts instruction st =
    (if ID_IsZero (ci_CaptionID instruction) \<or> ci_CaptionRevision instruction = 0 \<or> ID_IsZero (ci_TrackID instruction) \<or>
        ci_TrackRevision instruction = 0 \<or> \<not> validatePositiveRange (ci_Range instruction) True \<or>
        \<not> CaptionLanguage_Validate bcp47 (ci_Language instruction) \<or> \<not> ValidCaptionText (ci_Text instruction) \<or>
        \<not> validateRenderCaptionStyle (ci_Style instruction) fonts \<or>
        \<not> renderInstructionOrdered (pub_previous st) (captionOrder instruction) then Inl ErrRenderPlanInvalid
     else andThen (placeOnTrack (ci_TrackID instruction) (ci_Range instruction) st) (\<lambda>st.
       Inr (st\<lparr>pub_previous := Some (captionOrder instruction)\<rparr>)))"

definition validatePublishedRenderVideo :: "render_video_instruction list \<Rightarrow> (string, render_plan_input) gomap \<Rightarrow> (string, unit) gomap \<Rightarrow>
    render_error + rational_time \<times> (string, unit) gomap" where
  "validatePublishedRenderVideo source inputs used =
    andThen (forEach (publishVideo inputs) source (publishedStart used)) (\<lambda>st. Inr (pub_duration st, pub_used st))"

definition validatePublishedRenderAudio :: "render_audio_instruction list \<Rightarrow> (string, render_plan_input) gomap \<Rightarrow> (string, unit) gomap \<Rightarrow>
    render_error + rational_time \<times> (string, unit) gomap" where
  "validatePublishedRenderAudio source inputs used =
    andThen (forEach (publishAudio inputs) source (publishedStart used)) (\<lambda>st. Inr (pub_duration st, pub_used st))"

definition validatePublishedRenderCaptions :: "language_parser \<Rightarrow> render_caption_instruction list \<Rightarrow> (string, render_font_resource) gomap \<Rightarrow>
    render_error + rational_time" where
  "validatePublishedRenderCaptions bcp47 source fonts =
    andThen (forEach (publishCaption bcp47 fonts) source (publishedStart [])) (\<lambda>st. Inr (pub_duration st))"

definition validateRenderPlanPayload :: "language_parser \<Rightarrow> render_plan_payload \<Rightarrow> string \<Rightarrow>
    (sequence_format \<Rightarrow> rational_time \<Rightarrow> render_error + render_output_policy) \<Rightarrow> render_error + unit" where
  "validateRenderPlanPayload bcp47 plan requiredProfile outputPolicy =
    (if pay_CompilerVersion plan \<noteq> ''sequence-render-plan-v4'' \<or> ID_IsZero (pay_ProjectID plan) \<or> ID_IsZero (pay_SequenceID plan) \<or>
        pay_SequenceRevision plan = 0 \<or> \<not> SequenceFormat_Validate (pay_SequenceFormat plan) \<or> \<not> isOk (RationalTime_Validate (pay_Duration plan)) \<or>
        \<not> RationalTime_IsPositive (pay_Duration plan) \<or> length (pay_Inputs plan) > MaximumRenderPlanItems \<or>
        length (pay_Video plan) > MaximumRenderPlanItems \<or> length (pay_Audio plan) > MaximumRenderPlanItems \<or>
        length (pay_Captions plan) > MaximumRenderPlanItems \<or> length (pay_FontResources plan) > MaximumRenderPlanItems
     then Inl ErrRenderPlanInvalid
     else if outputPolicy (pay_SequenceFormat plan) (pay_Duration plan) \<noteq> Inr (pay_Output plan) then Inl ErrRenderPlanInvalid
     else
       andThen (validatePublishedRenderInputs (pay_Inputs plan) requiredProfile) (\<lambda>inputs.
       andThen (validatePublishedRenderFonts (pay_FontResources plan)) (\<lambda>fonts.
       andThen (validatePublishedRenderVideo (pay_Video plan) inputs []) (\<lambda>(duration, used).
       andThen (validatePublishedRenderAudio (pay_Audio plan) inputs used) (\<lambda>(audioDuration, used).
       let duration = laterRenderTime duration audioDuration in
       andThen (validatePublishedRenderCaptions bcp47 (pay_Captions plan) fonts) (\<lambda>captionDuration.
       let usedFonts = foldl (\<lambda>m caption. gm_set m (sty_FontResourceID (ci_Style caption)) ()) [] (pay_Captions plan);
           duration = laterRenderTime duration captionDuration
       in if (case RationalTime_Compare duration (pay_Duration plan) of Inl _ \<Rightarrow> True | Inr comparison \<Rightarrow> comparison \<noteq> 0) \<or>
             gm_size used \<noteq> gm_size inputs \<or> gm_size usedFonts \<noteq> gm_size fonts then Inl ErrRenderPlanInvalid
          else Inr ()))))))"

definition ValidateSequencePreviewRenderPlanPayload :: "language_parser \<Rightarrow> render_plan_payload \<Rightarrow> render_error + unit" where
  "ValidateSequencePreviewRenderPlanPayload bcp47 plan =
    (if pay_Purpose plan \<noteq> RenderPurposeSequencePreview then Inl ErrRenderPlanInvalid
     else validateRenderPlanPayload bcp47 plan SourceProxyProfile SequencePreviewOutput)"

definition ValidateSequenceExportRenderPlanPayload :: "language_parser \<Rightarrow> render_plan_payload \<Rightarrow> render_error + unit" where
  "ValidateSequenceExportRenderPlanPayload bcp47 plan =
    (if pay_Purpose plan \<noteq> RenderPurposeExport then Inl ErrRenderPlanInvalid
     else validateRenderPlanPayload bcp47 plan RenderInputProfile SequenceExportOutput)"

definition ValidateRenderPlanPayload :: "language_parser \<Rightarrow> render_plan_payload \<Rightarrow> render_error + unit" where
  "ValidateRenderPlanPayload bcp47 plan = (case pay_Purpose plan of
     RenderPurposeSequencePreview \<Rightarrow> ValidateSequencePreviewRenderPlanPayload bcp47 plan
   | RenderPurposeExport \<Rightarrow> ValidateSequenceExportRenderPlanPayload bcp47 plan
   | RenderPurposeOther _ \<Rightarrow> Inl ErrRenderPlanInvalid)"

section \<open>Counts and dimensions\<close>

lemma sdiv_nonneg: "0 \<le> (a :: int) \<Longrightarrow> 0 < b \<Longrightarrow> a sdiv b = a div b"
  by (auto simp: signed_divide_int_def sgn_if)

lemma smod_nonneg: "0 \<le> (a :: int) \<Longrightarrow> 0 < b \<Longrightarrow> a smod b = a mod b"
  by (auto simp: signed_modulo_int_def sgn_if)

lemma ceiling_quotient:
  assumes "0 < (b :: int)"
  shows "\<lceil>of_int a / of_int b :: rat\<rceil> = (if a mod b \<noteq> 0 then a div b + 1 else a div b)"
  using assms by (auto simp: ceiling_divide_eq_div zdiv_zminus1_eq_if)

lemma rt_valid_den: "rt_valid t \<Longrightarrow> 0 < sint (rt_Scale t)"
  by (auto simp: rt_valid_def RationalTime_Validate_def split: if_splits)

lemma rt_val_sint: "rt_val t = of_int (sint (rt_Value t)) / of_int (sint (rt_Scale t))"
  by (simp add: rt_val_def rt_num_def rt_den_def)

lemma ceilRenderCount_Inr:
  "ceilRenderCount duration rate = Inr n \<longleftrightarrow> rt_valid duration \<and> 0 < rt_val duration \<and> rt_valid rate \<and> 0 < rt_val rate \<and>
    uint n = \<lceil>rt_val duration * rt_val rate\<rceil> \<and> uint n \<le> MaxInt64"
proof (cases "rt_valid duration \<and> 0 < rt_val duration \<and> rt_valid rate \<and> 0 < rt_val rate")
  case True
  define a b where "a = sint (rt_Value duration) * sint (rt_Value rate)" and "b = sint (rt_Scale duration) * sint (rt_Scale rate)"
  define q where "q = (if a mod b \<noteq> 0 then a div b + 1 else a div b)"
  have pos: "0 < sint (rt_Value duration)" "0 < sint (rt_Value rate)"
    using True rt_val_pos_iff [of duration] rt_val_pos_iff [of rate] by (auto simp: RationalTime_IsPositive_def)
  then have ab: "0 < a" "0 < b" using True rt_valid_den [of duration] rt_valid_den [of rate] by (simp_all add: a_def b_def)
  have c: "\<lceil>rt_val duration * rt_val rate\<rceil> = q" using ceiling_quotient [OF ab(2), of a] by (simp add: rt_val_sint a_def b_def q_def)
  have q: "0 < q" using True by (simp add: c [symmetric])
  have "ceilRenderCount duration rate = (if q \<le> MaxInt64 then Inr (word_of_int q) else Inl ErrRenderPlanInvalid)"
  proof (cases "IsUint64 q")
    case u: True
    have "uint (word_of_int q :: uint64) = q" using u by (rule uint_of_int64)
    moreover from this have "(word_of_int q :: uint64) \<noteq> 0" using q by auto
    ultimately show ?thesis using True u pos ab
      by (simp add: ceilRenderCount_def rt_valid_def [symmetric] RationalTime_IsPositive_def a_def [symmetric] b_def [symmetric] sdiv_nonneg smod_nonneg
        q_def [symmetric] NewUInt64_def)
  next
    case False
    then have "\<not> q \<le> MaxInt64" using q by (auto simp: IsUint64_def)
    then show ?thesis using True False pos ab
      by (simp add: ceilRenderCount_def rt_valid_def [symmetric] RationalTime_IsPositive_def a_def [symmetric] b_def [symmetric] sdiv_nonneg smod_nonneg
        q_def [symmetric])
  qed
  then show ?thesis using True q c uint_of_int64 [of q] by (auto simp: IsUint64_def) (metis word_of_int_uint)
next
  case False
  then show ?thesis by (auto simp: ceilRenderCount_def rt_valid_def rt_val_pos_iff)
qed

lemma SequenceFormat_ok:
  assumes "SequenceFormat_Validate f"
  shows "16 \<le> uint (sf_CanvasWidth f)" "uint (sf_CanvasWidth f) \<le> 16384" "16 \<le> uint (sf_CanvasHeight f)" "uint (sf_CanvasHeight f) \<le> 16384"
    "rt_valid (sf_PixelAspect f)" "0 < rt_val (sf_PixelAspect f)" "rt_valid (sf_FrameRate f)" "0 < rt_val (sf_FrameRate f)" "rt_val (sf_FrameRate f) \<le> 240"
proof -
  note valid = assms [unfolded SequenceFormat_Validate_def]
  have v: "rt_valid (sf_PixelAspect f)" "rt_valid (sf_FrameRate f)" using valid by (auto simp: rt_valid_def split: if_splits)
  then show "rt_valid (sf_PixelAspect f)" "rt_valid (sf_FrameRate f)" "0 < rt_val (sf_PixelAspect f)" "0 < rt_val (sf_FrameRate f)"
    using valid rt_val_pos_iff [OF v(1)] rt_val_pos_iff [OF v(2)] by (auto split: if_splits)
  have "RationalTime_Compare (sf_FrameRate f) (whole_time 240) = Inr (sgn_rat (rt_val (sf_FrameRate f) - 240))"
    using v(2) whole_time_val [of 240] by (simp add: Compare_Inr IsInt64_def)
  then show "rt_val (sf_FrameRate f) \<le> 240" using valid by (auto simp: sgn_rat_def split: if_splits)
  show "16 \<le> uint (sf_CanvasWidth f)" "uint (sf_CanvasWidth f) \<le> 16384" "16 \<le> uint (sf_CanvasHeight f)" "uint (sf_CanvasHeight f) \<le> 16384"
    using valid by (auto simp: word_less_def not_less split: if_splits)
qed

lemma evenFloor_bounds: "0 \<le> v \<Longrightarrow> even (evenFloor v) \<and> evenFloor v \<le> v \<and> v < evenFloor v + 2 \<and> 0 \<le> evenFloor v"
  by (simp add: evenFloor_def smod_nonneg minus_mod_eq_mult_div) presburger

lemma floorBigRatio_bounds:
  assumes "0 < b" "IsInt64 (a div b)"
  shows "floorBigRatio a b = max 0 (a div b)"
  using assms by (auto simp: floorBigRatio_def sdiv_nonneg Let_def max_def div_nonpos_pos_le0 pos_imp_zdiv_neg_iff not_le intro: order.antisym)

definition display_ratio :: "sequence_format \<Rightarrow> rat" where
  "display_ratio f = of_int (uint (sf_CanvasWidth f)) * rt_val (sf_PixelAspect f) / of_int (uint (sf_CanvasHeight f))"

lemma short_edge:
  assumes "0 < x" "0 \<le> s" "s \<le> x" "0 \<le> w" "w \<le> 1280" "h = evenFloor (floorBigRatio (w * s) x)"
  shows "even h" "0 \<le> h" "h \<le> w" "h * x \<le> w * s" "w * s < (h + 2) * x"
proof -
  have "w * s \<le> w * x" using assms by (simp add: mult_left_mono)
  then have q: "0 \<le> w * s div x" "w * s div x \<le> w" using assms zdiv_mono1 [of "w * s" "w * x" x] by (simp_all add: pos_imp_zdiv_nonneg_iff)
  then have "h = evenFloor (w * s div x)" using assms floorBigRatio_bounds [of x "w * s"] by (simp add: IsInt64_def)
  then have h: "even h" "h \<le> w * s div x" "w * s div x < h + 2" "0 \<le> h" using evenFloor_bounds [OF q(1)] by auto
  then show "even h" "0 \<le> h" "h \<le> w" using q by auto
  have "h * x \<le> (w * s div x) * x" using h(2) assms(1) by (simp add: mult_right_mono)
  moreover have "(w * s div x) * x \<le> w * s" using pos_mod_sign [OF assms(1), of "w * s"] div_mult_mod_eq [of "w * s" x] by linarith
  ultimately show "h * x \<le> w * s" by linarith
  have "w * s < (w * s div x) * x + x" using pos_mod_bound [OF assms(1), of "w * s"] div_mult_mod_eq [of "w * s" x] by linarith
  also have "\<dots> = (w * s div x + 1) * x" by (simp only: distrib_right mult_1)
  also have "\<dots> \<le> (h + 2) * x" using h(3) assms(1) by (intro mult_right_mono) simp_all
  finally show "w * s < (h + 2) * x" .
qed

lemma ratio_cross:
  assumes f: "SequenceFormat_Validate f"
  defines "x \<equiv> uint (sf_CanvasWidth f) * sint (rt_Value (sf_PixelAspect f))"
    and "s \<equiv> uint (sf_CanvasHeight f) * sint (rt_Scale (sf_PixelAspect f))"
  shows "0 < x" "0 < s" "display_ratio f = of_int x / of_int s" "s \<le> x \<longleftrightarrow> 1 \<le> display_ratio f"
proof -
  note ok = SequenceFormat_ok [OF f]
  have "0 < sint (rt_Value (sf_PixelAspect f))" "0 < sint (rt_Scale (sf_PixelAspect f))"
    using rt_val_pos_iff [OF ok(5)] ok(6) rt_valid_den [OF ok(5)] by (simp_all add: RationalTime_IsPositive_def)
  then show "0 < x" "0 < s" using ok by (simp_all add: x_def s_def)
  show "display_ratio f = of_int x / of_int s" by (simp add: display_ratio_def rt_val_sint x_def s_def)
  then show "s \<le> x \<longleftrightarrow> 1 \<le> display_ratio f" using \<open>0 < s\<close> by (simp add: le_divide_eq)
qed

lemma rat_scale_le: "0 < (s :: int) \<Longrightarrow> h * x \<le> w * s \<Longrightarrow> (of_int h :: rat) * (of_int x / of_int s) \<le> of_int w"
  by (simp add: divide_le_eq del: of_int_mult add: of_int_mult [symmetric])

lemma rat_scale_less: "0 < (s :: int) \<Longrightarrow> w * s < h * x \<Longrightarrow> (of_int w :: rat) < of_int h * (of_int x / of_int s)"
  by (simp add: less_divide_eq del: of_int_mult add: of_int_mult [symmetric])

lemma rat_scale_le': "0 < (s :: int) \<Longrightarrow> w * s \<le> h * x \<Longrightarrow> (of_int w :: rat) \<le> of_int h * (of_int x / of_int s)"
  by (simp add: le_divide_eq del: of_int_mult add: of_int_mult [symmetric])

lemma rat_scale_less': "0 < (s :: int) \<Longrightarrow> h * x < w * s \<Longrightarrow> (of_int h :: rat) * (of_int x / of_int s) < of_int w"
  by (simp add: divide_less_eq del: of_int_mult add: of_int_mult [symmetric])

text \<open>C33. The preview canvas has even edges between 2 and 1280 and keeps the display aspect ratio of the sequence to within the two pixels
  that rounding the short edge down to an even number costs, in landscape and in portrait.\<close>

theorem preview_canvas_fits:
  assumes "sequencePreviewDimensions f = Inr (width, height)"
  shows "even (uint width) \<and> even (uint height) \<and> 2 \<le> uint width \<and> uint width \<le> 1280 \<and> 2 \<le> uint height \<and> uint height \<le> 1280 \<and>
    (if display_ratio f \<ge> 1
     then of_int (uint height) * display_ratio f \<le> of_int (uint width) \<and> of_int (uint width) < of_int (uint height + 2) * display_ratio f
     else of_int (uint width) \<le> of_int (uint height) * display_ratio f \<and> of_int (uint height) * display_ratio f < of_int (uint width + 2))"
proof -
  have f: "SequenceFormat_Validate f" using assms by (auto simp: sequencePreviewDimensions_def split: if_splits)
  define x s where "x = uint (sf_CanvasWidth f) * sint (rt_Value (sf_PixelAspect f))" and "s = uint (sf_CanvasHeight f) * sint (rt_Scale (sf_PixelAspect f))"
  have small: "uint (word_of_int k :: uint32) = k" if "0 \<le> k" "k \<le> 1280" for k using that by (simp add: uint_word_of_int)
  note c = ratio_cross [OF f, folded x_def s_def]
  show ?thesis
  proof (cases "s \<le> x")
    case True
    define w h where "w = evenFloor (minimumInt64 (floorBigRatio x (sint (rt_Scale (sf_PixelAspect f)))) SequencePreviewMaximumLongEdge)"
      and "h = evenFloor (floorBigRatio (w * s) x)"
    have r: "2 \<le> w" "2 \<le> h" "width = word_of_int w" "height = word_of_int h"
      using assms True by (auto simp: sequencePreviewDimensions_def Let_def x_def [symmetric] s_def [symmetric] w_def [symmetric] h_def [symmetric] split: if_splits)
    have l: "0 \<le> floorBigRatio x d" for d by (auto simp: floorBigRatio_def Let_def sdiv_nonneg pos_imp_zdiv_nonneg_iff)
    have w: "even w" "w \<le> 1280" using evenFloor_bounds [of "minimumInt64 (floorBigRatio x (sint (rt_Scale (sf_PixelAspect f)))) SequencePreviewMaximumLongEdge"] l
      by (auto simp: w_def minimumInt64_def SequencePreviewMaximumLongEdge_def split: if_splits)
    note e = short_edge [OF c(1) less_imp_le [OF c(2)] True _ w(2) h_def]
    show ?thesis using r w e small c True rat_scale_le [OF c(2), of h x w] rat_scale_less [OF c(2), of w "h + 2" x] by simp
  next
    case False
    define h w where "h = evenFloor (minimumInt64 (uint (sf_CanvasHeight f)) SequencePreviewMaximumLongEdge)"
      and "w = evenFloor (floorBigRatio (h * x) s)"
    have r: "2 \<le> w" "2 \<le> h" "width = word_of_int w" "height = word_of_int h"
      using assms False by (auto simp: sequencePreviewDimensions_def Let_def x_def [symmetric] s_def [symmetric] w_def [symmetric] h_def [symmetric] split: if_splits)
    have h: "even h" "h \<le> 1280" using evenFloor_bounds [of "minimumInt64 (uint (sf_CanvasHeight f)) SequencePreviewMaximumLongEdge"]
      by (auto simp: h_def minimumInt64_def SequencePreviewMaximumLongEdge_def split: if_splits)
    note e = short_edge [OF c(2) less_imp_le [OF c(1)] _ _ h(2) w_def]
    show ?thesis using r h e small c False rat_scale_le' [OF c(2), of w h x] rat_scale_less' [OF c(2), of h x "w + 2"] by simp
  qed
qed

lemma whole_time_eq: "whole_time k = \<lparr>rt_Value = k, rt_Scale = 1\<rparr>"
proof -
  have *: "rt_valid \<lparr>rt_Value = k, rt_Scale = 1\<rparr>" by (simp add: rt_valid_iff rt_num_def rt_den_def)
  have "rt_valid (whole_time k)" "rt_val (whole_time k) = of_int (sint k)" using whole_time_val [of "sint k"] by simp_all
  then show ?thesis using rt_val_eq_iff [OF _ *, of "whole_time k"] by (simp add: rt_val_sint)
qed

lemma whole_time_simps [simp]:
  "rt_Value (whole_time k) = k" "rt_Scale (whole_time k) = 1" "RationalTime_Validate (whole_time k) = Inr ()"
  "RationalTime_IsPositive (whole_time k) \<longleftrightarrow> 0 < sint k" "RationalTime_IsNegative (whole_time k) \<longleftrightarrow> sint k < 0"
  "RationalTime_Compare (whole_time k) (whole_time j) = Inr (sgn (sint k - sint j))" "rt_val (whole_time k) = of_int (sint k)"
proof -
  have v: "rt_valid (whole_time i)" for i using whole_time_val [of "sint i"] by simp
  then show ok: "RationalTime_Validate (whole_time i) = Inr ()" for i by (auto simp: rt_valid_def isOk_iff)
  show "RationalTime_Compare (whole_time k) (whole_time j) = Inr (sgn (sint k - sint j))" unfolding RationalTime_Compare_def ok by (simp add: whole_time_eq)
  show "rt_val (whole_time k) = of_int (sint k)" using whole_time_val [of "sint k"] by simp
qed (simp_all add: whole_time_eq RationalTime_IsPositive_def RationalTime_IsNegative_def)

lemma whole_rational_simps [simp]: "er_Value (whole_rational k) = k" "er_Scale (whole_rational k) = 1" "ExactRational_Validate (whole_rational k) = Inr ()"
proof -
  have one: "gcd64 x 1 = 1" for x by (simp add: gcd64.simps [of x 1] gcd64.simps [of 1 0])
  have "whole_rational k = \<lparr>er_Value = k, er_Scale = 1\<rparr>" by (simp add: whole_rational_def NewExactRational_def one Let_def)
  then show "er_Value (whole_rational k) = k" "er_Scale (whole_rational k) = 1" "ExactRational_Validate (whole_rational k) = Inr ()"
    by (simp_all add: ExactRational_Validate_def one)
qed

lemma default_format: "SequenceFormat_Validate DefaultSequenceFormat"
  by (simp add: SequenceFormat_Validate_def DefaultSequenceFormat_def)

theorem preview_canvas_fits_witness:
  "sequencePreviewDimensions DefaultSequenceFormat = Inr (1280, 720) \<and>
    of_int 720 * display_ratio DefaultSequenceFormat \<le> 1280 \<and> 1280 < of_int 722 * display_ratio DefaultSequenceFormat"
proof -
  have run: "sequencePreviewDimensions DefaultSequenceFormat = Inr (1280, 720)"
    unfolding sequencePreviewDimensions_def using default_format
    by (simp add: DefaultSequenceFormat_def floorBigRatio_def minimumInt64_def evenFloor_def SequencePreviewMaximumLongEdge_def sdiv_nonneg smod_nonneg IsInt64_def)
  moreover have "display_ratio DefaultSequenceFormat \<ge> 1" by (simp add: display_ratio_def DefaultSequenceFormat_def)
  ultimately show ?thesis using preview_canvas_fits [OF run] by simp
qed

end
