(* ===== verification/Render_Validation.thy ===== *)
theory Render_Validation
  imports Render_Contract
begin

text \<open>
  What an accepted render plan promises (\<^verbatim>\<open>product/rendercontract/validation.go\<close>). The three loops over video, audio and
  caption instructions share one contract, stated as a locale.
\<close>

section \<open>Times and ranges\<close>

lemma validatePositiveRange_iff:
  "validatePositiveRange r nonneg \<longleftrightarrow> rt_valid (tr_Start r) \<and> rt_valid (tr_Duration r) \<and> 0 < rt_val (tr_Duration r) \<and>
    (nonneg \<longrightarrow> 0 \<le> range_from r) \<and> range_ok r"
  by (auto simp: validatePositiveRange_def rt_valid_def [symmetric] rt_val_pos_iff rt_val_neg_iff range_ok_def range_from_def)

lemma Compare_valid: "rt_valid a \<Longrightarrow> rt_valid b \<Longrightarrow> RationalTime_Compare a b = Inr (sgn_rat (rt_val a - rt_val b))"
  by (simp add: Compare_Inr)

lemma laterRenderTime_val:
  assumes "rt_valid a" "rt_valid b"
  shows "rt_valid (laterRenderTime a b)" "rt_val (laterRenderTime a b) = max (rt_val a) (rt_val b)"
  using assms by (auto simp: laterRenderTime_def sgn_rat_def Compare_valid)

definition order_less :: "instruction_order \<Rightarrow> instruction_order \<Rightarrow> bool" where
  "order_less p q = (case p of (layer, start, ident) \<Rightarrow> (case q of (layer', start', ident') \<Rightarrow>
    layer < layer' \<or> layer = layer' \<and> (rt_val start < rt_val start' \<or> rt_val start = rt_val start' \<and> ident < ident')))"

lemma order_less_trans: "order_less p q \<Longrightarrow> order_less q r \<Longrightarrow> order_less p r"
  by (auto simp: order_less_def split: prod.splits)

lemma ordered_less: "renderInstructionOrdered (Some p) q \<longleftrightarrow> order_less p q" if "rt_valid (fst (snd p))" "rt_valid (fst (snd q))"
  using that by (cases p; cases q) (auto simp: renderInstructionOrdered_def order_less_def sgn_rat_def Compare_valid)

text \<open>Instructions that do not overlap on a track, and the latest end of a list of ranges.\<close>

definition tracks_apart :: "('i \<Rightarrow> string) \<Rightarrow> ('i \<Rightarrow> time_range) \<Rightarrow> 'i list \<Rightarrow> bool" where
  "tracks_apart track placed xs \<longleftrightarrow> sorted_wrt (\<lambda>x y. track x = track y \<longrightarrow> range_upto (placed x) \<le> range_from (placed y)) xs"

definition in_order :: "('i \<Rightarrow> instruction_order) \<Rightarrow> 'i list \<Rightarrow> bool" where
  "in_order order xs \<longleftrightarrow> sorted_wrt (\<lambda>x y. order_less (order x) (order y)) xs"

definition latest_end :: "time_range list \<Rightarrow> rat" where
  "latest_end rs = foldr (\<lambda>r m. max (range_upto r) m) rs 0"

lemma latest_end_simps [simp]: "latest_end [] = 0" "latest_end (r # rs) = max (range_upto r) (latest_end rs)"
  by (simp_all add: latest_end_def)

lemma latest_end_append [simp]: "latest_end (rs @ ss) = max (latest_end rs) (latest_end ss)"
proof (induction rs)
  case Nil
  have "0 \<le> latest_end ss" by (induction ss) auto
  then show ?case by simp
qed (simp add: max.assoc)

section \<open>The loops over instructions\<close>

locale instruction_loop =
  fixes publish :: "'i \<Rightarrow> published \<Rightarrow> render_error + published"
    and track :: "'i \<Rightarrow> string" and placed :: "'i \<Rightarrow> time_range" and order :: "'i \<Rightarrow> instruction_order" and uses :: "'i \<Rightarrow> string list"
    and fits :: "'i \<Rightarrow> bool"
  assumes order_start: "fst (snd (order x)) = tr_Start (placed x)"
    and publish_iff: "publish x st = Inr st' \<longleftrightarrow> fits x \<and> validatePositiveRange (placed x) True \<and> renderInstructionOrdered (pub_previous st) (order x) \<and>
      (\<exists>m. placeOnTrack (track x) (placed x) st = Inr m \<and>
        st' = m\<lparr>pub_used := foldl (\<lambda>u k. gm_set u k ()) (pub_used m) (uses x), pub_previous := Some (order x)\<rparr>)"
begin

text \<open>What the loop has established after a list of instructions.\<close>

definition covers :: "(string, unit) gomap \<Rightarrow> 'i list \<Rightarrow> published \<Rightarrow> bool" where
  "covers used xs st \<longleftrightarrow> rt_valid (pub_duration st) \<and> rt_val (pub_duration st) = latest_end (map placed xs) \<and>
    (\<forall>k. gm_has (pub_used st) k \<longleftrightarrow> gm_has used k \<or> (\<exists>x \<in> set xs. k \<in> set (uses x))) \<and>
    pub_previous st = (if xs = [] then None else Some (order (last xs))) \<and>
    (\<forall>x \<in> set xs. \<exists>e. gm_lookup (pub_lastByTrack st) (track x) = Some e \<and> range_upto (placed x) \<le> rt_val e) \<and>
    (\<forall>t e. gm_lookup (pub_lastByTrack st) t = Some e \<longrightarrow> rt_valid e \<and> (\<exists>x \<in> set xs. track x = t \<and> rt_val e = range_upto (placed x)))"

definition acceptable :: "'i list \<Rightarrow> bool" where
  "acceptable xs \<longleftrightarrow> (\<forall>x \<in> set xs. fits x \<and> validatePositiveRange (placed x) True) \<and> in_order order xs \<and> tracks_apart track placed xs"

lemma used_fold: "gm_has (foldl (\<lambda>u k. gm_set u k ()) u ks) k \<longleftrightarrow> gm_has u k \<or> k \<in> set ks"
  by (induction ks arbitrary: u) auto

lemma ordered_snoc:
  assumes "acceptable xs" "validatePositiveRange (placed x) True"
  shows "renderInstructionOrdered (if xs = [] then None else Some (order (last xs))) (order x) \<longleftrightarrow> (\<forall>y \<in> set xs. order_less (order y) (order x))"
proof (cases "xs = []")
  case False
  then obtain ys y where xs: "xs = ys @ [y]" by (metis rev_exhaust)
  have "rt_valid (tr_Start (placed y))" "rt_valid (tr_Start (placed x))" using assms xs by (auto simp: acceptable_def validatePositiveRange_iff)
  then have "renderInstructionOrdered (Some (order y)) (order x) \<longleftrightarrow> order_less (order y) (order x)" by (intro ordered_less) (simp_all add: order_start)
  moreover have "\<forall>z \<in> set ys. order_less (order z) (order y)" using assms(1) by (simp add: acceptable_def in_order_def sorted_wrt_append xs)
  ultimately show ?thesis using xs by (auto intro: order_less_trans [of _ "order y"])
qed (simp add: renderInstructionOrdered_def)

lemma placed_end:
  assumes "validatePositiveRange (placed x) True"
  obtains e where "TimeRange_End (placed x) = Inr e" "rt_valid e" "rt_val e = range_upto (placed x)" "range_from (placed x) < range_upto (placed x)"
    "0 \<le> range_from (placed x)" "rt_valid (tr_Start (placed x))" "rt_val (tr_Start (placed x)) = range_from (placed x)"
proof -
  obtain e where "TimeRange_End (placed x) = Inr e" "rt_valid e" "rt_val e = range_upto (placed x)"
    using assms by (auto simp: validatePositiveRange_iff elim: range_okE)
  then show thesis using assms by (intro that) (auto simp: validatePositiveRange_iff range_from_def range_upto_def)
qed

lemma placed_apart:
  assumes "acceptable xs" "covers used xs st" "validatePositiveRange (placed x) True"
  shows "isOk (placeOnTrack (track x) (placed x) st) \<longleftrightarrow> (\<forall>y \<in> set xs. track y = track x \<longrightarrow> range_upto (placed y) \<le> range_from (placed x))"
proof -
  obtain e where e: "rt_valid (tr_Start (placed x))" "rt_val (tr_Start (placed x)) = range_from (placed x)" by (rule placed_end [OF assms(3)])
  show ?thesis
  proof (cases "gm_lookup (pub_lastByTrack st) (track x)")
    case None
    then have "\<forall>y \<in> set xs. track y \<noteq> track x" using assms(2) by (fastforce simp: covers_def)
    then show ?thesis using None by (simp add: placeOnTrack_def Let_def)
  next
    case (Some l)
    then obtain y where y: "rt_valid l" "y \<in> set xs" "track y = track x" "rt_val l = range_upto (placed y)" using assms(2) unfolding covers_def by blast
    have "\<forall>z \<in> set xs. track z = track x \<longrightarrow> range_upto (placed z) \<le> rt_val l" using assms(2) Some by (fastforce simp: covers_def)
    then show ?thesis using y Some e Compare_valid [OF e(1) y(1)] by (auto simp: placeOnTrack_def Let_def sgn_rat_def split: if_splits)
  qed
qed

lemma publish_ok:
  assumes "acceptable xs" "covers used xs st"
  shows "isOk (publish x st) \<longleftrightarrow> acceptable (xs @ [x])"
  using placed_apart [OF assms, of x] ordered_snoc [OF assms(1), of x] assms
  by (auto simp: isOk_iff publish_iff covers_def acceptable_def in_order_def tracks_apart_def sorted_wrt_append)

lemma publish_covers:
  assumes "acceptable xs" "covers used xs st" "publish x st = Inr st'"
  shows "covers used (xs @ [x]) st'"
proof -
  from assms(3) obtain m where x: "validatePositiveRange (placed x) True" and m: "placeOnTrack (track x) (placed x) st = Inr m"
    and st': "st' = m\<lparr>pub_used := foldl (\<lambda>u k. gm_set u k ()) (pub_used m) (uses x), pub_previous := Some (order x)\<rparr>" by (auto simp: publish_iff)
  obtain e where e: "TimeRange_End (placed x) = Inr e" "rt_valid e" "rt_val e = range_upto (placed x)" "range_from (placed x) < range_upto (placed x)"
    by (rule placed_end [OF x])
  have mm: "m = st\<lparr>pub_lastByTrack := gm_set (pub_lastByTrack st) (track x) e, pub_duration := laterRenderTime (pub_duration st) e\<rparr>"
    using m e by (auto simp: placeOnTrack_def Let_def split: if_splits)
  have before: "\<forall>y \<in> set xs. track y = track x \<longrightarrow> range_upto (placed y) \<le> range_upto (placed x)"
    using placed_apart [OF assms(1,2) x] m e(4) by (fastforce simp: isOk_iff)
  have "max (range_upto (placed x)) 0 = range_upto (placed x)" using e(4) x by (auto simp: validatePositiveRange_iff)
  then show ?thesis using assms(2) e before laterRenderTime_val [of "pub_duration st" e]
    by (auto simp: covers_def st' mm used_fold split: if_splits)
qed

lemma covers_start: "covers used [] (publishedStart used)"
  using whole_time_val [of 0] by (simp add: covers_def publishedStart_def IsInt64_def)

lemma loop_covers:
  assumes "acceptable xs" "covers used xs st" "forEach publish ys st = Inr st'"
  shows "acceptable (xs @ ys) \<and> covers used (xs @ ys) st'"
  using assms
proof (induction ys arbitrary: xs st)
  case (Cons y ys)
  then obtain m where m: "publish y st = Inr m" "forEach publish ys m = Inr st'" by auto
  have "acceptable (xs @ [y])" using publish_ok [OF Cons.prems(1,2), of y] m(1) by simp
  then show ?case using Cons.IH [OF _ publish_covers [OF Cons.prems(1,2) m(1)] m(2)] by simp
qed simp

lemma loop_complete:
  assumes "acceptable (xs @ ys)" "covers used xs st"
  shows "\<exists>st'. forEach publish ys st = Inr st'"
  using assms
proof (induction ys arbitrary: xs st)
  case (Cons y ys)
  have xs: "acceptable xs" "acceptable (xs @ [y])" using Cons.prems(1) by (auto simp: acceptable_def in_order_def tracks_apart_def sorted_wrt_append)
  then obtain m where m: "publish y st = Inr m" using publish_ok [OF xs(1) Cons.prems(2), of y] by (auto simp: isOk_iff)
  then show ?case using Cons.IH [of "xs @ [y]" m] Cons.prems(1) publish_covers [OF xs(1) Cons.prems(2) m] by simp
qed simp

theorem loop_iff: "(\<exists>st. forEach publish xs (publishedStart used) = Inr st) \<longleftrightarrow> acceptable xs"
  using loop_covers [OF _ covers_start, of xs] loop_complete [OF _ covers_start, of xs] by (fastforce simp: acceptable_def in_order_def tracks_apart_def)

lemma loop_Inr:
  assumes "forEach publish xs (publishedStart used) = Inr st"
  shows "acceptable xs" "rt_valid (pub_duration st)" "rt_val (pub_duration st) = latest_end (map placed xs)"
    "gm_has (pub_used st) k \<longleftrightarrow> gm_has used k \<or> (\<exists>x \<in> set xs. k \<in> set (uses x))"
  using loop_covers [OF _ covers_start assms] by (auto simp: covers_def acceptable_def in_order_def tracks_apart_def)

end

text \<open>What the three validators check of one instruction, apart from its place among the others.\<close>

definition video_fits :: "(string, render_plan_input) gomap \<Rightarrow> render_video_instruction \<Rightarrow> bool" where
  "video_fits inputs v \<longleftrightarrow> (\<exists>input video. gm_lookup inputs (vi_InputArtifactID v) = Some input \<and> rin_Video input = Some video \<and>
    vi_SourceStreamID v = vin_SourceStreamID video) \<and> \<not> ID_IsZero (vi_ClipID v) \<and> vi_ClipRevision v \<noteq> 0 \<and> \<not> ID_IsZero (vi_TrackID v) \<and>
    vi_TrackRevision v \<noteq> 0 \<and> validatePositiveRange (vi_SourceRange v) False \<and> vi_Orientation v = ''normalized-by-render-material-v1'' \<and>
    validateRenderPlacement (vi_Placement v) \<and> sameDuration (vi_SourceRange v) (vi_TimelineRange v)"

definition audio_fits :: "(string, render_plan_input) gomap \<Rightarrow> render_audio_instruction \<Rightarrow> bool" where
  "audio_fits inputs a \<longleftrightarrow> (\<exists>input audio. gm_lookup inputs (ai_InputArtifactID a) = Some input \<and> rin_Audio input = Some audio \<and>
    ai_SourceStreamID a = ain_SourceStreamID audio) \<and> \<not> ID_IsZero (ai_ClipID a) \<and> ai_ClipRevision a \<noteq> 0 \<and> \<not> ID_IsZero (ai_TrackID a) \<and>
    ai_TrackRevision a \<noteq> 0 \<and> validatePositiveRange (ai_SourceRange a) False \<and> ai_ChannelMapping a = ''render-material-stereo-v1'' \<and>
    - 96000 \<le> sint (ai_GainMilliDB a) \<and> sint (ai_GainMilliDB a) \<le> 24000 \<and> sameDuration (ai_SourceRange a) (ai_TimelineRange a)"

definition caption_fits :: "language_parser \<Rightarrow> (string, render_font_resource) gomap \<Rightarrow> render_caption_instruction \<Rightarrow> bool" where
  "caption_fits bcp47 fonts c \<longleftrightarrow> \<not> ID_IsZero (ci_CaptionID c) \<and> ci_CaptionRevision c \<noteq> 0 \<and> \<not> ID_IsZero (ci_TrackID c) \<and> ci_TrackRevision c \<noteq> 0 \<and>
    CaptionLanguage_Validate bcp47 (ci_Language c) \<and> ValidCaptionText (ci_Text c) \<and> validateRenderCaptionStyle (ci_Style c) fonts"

interpretation lv: instruction_loop "publishVideo inputs" vi_TrackID vi_TimelineRange videoOrder "\<lambda>v. [vi_InputArtifactID v]" "video_fits inputs" for inputs
proof
  show "publishVideo inputs x st = Inr st' \<longleftrightarrow> video_fits inputs x \<and> validatePositiveRange (vi_TimelineRange x) True \<and>
      renderInstructionOrdered (pub_previous st) (videoOrder x) \<and> (\<exists>m. placeOnTrack (vi_TrackID x) (vi_TimelineRange x) st = Inr m \<and>
      st' = m\<lparr>pub_used := foldl (\<lambda>u k. gm_set u k ()) (pub_used m) [vi_InputArtifactID x], pub_previous := Some (videoOrder x)\<rparr>)" for x st st'
    by (cases "gm_lookup inputs (vi_InputArtifactID x)"; cases "rin_Video (the (gm_lookup inputs (vi_InputArtifactID x)))")
      (auto simp: publishVideo_def video_fits_def go_result)
qed (simp add: videoOrder_def)

interpretation la: instruction_loop "publishAudio inputs" ai_TrackID ai_TimelineRange audioOrder "\<lambda>a. [ai_InputArtifactID a]" "audio_fits inputs" for inputs
proof
  show "publishAudio inputs x st = Inr st' \<longleftrightarrow> audio_fits inputs x \<and> validatePositiveRange (ai_TimelineRange x) True \<and>
      renderInstructionOrdered (pub_previous st) (audioOrder x) \<and> (\<exists>m. placeOnTrack (ai_TrackID x) (ai_TimelineRange x) st = Inr m \<and>
      st' = m\<lparr>pub_used := foldl (\<lambda>u k. gm_set u k ()) (pub_used m) [ai_InputArtifactID x], pub_previous := Some (audioOrder x)\<rparr>)" for x st st'
    by (cases "gm_lookup inputs (ai_InputArtifactID x)"; cases "rin_Audio (the (gm_lookup inputs (ai_InputArtifactID x)))")
      (auto simp: publishAudio_def audio_fits_def go_result not_less)
qed (simp add: audioOrder_def)

interpretation lc: instruction_loop "publishCaption bcp47 fonts" ci_TrackID ci_Range captionOrder "\<lambda>_. []" "caption_fits bcp47 fonts" for bcp47 fonts
proof
  show "publishCaption bcp47 fonts x st = Inr st' \<longleftrightarrow> caption_fits bcp47 fonts x \<and> validatePositiveRange (ci_Range x) True \<and>
      renderInstructionOrdered (pub_previous st) (captionOrder x) \<and> (\<exists>m. placeOnTrack (ci_TrackID x) (ci_Range x) st = Inr m \<and>
      st' = m\<lparr>pub_used := foldl (\<lambda>u k. gm_set u k ()) (pub_used m) [], pub_previous := Some (captionOrder x)\<rparr>)" for x st st'
    by (auto simp: publishCaption_def caption_fits_def go_result)
qed (simp add: captionOrder_def)

section \<open>The loops over inputs and fonts\<close>

locale keyed_loop =
  fixes publish :: "'i \<Rightarrow> (string, 'i) gomap \<times> string \<Rightarrow> render_error + (string, 'i) gomap \<times> string" and key :: "'i \<Rightarrow> string" and valid :: "'i \<Rightarrow> bool"
  assumes publish_eq: "publish x (m, previous) = (if valid x \<and> previous < key x then Inr (gm_set m (key x) x, key x) else Inl ErrRenderPlanInvalid)"
begin

lemma loop_from:
  "forEach publish xs (m, previous) = Inr (m', last_key) \<longleftrightarrow>
    list_all valid xs \<and> sorted_wrt (<) (previous # map key xs) \<and> m' = foldl (\<lambda>m x. gm_set m (key x) x) m xs \<and> last_key = last (previous # map key xs)"
proof (induction xs arbitrary: m previous)
  case (Cons x xs)
  have "previous < key x \<Longrightarrow> (\<forall>y \<in> set xs. key x < key y) \<Longrightarrow> \<forall>y \<in> set xs. previous < key y" by auto
  then show ?case using Cons [of "gm_set m (key x) x" "key x"] by (auto simp: publish_eq go_result)
qed auto

lemma fold_lookup:
  "distinct (map key xs) \<Longrightarrow> gm_lookup (foldl (\<lambda>m x. gm_set m (key x) x) m xs) k =
    (case find (\<lambda>x. key x = k) xs of Some x \<Rightarrow> Some x | None \<Rightarrow> gm_lookup m k)"
proof (induction xs arbitrary: m)
  case (Cons x xs)
  have "\<forall>y \<in> set xs. key y \<noteq> key x" using Cons.prems by (auto simp del: image_iff simp: image_def)
  then have "find (\<lambda>y. key y = key x) xs = None" by (simp add: find_None_iff)
  then show ?case using Cons.IH [of "gm_set m (key x) x"] Cons.prems by (cases "key x = k") (simp_all split: option.split)
qed simp

lemma strict_distinct: "sorted_wrt (<) (ks :: string list) \<Longrightarrow> distinct ks"
  by (induction ks) auto

lemma loop_Inr:
  assumes "forEach publish xs ([], '''') = Inr (m, last_key)"
  shows "list_all valid xs" "sorted_wrt (<) (map key xs)" "gm_lookup m k = find (\<lambda>x. key x = k) xs"
  using assms strict_distinct [of "map key xs"] fold_lookup [of xs "[]" k] by (auto simp: loop_from split: option.splits)

lemma loop_complete:
  assumes "list_all valid xs" "sorted_wrt (<) (map key xs)" "\<And>x. valid x \<Longrightarrow> key x \<noteq> ''''"
  shows "\<exists>m last_key. forEach publish xs ([], '''') = Inr (m, last_key)"
proof -
  have "'''' < k" if "k \<noteq> ''''" for k :: string using that by (cases k) simp_all
  then have "\<forall>x \<in> set xs. '''' < key x" using assms(1,3) by (auto simp: list_all_iff)
  then show ?thesis using assms(1,2) by (auto simp: loop_from)
qed

end

definition input_valid :: "string \<Rightarrow> render_plan_input \<Rightarrow> bool" where
  "input_valid profile input \<longleftrightarrow> \<not> ID_IsZero (rin_ArtifactID input) \<and> \<not> ID_IsZero (rin_AssetID input) \<and> rin_AssetRevision input \<noteq> 0 \<and>
    rin_Profile input = profile \<and> rin_ProducerVersion input \<noteq> '''' \<and> length (rin_ProducerVersion input) \<le> 256 \<and> rt_valid (rin_SourceEpoch input) \<and>
    validRenderDigest (rin_ArtifactDigest input) \<and> validRenderDigest (rin_Fingerprint input) \<and> validRenderDigest (rin_MediaDigest input) \<and>
    (rin_Video input \<noteq> None \<or> rin_Audio input \<noteq> None) \<and> (\<forall>video. rin_Video input = Some video \<longrightarrow> validatePublishedRenderVideoInput video) \<and>
    (\<forall>audio. rin_Audio input = Some audio \<longrightarrow> validatePublishedRenderAudioInput audio)"

interpretation ki: keyed_loop "publishInput profile" rin_ArtifactID "input_valid profile" for profile
proof
  have if3: "(if a then e else if b then e else if c then e else r) = (if \<not> (a \<or> b \<or> c) then r else e)" for a b c and e r :: 'a by simp
  fix x :: render_plan_input and m previous
  have video: "(case rin_Video x of None \<Rightarrow> False | Some v \<Rightarrow> \<not> validatePublishedRenderVideoInput v) \<longleftrightarrow>
      \<not> (\<forall>v. rin_Video x = Some v \<longrightarrow> validatePublishedRenderVideoInput v)"
    and audio: "(case rin_Audio x of None \<Rightarrow> False | Some v \<Rightarrow> \<not> validatePublishedRenderAudioInput v) \<longleftrightarrow>
      \<not> (\<forall>v. rin_Audio x = Some v \<longrightarrow> validatePublishedRenderAudioInput v)" by (simp_all split: option.split)
  show "publishInput profile x (m, previous) = (if input_valid profile x \<and> previous < rin_ArtifactID x
      then Inr (gm_set m (rin_ArtifactID x) x, rin_ArtifactID x) else Inl ErrRenderPlanInvalid)"
    unfolding publishInput_def Let_def prod.case if3 video audio
    by (rule if_cong) (auto simp: input_valid_def rt_valid_def not_le)
qed

interpretation kf: keyed_loop publishFont font_ResourceID ValidFontResource
proof
  fix x :: render_font_resource and m previous
  show "publishFont x (m, previous) = (if ValidFontResource x \<and> previous < font_ResourceID x
      then Inr (gm_set m (font_ResourceID x) x, font_ResourceID x) else Inl ErrRenderPlanInvalid)"
    unfolding publishFont_def Let_def prod.case not_le [symmetric] by simp
qed

section \<open>The contract\<close>

definition inputs_by_id :: "render_plan_input list \<Rightarrow> (string, render_plan_input) gomap" where
  "inputs_by_id xs = map (\<lambda>x. (rin_ArtifactID x, x)) xs"

definition fonts_by_id :: "render_font_resource list \<Rightarrow> (string, render_font_resource) gomap" where
  "fonts_by_id xs = map (\<lambda>x. (font_ResourceID x, x)) xs"

definition plan_head :: "render_plan_payload \<Rightarrow> bool" where
  "plan_head plan \<longleftrightarrow> pay_CompilerVersion plan = ''sequence-render-plan-v4'' \<and> \<not> ID_IsZero (pay_ProjectID plan) \<and> \<not> ID_IsZero (pay_SequenceID plan) \<and>
    pay_SequenceRevision plan \<noteq> 0 \<and> SequenceFormat_Validate (pay_SequenceFormat plan) \<and> rt_valid (pay_Duration plan) \<and> 0 < rt_val (pay_Duration plan) \<and>
    length (pay_Inputs plan) \<le> MaximumRenderPlanItems \<and> length (pay_Video plan) \<le> MaximumRenderPlanItems \<and>
    length (pay_Audio plan) \<le> MaximumRenderPlanItems \<and> length (pay_Captions plan) \<le> MaximumRenderPlanItems \<and>
    length (pay_FontResources plan) \<le> MaximumRenderPlanItems"

definition plan_contract :: "language_parser \<Rightarrow> string \<Rightarrow> (sequence_format \<Rightarrow> rational_time \<Rightarrow> render_error + render_output_policy) \<Rightarrow>
    render_plan_payload \<Rightarrow> bool" where
  "plan_contract bcp47 profile policy plan \<longleftrightarrow> plan_head plan \<and> policy (pay_SequenceFormat plan) (pay_Duration plan) = Inr (pay_Output plan) \<and>
    list_all (input_valid profile) (pay_Inputs plan) \<and> sorted_wrt (<) (map rin_ArtifactID (pay_Inputs plan)) \<and>
    list_all ValidFontResource (pay_FontResources plan) \<and> sorted_wrt (<) (map font_ResourceID (pay_FontResources plan)) \<and>
    (\<forall>v \<in> set (pay_Video plan). video_fits (inputs_by_id (pay_Inputs plan)) v \<and> validatePositiveRange (vi_TimelineRange v) True) \<and>
    in_order videoOrder (pay_Video plan) \<and> tracks_apart vi_TrackID vi_TimelineRange (pay_Video plan) \<and>
    (\<forall>a \<in> set (pay_Audio plan). audio_fits (inputs_by_id (pay_Inputs plan)) a \<and> validatePositiveRange (ai_TimelineRange a) True) \<and>
    in_order audioOrder (pay_Audio plan) \<and> tracks_apart ai_TrackID ai_TimelineRange (pay_Audio plan) \<and>
    (\<forall>c \<in> set (pay_Captions plan). caption_fits bcp47 (fonts_by_id (pay_FontResources plan)) c \<and> validatePositiveRange (ci_Range c) True) \<and>
    in_order captionOrder (pay_Captions plan) \<and> tracks_apart ci_TrackID ci_Range (pay_Captions plan) \<and>
    rt_val (pay_Duration plan) = latest_end (map vi_TimelineRange (pay_Video plan) @ map ai_TimelineRange (pay_Audio plan) @ map ci_Range (pay_Captions plan)) \<and>
    rin_ArtifactID ` set (pay_Inputs plan) \<subseteq> vi_InputArtifactID ` set (pay_Video plan) \<union> ai_InputArtifactID ` set (pay_Audio plan) \<and>
    font_ResourceID ` set (pay_FontResources plan) \<subseteq> (\<lambda>c. sty_FontResourceID (ci_Style c)) ` set (pay_Captions plan)"

lemma find_by_key: "gm_lookup (map (\<lambda>x. (key x, x)) xs) k = find (\<lambda>x. key x = k) xs"
  by (induction xs) auto

lemma has_by_key: "gm_has (map (\<lambda>x. (key x, x)) xs) k \<longleftrightarrow> k \<in> key ` set xs"
  by (induction xs) auto

lemma video_fits_cong: "(\<And>k. gm_lookup m k = gm_lookup m' k) \<Longrightarrow> video_fits m v = video_fits m' v"
  by (simp add: video_fits_def)

lemma audio_fits_cong: "(\<And>k. gm_lookup m k = gm_lookup m' k) \<Longrightarrow> audio_fits m v = audio_fits m' v"
  by (simp add: audio_fits_def)

lemma caption_fits_cong: "(\<And>k. gm_lookup m k = gm_lookup m' k) \<Longrightarrow> caption_fits bcp47 m c = caption_fits bcp47 m' c"
  by (simp add: caption_fits_def validateRenderCaptionStyle_def gm_has_def)

lemma gm_size_card: "gm_size m = card {k. gm_has m k}" "finite {k. gm_has m k}"
  using gm.length_keys_card [of m] gm.finite_domain [of m] by (simp_all add: gm_size_def gm_has_def)

lemma size_eq_iff:
  assumes "\<And>k. gm_has a k \<Longrightarrow> gm_has b k"
  shows "gm_size a = gm_size b \<longleftrightarrow> (\<forall>k. gm_has b k \<longrightarrow> gm_has a k)"
proof
  assume "gm_size a = gm_size b"
  then have "{k. gm_has a k} = {k. gm_has b k}" using assms by (intro card_subset_eq) (auto simp: gm_size_card)
  then show "\<forall>k. gm_has b k \<longrightarrow> gm_has a k" by blast
next
  assume "\<forall>k. gm_has b k \<longrightarrow> gm_has a k"
  then have "{k. gm_has a k} = {k. gm_has b k}" using assms by blast
  then show "gm_size a = gm_size b" by (simp add: gm_size_card)
qed

lemma used_fonts: "gm_has (foldl (\<lambda>m c. gm_set m (font c) ()) u cs) k \<longleftrightarrow> gm_has u k \<or> k \<in> font ` set cs"
  by (induction cs arbitrary: u) auto

lemma validatePublishedRenderInputs_Inr:
  "validatePublishedRenderInputs xs profile = Inr m \<Longrightarrow> list_all (input_valid profile) xs \<and> sorted_wrt (<) (map rin_ArtifactID xs) \<and>
    (\<forall>k. gm_lookup m k = gm_lookup (inputs_by_id xs) k)"
proof -
  assume "validatePublishedRenderInputs xs profile = Inr m"
  then obtain k where "forEach (publishInput profile) xs ([], []) = Inr (m, k)" by (auto simp: validatePublishedRenderInputs_def)
  from ki.loop_Inr [OF this] show ?thesis by (simp add: inputs_by_id_def find_by_key)
qed

lemma validatePublishedRenderInputs_complete:
  "list_all (input_valid profile) xs \<Longrightarrow> sorted_wrt (<) (map rin_ArtifactID xs) \<Longrightarrow> \<exists>m. validatePublishedRenderInputs xs profile = Inr m"
  using ki.loop_complete [of profile xs] by (auto simp: validatePublishedRenderInputs_def input_valid_def ID_IsZero_def)

lemma validatePublishedRenderFonts_Inr:
  "validatePublishedRenderFonts xs = Inr m \<Longrightarrow> list_all ValidFontResource xs \<and> sorted_wrt (<) (map font_ResourceID xs) \<and>
    (\<forall>k. gm_lookup m k = gm_lookup (fonts_by_id xs) k)"
proof -
  assume "validatePublishedRenderFonts xs = Inr m"
  then obtain k where "forEach publishFont xs ([], []) = Inr (m, k)" by (auto simp: validatePublishedRenderFonts_def)
  from kf.loop_Inr [OF this] show ?thesis by (simp add: fonts_by_id_def find_by_key)
qed

lemma validatePublishedRenderFonts_complete:
  "list_all ValidFontResource xs \<Longrightarrow> sorted_wrt (<) (map font_ResourceID xs) \<Longrightarrow> \<exists>m. validatePublishedRenderFonts xs = Inr m"
proof -
  have "ValidFontResource x \<Longrightarrow> font_ResourceID x \<noteq> []" for x by (auto simp: ValidFontResource_def split: if_splits)
  then show "list_all ValidFontResource xs \<Longrightarrow> sorted_wrt (<) (map font_ResourceID xs) \<Longrightarrow> ?thesis"
    using kf.loop_complete [of xs] by (auto simp: validatePublishedRenderFonts_def)
qed

text \<open>The final comparison of the validator: the latest end is the duration, and no input and no font is unused.\<close>

lemma final_check:
  assumes v: "forEach (publishVideo inputs) vs (publishedStart []) = Inr sv" and a: "forEach (publishAudio inputs) as (publishedStart (pub_used sv)) = Inr sa"
    and c: "forEach (publishCaption bcp47 fonts) cs (publishedStart []) = Inr sc" and d: "rt_valid d"
  shows "(case RationalTime_Compare (laterRenderTime (laterRenderTime (pub_duration sv) (pub_duration sa)) (pub_duration sc)) d of
      Inl _ \<Rightarrow> True | Inr comparison \<Rightarrow> comparison \<noteq> 0) \<longleftrightarrow> rt_val d \<noteq> latest_end (map vi_TimelineRange vs @ map ai_TimelineRange as @ map ci_Range cs)"
    "gm_size (pub_used sa) = gm_size inputs \<longleftrightarrow> (\<forall>k. gm_has inputs k \<longrightarrow> k \<in> vi_InputArtifactID ` set vs \<union> ai_InputArtifactID ` set as)"
    "gm_size (foldl (\<lambda>m caption. gm_set m (sty_FontResourceID (ci_Style caption)) ()) [] cs) = gm_size fonts \<longleftrightarrow>
      (\<forall>k. gm_has fonts k \<longrightarrow> k \<in> (\<lambda>c. sty_FontResourceID (ci_Style c)) ` set cs)"
proof -
  note V = lv.loop_Inr [OF v] and A = la.loop_Inr [OF a] and C = lc.loop_Inr [OF c]
  show "(case RationalTime_Compare (laterRenderTime (laterRenderTime (pub_duration sv) (pub_duration sa)) (pub_duration sc)) d of
      Inl _ \<Rightarrow> True | Inr comparison \<Rightarrow> comparison \<noteq> 0) \<longleftrightarrow> rt_val d \<noteq> latest_end (map vi_TimelineRange vs @ map ai_TimelineRange as @ map ci_Range cs)"
    using V(2,3) A(2,3) C(2,3) d by (auto simp: laterRenderTime_val Compare_valid sgn_rat_def max.assoc)
  have used: "gm_has (pub_used sa) k \<longleftrightarrow> k \<in> vi_InputArtifactID ` set vs \<union> ai_InputArtifactID ` set as" for k using V(4) A(4) by auto
  have "gm_has inputs (vi_InputArtifactID x)" if "x \<in> set vs" for x using that V(1) by (auto simp: lv.acceptable_def video_fits_def gm_has_def)
  moreover have "gm_has inputs (ai_InputArtifactID x)" if "x \<in> set as" for x using that A(1) by (auto simp: la.acceptable_def audio_fits_def gm_has_def)
  ultimately have "gm_has inputs k" if "gm_has (pub_used sa) k" for k using that unfolding used by auto
  then show "gm_size (pub_used sa) = gm_size inputs \<longleftrightarrow> (\<forall>k. gm_has inputs k \<longrightarrow> k \<in> vi_InputArtifactID ` set vs \<union> ai_InputArtifactID ` set as)"
    unfolding used [symmetric] by (rule size_eq_iff)
  have fonts: "gm_has (foldl (\<lambda>m caption. gm_set m (sty_FontResourceID (ci_Style caption)) ()) [] cs) k \<longleftrightarrow>
      k \<in> (\<lambda>c. sty_FontResourceID (ci_Style c)) ` set cs" for k by (simp add: used_fonts)
  show "gm_size (foldl (\<lambda>m caption. gm_set m (sty_FontResourceID (ci_Style caption)) ()) [] cs) = gm_size fonts \<longleftrightarrow>
      (\<forall>k. gm_has fonts k \<longrightarrow> k \<in> (\<lambda>c. sty_FontResourceID (ci_Style c)) ` set cs)"
    unfolding fonts [symmetric] by (rule size_eq_iff) (use C(1) in \<open>auto simp: fonts lc.acceptable_def caption_fits_def validateRenderCaptionStyle_def\<close>)
qed

lemma head_iff: "plan_head plan \<longleftrightarrow> \<not> (pay_CompilerVersion plan \<noteq> ''sequence-render-plan-v4'' \<or> ID_IsZero (pay_ProjectID plan) \<or> ID_IsZero (pay_SequenceID plan) \<or>
    pay_SequenceRevision plan = 0 \<or> \<not> SequenceFormat_Validate (pay_SequenceFormat plan) \<or> \<not> isOk (RationalTime_Validate (pay_Duration plan)) \<or>
    \<not> RationalTime_IsPositive (pay_Duration plan) \<or> length (pay_Inputs plan) > MaximumRenderPlanItems \<or>
    length (pay_Video plan) > MaximumRenderPlanItems \<or> length (pay_Audio plan) > MaximumRenderPlanItems \<or>
    length (pay_Captions plan) > MaximumRenderPlanItems \<or> length (pay_FontResources plan) > MaximumRenderPlanItems)"
  using rt_val_pos_iff [of "pay_Duration plan"] by (auto simp: plan_head_def rt_valid_def)

definition contract_body :: "language_parser \<Rightarrow> render_plan_payload \<Rightarrow> (string, render_plan_input) gomap \<Rightarrow> (string, render_font_resource) gomap \<Rightarrow> bool" where
  "contract_body bcp47 plan inputs fonts \<longleftrightarrow> lv.acceptable inputs (pay_Video plan) \<and> la.acceptable inputs (pay_Audio plan) \<and>
    lc.acceptable bcp47 fonts (pay_Captions plan) \<and>
    rt_val (pay_Duration plan) = latest_end (map vi_TimelineRange (pay_Video plan) @ map ai_TimelineRange (pay_Audio plan) @ map ci_Range (pay_Captions plan)) \<and>
    (\<forall>k. gm_has inputs k \<longrightarrow> k \<in> vi_InputArtifactID ` set (pay_Video plan) \<union> ai_InputArtifactID ` set (pay_Audio plan)) \<and>
    (\<forall>k. gm_has fonts k \<longrightarrow> k \<in> (\<lambda>c. sty_FontResourceID (ci_Style c)) ` set (pay_Captions plan))"

lemma body_iff:
  assumes "plan_head plan"
  shows "andThen (validatePublishedRenderVideo (pay_Video plan) inputs []) (\<lambda>(duration, used).
       andThen (validatePublishedRenderAudio (pay_Audio plan) inputs used) (\<lambda>(audioDuration, used).
       let duration = laterRenderTime duration audioDuration in
       andThen (validatePublishedRenderCaptions bcp47 (pay_Captions plan) fonts) (\<lambda>captionDuration.
       let usedFonts = foldl (\<lambda>m caption. gm_set m (sty_FontResourceID (ci_Style caption)) ()) [] (pay_Captions plan);
           duration = laterRenderTime duration captionDuration
       in if (case RationalTime_Compare duration (pay_Duration plan) of Inl _ \<Rightarrow> True | Inr comparison \<Rightarrow> comparison \<noteq> 0) \<or>
             gm_size used \<noteq> gm_size inputs \<or> gm_size usedFonts \<noteq> gm_size fonts then Inl ErrRenderPlanInvalid
          else Inr ()))) = Inr () \<longleftrightarrow> contract_body bcp47 plan inputs fonts" (is "?run = Inr () \<longleftrightarrow> _")
proof
  have d: "rt_valid (pay_Duration plan)" using assms by (simp add: plan_head_def)
  { assume "?run = Inr ()"
    then obtain sv sa sc where v: "forEach (publishVideo inputs) (pay_Video plan) (publishedStart []) = Inr sv"
      and a: "forEach (publishAudio inputs) (pay_Audio plan) (publishedStart (pub_used sv)) = Inr sa"
      and c: "forEach (publishCaption bcp47 fonts) (pay_Captions plan) (publishedStart []) = Inr sc"
      and rest: "\<not> (case RationalTime_Compare (laterRenderTime (laterRenderTime (pub_duration sv) (pub_duration sa)) (pub_duration sc)) (pay_Duration plan) of
          Inl _ \<Rightarrow> True | Inr comparison \<Rightarrow> comparison \<noteq> 0)" "gm_size (pub_used sa) = gm_size inputs"
        "gm_size (foldl (\<lambda>m caption. gm_set m (sty_FontResourceID (ci_Style caption)) ()) [] (pay_Captions plan)) = gm_size fonts"
      unfolding validatePublishedRenderVideo_def validatePublishedRenderAudio_def validatePublishedRenderCaptions_def Let_def by auto
    show "contract_body bcp47 plan inputs fonts"
      using rest lv.loop_Inr(1) [OF v] la.loop_Inr(1) [OF a] lc.loop_Inr(1) [OF c] unfolding final_check [OF v a c d] contract_body_def by simp }
  assume body: "contract_body bcp47 plan inputs fonts"
  obtain sv where v: "forEach (publishVideo inputs) (pay_Video plan) (publishedStart []) = Inr sv" using body lv.loop_iff [of inputs "pay_Video plan" "[]"] by (auto simp: contract_body_def)
  obtain sa where a: "forEach (publishAudio inputs) (pay_Audio plan) (publishedStart (pub_used sv)) = Inr sa" using body la.loop_iff [of inputs "pay_Audio plan" "pub_used sv"] by (auto simp: contract_body_def)
  obtain sc where c: "forEach (publishCaption bcp47 fonts) (pay_Captions plan) (publishedStart []) = Inr sc" using body lc.loop_iff [of bcp47 fonts "pay_Captions plan" "[]"] by (auto simp: contract_body_def)
  show "?run = Inr ()"
    unfolding validatePublishedRenderVideo_def validatePublishedRenderAudio_def validatePublishedRenderCaptions_def Let_def v a c andThen_Inr prod.case final_check [OF v a c d]
    using body by (simp add: contract_body_def)
qed

lemma andThen2: "andThen a (\<lambda>x. andThen b (\<lambda>y. f x y)) = Inr r \<longleftrightarrow> (\<exists>x y. a = Inr x \<and> b = Inr y \<and> f x y = Inr r)"
  by (auto simp: andThen_eq_Inr)

lemma contract_iff: "validateRenderPlanPayload bcp47 plan profile policy = Inr () \<longleftrightarrow> plan_contract bcp47 profile policy plan"
proof (cases "plan_head plan \<and> policy (pay_SequenceFormat plan) (pay_Duration plan) = Inr (pay_Output plan)")
  case True
  have body: "contract_body bcp47 plan inputs fonts \<longleftrightarrow> contract_body bcp47 plan (inputs_by_id (pay_Inputs plan)) (fonts_by_id (pay_FontResources plan))"
    if "\<forall>k. gm_lookup inputs k = gm_lookup (inputs_by_id (pay_Inputs plan)) k" "\<forall>k. gm_lookup fonts k = gm_lookup (fonts_by_id (pay_FontResources plan)) k"
    for inputs fonts
    using that video_fits_cong [of inputs] audio_fits_cong [of inputs] caption_fits_cong [of fonts]
    by (simp add: contract_body_def lv.acceptable_def la.acceptable_def lc.acceptable_def gm_has_def)
  have keyed: "contract_body bcp47 plan (inputs_by_id (pay_Inputs plan)) (fonts_by_id (pay_FontResources plan)) \<and>
      list_all (input_valid profile) (pay_Inputs plan) \<and> sorted_wrt (<) (map rin_ArtifactID (pay_Inputs plan)) \<and>
      list_all ValidFontResource (pay_FontResources plan) \<and> sorted_wrt (<) (map font_ResourceID (pay_FontResources plan)) \<longleftrightarrow> plan_contract bcp47 profile policy plan"
    using True by (auto simp: contract_body_def plan_contract_def lv.acceptable_def la.acceptable_def lc.acceptable_def inputs_by_id_def fonts_by_id_def has_by_key)
  have run: "validateRenderPlanPayload bcp47 plan profile policy = Inr () \<longleftrightarrow> (\<exists>inputs fonts. validatePublishedRenderInputs (pay_Inputs plan) profile = Inr inputs \<and>
      validatePublishedRenderFonts (pay_FontResources plan) = Inr fonts \<and> contract_body bcp47 plan inputs fonts)"
  proof -
    have "\<not> policy (pay_SequenceFormat plan) (pay_Duration plan) \<noteq> Inr (pay_Output plan)" using True by simp
    then show ?thesis unfolding validateRenderPlanPayload_def if_not_P [OF head_iff [THEN iffD1, OF conjunct1 [OF True]]]
      by (simp only: if_False if_not_P andThen2 body_iff [OF conjunct1 [OF True]])
  qed
  show ?thesis unfolding run keyed [symmetric]
    using body validatePublishedRenderInputs_Inr validatePublishedRenderFonts_Inr validatePublishedRenderInputs_complete [of profile "pay_Inputs plan"]
      validatePublishedRenderFonts_complete [of "pay_FontResources plan"] by meson
next
  case False
  then show ?thesis using head_iff [of plan] unfolding validateRenderPlanPayload_def by (auto simp: plan_contract_def)
qed

lemma validate_contract:
  "ValidateRenderPlanPayload bcp47 plan = Inr () \<longleftrightarrow> (case pay_Purpose plan of
     RenderPurposeSequencePreview \<Rightarrow> plan_contract bcp47 SourceProxyProfile SequencePreviewOutput plan
   | RenderPurposeExport \<Rightarrow> plan_contract bcp47 RenderInputProfile SequenceExportOutput plan
   | RenderPurposeOther _ \<Rightarrow> False)"
  by (cases "pay_Purpose plan") (simp_all add: ValidateRenderPlanPayload_def ValidateSequencePreviewRenderPlanPayload_def
    ValidateSequenceExportRenderPlanPayload_def contract_iff)

section \<open>Properties\<close>

text \<open>C28. The validator of a published plan accepts exactly the plans that honour the contract: the inputs and fonts are valid, listed
  once in the order of their identifiers and all used; every instruction is valid, plays its source range at unit speed from an input of the plan
  that carries its stream, and comes in strictly increasing order of layer, start and identifier; no two instructions of a track overlap; the duration
  is the latest end; and the output is the one the policy derives. The hash maps and running maxima of the code decide exactly this.\<close>

theorem render_plan_contract:
  "ValidateRenderPlanPayload bcp47 plan = Inr () \<longleftrightarrow> (case pay_Purpose plan of
     RenderPurposeSequencePreview \<Rightarrow> plan_contract bcp47 SourceProxyProfile SequencePreviewOutput plan
   | RenderPurposeExport \<Rightarrow> plan_contract bcp47 RenderInputProfile SequenceExportOutput plan
   | RenderPurposeOther _ \<Rightarrow> False)"
  by (rule validate_contract)

end
