(* ===== verification/Render_Plan.thy ===== *)
theory Render_Plan
  imports Render_Validation "HOL-Library.Product_Lexorder"
begin

text \<open>
  The render plan compiler (\<^verbatim>\<open>product/application/render_plan.go\<close>, \<^verbatim>\<open>render_material.go\<close>): from the sequence, its clips and captions and
  the material bound to the clips to a published plan. The digest of the canonical text of a plan is a parameter.
\<close>

section \<open>Material\<close>

record render_asset_snapshot =
  ras_ID :: AssetID
  ras_Revision :: revision
  ras_AcceptedFingerprint :: Digest
  ras_Availability :: string

record render_material =
  rm_kind :: ArtifactKind
  rm_assetID :: AssetID
  rm_fingerprint :: Digest
  rm_producer :: string
  rm_profile :: string
  rm_sourceEpoch :: rational_time
  rm_mediaDigest :: Digest
  rm_manifestDigest :: Digest
  rm_byteSize :: uint64
  rm_video :: "render_video_input option"
  rm_audio :: "render_audio_input option"

definition ContainsStream :: "render_material \<Rightarrow> SourceStreamID \<Rightarrow> bool" where
  "ContainsStream material streamID \<longleftrightarrow>
    (case rm_video material of None \<Rightarrow> False | Some video \<Rightarrow> vin_SourceStreamID video = streamID) \<or>
    (case rm_audio material of None \<Rightarrow> False | Some audio \<Rightarrow> ain_SourceStreamID audio = streamID)"

definition planInput :: "render_material \<Rightarrow> artifact_summary \<Rightarrow> render_asset_snapshot \<Rightarrow> render_error + render_plan_input" where
  "planInput material artifact asset =
    (if ID_IsZero (asum_ID artifact) \<or> asum_Kind artifact \<noteq> rm_kind material \<or> asum_State artifact \<noteq> ArtifactReady \<or>
        asum_InputFingerprint artifact \<noteq> ras_AcceptedFingerprint asset \<or> rm_assetID material \<noteq> ras_ID asset \<or>
        rm_fingerprint material \<noteq> ras_AcceptedFingerprint asset \<or> rm_producer material \<noteq> asum_ProducerVersion artifact \<or>
        rm_manifestDigest material \<noteq> asum_ContentDigest artifact \<or> rm_byteSize material \<noteq> asum_ByteSize artifact then Inl ErrRenderPlanInvalid
     else Inr \<lparr>rin_ArtifactID = asum_ID artifact, rin_ArtifactDigest = asum_ContentDigest artifact, rin_ProducerVersion = asum_ProducerVersion artifact,
       rin_Profile = rm_profile material, rin_AssetID = ras_ID asset, rin_AssetRevision = ras_Revision asset,
       rin_Fingerprint = ras_AcceptedFingerprint asset, rin_SourceEpoch = rm_sourceEpoch material, rin_MediaDigest = rm_mediaDigest material,
       rin_Video = rm_video material, rin_Audio = rm_audio material\<rparr>)"

section \<open>The compiler's input\<close>

record clip_input_binding =
  cib_ClipID :: ClipID
  cib_Artifact :: artifact_summary
  cib_Material :: render_material

record compile_input =
  cmp_ProjectID :: ProjectID
  cmp_ObservedProjectRevision :: revision
  cmp_Sequence :: sequence
  cmp_Clips :: "clip_state list"
  cmp_Captions :: "caption_state list"
  cmp_Assets :: "(string, render_asset_snapshot) gomap option"
  cmp_Bindings :: "clip_input_binding list"
  cmp_FontResource :: "render_font_resource option"

record render_track =
  rtk_state :: track
  rtk_layer :: uint16

definition zero_track :: track where
  "zero_track = \<lparr>tk_ID = '''', tk_Revision = 0, tk_Type = TrackOther '''', tk_Label = '''', tk_OrderKey = ''''\<rparr>"

definition zero_render_track :: render_track where
  "zero_render_track = \<lparr>rtk_state = zero_track, rtk_layer = 0\<rparr>"

definition validateRenderPlanHead :: "compile_input \<Rightarrow> bool" where
  "validateRenderPlanHead input \<longleftrightarrow> \<not> (ID_IsZero (cmp_ProjectID input) \<or> cmp_ObservedProjectRevision input = 0 \<or> ID_IsZero (seq_ID (cmp_Sequence input)) \<or>
    seq_Revision (cmp_Sequence input) = 0 \<or> \<not> SequenceFormat_Validate (seq_Format (cmp_Sequence input)) \<or>
    seq_Tracks (cmp_Sequence input) = [] \<or> length (seq_Tracks (cmp_Sequence input)) > MaximumRenderPlanItems \<or>
    length (cmp_Clips input) > MaximumRenderPlanItems \<or> length (cmp_Captions input) > MaximumRenderPlanItems \<or>
    length (cmp_Bindings input) > MaximumRenderPlanItems \<or> cmp_Assets input = None)"

section \<open>Tracks\<close>

definition trackLess :: "track \<Rightarrow> track \<Rightarrow> bool" where
  "trackLess left right = (if tk_OrderKey left \<noteq> tk_OrderKey right then tk_OrderKey left < tk_OrderKey right else tk_ID left < tk_ID right)"

record track_scan =
  ts_result :: "(string, render_track) gomap"
  ts_layers :: "(TrackType, uint16) gomap"
  ts_previousOrder :: string

definition scanTrack :: "track \<Rightarrow> track_scan \<Rightarrow> render_error + track_scan" where
  "scanTrack track scan =
    (if ID_IsZero (tk_ID track) \<or> tk_Revision track = 0 \<or> tk_OrderKey track = '''' \<or> tk_OrderKey track = ts_previousOrder scan \<or>
        (tk_Type track \<noteq> TrackVideo \<and> tk_Type track \<noteq> TrackAudio \<and> tk_Type track \<noteq> TrackCaption) then Inl ErrRenderPlanInvalid
     else if gm_has (ts_result scan) (tk_ID track) then Inl ErrRenderPlanInvalid
     else let layer = gm_get 0 (ts_layers scan) (tk_Type track) in
       if layer = - 1 then Inl ErrRenderPlanInvalid
       else Inr (scan\<lparr>ts_result := gm_set (ts_result scan) (tk_ID track) \<lparr>rtk_state = track, rtk_layer = layer\<rparr>,
         ts_layers := gm_set (ts_layers scan) (tk_Type track) (layer + 1), ts_previousOrder := tk_OrderKey track\<rparr>))"

definition normalizeRenderTracks :: "track list \<Rightarrow> render_error + (string, render_track) gomap" where
  "normalizeRenderTracks source =
    andThen (forEach scanTrack (sort_slice trackLess source)
      \<lparr>ts_result = [], ts_layers = [(TrackVideo, 0), (TrackAudio, 0), (TrackCaption, 0)], ts_previousOrder = ''''\<rparr>) (\<lambda>scan. Inr (ts_result scan))"

section \<open>Bindings\<close>

definition validateRenderClipHead :: "clip_state \<Rightarrow> SequenceID \<Rightarrow> (string, render_track) gomap \<Rightarrow> bool" where
  "validateRenderClipHead clip sequenceID tracks =
    (let track = gm_get zero_render_track tracks (clip_TrackID clip) in
     if ID_IsZero (clip_ID clip) \<or> clip_Revision clip = 0 \<or> clip_SequenceID clip \<noteq> sequenceID \<or> \<not> gm_has tracks (clip_TrackID clip) \<or>
        ID_IsZero (clip_AssetID clip) \<or> ID_IsZero (clip_SourceStreamID clip) \<or> \<not> validatePositiveRange (clip_SourceRange clip) False \<or>
        \<not> validatePositiveRange (clip_TimelineRange clip) True then False
     else \<not> (\<not> sameDuration (clip_SourceRange clip) (clip_TimelineRange clip) \<or>
       (tk_Type (rtk_state track) \<noteq> TrackVideo \<and> tk_Type (rtk_state track) \<noteq> TrackAudio)))"

definition validateRenderBinding :: "clip_input_binding \<Rightarrow> clip_state \<Rightarrow> TrackType \<Rightarrow> render_asset_snapshot \<Rightarrow> string \<Rightarrow>
    render_error + render_plan_input" where
  "validateRenderBinding binding clip trackType asset requiredProfile =
    (if requiredProfile = '''' \<or> rm_profile (cib_Material binding) \<noteq> requiredProfile then Inl ErrRenderInputRequired
     else andThen (planInput (cib_Material binding) (cib_Artifact binding) asset) (\<lambda>result.
       if (trackType = TrackVideo \<and> (case rin_Video result of None \<Rightarrow> True | Some video \<Rightarrow> vin_SourceStreamID video \<noteq> clip_SourceStreamID clip)) \<or>
          (trackType = TrackAudio \<and> (case rin_Audio result of None \<Rightarrow> True | Some audio \<Rightarrow> ain_SourceStreamID audio \<noteq> clip_SourceStreamID clip))
       then Inl ErrRenderInputRequired else Inr result))"

definition indexClip :: "SequenceID \<Rightarrow> (string, render_track) gomap \<Rightarrow> clip_state \<Rightarrow> (string, clip_state) gomap \<Rightarrow>
    render_error + (string, clip_state) gomap" where
  "indexClip sequenceID tracks clip clips =
    (if gm_has clips (clip_ID clip) \<or> \<not> validateRenderClipHead clip sequenceID tracks then Inl ErrRenderPlanInvalid
     else Inr (gm_set clips (clip_ID clip) clip))"

definition bindClip :: "(string, render_track) gomap \<Rightarrow> (string, clip_state) gomap \<Rightarrow> (string, render_asset_snapshot) gomap \<Rightarrow> string \<Rightarrow>
    clip_input_binding \<Rightarrow> (string, render_plan_input) gomap \<Rightarrow> render_error + (string, render_plan_input) gomap" where
  "bindClip tracks clips assets requiredProfile binding result =
    (case gm_lookup clips (cib_ClipID binding) of None \<Rightarrow> Inl ErrRenderPlanInvalid
     | Some clip \<Rightarrow>
       if clip_Tombstoned clip \<or> \<not> clip_Enabled clip then Inl ErrRenderPlanInvalid
       else if gm_has result (cib_ClipID binding) then Inl ErrRenderPlanInvalid
       else case gm_lookup assets (clip_AssetID clip) of None \<Rightarrow> Inl ErrRenderPlanInvalid
         | Some asset \<Rightarrow>
           if ras_ID asset \<noteq> clip_AssetID clip \<or> ras_Revision asset = 0 then Inl ErrRenderPlanInvalid
           else andThen (validateRenderBinding binding clip (tk_Type (rtk_state (gm_get zero_render_track tracks (clip_TrackID clip)))) asset requiredProfile)
             (\<lambda>planInput. Inr (gm_set result (cib_ClipID binding) planInput)))"

definition normalizeRenderBindings :: "compile_input \<Rightarrow> (string, render_track) gomap \<Rightarrow> string \<Rightarrow> render_error + (string, render_plan_input) gomap" where
  "normalizeRenderBindings input tracks requiredProfile =
    andThen (forEach (indexClip (seq_ID (cmp_Sequence input)) tracks) (cmp_Clips input) []) (\<lambda>clips.
    andThen (forEach (bindClip tracks clips (case cmp_Assets input of None \<Rightarrow> [] | Some assets \<Rightarrow> assets) requiredProfile) (cmp_Bindings input) []) (\<lambda>result.
    if list_all (\<lambda>clip. clip_Tombstoned clip \<or> \<not> clip_Enabled clip \<or> gm_has result (clip_ID clip)) (cmp_Clips input) then Inr result
    else Inl ErrRenderInputRequired))"

section \<open>Instructions\<close>

definition startLess :: "string \<times> rational_time \<times> string \<Rightarrow> string \<times> rational_time \<times> string \<Rightarrow> bool" where
  "startLess left right = (case (left, right) of ((leftOrder, leftStart, leftID), (rightOrder, rightStart, rightID)) \<Rightarrow>
     if leftOrder \<noteq> rightOrder then leftOrder < rightOrder
     else (case RationalTime_Compare leftStart rightStart of Inr comparison \<Rightarrow> if comparison \<noteq> 0 then comparison < 0 else leftID < rightID
       | Inl _ \<Rightarrow> leftID < rightID))"

definition renderClipLess :: "(string, render_track) gomap \<Rightarrow> clip_state \<Rightarrow> clip_state \<Rightarrow> bool" where
  "renderClipLess tracks left right =
    (let order = (\<lambda>clip. tk_OrderKey (rtk_state (gm_get zero_render_track tracks (clip_TrackID clip)))) in
     startLess (order left, tr_Start (clip_TimelineRange left), clip_ID left) (order right, tr_Start (clip_TimelineRange right), clip_ID right))"

definition renderCaptionLess :: "(string, render_track) gomap \<Rightarrow> caption_state \<Rightarrow> caption_state \<Rightarrow> bool" where
  "renderCaptionLess tracks left right =
    (let order = (\<lambda>caption. tk_OrderKey (rtk_state (gm_get zero_render_track tracks (cap_TrackID caption)))) in
     startLess (order left, tr_Start (cap_Range left), cap_ID left) (order right, tr_Start (cap_Range right), cap_ID right))"

definition defaultRenderPlacement :: render_placement where
  "defaultRenderPlacement = \<lparr>rp_CropX = 0, rp_CropY = 0, rp_CropWidth = 10000, rp_CropHeight = 10000, rp_ScaleX = whole_rational 1, rp_ScaleY = whole_rational 1,
    rp_TranslateX = whole_rational 0, rp_TranslateY = whole_rational 0, rp_AnchorX = 5000, rp_AnchorY = 5000, rp_Opacity = 10000, rp_FitPolicy = ''contain''\<rparr>"

definition renderPlacementForClip :: "clip_state \<Rightarrow> render_placement" where
  "renderPlacementForClip clip = (case clip_Placement clip of None \<Rightarrow> defaultRenderPlacement
   | Some stored \<Rightarrow> defaultRenderPlacement\<lparr>rp_CropX := pl_CropX stored, rp_CropY := pl_CropY stored, rp_CropWidth := pl_CropWidth stored,
       rp_CropHeight := pl_CropHeight stored, rp_ScaleX := pl_ScaleX stored, rp_ScaleY := pl_ScaleY stored, rp_TranslateX := pl_TranslateX stored,
       rp_TranslateY := pl_TranslateY stored, rp_Opacity := pl_Opacity stored\<rparr>)"

definition defaultRenderCaptionStyle :: "string \<Rightarrow> render_caption_style" where
  "defaultRenderCaptionStyle resourceID = \<lparr>sty_FontResourceID = resourceID, sty_FontSize = 550, sty_TextColorRGBA = ''#ffffffff'',
    sty_OutlineColorRGBA = ''#000000ff'', sty_Outline = 35, sty_LineHeight = 12000, sty_Alignment = ''bottom-center'', sty_PositionY = 8800,
    sty_SafeWidth = 9000, sty_WrapPolicy = ''explicit-lines-clip-v1''\<rparr>"

record compile_scan =
  cs_duration :: rational_time
  cs_lastByTrack :: "(string, rational_time) gomap"
  cs_video :: "render_video_instruction list"
  cs_audio :: "render_audio_instruction list"

definition placeItem :: "string \<Rightarrow> time_range \<Rightarrow> rational_time \<times> (string, rational_time) gomap \<Rightarrow>
    render_error + rational_time \<times> (string, rational_time) gomap" where
  "placeItem track placed acc = (case acc of (duration, lastByTrack) \<Rightarrow>
    andThen (orError ErrRenderPlanInvalid (TimeRange_End placed)) (\<lambda>end_time.
    if (case gm_lookup lastByTrack track of None \<Rightarrow> False
      | Some previous \<Rightarrow> (case RationalTime_Compare (tr_Start placed) previous of Inl _ \<Rightarrow> True | Inr comparison \<Rightarrow> comparison < 0))
    then Inl ErrRenderPlanInvalid
    else Inr (laterRenderTime duration end_time, gm_set lastByTrack track end_time)))"

definition compileClip :: "(string, render_track) gomap \<Rightarrow> (string, render_plan_input) gomap \<Rightarrow> clip_state \<Rightarrow> compile_scan \<Rightarrow>
    render_error + compile_scan" where
  "compileClip tracks bindings clip scan =
    (if clip_Tombstoned clip \<or> \<not> clip_Enabled clip then Inr scan
     else let track = gm_get zero_render_track tracks (clip_TrackID clip) in
     andThen (placeItem (clip_TrackID clip) (clip_TimelineRange clip) (cs_duration scan, cs_lastByTrack scan)) (\<lambda>(duration, lastByTrack).
     let scan = scan\<lparr>cs_duration := duration, cs_lastByTrack := lastByTrack\<rparr>;
         artifactID = (case gm_lookup bindings (clip_ID clip) of None \<Rightarrow> '''' | Some input \<Rightarrow> rin_ArtifactID input)
     in case tk_Type (rtk_state track) of
       TrackVideo \<Rightarrow> Inr (scan\<lparr>cs_video := cs_video scan @ [\<lparr>vi_ClipID = clip_ID clip, vi_ClipRevision = clip_Revision clip,
         vi_TrackID = clip_TrackID clip, vi_TrackRevision = tk_Revision (rtk_state track), vi_Layer = rtk_layer track, vi_InputArtifactID = artifactID,
         vi_SourceStreamID = clip_SourceStreamID clip, vi_SourceRange = clip_SourceRange clip, vi_TimelineRange = clip_TimelineRange clip,
         vi_Orientation = ''normalized-by-render-material-v1'', vi_Placement = renderPlacementForClip clip\<rparr>]\<rparr>)
     | TrackAudio \<Rightarrow> Inr (scan\<lparr>cs_audio := cs_audio scan @ [\<lparr>ai_ClipID = clip_ID clip, ai_ClipRevision = clip_Revision clip,
         ai_TrackID = clip_TrackID clip, ai_TrackRevision = tk_Revision (rtk_state track), ai_Layer = rtk_layer track, ai_InputArtifactID = artifactID,
         ai_SourceStreamID = clip_SourceStreamID clip, ai_SourceRange = clip_SourceRange clip, ai_TimelineRange = clip_TimelineRange clip,
         ai_ChannelMapping = ''render-material-stereo-v1'', ai_GainMilliDB = 0\<rparr>]\<rparr>)
     | _ \<Rightarrow> Inl ErrRenderPlanInvalid))"

definition checkCaption :: "language_parser \<Rightarrow> SequenceID \<Rightarrow> (string, render_track) gomap \<Rightarrow> caption_state \<Rightarrow>
    rational_time \<times> (string, rational_time) gomap \<times> bool \<Rightarrow> render_error + rational_time \<times> (string, rational_time) gomap \<times> bool" where
  "checkCaption bcp47 sequenceID tracks caption acc = (case acc of (duration, lastByTrack, fontRequired) \<Rightarrow>
    if cap_Tombstoned caption then Inr acc
    else if ID_IsZero (cap_ID caption) \<or> cap_Revision caption = 0 \<or> cap_SequenceID caption \<noteq> sequenceID \<or> \<not> gm_has tracks (cap_TrackID caption) \<or>
        tk_Type (rtk_state (gm_get zero_render_track tracks (cap_TrackID caption))) \<noteq> TrackCaption \<or> \<not> validatePositiveRange (cap_Range caption) True \<or>
        \<not> CaptionLanguage_Validate bcp47 (cap_Language caption) \<or> \<not> ValidCaptionText (cap_Text caption) then Inl ErrRenderPlanInvalid
    else andThen (placeItem (cap_TrackID caption) (cap_Range caption) (duration, lastByTrack)) (\<lambda>(duration, lastByTrack).
      Inr (duration, lastByTrack, True)))"

definition captionInstruction :: "(string, render_track) gomap \<Rightarrow> string \<Rightarrow> caption_state \<Rightarrow> render_caption_instruction" where
  "captionInstruction tracks resourceID caption = (let track = gm_get zero_render_track tracks (cap_TrackID caption) in
    \<lparr>ci_CaptionID = cap_ID caption, ci_CaptionRevision = cap_Revision caption, ci_TrackID = cap_TrackID caption,
     ci_TrackRevision = tk_Revision (rtk_state track), ci_Layer = rtk_layer track, ci_Range = cap_Range caption, ci_Language = cap_Language caption,
     ci_Text = cap_Text caption, ci_Style = defaultRenderCaptionStyle resourceID\<rparr>)"

definition compileRenderCaptions :: "language_parser \<Rightarrow> compile_input \<Rightarrow> (string, render_track) gomap \<Rightarrow>
    render_error + rational_time \<times> render_font_resource list \<times> render_caption_instruction list" where
  "compileRenderCaptions bcp47 input tracks =
    (let captions = sort_slice (renderCaptionLess tracks) (cmp_Captions input) in
     andThen (forEach (checkCaption bcp47 (seq_ID (cmp_Sequence input)) tracks) captions (whole_time 0, [], False)) (\<lambda>(duration, lastByTrack, fontRequired).
     if fontRequired then
       (case cmp_FontResource input of None \<Rightarrow> Inl ErrRenderFontRequired
        | Some font \<Rightarrow> if \<not> ValidFontResource font then Inl ErrRenderFontRequired
            else Inr (duration, [font], map (captionInstruction tracks (font_ResourceID font)) (filter (\<lambda>caption. \<not> cap_Tombstoned caption) captions)))
     else Inr (duration, [], [])))"

definition compileRenderInstructions :: "language_parser \<Rightarrow> render_plan_payload \<Rightarrow> compile_input \<Rightarrow> (string, render_track) gomap \<Rightarrow>
    (string, render_plan_input) gomap \<Rightarrow> render_error + rational_time \<times> render_plan_payload" where
  "compileRenderInstructions bcp47 plan input tracks bindings =
    (let clips = sort_slice (renderClipLess tracks) (cmp_Clips input) in
     andThen (forEach (compileClip tracks bindings) clips \<lparr>cs_duration = whole_time 0, cs_lastByTrack = [], cs_video = [], cs_audio = []\<rparr>) (\<lambda>scan.
     andThen (compileRenderCaptions bcp47 input tracks) (\<lambda>(captionDuration, fonts, captions).
     Inr (laterRenderTime (cs_duration scan) captionDuration,
       plan\<lparr>pay_Video := cs_video scan, pay_Audio := cs_audio scan, pay_FontResources := fonts, pay_Captions := captions\<rparr>))))"

definition uniqueInput :: "render_plan_input \<Rightarrow> (string, render_plan_input) gomap \<Rightarrow> render_error + (string, render_plan_input) gomap" where
  "uniqueInput input byArtifact =
    (let key = rin_ArtifactID input in
     if (case gm_lookup byArtifact key of None \<Rightarrow> False | Some previous \<Rightarrow> previous \<noteq> input) then Inl ErrRenderPlanInvalid
     else Inr (gm_set byArtifact key input))"

definition uniqueRenderInputs :: "(string, render_plan_input) gomap \<Rightarrow> render_error + render_plan_input list" where
  "uniqueRenderInputs bindings =
    andThen (forEach uniqueInput (map snd (gm_entries bindings)) []) (\<lambda>byArtifact.
    Inr (sort_slice (\<lambda>left right. rin_ArtifactID left < rin_ArtifactID right) (map snd (gm_entries byArtifact))))"

definition compileSequenceRenderPlan :: "language_parser \<Rightarrow> (render_plan_payload \<Rightarrow> (string \<times> Digest) option) \<Rightarrow> compile_input \<Rightarrow> RenderPlanPurpose \<Rightarrow> string \<Rightarrow>
    (sequence_format \<Rightarrow> rational_time \<Rightarrow> render_error + render_output_policy) \<Rightarrow> (render_plan_payload \<Rightarrow> render_error + unit) \<Rightarrow>
    render_error + render_plan \<times> string" where
  "compileSequenceRenderPlan bcp47 planDigest input purpose requiredProfile outputPolicy validate =
    (if \<not> validateRenderPlanHead input then Inl ErrRenderPlanInvalid else
     andThen (normalizeRenderTracks (seq_Tracks (cmp_Sequence input))) (\<lambda>tracks.
     andThen (normalizeRenderBindings input tracks requiredProfile) (\<lambda>bindings.
     let plan = \<lparr>pay_CompilerVersion = ''sequence-render-plan-v4'', pay_Purpose = purpose, pay_ProjectID = cmp_ProjectID input,
       pay_SequenceID = seq_ID (cmp_Sequence input), pay_SequenceRevision = seq_Revision (cmp_Sequence input),
       pay_SequenceFormat = seq_Format (cmp_Sequence input), pay_Duration = zero_rational_time, pay_Inputs = [], pay_Video = [], pay_Audio = [],
       pay_Captions = [], pay_FontResources = [], pay_Output = zero_render_output\<rparr> in
     andThen (compileRenderInstructions bcp47 plan input tracks bindings) (\<lambda>(duration, plan).
     if \<not> RationalTime_IsPositive duration then Inl ErrRenderSequenceEmpty else
     andThen (uniqueRenderInputs bindings) (\<lambda>inputs.
     andThen (outputPolicy (seq_Format (cmp_Sequence input)) duration) (\<lambda>policy.
     let plan = plan\<lparr>pay_Duration := duration, pay_Inputs := inputs, pay_Output := policy\<rparr> in
     andThen (validate plan) (\<lambda>_.
     andThen (someOr RenderDigestFailed (planDigest plan)) (\<lambda>(canonical, digest).
     Inr (\<lparr>plan_Payload = plan, plan_Digest = digest, plan_ObservedProjectRevision = cmp_ObservedProjectRevision input\<rparr>, canonical)))))))))"

definition CompileSequencePreviewPlan :: "language_parser \<Rightarrow> (render_plan_payload \<Rightarrow> (string \<times> Digest) option) \<Rightarrow> compile_input \<Rightarrow>
    render_error + render_plan \<times> string" where
  "CompileSequencePreviewPlan bcp47 planDigest input = compileSequenceRenderPlan bcp47 planDigest input RenderPurposeSequencePreview SourceProxyProfile
    SequencePreviewOutput (ValidateSequencePreviewRenderPlanPayload bcp47)"

definition CompileSequenceExportPlan :: "language_parser \<Rightarrow> (render_plan_payload \<Rightarrow> (string \<times> Digest) option) \<Rightarrow> compile_input \<Rightarrow>
    render_error + render_plan \<times> string" where
  "CompileSequenceExportPlan bcp47 planDigest input = compileSequenceRenderPlan bcp47 planDigest input RenderPurposeExport RenderInputProfile
    SequenceExportOutput (ValidateSequenceExportRenderPlanPayload bcp47)"

end
