(* ===== verification/Render_Compile.thy ===== *)
theory Render_Compile
  imports Render_Plan
begin

text \<open>
  What the render plan compiler guarantees: the plan it builds honours the render contract, so its own validator never refuses it for a reason
  other than a placement or an input that is itself out of contract.
\<close>

lemma forEach_prefix:
  assumes "forEach f xs s = Inr t" "P [] s" "\<And>ys x zs s t. xs = ys @ x # zs \<Longrightarrow> f x s = Inr t \<Longrightarrow> P ys s \<Longrightarrow> P (ys @ [x]) t"
  shows "P xs t"
proof -
  have "xs = ys @ zs \<Longrightarrow> forEach f zs s = Inr t \<Longrightarrow> P ys s \<Longrightarrow> P (ys @ zs) t" for ys zs s
  proof (induction zs arbitrary: ys s)
    case (Cons z zs)
    then obtain u where "f z s = Inr u" "forEach f zs u = Inr t" by auto
    then show ?case using Cons.IH [of "ys @ [z]" u] Cons.prems assms(3) [of ys z zs s u] by simp
  qed simp
  from this [of "[]" xs s] assms show ?thesis by simp
qed

section \<open>Layers\<close>

definition of_type :: "TrackType \<Rightarrow> track list \<Rightarrow> nat" where
  "of_type ty ts = length (filter (\<lambda>t. tk_Type t = ty) ts)"

lemma of_type_snoc [simp]: "of_type ty (ts @ [t]) = of_type ty ts + (if tk_Type t = ty then 1 else 0)"
  by (simp add: of_type_def)

text \<open>What the scan has established after a list of tracks.\<close>

definition scanned :: "track list \<Rightarrow> track_scan \<Rightarrow> bool" where
  "scanned ts scan \<longleftrightarrow> ts_previousOrder scan = (if ts = [] then '''' else tk_OrderKey (last ts)) \<and>
    sorted_wrt (\<lambda>s t. tk_OrderKey s < tk_OrderKey t) ts \<and>
    (\<forall>ty \<in> {TrackVideo, TrackAudio, TrackCaption}. gm_lookup (ts_layers scan) ty = Some (of_nat (of_type ty ts)) \<and> of_type ty ts \<le> 65535) \<and>
    (\<forall>k r. gm_lookup (ts_result scan) k = Some r \<longrightarrow> tk_ID (rtk_state r) = k \<and> \<not> ID_IsZero k \<and> rtk_state r \<in> set ts \<and> tk_Revision (rtk_state r) \<noteq> 0 \<and>
      tk_Type (rtk_state r) \<in> {TrackVideo, TrackAudio, TrackCaption} \<and> unat (rtk_layer r) < of_type (tk_Type (rtk_state r)) ts) \<and>
    (\<forall>j k r s. gm_lookup (ts_result scan) j = Some r \<longrightarrow> gm_lookup (ts_result scan) k = Some s \<longrightarrow> tk_Type (rtk_state r) = tk_Type (rtk_state s) \<longrightarrow>
      tk_OrderKey (rtk_state r) < tk_OrderKey (rtk_state s) \<longrightarrow> rtk_layer r < rtk_layer s)"

lemma scanTrack_Inr:
  assumes "scanTrack track scan = Inr scan'"
  shows "\<not> ID_IsZero (tk_ID track)" "tk_Revision track \<noteq> 0" "tk_OrderKey track \<noteq> ''''" "tk_OrderKey track \<noteq> ts_previousOrder scan"
    "tk_Type track \<in> {TrackVideo, TrackAudio, TrackCaption}" "\<not> gm_has (ts_result scan) (tk_ID track)"
    "gm_get 0 (ts_layers scan) (tk_Type track) \<noteq> - 1"
    "scan' = scan\<lparr>ts_result := gm_set (ts_result scan) (tk_ID track) \<lparr>rtk_state = track, rtk_layer = gm_get 0 (ts_layers scan) (tk_Type track)\<rparr>,
      ts_layers := gm_set (ts_layers scan) (tk_Type track) (gm_get 0 (ts_layers scan) (tk_Type track) + 1), ts_previousOrder := tk_OrderKey track\<rparr>"
  using assms by (auto simp: scanTrack_def Let_def split: if_splits)

lemma scanned_snoc:
  assumes sorted: "\<forall>s \<in> set ts. tk_OrderKey s \<le> tk_OrderKey t" and scan: "scanned ts scan" and step: "scanTrack t scan = Inr scan'"
  shows "scanned (ts @ [t]) scan'"
proof -
  note t = scanTrack_Inr [OF step]
  let ?ty = "tk_Type t" and ?n = "of_type (tk_Type t) ts"
  have layer: "gm_lookup (ts_layers scan) ?ty = Some (of_nat ?n)" "?n \<le> 65535" using scan t(5) by (auto simp: scanned_def)
  then have get: "gm_get 0 (ts_layers scan) ?ty = of_nat ?n" by (simp add: gm_get_def)
  have small: "unat (of_nat ?n :: uint16) = ?n" using layer(2) by (simp add: unat_of_nat)
  have n: "?n < 65535"
  proof (rule ccontr)
    assume "\<not> ?n < 65535"
    then have "?n = 65535" using layer(2) by simp
    then show False using t(7) get by simp
  qed
  have less: "\<forall>s \<in> set ts. tk_OrderKey s < tk_OrderKey t"
  proof (cases ts rule: rev_cases)
    case (snoc us u)
    then have "tk_OrderKey u \<noteq> tk_OrderKey t" using scan t(4) by (simp add: scanned_def)
    then have "tk_OrderKey u < tk_OrderKey t" using sorted snoc by (simp add: order_less_le)
    moreover have "\<forall>s \<in> set us. tk_OrderKey s < tk_OrderKey u" using scan snoc by (simp add: scanned_def sorted_wrt_append)
    ultimately show ?thesis using snoc by auto
  qed simp
  have result: "gm_lookup (ts_result scan') k = (if k = tk_ID t then Some \<lparr>rtk_state = t, rtk_layer = of_nat ?n\<rparr> else gm_lookup (ts_result scan) k)" for k
    using get by (simp add: t(8))
  have layers: "gm_lookup (ts_layers scan') ty = (if ty = ?ty then Some (of_nat (?n + 1)) else gm_lookup (ts_layers scan) ty)" for ty
    using get by (simp add: t(8))
  have old: "tk_ID (rtk_state r) = k \<and> \<not> ID_IsZero k \<and> rtk_state r \<in> set ts \<and> tk_Revision (rtk_state r) \<noteq> 0 \<and>
      tk_Type (rtk_state r) \<in> {TrackVideo, TrackAudio, TrackCaption} \<and> unat (rtk_layer r) < of_type (tk_Type (rtk_state r)) ts"
    if "gm_lookup (ts_result scan) k = Some r" for k r using scan that unfolding scanned_def by blast
  have new: "rtk_layer r < of_nat ?n" if "gm_lookup (ts_result scan) k = Some r" "tk_Type (rtk_state r) = ?ty" for k r
    using old [OF that(1)] that(2) small by (simp add: word_less_nat_alt)
  have order: "\<not> tk_OrderKey t < tk_OrderKey (rtk_state r)" if "gm_lookup (ts_result scan) k = Some r" for k r
    using old [OF that] less by (simp add: order_less_imp_not_less)
  show ?thesis unfolding scanned_def
  proof (intro conjI)
    show "ts_previousOrder scan' = (if ts @ [t] = [] then '''' else tk_OrderKey (last (ts @ [t])))" by (simp add: t(8))
    show "sorted_wrt (\<lambda>s t. tk_OrderKey s < tk_OrderKey t) (ts @ [t])" using scan less by (simp add: scanned_def sorted_wrt_append)
    show "\<forall>ty \<in> {TrackVideo, TrackAudio, TrackCaption}. gm_lookup (ts_layers scan') ty = Some (of_nat (of_type ty (ts @ [t]))) \<and> of_type ty (ts @ [t]) \<le> 65535"
      using scan n unfolding layers by (auto simp: scanned_def)
    show "\<forall>k r. gm_lookup (ts_result scan') k = Some r \<longrightarrow> tk_ID (rtk_state r) = k \<and> \<not> ID_IsZero k \<and> rtk_state r \<in> set (ts @ [t]) \<and> tk_Revision (rtk_state r) \<noteq> 0 \<and>
      tk_Type (rtk_state r) \<in> {TrackVideo, TrackAudio, TrackCaption} \<and> unat (rtk_layer r) < of_type (tk_Type (rtk_state r)) (ts @ [t])"
    proof (intro allI impI)
      fix k r
      assume *: "gm_lookup (ts_result scan') k = Some r"
      show "tk_ID (rtk_state r) = k \<and> \<not> ID_IsZero k \<and> rtk_state r \<in> set (ts @ [t]) \<and> tk_Revision (rtk_state r) \<noteq> 0 \<and>
        tk_Type (rtk_state r) \<in> {TrackVideo, TrackAudio, TrackCaption} \<and> unat (rtk_layer r) < of_type (tk_Type (rtk_state r)) (ts @ [t])"
      proof (cases "k = tk_ID t")
        case True
        then show ?thesis using * t(1,2,5) small unfolding result by auto
      next
        case False
        then have "gm_lookup (ts_result scan) k = Some r" using * unfolding result by simp
        from old [OF this] show ?thesis by auto
      qed
    qed
    show "\<forall>j k r s. gm_lookup (ts_result scan') j = Some r \<longrightarrow> gm_lookup (ts_result scan') k = Some s \<longrightarrow> tk_Type (rtk_state r) = tk_Type (rtk_state s) \<longrightarrow>
      tk_OrderKey (rtk_state r) < tk_OrderKey (rtk_state s) \<longrightarrow> rtk_layer r < rtk_layer s"
    proof (intro allI impI)
      fix j k r s
      assume *: "gm_lookup (ts_result scan') j = Some r" "gm_lookup (ts_result scan') k = Some s" "tk_Type (rtk_state r) = tk_Type (rtk_state s)"
        "tk_OrderKey (rtk_state r) < tk_OrderKey (rtk_state s)"
      show "rtk_layer r < rtk_layer s"
      proof (cases "j = tk_ID t"; cases "k = tk_ID t")
        assume "j \<noteq> tk_ID t" "k \<noteq> tk_ID t"
        then show ?thesis using * scan unfolding result scanned_def by simp
      qed (use * new order in \<open>auto simp: result\<close>)
    qed
  qed
qed

text \<open>The layers of the tracks: distinct order keys, and along them increasing layers within a type.\<close>

definition layered :: "(string, render_track) gomap \<Rightarrow> bool" where
  "layered tracks \<longleftrightarrow>
    (\<forall>k r. gm_lookup tracks k = Some r \<longrightarrow> tk_ID (rtk_state r) = k \<and> \<not> ID_IsZero k \<and> tk_Revision (rtk_state r) \<noteq> 0 \<and>
      tk_Type (rtk_state r) \<in> {TrackVideo, TrackAudio, TrackCaption}) \<and>
    (\<forall>j k r s. gm_lookup tracks j = Some r \<longrightarrow> gm_lookup tracks k = Some s \<longrightarrow> tk_OrderKey (rtk_state r) = tk_OrderKey (rtk_state s) \<longrightarrow> r = s) \<and>
    (\<forall>j k r s. gm_lookup tracks j = Some r \<longrightarrow> gm_lookup tracks k = Some s \<longrightarrow> tk_Type (rtk_state r) = tk_Type (rtk_state s) \<longrightarrow>
      tk_OrderKey (rtk_state r) < tk_OrderKey (rtk_state s) \<longrightarrow> rtk_layer r < rtk_layer s)"

lemma sorted_tracks: "sort_slice trackLess source = sort_key (\<lambda>t. (tk_OrderKey t, tk_ID t)) source"
  by (rule sort_slice_key) (auto simp: trackLess_def)

lemma sorted_wrt_inj: "sorted_wrt (\<lambda>s t. (key s :: 'k :: linorder) < key t) xs \<Longrightarrow> s \<in> set xs \<Longrightarrow> t \<in> set xs \<Longrightarrow> key s = key t \<Longrightarrow> s = t"
  using strict_sorted_iff [of "map key xs"] unfolding sorted_wrt_map distinct_map inj_on_def by blast

lemma normalizeRenderTracks_layered:
  assumes "normalizeRenderTracks source = Inr tracks"
  shows "layered tracks"
proof -
  let ?ts = "sort_slice trackLess source"
  obtain scan where loop: "forEach scanTrack ?ts
      \<lparr>ts_result = [], ts_layers = [(TrackVideo, 0), (TrackAudio, 0), (TrackCaption, 0)], ts_previousOrder = ''''\<rparr> = Inr scan" and tracks: "tracks = ts_result scan"
    using assms by (auto simp: normalizeRenderTracks_def)
  have sorted: "sorted_wrt (\<lambda>s t. (tk_OrderKey s, tk_ID s) \<le> (tk_OrderKey t, tk_ID t)) ?ts"
    using sorted_sort_key [of "\<lambda>t. (tk_OrderKey t, tk_ID t)" source] unfolding sorted_tracks by (simp only: sorted_map)
  have "scanned ?ts scan"
  proof (rule forEach_prefix [OF loop])
    show "scanned [] \<lparr>ts_result = [], ts_layers = [(TrackVideo, 0), (TrackAudio, 0), (TrackCaption, 0)], ts_previousOrder = ''''\<rparr>"
      by (auto simp: scanned_def of_type_def)
    show "scanned (ys @ [x]) t" if "?ts = ys @ x # zs" "scanTrack x s = Inr t" "scanned ys s" for ys x zs s t
    proof (rule scanned_snoc [OF _ that(3,2)])
      show "\<forall>s \<in> set ys. tk_OrderKey s \<le> tk_OrderKey x" using sorted unfolding that(1) by (auto simp: sorted_wrt_append less_eq_prod_def)
    qed
  qed
  note scan = this
  have fact: "tk_ID (rtk_state r) = k \<and> rtk_state r \<in> set ?ts" if "gm_lookup tracks k = Some r" for k r
    using scan that unfolding scanned_def tracks by blast
  have keys: "sorted_wrt (\<lambda>s t. tk_OrderKey s < tk_OrderKey t) ?ts" using scan unfolding scanned_def by blast
  have inj: "r = s" if "gm_lookup tracks j = Some r" "gm_lookup tracks k = Some s" "tk_OrderKey (rtk_state r) = tk_OrderKey (rtk_state s)" for j k r s
  proof -
    have "rtk_state r = rtk_state s" by (rule sorted_wrt_inj [OF keys]) (simp_all only: fact [OF that(1)] fact [OF that(2)] that(3))
    then have "j = k" using fact [OF that(1)] fact [OF that(2)] by simp
    then show ?thesis using that(1,2) by simp
  qed
  show ?thesis unfolding layered_def
  proof (intro conjI)
    show "\<forall>j k r s. gm_lookup tracks j = Some r \<longrightarrow> gm_lookup tracks k = Some s \<longrightarrow> tk_OrderKey (rtk_state r) = tk_OrderKey (rtk_state s) \<longrightarrow> r = s"
      using inj by blast
    show "\<forall>j k r s. gm_lookup tracks j = Some r \<longrightarrow> gm_lookup tracks k = Some s \<longrightarrow> tk_Type (rtk_state r) = tk_Type (rtk_state s) \<longrightarrow>
      tk_OrderKey (rtk_state r) < tk_OrderKey (rtk_state s) \<longrightarrow> rtk_layer r < rtk_layer s"
      using scan unfolding scanned_def tracks by (elim conjE) assumption
  qed (use scan in \<open>unfold scanned_def tracks, blast\<close>)
qed

section \<open>Placing\<close>

definition placed_ok :: "('i \<Rightarrow> string) \<Rightarrow> ('i \<Rightarrow> time_range) \<Rightarrow> 'i list \<Rightarrow> rational_time \<times> (string, rational_time) gomap \<Rightarrow> bool" where
  "placed_ok track placed xs acc \<longleftrightarrow> rt_valid (fst acc) \<and> rt_val (fst acc) = latest_end (map placed xs) \<and> tracks_apart track placed xs \<and>
    (\<forall>x \<in> set xs. \<exists>e. gm_lookup (snd acc) (track x) = Some e \<and> range_upto (placed x) \<le> rt_val e) \<and>
    (\<forall>t e. gm_lookup (snd acc) t = Some e \<longrightarrow> rt_valid e)"

lemma placed_ok_start: "placed_ok track placed [] (whole_time 0, [])"
  using whole_time_val [of 0] by (simp add: placed_ok_def tracks_apart_def IsInt64_def)

lemma placeItem_ok:
  assumes "placed_ok track placed xs acc" "validatePositiveRange (placed x) True" "placeItem (track x) (placed x) acc = Inr acc'"
  shows "placed_ok track placed (xs @ [x]) acc'"
proof -
  obtain duration lasts where acc: "acc = (duration, lasts)" by fastforce
  obtain e where e: "TimeRange_End (placed x) = Inr e" "rt_valid e" "rt_val e = range_upto (placed x)"
    using assms(2) by (auto simp: validatePositiveRange_iff elim: range_okE)
  have x: "rt_valid (tr_Start (placed x))" "rt_val (tr_Start (placed x)) = range_from (placed x)" "range_from (placed x) < range_upto (placed x)" "0 \<le> range_from (placed x)"
    using assms(2) by (auto simp: validatePositiveRange_iff range_from_def range_upto_def)
  have out: "acc' = (laterRenderTime duration e, gm_set lasts (track x) e)" using assms(3) e(1) by (auto simp: placeItem_def acc split: if_splits)
  have after: "rt_val l \<le> range_from (placed x)" if "gm_lookup lasts (track x) = Some l" for l
    using assms(1,3) e(1) that x(1,2) Compare_valid [OF x(1), of l]
    by (auto simp: placeItem_def placed_ok_def acc sgn_rat_def split: if_splits)
  have "range_upto (placed y) \<le> range_from (placed x) \<and> range_upto (placed y) \<le> range_upto (placed x)" if "y \<in> set xs" "track y = track x" for y
    using assms(1) that after x(3) unfolding placed_ok_def acc by fastforce
  then show ?thesis using assms(1) e x laterRenderTime_val [of duration e] unfolding out
    by (auto simp: placed_ok_def acc tracks_apart_def sorted_wrt_append max_def split: if_splits)
qed

lemma in_orderI:
  assumes "sorted_wrt (\<lambda>x y. okey x \<le> (okey y :: 'k :: linorder)) xs" "tracks_apart track placed xs"
    and x: "\<And>x. x \<in> set xs \<Longrightarrow> validatePositiveRange (placed x) True \<and> order x = (layer x, tr_Start (placed x), ident x)"
    and same: "\<And>x y. x \<in> set xs \<Longrightarrow> y \<in> set xs \<Longrightarrow> okey x = okey y \<Longrightarrow> track x = track y \<and> layer x = layer y"
    and less: "\<And>x y. x \<in> set xs \<Longrightarrow> y \<in> set xs \<Longrightarrow> okey x < okey y \<Longrightarrow> layer x < layer y"
  shows "in_order order xs"
proof -
  have "sorted_wrt (\<lambda>x y. okey x \<le> okey y \<and> (track x = track y \<longrightarrow> range_upto (placed x) \<le> range_from (placed y))) xs"
    using assms(1,2) unfolding tracks_apart_def by (simp add: sorted_wrt_iff_nth_less)
  then show ?thesis unfolding in_order_def
  proof (rule sorted_wrt_mono_rel [rotated])
    fix a b assume ab: "a \<in> set xs" "b \<in> set xs" "okey a \<le> okey b \<and> (track a = track b \<longrightarrow> range_upto (placed a) \<le> range_from (placed b))"
    show "order_less (order a) (order b)"
    proof (cases "okey a < okey b")
      case True
      then show ?thesis using less [OF ab(1,2)] x [OF ab(1)] x [OF ab(2)] by (simp add: order_less_def)
    next
      case False
      then have "track a = track b" "layer a = layer b" using same [OF ab(1,2)] ab(3) by auto
      moreover from this ab(3) x [OF ab(1)] have "range_from (placed a) < range_from (placed b)"
        by (auto simp: validatePositiveRange_iff range_from_def range_upto_def)
      ultimately show ?thesis using x [OF ab(1)] x [OF ab(2)] by (simp add: order_less_def range_from_def)
    qed
  qed
qed

section \<open>Clips\<close>

definition clip_live :: "clip_state \<Rightarrow> bool" where
  "clip_live clip \<longleftrightarrow> \<not> clip_Tombstoned clip \<and> clip_Enabled clip"

definition clip_track :: "(string, render_track) gomap \<Rightarrow> clip_state \<Rightarrow> render_track" where
  "clip_track tracks clip = gm_get zero_render_track tracks (clip_TrackID clip)"

definition plays :: "(string, render_track) gomap \<Rightarrow> TrackType \<Rightarrow> clip_state \<Rightarrow> bool" where
  "plays tracks ty clip \<longleftrightarrow> clip_live clip \<and> tk_Type (rtk_state (clip_track tracks clip)) = ty"

definition clip_artifact :: "(string, render_plan_input) gomap \<Rightarrow> clip_state \<Rightarrow> ArtifactID" where
  "clip_artifact bindings clip = (case gm_lookup bindings (clip_ID clip) of None \<Rightarrow> '''' | Some input \<Rightarrow> rin_ArtifactID input)"

text \<open>The instructions of a clip.\<close>

definition video_instruction :: "(string, render_track) gomap \<Rightarrow> (string, render_plan_input) gomap \<Rightarrow> clip_state \<Rightarrow> render_video_instruction" where
  "video_instruction tracks bindings clip = \<lparr>vi_ClipID = clip_ID clip, vi_ClipRevision = clip_Revision clip,
     vi_TrackID = clip_TrackID clip, vi_TrackRevision = tk_Revision (rtk_state (clip_track tracks clip)), vi_Layer = rtk_layer (clip_track tracks clip),
     vi_InputArtifactID = clip_artifact bindings clip, vi_SourceStreamID = clip_SourceStreamID clip, vi_SourceRange = clip_SourceRange clip,
     vi_TimelineRange = clip_TimelineRange clip, vi_Orientation = ''normalized-by-render-material-v1'', vi_Placement = renderPlacementForClip clip\<rparr>"

definition audio_instruction :: "(string, render_track) gomap \<Rightarrow> (string, render_plan_input) gomap \<Rightarrow> clip_state \<Rightarrow> render_audio_instruction" where
  "audio_instruction tracks bindings clip = \<lparr>ai_ClipID = clip_ID clip, ai_ClipRevision = clip_Revision clip,
     ai_TrackID = clip_TrackID clip, ai_TrackRevision = tk_Revision (rtk_state (clip_track tracks clip)), ai_Layer = rtk_layer (clip_track tracks clip),
     ai_InputArtifactID = clip_artifact bindings clip, ai_SourceStreamID = clip_SourceStreamID clip, ai_SourceRange = clip_SourceRange clip,
     ai_TimelineRange = clip_TimelineRange clip, ai_ChannelMapping = ''render-material-stereo-v1'', ai_GainMilliDB = 0\<rparr>"

definition compiled :: "(string, render_track) gomap \<Rightarrow> (string, render_plan_input) gomap \<Rightarrow> clip_state list \<Rightarrow> compile_scan \<Rightarrow> bool" where
  "compiled tracks bindings clips scan \<longleftrightarrow> cs_video scan = map (video_instruction tracks bindings) (filter (plays tracks TrackVideo) clips) \<and>
    cs_audio scan = map (audio_instruction tracks bindings) (filter (plays tracks TrackAudio) clips) \<and>
    placed_ok clip_TrackID clip_TimelineRange (filter clip_live clips) (cs_duration scan, cs_lastByTrack scan)"

lemma clip_head:
  assumes "validateRenderClipHead clip sequenceID tracks"
  obtains track where "gm_lookup tracks (clip_TrackID clip) = Some track" "clip_track tracks clip = track" "tk_Type (rtk_state track) \<in> {TrackVideo, TrackAudio}"
    "\<not> ID_IsZero (clip_ID clip)" "clip_Revision clip \<noteq> 0" "\<not> ID_IsZero (clip_AssetID clip)" "validatePositiveRange (clip_SourceRange clip) False"
    "validatePositiveRange (clip_TimelineRange clip) True" "sameDuration (clip_SourceRange clip) (clip_TimelineRange clip)"
  using assms by (auto simp: validateRenderClipHead_def Let_def clip_track_def gm_has_def gm_get_def split: if_splits option.splits)

lemma compileClip_compiled:
  assumes head: "validateRenderClipHead clip sequenceID tracks" and run: "compileClip tracks bindings clip scan = Inr scan'" and "compiled tracks bindings clips scan"
  shows "compiled tracks bindings (clips @ [clip]) scan'"
proof (cases "clip_live clip")
  case True
  obtain track where t: "clip_track tracks clip = track" "tk_Type (rtk_state track) \<in> {TrackVideo, TrackAudio}" "validatePositiveRange (clip_TimelineRange clip) True"
    by (rule clip_head [OF head])
  have t': "gm_get zero_render_track tracks (clip_TrackID clip) = track" using t(1) by (simp add: clip_track_def)
  obtain duration lasts where p: "placeItem (clip_TrackID clip) (clip_TimelineRange clip) (cs_duration scan, cs_lastByTrack scan) = Inr (duration, lasts)"
    using run True by (auto simp: compileClip_def clip_live_def Let_def go_result)
  note ok = placeItem_ok [of clip_TrackID clip_TimelineRange "filter clip_live clips" _ clip, OF _ t(3) p]
  show ?thesis
  proof (cases "tk_Type (rtk_state track) = TrackVideo")
    case video: True
    have "scan' = scan\<lparr>cs_duration := duration, cs_lastByTrack := lasts, cs_video := cs_video scan @ [video_instruction tracks bindings clip]\<rparr>"
      using run True p video t' by (simp add: compileClip_def clip_live_def Let_def t' video_instruction_def clip_track_def clip_artifact_def)
    then show ?thesis using assms(3) ok True video t(1) by (simp add: compiled_def plays_def)
  next
    case False
    then have audio: "tk_Type (rtk_state track) = TrackAudio" using t(2) by simp
    have "scan' = scan\<lparr>cs_duration := duration, cs_lastByTrack := lasts, cs_audio := cs_audio scan @ [audio_instruction tracks bindings clip]\<rparr>"
      using run True p audio t' by (simp add: compileClip_def clip_live_def Let_def t' audio_instruction_def clip_track_def clip_artifact_def)
    then show ?thesis using assms(3) ok True audio t(1) by (simp add: compiled_def plays_def)
  qed
next
  case False
  then have "scan' = scan" using run by (auto simp: compileClip_def clip_live_def)
  then show ?thesis using assms(3) False by (simp add: compiled_def plays_def)
qed

section \<open>Bindings\<close>

lemma gm_size_set_le: "gm_size (gm_set m k v) \<le> Suc (gm_size m)"
proof -
  have "{j. gm_has (gm_set m k v) j} = insert k {j. gm_has m j}" by auto
  then show ?thesis using card_insert_le_m1 [of "Suc (card {j. gm_has m j})" "{j. gm_has m j}" k] by (simp add: gm_size_card)
qed

lemma index_clips:
  assumes "forEach (indexClip sequenceID tracks) clips [] = Inr m"
  shows "\<forall>clip \<in> set clips. validateRenderClipHead clip sequenceID tracks" "gm_lookup m k = Some clip \<longleftrightarrow> clip \<in> set clips \<and> clip_ID clip = k"
proof -
  have "(\<forall>clip \<in> set clips. validateRenderClipHead clip sequenceID tracks) \<and> (\<forall>k clip. gm_lookup m k = Some clip \<longleftrightarrow> clip \<in> set clips \<and> clip_ID clip = k)"
    by (rule forEach_prefix [OF assms]) (auto simp: indexClip_def gm_has_def split: if_splits)
  then show "\<forall>clip \<in> set clips. validateRenderClipHead clip sequenceID tracks" "gm_lookup m k = Some clip \<longleftrightarrow> clip \<in> set clips \<and> clip_ID clip = k" by blast+
qed

text \<open>What an artifact manifest guarantees of the material made from it, apart from what the compiler checks.\<close>

definition material_sound :: "render_material \<Rightarrow> bool" where
  "material_sound material \<longleftrightarrow> rm_producer material \<noteq> '''' \<and> length (rm_producer material) \<le> 256 \<and> rt_valid (rm_sourceEpoch material) \<and>
    validRenderDigest (rm_manifestDigest material) \<and> validRenderDigest (rm_fingerprint material) \<and> validRenderDigest (rm_mediaDigest material) \<and>
    (rm_video material \<noteq> None \<or> rm_audio material \<noteq> None) \<and> (\<forall>video. rm_video material = Some video \<longrightarrow> validatePublishedRenderVideoInput video) \<and>
    (\<forall>audio. rm_audio material = Some audio \<longrightarrow> validatePublishedRenderAudioInput audio)"

definition bound :: "(string, render_track) gomap \<Rightarrow> string \<Rightarrow> clip_state \<Rightarrow> render_plan_input \<Rightarrow> bool" where
  "bound tracks profile clip input \<longleftrightarrow> clip_live clip \<and> input_valid profile input \<and>
    (plays tracks TrackVideo clip \<longrightarrow> (\<exists>video. rin_Video input = Some video \<and> vin_SourceStreamID video = clip_SourceStreamID clip)) \<and>
    (plays tracks TrackAudio clip \<longrightarrow> (\<exists>audio. rin_Audio input = Some audio \<and> ain_SourceStreamID audio = clip_SourceStreamID clip))"

lemma planInput_valid:
  assumes "planInput material artifact asset = Inr input" "material_sound material" "\<not> ID_IsZero (ras_ID asset)" "ras_Revision asset \<noteq> 0"
  shows "input_valid (rm_profile material) input"
  using assms by (auto simp: planInput_def material_sound_def input_valid_def split: if_splits)

lemma bindClip_Inr:
  assumes "bindClip tracks clips assets profile binding m = Inr m'" "material_sound (cib_Material binding)"
    and heads: "\<And>k clip. gm_lookup clips k = Some clip \<Longrightarrow> validateRenderClipHead clip sequenceID tracks"
  obtains clip input where "gm_lookup clips (cib_ClipID binding) = Some clip" "bound tracks profile clip input" "m' = gm_set m (cib_ClipID binding) input"
proof -
  obtain clip asset input where *: "gm_lookup clips (cib_ClipID binding) = Some clip" "clip_live clip" "ras_ID asset = clip_AssetID clip" "ras_Revision asset \<noteq> 0"
      "validateRenderBinding binding clip (tk_Type (rtk_state (clip_track tracks clip))) asset profile = Inr input" "m' = gm_set m (cib_ClipID binding) input"
    using assms(1) by (auto simp: bindClip_def clip_live_def clip_track_def split: option.splits if_splits elim!: andThenE)
  have "\<not> ID_IsZero (clip_AssetID clip)" by (rule clip_head [OF heads [OF *(1)]])
  moreover have input: "rm_profile (cib_Material binding) = profile" "planInput (cib_Material binding) (cib_Artifact binding) asset = Inr input"
    using *(5) by (auto simp: validateRenderBinding_def split: if_splits elim!: andThenE)
  ultimately have "input_valid profile input" using planInput_valid [OF input(2) assms(2)] *(3,4) by simp
  moreover have "\<not> (tk_Type (rtk_state (clip_track tracks clip)) = TrackVideo \<and> (case rin_Video input of None \<Rightarrow> True | Some video \<Rightarrow> vin_SourceStreamID video \<noteq> clip_SourceStreamID clip))"
    "\<not> (tk_Type (rtk_state (clip_track tracks clip)) = TrackAudio \<and> (case rin_Audio input of None \<Rightarrow> True | Some audio \<Rightarrow> ain_SourceStreamID audio \<noteq> clip_SourceStreamID clip))"
    using *(5) by (auto simp: validateRenderBinding_def input(2) split: if_splits)
  ultimately have "bound tracks profile clip input" using *(2) by (auto simp: bound_def plays_def split: option.splits)
  then show thesis using that * by blast
qed

lemma normalizeRenderBindings_Inr:
  assumes "normalizeRenderBindings input tracks profile = Inr bindings" and sound: "\<And>b. b \<in> set (cmp_Bindings input) \<Longrightarrow> material_sound (cib_Material b)"
  shows "clip \<in> set (cmp_Clips input) \<Longrightarrow> validateRenderClipHead clip (seq_ID (cmp_Sequence input)) tracks"
    "clip \<in> set (cmp_Clips input) \<Longrightarrow> clip_live clip \<Longrightarrow> \<exists>i. gm_lookup bindings (clip_ID clip) = Some i \<and> bound tracks profile clip i"
    "gm_lookup bindings k = Some i \<Longrightarrow> \<exists>clip \<in> set (cmp_Clips input). clip_ID clip = k \<and> bound tracks profile clip i"
    "gm_size bindings \<le> length (cmp_Bindings input)"
proof -
  obtain clips where c: "forEach (indexClip (seq_ID (cmp_Sequence input)) tracks) (cmp_Clips input) [] = Inr clips"
    and b: "forEach (bindClip tracks clips (case cmp_Assets input of None \<Rightarrow> [] | Some assets \<Rightarrow> assets) profile) (cmp_Bindings input) [] = Inr bindings"
    and all: "list_all (\<lambda>clip. clip_Tombstoned clip \<or> \<not> clip_Enabled clip \<or> gm_has bindings (clip_ID clip)) (cmp_Clips input)"
    using assms(1) by (auto simp: normalizeRenderBindings_def split: if_splits elim!: andThenE)
  note heads = index_clips(1) [OF c] and look = index_clips(2) [OF c]
  have "(\<forall>k i. gm_lookup bindings k = Some i \<longrightarrow> (\<exists>clip. gm_lookup clips k = Some clip \<and> bound tracks profile clip i)) \<and> gm_size bindings \<le> length (cmp_Bindings input)"
  proof (rule forEach_prefix [OF b])
    show "(\<forall>k i. gm_lookup ([] :: (string, render_plan_input) gomap) k = Some i \<longrightarrow> (\<exists>clip. gm_lookup clips k = Some clip \<and> bound tracks profile clip i)) \<and>
        gm_size ([] :: (string, render_plan_input) gomap) \<le> length ([] :: clip_input_binding list)" by (simp add: gm_size_def gm_keys_def)
    fix ys x zs m m'
    assume xs: "cmp_Bindings input = ys @ x # zs" and step: "bindClip tracks clips (case cmp_Assets input of None \<Rightarrow> [] | Some assets \<Rightarrow> assets) profile x m = Inr m'"
      and IH: "(\<forall>k i. gm_lookup m k = Some i \<longrightarrow> (\<exists>clip. gm_lookup clips k = Some clip \<and> bound tracks profile clip i)) \<and> gm_size m \<le> length ys"
    obtain clip i where n: "gm_lookup clips (cib_ClipID x) = Some clip" "bound tracks profile clip i" "m' = gm_set m (cib_ClipID x) i"
      by (rule bindClip_Inr [OF step, of "seq_ID (cmp_Sequence input)"]) (use sound xs heads look in auto)
    show "(\<forall>k i. gm_lookup m' k = Some i \<longrightarrow> (\<exists>clip. gm_lookup clips k = Some clip \<and> bound tracks profile clip i)) \<and> gm_size m' \<le> length (ys @ [x])"
      using IH n gm_size_set_le [of m "cib_ClipID x" i] by auto
  qed
  then show "gm_size bindings \<le> length (cmp_Bindings input)" and owned: "gm_lookup bindings k = Some i \<Longrightarrow> \<exists>clip \<in> set (cmp_Clips input). clip_ID clip = k \<and> bound tracks profile clip i" for k i
    unfolding look by blast+
  show "clip \<in> set (cmp_Clips input) \<Longrightarrow> validateRenderClipHead clip (seq_ID (cmp_Sequence input)) tracks" using heads by blast
  assume clip: "clip \<in> set (cmp_Clips input)" "clip_live clip"
  then obtain i where i: "gm_lookup bindings (clip_ID clip) = Some i" using all by (auto simp: list_all_iff clip_live_def gm_has_def)
  from owned [OF this] obtain clip' where "clip' \<in> set (cmp_Clips input)" "clip_ID clip' = clip_ID clip" "bound tracks profile clip' i" by blast
  moreover from this clip(1) have "clip' = clip" using look [of "clip_ID clip"] by (metis option.inject)
  ultimately show "\<exists>i. gm_lookup bindings (clip_ID clip) = Some i \<and> bound tracks profile clip i" using i by blast
qed

lemma snd_entries: "snd ` set (gm_entries m) = {v. \<exists>k. gm_lookup m k = Some v}"
proof -
  have "v \<in> snd ` set (gm_entries m) \<longleftrightarrow> (\<exists>k. (k, v) \<in> set (gm_entries m))" for v by force
  then show ?thesis by (auto simp: set_gm_entries)
qed

lemma uniqueRenderInputs_Inr:
  assumes "uniqueRenderInputs bindings = Inr inputs"
  shows "set inputs = {i. \<exists>k. gm_lookup bindings k = Some i}" "sorted_wrt (<) (map rin_ArtifactID inputs)" "length inputs \<le> gm_size bindings"
    "i \<in> set inputs \<Longrightarrow> gm_lookup (inputs_by_id inputs) (rin_ArtifactID i) = Some i"
proof -
  let ?es = "map snd (gm_entries bindings)"
  obtain m where m: "forEach uniqueInput ?es [] = Inr m"
    and inputs: "inputs = sort_slice (\<lambda>left right. rin_ArtifactID left < rin_ArtifactID right) (map snd (gm_entries m))"
    using assms by (auto simp: uniqueRenderInputs_def elim!: andThenE)
  have inv: "(\<forall>k i. gm_lookup m k = Some i \<longleftrightarrow> i \<in> set ?es \<and> rin_ArtifactID i = k) \<and> gm_size m \<le> length ?es"
  proof (rule forEach_prefix [OF m])
    fix ys x zs n n'
    assume *: "uniqueInput x n = Inr n'" "(\<forall>k i. gm_lookup n k = Some i \<longleftrightarrow> i \<in> set ys \<and> rin_ArtifactID i = k) \<and> gm_size n \<le> length ys"
    have n': "n' = gm_set n (rin_ArtifactID x) x" using *(1) by (auto simp: uniqueInput_def Let_def split: if_splits)
    have same: "x = i" if "i \<in> set ys" "rin_ArtifactID i = rin_ArtifactID x" for i
    proof -
      have "gm_lookup n (rin_ArtifactID x) = Some i" using *(2) that by simp
      then show ?thesis using *(1) by (simp add: uniqueInput_def Let_def split: if_splits)
    qed
    have "gm_lookup n' k = Some i \<longleftrightarrow> i \<in> set (ys @ [x]) \<and> rin_ArtifactID i = k" for k i
    proof (cases "k = rin_ArtifactID x")
      case True
      then show ?thesis using same [of i] by (auto simp: n')
    next
      case False
      have "gm_lookup n k = Some i \<longleftrightarrow> i \<in> set ys \<and> rin_ArtifactID i = k" using *(2) by blast
      then show ?thesis using False by (auto simp: n')
    qed
    then show "(\<forall>k i. gm_lookup n' k = Some i \<longleftrightarrow> i \<in> set (ys @ [x]) \<and> rin_ArtifactID i = k) \<and> gm_size n' \<le> length (ys @ [x])"
      using gm_size_set_le [of n "rin_ArtifactID x" x] *(2) unfolding n' by simp
  qed (simp add: gm_size_def gm_keys_def)
  have entries: "map rin_ArtifactID (map snd (gm_entries m)) = map fst (gm_entries m)"
  proof -
    have "rin_ArtifactID i = k" if "(k, i) \<in> set (gm_entries m)" for k i using inv that unfolding set_gm_entries by blast
    then show ?thesis by auto
  qed
  have sorted: "inputs = sort_key rin_ArtifactID (map snd (gm_entries m))" unfolding inputs by (rule sort_slice_key) simp
  show set: "set inputs = {i. \<exists>k. gm_lookup bindings k = Some i}"
  proof -
    have "set inputs = {i. \<exists>k. gm_lookup m k = Some i}" unfolding inputs by (simp add: snd_entries)
    also have "\<dots> = set ?es" using inv by blast
    finally show ?thesis by (simp add: snd_entries)
  qed
  have unique: "distinct (map rin_ArtifactID inputs)"
  proof -
    have "mset (map rin_ArtifactID inputs) = mset (map fst (gm_entries m))" unfolding entries [symmetric] inputs by (simp only: mset_map mset_sort_slice)
    then show ?thesis using mset_eq_imp_distinct_iff distinct_gm_entries by blast
  qed
  then show "sorted_wrt (<) (map rin_ArtifactID inputs)" using strict_sorted_iff [of "map rin_ArtifactID inputs"] sorted by simp
  show "length inputs \<le> gm_size bindings" using inv unfolding inputs by (simp add: gm_size_def gm_entries_def)
  show "gm_lookup (inputs_by_id inputs) (rin_ArtifactID i) = Some i" if "i \<in> set inputs"
    using that unique unfolding inputs_by_id_def gm_lookup_def
    by (intro map_of_is_SomeI) (auto simp: comp_def)
qed

section \<open>Captions\<close>

definition caption_live :: "caption_state \<Rightarrow> bool" where
  "caption_live caption \<longleftrightarrow> \<not> cap_Tombstoned caption"

definition caption_head :: "language_parser \<Rightarrow> (string, render_track) gomap \<Rightarrow> caption_state \<Rightarrow> bool" where
  "caption_head bcp47 tracks caption \<longleftrightarrow> \<not> ID_IsZero (cap_ID caption) \<and> cap_Revision caption \<noteq> 0 \<and>
    (\<exists>track. gm_lookup tracks (cap_TrackID caption) = Some track \<and> tk_Type (rtk_state track) = TrackCaption) \<and>
    validatePositiveRange (cap_Range caption) True \<and> CaptionLanguage_Validate bcp47 (cap_Language caption) \<and> ValidCaptionText (cap_Text caption)"

lemma checkCaption_Inr:
  assumes "checkCaption bcp47 sequenceID tracks caption (duration, lasts, font) = Inr (duration', lasts', font')" "caption_live caption"
  shows "caption_head bcp47 tracks caption" "placeItem (cap_TrackID caption) (cap_Range caption) (duration, lasts) = Inr (duration', lasts')" "font'"
  using assms by (auto simp: checkCaption_def caption_live_def caption_head_def gm_has_def gm_get_def split: if_splits elim!: andThenE)

lemma check_captions:
  assumes "forEach (checkCaption bcp47 sequenceID tracks) captions (whole_time 0, [], False) = Inr (duration, lasts, font)"
  shows "\<forall>caption \<in> set (filter caption_live captions). caption_head bcp47 tracks caption"
    "placed_ok cap_TrackID cap_Range (filter caption_live captions) (duration, lasts)" "font \<longleftrightarrow> filter caption_live captions \<noteq> []"
proof -
  let ?P = "\<lambda>captions acc. (\<forall>caption \<in> set (filter caption_live captions). caption_head bcp47 tracks caption) \<and>
    placed_ok cap_TrackID cap_Range (filter caption_live captions) (fst acc, fst (snd acc)) \<and> (snd (snd acc) \<longleftrightarrow> filter caption_live captions \<noteq> [])"
  have "?P captions (duration, lasts, font)"
  proof (rule forEach_prefix [OF assms])
    show "?P [] (whole_time 0, [], False)" by (simp add: placed_ok_start)
    fix ys x zs s t
    assume step: "checkCaption bcp47 sequenceID tracks x s = Inr t" and IH: "?P ys s"
    obtain d l f d' l' f' where st: "s = (d, l, f)" "t = (d', l', f')" by (metis prod_cases3)
    show "?P (ys @ [x]) t"
    proof (cases "caption_live x")
      case True
      note x = checkCaption_Inr [OF step [unfolded st] True]
      have "validatePositiveRange (cap_Range x) True" using x(1) by (simp add: caption_head_def)
      then have "placed_ok cap_TrackID cap_Range (filter caption_live ys @ [x]) (d', l')" using IH x(2) by (intro placeItem_ok [where acc = "(d, l)"]) (simp_all add: st)
      then show ?thesis using IH x True by (simp add: st)
    next
      case False
      then have "t = s" using step by (auto simp: checkCaption_def caption_live_def split: prod.splits)
      then show ?thesis using IH False by simp
    qed
  qed
  then show "\<forall>caption \<in> set (filter caption_live captions). caption_head bcp47 tracks caption"
    "placed_ok cap_TrackID cap_Range (filter caption_live captions) (duration, lasts)" "font \<longleftrightarrow> filter caption_live captions \<noteq> []" by simp_all
qed

text \<open>Both sorts order by the track's order key first.\<close>

definition order_of :: "(string, render_track) gomap \<Rightarrow> string \<Rightarrow> string" where
  "order_of tracks trackID = tk_OrderKey (rtk_state (gm_get zero_render_track tracks trackID))"

lemma startLess_key:
  assumes "rt_valid s" "rt_valid t"
  shows "startLess (a, s, i) (b, t, j) \<longleftrightarrow> (a, rt_val s, i) < (b, rt_val t, j)"
  using assms by (auto simp: startLess_def Compare_valid sgn_rat_def less_prod_def)

lemma sort_by_order:
  assumes "\<And>x. x \<in> set xs \<Longrightarrow> rt_valid (tr_Start (placed x))"
    and "\<And>x y. lt x y = startLess (order_of tracks (track x), tr_Start (placed x), ident x) (order_of tracks (track y), tr_Start (placed y), ident y)"
  shows "sorted_wrt (\<lambda>x y. order_of tracks (track x) \<le> order_of tracks (track y)) (sort_slice lt xs)"
proof -
  let ?key = "\<lambda>x. (order_of tracks (track x), rt_val (tr_Start (placed x)), ident x)"
  have "sort_slice lt xs = sort_key ?key xs" by (rule sort_slice_key) (use assms in \<open>simp add: startLess_key\<close>)
  moreover have "sorted_wrt (\<lambda>x y. ?key x \<le> ?key y) (sort_key ?key xs)" using sorted_sort_key [of ?key xs] by (simp only: sorted_map)
  ultimately have "sorted_wrt (\<lambda>x y. ?key x \<le> ?key y) (sort_slice lt xs)" by simp
  then show ?thesis by (rule sorted_wrt_mono_rel [rotated]) (auto simp: less_eq_prod_def)
qed

lemma layered_in_order:
  assumes "layered tracks" "sorted_wrt (\<lambda>x y. order_of tracks (track x) \<le> order_of tracks (track y)) xs" "tracks_apart track placed xs"
    and x: "\<And>x. x \<in> set xs \<Longrightarrow> validatePositiveRange (placed x) True \<and> (\<exists>r. gm_lookup tracks (track x) = Some r \<and> tk_Type (rtk_state r) = ty)"
  shows "in_order (\<lambda>x. (rtk_layer (gm_get zero_render_track tracks (track x)), tr_Start (placed x), ident x)) xs"
proof (rule in_orderI [where layer = "\<lambda>x. rtk_layer (gm_get zero_render_track tracks (track x))" and ident = ident, OF assms(2,3)])
  show "validatePositiveRange (placed a) True \<and> (rtk_layer (gm_get zero_render_track tracks (track a)), tr_Start (placed a), ident a) =
    (rtk_layer (gm_get zero_render_track tracks (track a)), tr_Start (placed a), ident a)" if "a \<in> set xs" for a using x [OF that] by simp
  fix a b
  assume ab: "a \<in> set xs" "b \<in> set xs"
  obtain r s where r: "gm_lookup tracks (track a) = Some r" "tk_Type (rtk_state r) = ty" and s: "gm_lookup tracks (track b) = Some s" "tk_Type (rtk_state s) = ty"
    using x [OF ab(1)] x [OF ab(2)] by blast
  have key: "order_of tracks (track a) = tk_OrderKey (rtk_state r)" "order_of tracks (track b) = tk_OrderKey (rtk_state s)"
    and get: "gm_get zero_render_track tracks (track a) = r" "gm_get zero_render_track tracks (track b) = s"
    using r(1) s(1) by (simp_all add: order_of_def gm_get_def)
  show "track a = track b \<and> rtk_layer (gm_get zero_render_track tracks (track a)) = rtk_layer (gm_get zero_render_track tracks (track b))"
    if "order_of tracks (track a) = order_of tracks (track b)"
  proof -
    have "r = s" using assms(1) r(1) s(1) that unfolding key layered_def by blast
    moreover have "tk_ID (rtk_state r) = track a" "tk_ID (rtk_state s) = track b" using assms(1) r(1) s(1) unfolding layered_def by blast+
    ultimately show ?thesis unfolding get by simp
  qed
  show "rtk_layer (gm_get zero_render_track tracks (track a)) < rtk_layer (gm_get zero_render_track tracks (track b))"
    if "order_of tracks (track a) < order_of tracks (track b)"
    using assms(1) r s that unfolding key get layered_def by metis
qed

lemma latest_end_Max: "latest_end rs = Max (insert 0 (range_upto ` set rs))"
proof (induction rs)
  case (Cons r rs)
  have "Max (insert 0 (range_upto ` set (r # rs))) = Max (insert (range_upto r) (insert 0 (range_upto ` set rs)))" by (simp add: insert_commute)
  also have "\<dots> = max (range_upto r) (Max (insert 0 (range_upto ` set rs)))" by (rule Max_insert) auto
  finally show ?case using Cons by simp
qed simp

lemma latest_end_cong: "set rs = set ss \<Longrightarrow> latest_end rs = latest_end ss"
  by (simp add: latest_end_Max)

section \<open>The compiled plan\<close>

text \<open>What the compiler has checked of its input when it writes the instructions, and what its callers guarantee.\<close>

definition compile_ready :: "compile_input \<Rightarrow> string \<Rightarrow> (string, render_track) gomap \<Rightarrow> (string, render_plan_input) gomap \<Rightarrow> bool" where
  "compile_ready input profile tracks bindings \<longleftrightarrow> layered tracks \<and>
    (\<forall>clip \<in> set (cmp_Clips input). validateRenderClipHead clip (seq_ID (cmp_Sequence input)) tracks) \<and>
    (\<forall>clip \<in> set (cmp_Clips input). clip_live clip \<longrightarrow> (\<exists>i. gm_lookup bindings (clip_ID clip) = Some i \<and> bound tracks profile clip i)) \<and>
    (\<forall>k i. gm_lookup bindings k = Some i \<longrightarrow> (\<exists>clip \<in> set (cmp_Clips input). clip_ID clip = k \<and> bound tracks profile clip i))"

definition input_sound :: "compile_input \<Rightarrow> bool" where
  "input_sound input \<longleftrightarrow> (\<forall>b \<in> set (cmp_Bindings input). material_sound (cib_Material b)) \<and>
    (\<forall>clip \<in> set (cmp_Clips input). clip_live clip \<longrightarrow> validateRenderPlacement (renderPlacementForClip clip)) \<and>
    (\<forall>caption \<in> set (cmp_Captions input). rt_valid (tr_Start (cap_Range caption)))"

lemma compile_clips:
  assumes heads: "\<forall>clip \<in> set (cmp_Clips input). validateRenderClipHead clip (seq_ID (cmp_Sequence input)) tracks"
    and run: "forEach (compileClip tracks bindings) (sort_slice (renderClipLess tracks) (cmp_Clips input))
      \<lparr>cs_duration = whole_time 0, cs_lastByTrack = [], cs_video = [], cs_audio = []\<rparr> = Inr scan"
  shows "compiled tracks bindings (sort_slice (renderClipLess tracks) (cmp_Clips input)) scan"
    "sorted_wrt (\<lambda>x y. order_of tracks (clip_TrackID x) \<le> order_of tracks (clip_TrackID y)) (sort_slice (renderClipLess tracks) (cmp_Clips input))"
proof -
  show "compiled tracks bindings (sort_slice (renderClipLess tracks) (cmp_Clips input)) scan"
  proof (rule forEach_prefix [OF run])
    fix ys x zs s t
    assume xs: "sort_slice (renderClipLess tracks) (cmp_Clips input) = ys @ x # zs" and step: "compileClip tracks bindings x s = Inr t" "compiled tracks bindings ys s"
    have "x \<in> set (sort_slice (renderClipLess tracks) (cmp_Clips input))" unfolding xs by simp
    then have "validateRenderClipHead x (seq_ID (cmp_Sequence input)) tracks" using heads by simp
    then show "compiled tracks bindings (ys @ [x]) t" by (rule compileClip_compiled [OF _ step])
  qed (simp add: compiled_def placed_ok_start)
  show "sorted_wrt (\<lambda>x y. order_of tracks (clip_TrackID x) \<le> order_of tracks (clip_TrackID y)) (sort_slice (renderClipLess tracks) (cmp_Clips input))"
  proof (rule sort_by_order [where placed = clip_TimelineRange and ident = clip_ID])
    show "rt_valid (tr_Start (clip_TimelineRange x))" if "x \<in> set (cmp_Clips input)" for x
    proof -
      have "validateRenderClipHead x (seq_ID (cmp_Sequence input)) tracks" using heads that by simp
      then have "validatePositiveRange (clip_TimelineRange x) True" by (rule clip_head)
      then show ?thesis by (simp add: validatePositiveRange_iff)
    qed
  qed (simp add: renderClipLess_def order_of_def)
qed

lemma tracks_apart_of_map: "tracks_apart track placed (map f xs) = tracks_apart (\<lambda>x. track (f x)) (\<lambda>x. placed (f x)) xs"
  by (simp add: tracks_apart_def sorted_wrt_map)

lemma in_order_of_map: "in_order order (map f xs) = in_order (\<lambda>x. order (f x)) xs"
  by (simp add: in_order_def sorted_wrt_map)

lemma tracks_apart_filter: "tracks_apart track placed xs \<Longrightarrow> tracks_apart track placed (filter P xs)"
  by (simp add: tracks_apart_def sorted_wrt_filter)

lemma clip_parts:
  assumes ready: "compile_ready input profile tracks bindings" and clips: "set clips = set (cmp_Clips input)"
    and sorted: "sorted_wrt (\<lambda>x y. order_of tracks (clip_TrackID x) \<le> order_of tracks (clip_TrackID y)) clips"
    and apart: "tracks_apart clip_TrackID clip_TimelineRange (filter clip_live clips)"
    and ty: "ty \<in> {TrackVideo, TrackAudio}"
  shows "tracks_apart clip_TrackID clip_TimelineRange (filter (plays tracks ty) clips)"
    "in_order (\<lambda>x. (rtk_layer (clip_track tracks x), tr_Start (clip_TimelineRange x), clip_ID x)) (filter (plays tracks ty) clips)"
proof -
  have "filter (plays tracks ty) clips = filter (plays tracks ty) (filter clip_live clips)" by (auto simp: plays_def intro!: filter_cong)
  then show part: "tracks_apart clip_TrackID clip_TimelineRange (filter (plays tracks ty) clips)" using tracks_apart_filter [OF apart, of "plays tracks ty"] by simp
  have head: "validatePositiveRange (clip_TimelineRange x) True \<and> (\<exists>r. gm_lookup tracks (clip_TrackID x) = Some r \<and> tk_Type (rtk_state r) = ty)"
    if "x \<in> set (filter (plays tracks ty) clips)" for x
  proof -
    have "validateRenderClipHead x (seq_ID (cmp_Sequence input)) tracks" using ready that clips by (simp add: compile_ready_def)
    then obtain track where "gm_lookup tracks (clip_TrackID x) = Some track" "clip_track tracks x = track" "validatePositiveRange (clip_TimelineRange x) True"
      by (rule clip_head)
    then show ?thesis using that by (simp add: plays_def)
  qed
  show "in_order (\<lambda>x. (rtk_layer (clip_track tracks x), tr_Start (clip_TimelineRange x), clip_ID x)) (filter (plays tracks ty) clips)"
    unfolding clip_track_def
    by (rule layered_in_order [OF _ sorted_wrt_filter [OF sorted] part head]) (use ready in \<open>simp add: compile_ready_def\<close>)
qed

lemma clip_input:
  assumes ready: "compile_ready input profile tracks bindings" and inputs: "uniqueRenderInputs bindings = Inr inputs"
    and clip: "clip \<in> set (cmp_Clips input)" "clip_live clip"
  obtains i where "gm_lookup (inputs_by_id inputs) (clip_artifact bindings clip) = Some i" "bound tracks profile clip i" "i \<in> set inputs"
    "clip_artifact bindings clip = rin_ArtifactID i"
proof -
  obtain i where i: "gm_lookup bindings (clip_ID clip) = Some i" "bound tracks profile clip i" using ready clip unfolding compile_ready_def by blast
  then have "i \<in> set inputs" using uniqueRenderInputs_Inr(1) [OF inputs] by blast
  moreover have "clip_artifact bindings clip = rin_ArtifactID i" using i(1) by (simp add: clip_artifact_def)
  ultimately show thesis using that [of i] i(2) uniqueRenderInputs_Inr(4) [OF inputs, of i] by simp
qed

lemma instruction_fits:
  assumes ready: "compile_ready input profile tracks bindings" and inputs: "uniqueRenderInputs bindings = Inr inputs"
    and clip: "clip \<in> set (cmp_Clips input)"
  shows "plays tracks TrackVideo clip \<Longrightarrow> validateRenderPlacement (renderPlacementForClip clip) \<Longrightarrow> video_fits (inputs_by_id inputs) (video_instruction tracks bindings clip)"
    "plays tracks TrackAudio clip \<Longrightarrow> audio_fits (inputs_by_id inputs) (audio_instruction tracks bindings clip)"
proof -
  have head: "validateRenderClipHead clip (seq_ID (cmp_Sequence input)) tracks" using ready clip by (simp add: compile_ready_def)
  obtain track where t: "gm_lookup tracks (clip_TrackID clip) = Some track" "clip_track tracks clip = track" and c: "\<not> ID_IsZero (clip_ID clip)" "clip_Revision clip \<noteq> 0"
    "validatePositiveRange (clip_SourceRange clip) False" "sameDuration (clip_SourceRange clip) (clip_TimelineRange clip)"
    by (rule clip_head [OF head])
  have "\<not> ID_IsZero (clip_TrackID clip) \<and> tk_Revision (rtk_state track) \<noteq> 0" using ready t(1) unfolding compile_ready_def layered_def by blast
  note facts = this c t(2)
  show "video_fits (inputs_by_id inputs) (video_instruction tracks bindings clip)" if "plays tracks TrackVideo clip" "validateRenderPlacement (renderPlacementForClip clip)"
  proof -
    have "clip_live clip" using that by (simp add: plays_def)
    then obtain i where i: "gm_lookup (inputs_by_id inputs) (clip_artifact bindings clip) = Some i" "bound tracks profile clip i" by (rule clip_input [OF ready inputs clip])
    have "\<exists>video. rin_Video i = Some video \<and> vin_SourceStreamID video = clip_SourceStreamID clip" using i(2) that(1) by (simp add: bound_def)
    then show ?thesis using facts i(1) that(2) by (auto simp: video_fits_def video_instruction_def)
  qed
  show "audio_fits (inputs_by_id inputs) (audio_instruction tracks bindings clip)" if "plays tracks TrackAudio clip"
  proof -
    have "clip_live clip" using that by (simp add: plays_def)
    then obtain i where i: "gm_lookup (inputs_by_id inputs) (clip_artifact bindings clip) = Some i" "bound tracks profile clip i" by (rule clip_input [OF ready inputs clip])
    have "\<exists>audio. rin_Audio i = Some audio \<and> ain_SourceStreamID audio = clip_SourceStreamID clip" using i(2) that by (simp add: bound_def)
    then show ?thesis using facts i(1) by (auto simp: audio_fits_def audio_instruction_def)
  qed
qed

lemma live_plays:
  assumes "compile_ready input profile tracks bindings" "clip \<in> set (cmp_Clips input)" "clip_live clip"
  shows "plays tracks TrackVideo clip \<or> plays tracks TrackAudio clip"
proof -
  have "validateRenderClipHead clip (seq_ID (cmp_Sequence input)) tracks" using assms by (simp add: compile_ready_def)
  then obtain track where "clip_track tracks clip = track" "tk_Type (rtk_state track) \<in> {TrackVideo, TrackAudio}" by (rule clip_head)
  then show ?thesis using assms(3) by (auto simp: plays_def)
qed

lemma inputs_used:
  assumes ready: "compile_ready input profile tracks bindings" and inputs: "uniqueRenderInputs bindings = Inr inputs"
  shows "rin_ArtifactID ` set inputs \<subseteq> clip_artifact bindings ` {clip \<in> set (cmp_Clips input). plays tracks TrackVideo clip} \<union>
    clip_artifact bindings ` {clip \<in> set (cmp_Clips input). plays tracks TrackAudio clip}"
proof
  fix a assume "a \<in> rin_ArtifactID ` set inputs"
  then obtain i k where i: "a = rin_ArtifactID i" "gm_lookup bindings k = Some i" using uniqueRenderInputs_Inr(1) [OF inputs] by blast
  then obtain clip where clip: "clip \<in> set (cmp_Clips input)" "clip_ID clip = k" "bound tracks profile clip i" using ready unfolding compile_ready_def by blast
  then have "a = clip_artifact bindings clip" using i by (simp add: clip_artifact_def)
  moreover have "plays tracks TrackVideo clip \<or> plays tracks TrackAudio clip" using clip live_plays [OF ready] by (simp add: bound_def)
  ultimately show "a \<in> clip_artifact bindings ` {clip \<in> set (cmp_Clips input). plays tracks TrackVideo clip} \<union>
    clip_artifact bindings ` {clip \<in> set (cmp_Clips input). plays tracks TrackAudio clip}" using clip(1) by blast
qed

lemma default_style_valid: "validateRenderCaptionStyle (defaultRenderCaptionStyle resourceID) fonts \<longleftrightarrow> gm_has fonts resourceID"
  by (simp add: validateRenderCaptionStyle_def defaultRenderCaptionStyle_def validRenderRGBA_def is_digit_def)

lemma compileRenderCaptions_Inr:
  assumes "compileRenderCaptions bcp47 input tracks = Inr (duration, fonts, captions)"
  obtains lasts required where
    "forEach (checkCaption bcp47 (seq_ID (cmp_Sequence input)) tracks) (sort_slice (renderCaptionLess tracks) (cmp_Captions input)) (whole_time 0, [], False) =
      Inr (duration, lasts, required)"
    "if required then \<exists>font. ValidFontResource font \<and> fonts = [font] \<and>
        captions = map (captionInstruction tracks (font_ResourceID font)) (filter caption_live (sort_slice (renderCaptionLess tracks) (cmp_Captions input)))
      else fonts = [] \<and> captions = []"
proof -
  have live: "caption_live = (\<lambda>caption. \<not> cap_Tombstoned caption)" by (simp add: fun_eq_iff caption_live_def)
  show thesis using assms that
    by (auto simp: compileRenderCaptions_def Let_def live [symmetric] split: if_splits option.splits elim!: andThenE casePairE)
qed

text \<open>The caption part of a plan: valid instructions in order and apart, with the one font they use.\<close>

definition captions_ok :: "language_parser \<Rightarrow> render_font_resource list \<Rightarrow> render_caption_instruction list \<Rightarrow> bool" where
  "captions_ok bcp47 fonts captions \<longleftrightarrow> list_all ValidFontResource fonts \<and> sorted_wrt (<) (map font_ResourceID fonts) \<and> length fonts \<le> 1 \<and>
    (\<forall>c \<in> set captions. caption_fits bcp47 (fonts_by_id fonts) c \<and> validatePositiveRange (ci_Range c) True) \<and>
    in_order captionOrder captions \<and> tracks_apart ci_TrackID ci_Range captions \<and>
    font_ResourceID ` set fonts \<subseteq> (\<lambda>c. sty_FontResourceID (ci_Style c)) ` set captions"

lemma caption_parts:
  assumes tracks: "layered tracks" and starts: "\<forall>caption \<in> set (cmp_Captions input). rt_valid (tr_Start (cap_Range caption))"
    and run: "compileRenderCaptions bcp47 input tracks = Inr (duration, fonts, captions)"
  shows "captions_ok bcp47 fonts captions" "rt_valid duration" "rt_val duration = latest_end (map ci_Range captions)"
    "\<exists>font. captions = map (captionInstruction tracks font) (filter caption_live (sort_slice (renderCaptionLess tracks) (cmp_Captions input)))"
proof -
  let ?cs = "sort_slice (renderCaptionLess tracks) (cmp_Captions input)"
  let ?live = "filter caption_live ?cs"
  obtain lasts required where loop: "forEach (checkCaption bcp47 (seq_ID (cmp_Sequence input)) tracks) ?cs (whole_time 0, [], False) = Inr (duration, lasts, required)"
    and out: "if required then \<exists>font. ValidFontResource font \<and> fonts = [font] \<and> captions = map (captionInstruction tracks (font_ResourceID font)) ?live else fonts = [] \<and> captions = []"
    by (rule compileRenderCaptions_Inr [OF run])
  note checked = check_captions [OF loop]
  have apart: "tracks_apart cap_TrackID cap_Range ?live" and duration: "rt_valid duration" "rt_val duration = latest_end (map cap_Range ?live)"
    using checked(2) by (simp_all add: placed_ok_def)
  have "sorted_wrt (\<lambda>x y. order_of tracks (cap_TrackID x) \<le> order_of tracks (cap_TrackID y)) ?cs"
    by (rule sort_by_order [where placed = cap_Range and ident = cap_ID]) (use starts in \<open>simp_all add: renderCaptionLess_def order_of_def\<close>)
  then have sorted: "sorted_wrt (\<lambda>x y. order_of tracks (cap_TrackID x) \<le> order_of tracks (cap_TrackID y)) ?live" by (rule sorted_wrt_filter)
  have order: "in_order (\<lambda>x. (rtk_layer (gm_get zero_render_track tracks (cap_TrackID x)), tr_Start (cap_Range x), cap_ID x)) ?live"
    by (rule layered_in_order [OF tracks sorted apart, where ty = TrackCaption]) (use checked(1) in \<open>simp add: caption_head_def\<close>)
  have maps: "map ci_Range captions = map cap_Range ?live \<and> (\<exists>font. captions = map (captionInstruction tracks font) ?live)"
    using out checked(3) by (auto simp: captionInstruction_def Let_def split: if_splits)
  then show "rt_valid duration" "rt_val duration = latest_end (map ci_Range captions)"
    "\<exists>font. captions = map (captionInstruction tracks font) ?live" using duration by simp_all
  show "captions_ok bcp47 fonts captions"
  proof (cases required)
    case True
    then obtain font where font: "ValidFontResource font" "fonts = [font]" "captions = map (captionInstruction tracks (font_ResourceID font)) ?live" using out by auto
    have fits: "caption_fits bcp47 (fonts_by_id fonts) (captionInstruction tracks (font_ResourceID font) c) \<and> validatePositiveRange (cap_Range c) True"
      if "c \<in> set ?live" for c
    proof -
      have c: "caption_head bcp47 tracks c" using checked(1) that by blast
      then obtain track where t: "gm_lookup tracks (cap_TrackID c) = Some track" by (auto simp: caption_head_def)
      then have "\<not> ID_IsZero (cap_TrackID c)" "tk_Revision (rtk_state track) \<noteq> 0" using tracks unfolding layered_def by blast+
      then show ?thesis using c t by (simp add: caption_head_def caption_fits_def captionInstruction_def Let_def gm_get_def default_style_valid fonts_by_id_def font(2))
    qed
    have "\<forall>c \<in> set captions. caption_fits bcp47 (fonts_by_id fonts) c \<and> validatePositiveRange (ci_Range c) True"
      using fits unfolding font(3) by (auto simp: captionInstruction_def Let_def)
    moreover have "in_order captionOrder captions" "tracks_apart ci_TrackID ci_Range captions"
      using order apart unfolding font(3) in_order_of_map tracks_apart_of_map by (simp_all add: captionInstruction_def captionOrder_def Let_def)
    moreover have "?live \<noteq> []" using checked(3) True by simp
    then obtain c where "c \<in> set ?live" by (meson list.set_sel(1))
    then have "font_ResourceID font \<in> (\<lambda>c. sty_FontResourceID (ci_Style c)) ` set captions"
      unfolding font(3) by (auto simp: captionInstruction_def defaultRenderCaptionStyle_def Let_def image_iff)
    ultimately show ?thesis using font(1,2) by (simp add: captions_ok_def)
  next
    case False
    then show ?thesis using out by (simp add: captions_ok_def in_order_def tracks_apart_def)
  qed
qed

lemma clip_loop:
  assumes ready: "compile_ready input profile tracks bindings" and inputs: "uniqueRenderInputs bindings = Inr inputs"
    and run: "forEach (compileClip tracks bindings) (sort_slice (renderClipLess tracks) (cmp_Clips input))
      \<lparr>cs_duration = whole_time 0, cs_lastByTrack = [], cs_video = [], cs_audio = []\<rparr> = Inr scan"
    and placements: "\<forall>clip \<in> set (cmp_Clips input). clip_live clip \<longrightarrow> validateRenderPlacement (renderPlacementForClip clip)"
  shows "\<forall>v \<in> set (cs_video scan). video_fits (inputs_by_id inputs) v \<and> validatePositiveRange (vi_TimelineRange v) True"
    "in_order videoOrder (cs_video scan)" "tracks_apart vi_TrackID vi_TimelineRange (cs_video scan)"
    "\<forall>a \<in> set (cs_audio scan). audio_fits (inputs_by_id inputs) a \<and> validatePositiveRange (ai_TimelineRange a) True"
    "in_order audioOrder (cs_audio scan)" "tracks_apart ai_TrackID ai_TimelineRange (cs_audio scan)"
    "rt_valid (cs_duration scan)" "rt_val (cs_duration scan) = latest_end (map vi_TimelineRange (cs_video scan) @ map ai_TimelineRange (cs_audio scan))"
    "rin_ArtifactID ` set inputs \<subseteq> vi_InputArtifactID ` set (cs_video scan) \<union> ai_InputArtifactID ` set (cs_audio scan)"
    "length (cs_video scan) \<le> length (cmp_Clips input)" "length (cs_audio scan) \<le> length (cmp_Clips input)"
proof -
  let ?clips = "sort_slice (renderClipLess tracks) (cmp_Clips input)"
  have "\<forall>clip \<in> set (cmp_Clips input). validateRenderClipHead clip (seq_ID (cmp_Sequence input)) tracks" using ready by (simp add: compile_ready_def)
  note clips = compile_clips [OF this run]
  have video: "cs_video scan = map (video_instruction tracks bindings) (filter (plays tracks TrackVideo) ?clips)"
    and audio: "cs_audio scan = map (audio_instruction tracks bindings) (filter (plays tracks TrackAudio) ?clips)"
    and apart: "tracks_apart clip_TrackID clip_TimelineRange (filter clip_live ?clips)"
    and last: "rt_valid (cs_duration scan)" "rt_val (cs_duration scan) = latest_end (map clip_TimelineRange (filter clip_live ?clips))"
    using clips(1) by (simp_all add: compiled_def placed_ok_def)
  have ranges: "map vi_TimelineRange (cs_video scan) @ map ai_TimelineRange (cs_audio scan) =
      map clip_TimelineRange (filter (plays tracks TrackVideo) ?clips) @ map clip_TimelineRange (filter (plays tracks TrackAudio) ?clips)"
    by (simp add: video audio video_instruction_def audio_instruction_def)
  show "rt_valid (cs_duration scan)" by (rule last)
  show "rt_val (cs_duration scan) = latest_end (map vi_TimelineRange (cs_video scan) @ map ai_TimelineRange (cs_audio scan))"
    unfolding ranges last(2) by (rule latest_end_cong) (use live_plays [OF ready] in \<open>auto simp: plays_def\<close>)
  have positive: "validatePositiveRange (clip_TimelineRange x) True" if "x \<in> set (cmp_Clips input)" for x
    using ready that by (auto simp: compile_ready_def elim: clip_head)
  show "\<forall>v \<in> set (cs_video scan). video_fits (inputs_by_id inputs) v \<and> validatePositiveRange (vi_TimelineRange v) True"
    using instruction_fits(1) [OF ready inputs] placements positive by (auto simp: video plays_def video_instruction_def)
  show "\<forall>a \<in> set (cs_audio scan). audio_fits (inputs_by_id inputs) a \<and> validatePositiveRange (ai_TimelineRange a) True"
    using instruction_fits(2) [OF ready inputs] positive by (auto simp: audio audio_instruction_def)
  show "in_order videoOrder (cs_video scan)" "tracks_apart vi_TrackID vi_TimelineRange (cs_video scan)"
    using clip_parts [OF ready _ clips(2) apart, of TrackVideo] by (simp_all add: video in_order_of_map tracks_apart_of_map video_instruction_def videoOrder_def)
  show "in_order audioOrder (cs_audio scan)" "tracks_apart ai_TrackID ai_TimelineRange (cs_audio scan)"
    using clip_parts [OF ready _ clips(2) apart, of TrackAudio] by (simp_all add: audio in_order_of_map tracks_apart_of_map audio_instruction_def audioOrder_def)
  show "rin_ArtifactID ` set inputs \<subseteq> vi_InputArtifactID ` set (cs_video scan) \<union> ai_InputArtifactID ` set (cs_audio scan)"
    using inputs_used [OF ready inputs] by (simp add: video audio image_image video_instruction_def audio_instruction_def)
  show "length (cs_video scan) \<le> length (cmp_Clips input)" "length (cs_audio scan) \<le> length (cmp_Clips input)"
    using length_filter_le [of _ ?clips] by (simp_all add: video audio)
qed

lemma compiled_contract:
  assumes head: "validateRenderPlanHead input" and ready: "compile_ready input profile tracks bindings" and size: "gm_size bindings \<le> length (cmp_Bindings input)"
    and sound: "input_sound input" and run: "compileRenderInstructions bcp47 base input tracks bindings = Inr (duration, plan)"
    and base: "pay_CompilerVersion base = ''sequence-render-plan-v4''" "pay_ProjectID base = cmp_ProjectID input" "pay_SequenceID base = seq_ID (cmp_Sequence input)"
      "pay_SequenceRevision base = seq_Revision (cmp_Sequence input)" "pay_SequenceFormat base = seq_Format (cmp_Sequence input)"
    and pos: "RationalTime_IsPositive duration" and inputs: "uniqueRenderInputs bindings = Inr inputs" and out: "policy (seq_Format (cmp_Sequence input)) duration = Inr output_policy"
  shows "plan_contract bcp47 profile policy (plan\<lparr>pay_Duration := duration, pay_Inputs := inputs, pay_Output := output_policy\<rparr>)"
proof -
  let ?clips = "sort_slice (renderClipLess tracks) (cmp_Clips input)"
  obtain scan captionDuration fonts captions where
    scan: "forEach (compileClip tracks bindings) ?clips \<lparr>cs_duration = whole_time 0, cs_lastByTrack = [], cs_video = [], cs_audio = []\<rparr> = Inr scan"
    and caps: "compileRenderCaptions bcp47 input tracks = Inr (captionDuration, fonts, captions)" and duration: "duration = laterRenderTime (cs_duration scan) captionDuration"
    and plan: "plan = base\<lparr>pay_Video := cs_video scan, pay_Audio := cs_audio scan, pay_FontResources := fonts, pay_Captions := captions\<rparr>"
    using run by (auto simp: compileRenderInstructions_def Let_def elim!: andThenE casePairE)
  have layers: "layered tracks" using ready by (simp add: compile_ready_def)
  have "\<forall>clip \<in> set (cmp_Clips input). clip_live clip \<longrightarrow> validateRenderPlacement (renderPlacementForClip clip)"
    and starts: "\<forall>caption \<in> set (cmp_Captions input). rt_valid (tr_Start (cap_Range caption))" using sound by (simp_all add: input_sound_def)
  note clips = clip_loop [OF ready inputs scan this(1)] and captions = caption_parts [OF layers starts caps] and unique = uniqueRenderInputs_Inr [OF inputs]
  obtain font where font: "captions = map (captionInstruction tracks font) (filter caption_live (sort_slice (renderCaptionLess tracks) (cmp_Captions input)))" using captions(4) by blast
  have val: "rt_valid duration" "rt_val duration = latest_end (map vi_TimelineRange (cs_video scan) @ map ai_TimelineRange (cs_audio scan) @ map ci_Range captions)"
    using laterRenderTime_val [OF clips(7) captions(2)] clips(8) captions(3) unfolding duration by (simp_all add: max.assoc)
  have lengths: "length inputs \<le> MaximumRenderPlanItems" "length (cs_video scan) \<le> MaximumRenderPlanItems" "length (cs_audio scan) \<le> MaximumRenderPlanItems"
    "length captions \<le> MaximumRenderPlanItems"
    using head size unique(3) clips(10,11) length_filter_le [of caption_live "sort_slice (renderCaptionLess tracks) (cmp_Captions input)"]
    by (simp_all add: validateRenderPlanHead_def font)
  have "0 < rt_val duration" using pos val(1) by (simp add: rt_val_pos_iff)
  then have plan_head: "plan_head (plan\<lparr>pay_Duration := duration, pay_Inputs := inputs, pay_Output := output_policy\<rparr>)"
    using head lengths val(1) captions(1) base by (simp add: plan_head_def plan validateRenderPlanHead_def captions_ok_def MaximumRenderPlanItems_def)
  have "list_all (input_valid profile) inputs" using ready unfolding compile_ready_def bound_def by (auto simp: list_all_iff unique(1))
  then show ?thesis unfolding plan_contract_def
    by (intro conjI plan_head) (use clips captions(1) out val(2) unique(2) in \<open>simp_all add: plan captions_ok_def base\<close>)
qed

lemma andThen_congI: "(\<And>x. a = Inr x \<Longrightarrow> f x = g x) \<Longrightarrow> andThen a f = andThen a g"
  by (cases a) simp_all

lemma instructions_keep_head:
  assumes "compileRenderInstructions bcp47 base input tracks bindings = Inr (duration, plan)"
  shows "pay_Purpose plan = pay_Purpose base"
  using assms by (auto simp: compileRenderInstructions_def Let_def elim!: andThenE casePairE)

lemma compile_validates:
  assumes sound: "input_sound input"
    and validate: "\<And>plan. plan_contract bcp47 profile policy plan \<Longrightarrow> pay_Purpose plan = purpose \<Longrightarrow> validate plan = Inr ()"
  shows "compileSequenceRenderPlan bcp47 planDigest input purpose profile policy validate =
    compileSequenceRenderPlan bcp47 planDigest input purpose profile policy (\<lambda>_. Inr ())"
  unfolding compileSequenceRenderPlan_def Let_def
proof (rule if_cong [OF refl refl], (rule andThen_congI)+, goal_cases)
  case (1 tracks bindings dp)
  note outer = 1
  obtain duration plan where dp: "dp = (duration, plan)" by fastforce
  have materials: "\<And>b. b \<in> set (cmp_Bindings input) \<Longrightarrow> material_sound (cib_Material b)" using sound by (simp add: input_sound_def)
  note bindings = normalizeRenderBindings_Inr [OF 1(3) materials]
  have ready: "compile_ready input profile tracks bindings"
    unfolding compile_ready_def using normalizeRenderTracks_layered [OF 1(2)] bindings(1-3) by blast
  have purpose: "pay_Purpose plan = purpose" using instructions_keep_head [OF 1(4) [unfolded dp]] by simp
  show ?case unfolding dp prod.case
  proof (rule if_cong [OF refl refl], (rule andThen_congI)+, goal_cases)
    case (1 inputs policy_out)
    have "plan_contract bcp47 profile policy (plan\<lparr>pay_Duration := duration, pay_Inputs := inputs, pay_Output := policy_out\<rparr>)"
      by (rule compiled_contract [OF _ ready bindings(4) sound outer(4) [unfolded dp]]) (use 1 outer(1) in simp_all)
    then show ?case using validate purpose by simp
  qed
qed

lemma preview_validates: "plan_contract bcp47 SourceProxyProfile SequencePreviewOutput plan \<Longrightarrow> pay_Purpose plan = RenderPurposeSequencePreview \<Longrightarrow>
    ValidateSequencePreviewRenderPlanPayload bcp47 plan = Inr ()"
  by (simp add: ValidateSequencePreviewRenderPlanPayload_def contract_iff)

lemma export_validates: "plan_contract bcp47 RenderInputProfile SequenceExportOutput plan \<Longrightarrow> pay_Purpose plan = RenderPurposeExport \<Longrightarrow>
    ValidateSequenceExportRenderPlanPayload bcp47 plan = Inr ()"
  by (simp add: ValidateSequenceExportRenderPlanPayload_def contract_iff)

lemma captions_exact:
  assumes "compileRenderCaptions bcp47 input tracks = Inr (duration, fonts, captions)"
  shows "\<exists>font. mset captions = image_mset (captionInstruction tracks font) (filter_mset caption_live (mset (cmp_Captions input)))"
proof -
  let ?cs = "sort_slice (renderCaptionLess tracks) (cmp_Captions input)"
  obtain lasts required where loop: "forEach (checkCaption bcp47 (seq_ID (cmp_Sequence input)) tracks) ?cs (whole_time 0, [], False) = Inr (duration, lasts, required)"
    and out: "if required then \<exists>font. ValidFontResource font \<and> fonts = [font] \<and> captions = map (captionInstruction tracks (font_ResourceID font)) (filter caption_live ?cs)
      else fonts = [] \<and> captions = []" by (rule compileRenderCaptions_Inr [OF assms])
  have "\<exists>font. captions = map (captionInstruction tracks font) (filter caption_live ?cs)" using out check_captions(3) [OF loop] by (auto split: if_splits)
  then obtain font where "captions = map (captionInstruction tracks font) (filter caption_live ?cs)" ..
  then have "mset captions = image_mset (captionInstruction tracks font) (filter_mset caption_live (mset (cmp_Captions input)))"
    by (simp only: mset_map mset_filter mset_sort_slice)
  then show ?thesis ..
qed

end
