(* ===== verification/Draft_Overlay.thy ===== *)
theory Draft_Overlay
  imports Render_Validation
begin

text \<open>
  Draft overlays (\<^verbatim>\<open>product/draftoverlay/overlay.go\<close>): the placements of an uncommitted gesture, substituted into a pinned plan.
\<close>

section \<open>Overlays\<close>

datatype overlay_error = ErrOverlayInvalid | ErrOverlayStale

record clip_placement_operation =
  cpo_ClipID :: ClipID
  cpo_ClipRevision :: revision
  cpo_Placement :: render_placement

record overlay =
  ov_SequenceRevision :: revision
  ov_Placements :: "clip_placement_operation list"

definition Overlay_IsEmpty :: "overlay \<Rightarrow> bool" where
  "Overlay_IsEmpty overlay \<longleftrightarrow> length (ov_Placements overlay) = 0"

definition ValidateRenderPlacement :: "render_placement \<Rightarrow> bool" where
  "ValidateRenderPlacement value = validateRenderPlacement value"

definition overlayOperation :: "clip_placement_operation \<Rightarrow> (ClipID, unit) gomap \<Rightarrow> overlay_error + (ClipID, unit) gomap" where
  "overlayOperation operation seen =
    (if ID_IsZero (cpo_ClipID operation) then Inl ErrOverlayInvalid
     else if gm_has seen (cpo_ClipID operation) then Inl ErrOverlayInvalid
     else if \<not> ValidateRenderPlacement (cpo_Placement operation) then Inl ErrOverlayInvalid
     else Inr (gm_set seen (cpo_ClipID operation) ()))"

definition validateOverlay :: "overlay \<Rightarrow> overlay_error + unit" where
  "validateOverlay overlay =
    (if length (ov_Placements overlay) > 256 then Inl ErrOverlayInvalid
     else andThen (forEach overlayOperation (ov_Placements overlay) []) (\<lambda>_. Inr ()))"

definition overlayTargets :: "render_video_instruction list \<Rightarrow> (ClipID, nat) gomap" where
  "overlayTargets video = foldl (\<lambda>targets (index, instruction). gm_set targets (vi_ClipID instruction) index) [] (enumerate 0 video)"

definition Apply :: "render_plan_payload \<Rightarrow> overlay \<Rightarrow> overlay_error + render_plan_payload" where
  "Apply plan overlay =
    andThen (validateOverlay overlay) (\<lambda>_.
    if Overlay_IsEmpty overlay then Inr plan
    else if ov_SequenceRevision overlay \<noteq> pay_SequenceRevision plan then Inl ErrOverlayStale
    else let targets = overlayTargets (pay_Video plan) in
      if \<not> list_all (\<lambda>operation. case gm_lookup targets (cpo_ClipID operation) of None \<Rightarrow> False
          | Some index \<Rightarrow> vi_ClipRevision (pay_Video plan ! index) = cpo_ClipRevision operation) (ov_Placements overlay)
      then Inl ErrOverlayStale
      else Inr (plan\<lparr>pay_Video := foldl (\<lambda>video operation. let index = gm_get 0 targets (cpo_ClipID operation) in
        video[index := (video ! index)\<lparr>vi_Placement := cpo_Placement operation\<rparr>]) (pay_Video plan) (ov_Placements overlay)\<rparr>))"

section \<open>What an overlay changes\<close>

lemma overlayOperation_Inr:
  "overlayOperation operation seen = Inr seen' \<longleftrightarrow> \<not> ID_IsZero (cpo_ClipID operation) \<and> \<not> gm_has seen (cpo_ClipID operation) \<and>
    validateRenderPlacement (cpo_Placement operation) \<and> seen' = gm_set seen (cpo_ClipID operation) ()"
  by (auto simp: overlayOperation_def ValidateRenderPlacement_def)

lemma overlay_operations:
  "(\<exists>seen'. forEach overlayOperation ops seen = Inr seen') \<longleftrightarrow>
    list_all (\<lambda>op. \<not> ID_IsZero (cpo_ClipID op) \<and> validateRenderPlacement (cpo_Placement op) \<and> \<not> gm_has seen (cpo_ClipID op)) ops \<and>
    distinct (map cpo_ClipID ops)"
  by (induction ops arbitrary: seen) (auto simp: go_result overlayOperation_Inr list_all_iff image_iff)

lemma validateOverlay_Inr:
  "validateOverlay overlay = Inr () \<longleftrightarrow> length (ov_Placements overlay) \<le> 256 \<and> distinct (map cpo_ClipID (ov_Placements overlay)) \<and>
    list_all (\<lambda>op. \<not> ID_IsZero (cpo_ClipID op) \<and> validateRenderPlacement (cpo_Placement op)) (ov_Placements overlay)"
  using overlay_operations [of "ov_Placements overlay" "[]"] by (auto simp: validateOverlay_def go_result)

lemma overlayTargets_Some:
  assumes "gm_lookup (overlayTargets video) k = Some i"
  shows "i < length video \<and> vi_ClipID (video ! i) = k"
proof -
  have "gm_lookup (foldl (\<lambda>targets (index, instruction). gm_set targets (vi_ClipID instruction) index) m xs) k = Some i \<Longrightarrow>
      (\<exists>v. (i, v) \<in> set xs \<and> vi_ClipID v = k) \<or> gm_lookup m k = Some i" for m and xs :: "(nat \<times> render_video_instruction) list"
    by (induction xs arbitrary: m) (fastforce split: if_splits)+
  from this [of "[]" "enumerate 0 video"] assms show ?thesis by (auto simp: overlayTargets_def in_set_enumerate_eq)
qed

lemma overlayTargets_has: "gm_has (overlayTargets video) k \<longleftrightarrow> k \<in> vi_ClipID ` set video"
proof -
  have "gm_has (foldl (\<lambda>targets (index, instruction). gm_set targets (vi_ClipID instruction) index) m xs) k \<longleftrightarrow>
      gm_has m k \<or> k \<in> vi_ClipID ` snd ` set xs" for m and xs :: "(nat \<times> render_video_instruction) list"
    by (induction xs arbitrary: m) auto
  moreover have "snd ` set (enumerate 0 video) = set video" using map_snd_enumerate [of 0 video] by (metis set_map)
  ultimately show ?thesis by (simp add: overlayTargets_def)
qed

text \<open>Two lists of instructions that differ only in placements.\<close>

definition unplaced :: "render_video_instruction \<Rightarrow> render_video_instruction" where
  "unplaced v = v\<lparr>vi_Placement := undefined\<rparr>"

lemma unplaced_eq: "unplaced v = unplaced w \<Longrightarrow> w\<lparr>vi_Placement := vi_Placement v\<rparr> = v"
  by (cases v; cases w) (simp add: unplaced_def)

lemma unplaced_fields:
  assumes "map unplaced xs = map unplaced ys" "\<And>v p. f (v\<lparr>vi_Placement := p\<rparr>) = f v"
  shows "map f xs = map f ys"
proof -
  have "f v = f (unplaced v)" for v using assms(2) by (simp add: unplaced_def)
  then have "map f zs = map f (map unplaced zs)" for zs by simp
  then show ?thesis using assms(1) by metis
qed

lemma substitute_unplaced:
  "map unplaced (foldl (\<lambda>video operation. let index = target operation in video[index := (video ! index)\<lparr>vi_Placement := cpo_Placement operation\<rparr>]) xs ops) =
    map unplaced xs"
proof (induction ops arbitrary: xs)
  case (Cons op ops)
  have "map unplaced (xs[i := (xs ! i)\<lparr>vi_Placement := p\<rparr>]) = map unplaced xs" for i p
    by (cases "i < length xs") (auto simp: map_update list_update_same_conv list_update_beyond unplaced_def)
  then show ?case using Cons by (simp add: Let_def)
qed simp

lemma substitute_nth:
  assumes "i < length xs" "distinct (map target ops)"
  shows "foldl (\<lambda>video operation. let index = target operation in video[index := (video ! index)\<lparr>vi_Placement := cpo_Placement operation\<rparr>]) xs ops ! i =
    (case find (\<lambda>op. target op = i) ops of None \<Rightarrow> xs ! i | Some op \<Rightarrow> (xs ! i)\<lparr>vi_Placement := cpo_Placement op\<rparr>)"
  using assms
proof (induction ops arbitrary: xs)
  case (Cons op ops)
  have "target op = i \<Longrightarrow> find (\<lambda>op. target op = i) ops = None" using Cons.prems(2) by (auto simp: find_None_iff image_iff)
  then show ?case using Cons.IH [of "xs[target op := (xs ! target op)\<lparr>vi_Placement := cpo_Placement op\<rparr>]"] Cons.prems
    by (auto simp: Let_def nth_list_update split: option.splits)
qed simp

lemma find_distinct: "distinct (map target ops) \<Longrightarrow> op \<in> set ops \<Longrightarrow> find (\<lambda>o'. target o' = target op) ops = Some op"
  by (induction ops) (auto simp: image_iff)

lemma in_order_map: "in_order order xs \<longleftrightarrow> sorted_wrt order_less (map order xs)"
  by (simp add: in_order_def sorted_wrt_map)

lemma tracks_apart_map:
  "tracks_apart track placed xs \<longleftrightarrow> sorted_wrt (\<lambda>(t, r) (t', r'). t = t' \<longrightarrow> range_upto r \<le> range_from r') (map (\<lambda>x. (track x, placed x)) xs)"
  by (simp add: tracks_apart_def sorted_wrt_map)

lemma contract_unplaced:
  assumes "plan_contract bcp47 profile policy plan" and same: "map unplaced video = map unplaced (pay_Video plan)"
    and placements: "\<forall>v \<in> set video. validateRenderPlacement (vi_Placement v)"
  shows "plan_contract bcp47 profile policy (plan\<lparr>pay_Video := video\<rparr>)"
proof -
  have maps: "map videoOrder video = map videoOrder (pay_Video plan)" "map vi_TimelineRange video = map vi_TimelineRange (pay_Video plan)"
    "map (\<lambda>x. (vi_TrackID x, vi_TimelineRange x)) video = map (\<lambda>x. (vi_TrackID x, vi_TimelineRange x)) (pay_Video plan)"
    "map vi_InputArtifactID video = map vi_InputArtifactID (pay_Video plan)" "length video = length (pay_Video plan)"
    by (rule unplaced_fields [OF same], simp add: videoOrder_def)+ (rule map_eq_imp_length_eq [OF same])
  let ?inputs = "inputs_by_id (pay_Inputs plan)"
  have fits: "\<forall>v \<in> set video. video_fits ?inputs v \<and> validatePositiveRange (vi_TimelineRange v) True"
  proof
    fix v assume that: "v \<in> set video"
    have "unplaced v \<in> set (map unplaced video)" using that by simp
    then obtain w where w: "w \<in> set (pay_Video plan)" "unplaced v = unplaced w" unfolding same by auto
    then have v: "w\<lparr>vi_Placement := vi_Placement v\<rparr> = v" by (intro unplaced_eq)
    have "video_fits ?inputs w \<and> validatePositiveRange (vi_TimelineRange w) True" using assms(1) w(1) by (simp add: plan_contract_def)
    then have "video_fits ?inputs (w\<lparr>vi_Placement := vi_Placement v\<rparr>) \<and> validatePositiveRange (vi_TimelineRange (w\<lparr>vi_Placement := vi_Placement v\<rparr>)) True"
      using that placements by (simp add: video_fits_def)
    then show "video_fits ?inputs v \<and> validatePositiveRange (vi_TimelineRange v) True" unfolding v .
  qed
  have "vi_InputArtifactID ` set video = vi_InputArtifactID ` set (pay_Video plan)" using maps(4) by (metis set_map)
  then show ?thesis using assms(1) fits maps(1,2,3,5) unfolding plan_contract_def plan_head_def in_order_map tracks_apart_map by simp
qed

lemma Apply_Inr:
  assumes "Apply plan overlay = Inr applied"
  obtains "ov_Placements overlay = []" "applied = plan"
  | target where "ov_Placements overlay \<noteq> []" "distinct (map target (ov_Placements overlay))"
    "ov_SequenceRevision overlay = pay_SequenceRevision plan"
    "\<forall>op \<in> set (ov_Placements overlay). target op < length (pay_Video plan) \<and> vi_ClipID (pay_Video plan ! target op) = cpo_ClipID op \<and>
      vi_ClipRevision (pay_Video plan ! target op) = cpo_ClipRevision op \<and> validateRenderPlacement (cpo_Placement op)"
    "applied = plan\<lparr>pay_Video := foldl (\<lambda>video operation. let index = target operation in
        video[index := (video ! index)\<lparr>vi_Placement := cpo_Placement operation\<rparr>]) (pay_Video plan) (ov_Placements overlay)\<rparr>"
proof (cases "ov_Placements overlay = []")
  case True
  then have "applied = plan" using assms by (auto simp: Apply_def Overlay_IsEmpty_def)
  with True show thesis by (rule that(1))
next
  case False
  let ?target = "\<lambda>op. gm_get 0 (overlayTargets (pay_Video plan)) (cpo_ClipID op)"
  from assms False have valid: "validateOverlay overlay = Inr ()" and rev: "ov_SequenceRevision overlay = pay_SequenceRevision plan"
    and all: "list_all (\<lambda>operation. case gm_lookup (overlayTargets (pay_Video plan)) (cpo_ClipID operation) of None \<Rightarrow> False
      | Some index \<Rightarrow> vi_ClipRevision (pay_Video plan ! index) = cpo_ClipRevision operation) (ov_Placements overlay)"
    and applied: "applied = plan\<lparr>pay_Video := foldl (\<lambda>video operation. let index = ?target operation in
        video[index := (video ! index)\<lparr>vi_Placement := cpo_Placement operation\<rparr>]) (pay_Video plan) (ov_Placements overlay)\<rparr>"
    by (auto simp: Apply_def Overlay_IsEmpty_def Let_def split: if_splits)
  have ops: "\<forall>op \<in> set (ov_Placements overlay). ?target op < length (pay_Video plan) \<and> vi_ClipID (pay_Video plan ! ?target op) = cpo_ClipID op \<and>
      vi_ClipRevision (pay_Video plan ! ?target op) = cpo_ClipRevision op \<and> validateRenderPlacement (cpo_Placement op)"
    using all valid overlayTargets_Some [of "pay_Video plan"] by (fastforce simp: list_all_iff gm_get_def validateOverlay_Inr split: option.splits)
  have "distinct (map ?target (ov_Placements overlay))"
    using valid ops by (auto simp: validateOverlay_Inr distinct_map inj_on_def) metis
  then show thesis using False rev ops applied by (intro that(2))
qed

lemma Apply_contract:
  assumes "plan_contract bcp47 profile policy plan" "Apply plan overlay = Inr applied"
  shows "plan_contract bcp47 profile policy applied"
  using assms(2)
proof (cases rule: Apply_Inr)
  case (2 target)
  let ?video = "foldl (\<lambda>video operation. let index = target operation in
    video[index := (video ! index)\<lparr>vi_Placement := cpo_Placement operation\<rparr>]) (pay_Video plan) (ov_Placements overlay)"
  have len: "length ?video = length (pay_Video plan)" using substitute_unplaced [of target "pay_Video plan"] by (rule map_eq_imp_length_eq)
  have "validateRenderPlacement (vi_Placement (?video ! i))" if "i < length (pay_Video plan)" for i
  proof -
    have "video_fits (inputs_by_id (pay_Inputs plan)) (pay_Video plan ! i)" using assms(1) that by (simp add: plan_contract_def)
    then have "validateRenderPlacement (vi_Placement (pay_Video plan ! i))" by (simp add: video_fits_def)
    then show ?thesis
    proof (cases "find (\<lambda>op. target op = i) (ov_Placements overlay)")
      case (Some op)
      then have "op \<in> set (ov_Placements overlay)" by (auto simp: find_Some_iff)
      then show ?thesis using substitute_nth [OF that 2(2)] 2(4) Some by simp
    qed (simp add: substitute_nth [OF that 2(2)])
  qed
  then have "\<forall>v \<in> set ?video. validateRenderPlacement (vi_Placement v)" by (simp add: all_set_conv_all_nth len)
  then show ?thesis unfolding 2(5) by (intro contract_unplaced [OF assms(1) substitute_unplaced])
qed (use assms in simp)

text \<open>What becomes of an instruction: a named clip has the placement the overlay gives it, and every other one is unchanged.\<close>

definition placed_by :: "clip_placement_operation \<Rightarrow> render_video_instruction \<Rightarrow> render_video_instruction \<Rightarrow> bool" where
  "placed_by op before after \<longleftrightarrow> vi_ClipID before = cpo_ClipID op \<and> vi_ClipRevision before = cpo_ClipRevision op \<and>
    after = before\<lparr>vi_Placement := cpo_Placement op\<rparr>"

lemma Apply_named:
  assumes "Apply plan overlay = Inr applied" "op \<in> set (ov_Placements overlay)"
  shows "\<exists>i < length (pay_Video plan). placed_by op (pay_Video plan ! i) (pay_Video applied ! i)"
  using assms(1)
proof (cases rule: Apply_Inr)
  case (2 target)
  then show ?thesis using assms(2) find_distinct [OF 2(2) assms(2)] substitute_nth [OF _ 2(2), of "target op" "pay_Video plan"]
    by (intro exI [of _ "target op"]) (simp add: placed_by_def)
qed (use assms in simp)

lemma Apply_unnamed:
  assumes "Apply plan overlay = Inr applied" "i < length (pay_Video plan)" "\<forall>op \<in> set (ov_Placements overlay). \<not> placed_by op (pay_Video plan ! i) (pay_Video applied ! i)"
  shows "pay_Video applied ! i = pay_Video plan ! i"
  using assms(1)
proof (cases rule: Apply_Inr)
  case (2 target)
  show ?thesis
  proof (cases "find (\<lambda>op. target op = i) (ov_Placements overlay)")
    case (Some op)
    then have op: "op \<in> set (ov_Placements overlay)" "target op = i" by (auto simp: find_Some_iff)
    then have "placed_by op (pay_Video plan ! i) (pay_Video applied ! i)" using 2 substitute_nth [OF assms(2) 2(2)] Some by (auto simp: placed_by_def)
    then show ?thesis using assms(3) op by blast
  qed (use 2 substitute_nth [OF assms(2) 2(2)] in simp)
qed simp

section \<open>Properties\<close>

text \<open>C32. Applying a draft overlay to a valid plan gives a valid plan: no other check has to be repeated. The result has the instructions of the plan, and differs from it
  only in the placements of the clips the overlay names, each at the revision the gesture started from: every operation places a clip, and an instruction that no operation
  places is unchanged, its placement included. An empty overlay changes nothing.\<close>

theorem overlay_keeps_plan_valid:
  assumes "ValidateRenderPlanPayload bcp47 plan = Inr ()" "Apply plan overlay = Inr applied"
  shows "ValidateRenderPlanPayload bcp47 applied = Inr () \<and> map unplaced (pay_Video applied) = map unplaced (pay_Video plan) \<and>
    applied\<lparr>pay_Video := pay_Video plan\<rparr> = plan \<and> (ov_Placements overlay = [] \<longrightarrow> applied = plan) \<and>
    (\<forall>op \<in> set (ov_Placements overlay). \<exists>i < length (pay_Video plan). vi_ClipID (pay_Video plan ! i) = cpo_ClipID op \<and>
      vi_ClipRevision (pay_Video plan ! i) = cpo_ClipRevision op \<and> pay_Video applied ! i = (pay_Video plan ! i)\<lparr>vi_Placement := cpo_Placement op\<rparr>) \<and>
    length (pay_Video applied) = length (pay_Video plan) \<and>
    (\<forall>i < length (pay_Video plan). pay_Video applied ! i = pay_Video plan ! i \<or>
      (\<exists>op \<in> set (ov_Placements overlay). vi_ClipID (pay_Video plan ! i) = cpo_ClipID op \<and>
        vi_ClipRevision (pay_Video plan ! i) = cpo_ClipRevision op \<and> pay_Video applied ! i = (pay_Video plan ! i)\<lparr>vi_Placement := cpo_Placement op\<rparr>))"
proof -
  have purpose: "pay_Purpose applied = pay_Purpose plan" using assms(2) by (cases rule: Apply_Inr) auto
  have "ValidateRenderPlanPayload bcp47 applied = Inr ()"
    using assms(1) Apply_contract [OF _ assms(2)] by (cases "pay_Purpose plan") (auto simp: validate_contract purpose)
  moreover have same: "map unplaced (pay_Video applied) = map unplaced (pay_Video plan)" "applied\<lparr>pay_Video := pay_Video plan\<rparr> = plan"
    using assms(2) by (cases rule: Apply_Inr; simp add: substitute_unplaced)+
  moreover have "ov_Placements overlay = [] \<longrightarrow> applied = plan" using assms(2) by (cases rule: Apply_Inr) auto
  moreover have "length (pay_Video applied) = length (pay_Video plan)" using map_eq_imp_length_eq [OF same(1)] .
  ultimately show ?thesis using Apply_named [OF assms(2)] Apply_unnamed [OF assms(2)] unfolding placed_by_def by blast
qed

section \<open>A sample plan\<close>

definition sample_digest :: Digest where
  "sample_digest = ''sha256:'' @ replicate 64 CHR ''0''"

definition plain_placement :: render_placement where
  "plain_placement = \<lparr>rp_CropX = 0, rp_CropY = 0, rp_CropWidth = 10000, rp_CropHeight = 10000, rp_ScaleX = whole_rational 1, rp_ScaleY = whole_rational 1,
    rp_TranslateX = whole_rational 0, rp_TranslateY = whole_rational 0, rp_AnchorX = 5000, rp_AnchorY = 5000, rp_Opacity = 10000, rp_FitPolicy = ''contain''\<rparr>"

definition two_seconds :: time_range where
  "two_seconds = \<lparr>tr_Start = whole_time 0, tr_Duration = whole_time 2\<rparr>"

definition sample_video :: render_video_instruction where
  "sample_video = \<lparr>vi_ClipID = ''clip'', vi_ClipRevision = 3, vi_TrackID = ''track'', vi_TrackRevision = 1, vi_Layer = 0, vi_InputArtifactID = ''artifact'',
    vi_SourceStreamID = ''stream'', vi_SourceRange = two_seconds, vi_TimelineRange = two_seconds, vi_Orientation = ''normalized-by-render-material-v1'',
    vi_Placement = plain_placement\<rparr>"

definition sample_source :: render_plan_input where
  "sample_source = \<lparr>rin_ArtifactID = ''artifact'', rin_ArtifactDigest = sample_digest, rin_ProducerVersion = ''producer'', rin_Profile = SourceProxyProfile,
    rin_AssetID = ''asset'', rin_AssetRevision = 1, rin_Fingerprint = sample_digest, rin_SourceEpoch = whole_time 0, rin_MediaDigest = sample_digest,
    rin_Video = Some \<lparr>vin_SourceStreamID = ''stream'', vin_SourceStart = whole_time 0, vin_MaterialStart = whole_time 0, vin_SourceTimeBase = whole_time 1,
      vin_MaterialTimeBase = whole_time 1, vin_TimeMapDigest = sample_digest, vin_Width = 640, vin_Height = 360\<rparr>, rin_Audio = None\<rparr>"

definition sample_output :: render_output_policy where
  "sample_output = renderOutput ''webm-vp9-opus-sequence-preview-v1'' 1280 720 (whole_time 30) 60 96000 (renderVideoOutput 34 4) (renderAudioOutput 128000)"

definition sample_plan :: render_plan_payload where
  "sample_plan = \<lparr>pay_CompilerVersion = ''sequence-render-plan-v4'', pay_Purpose = RenderPurposeSequencePreview, pay_ProjectID = ''project'',
    pay_SequenceID = ''sequence'', pay_SequenceRevision = 5, pay_SequenceFormat = DefaultSequenceFormat, pay_Duration = whole_time 2, pay_Inputs = [sample_source],
    pay_Video = [sample_video], pay_Audio = [], pay_Captions = [], pay_FontResources = [], pay_Output = sample_output\<rparr>"

lemma sample_digest_valid: "validRenderDigest sample_digest"
  by (simp add: validRenderDigest_def sample_digest_def ParseDigest_def list_all_iff)

lemma plain_placement_valid: "validateRenderPlacement plain_placement"
  by (simp add: validateRenderPlacement_def plain_placement_def ExactRational_Compare_def ExactRational_IsPositive_def)

lemma two_seconds_valid: "validatePositiveRange two_seconds b" "sameDuration two_seconds two_seconds" "range_upto two_seconds = 2"
proof -
  have "RationalTime_Add (whole_time 0) (whole_time 2) = Inr (whole_time 2)" using whole_time_val [of 0] whole_time_val [of 2] by (simp add: Add_Inr IsInt64_def)
  then show "validatePositiveRange two_seconds b" by (simp add: validatePositiveRange_def two_seconds_def TimeRange_End_def)
qed (simp_all add: sameDuration_def two_seconds_def range_upto_def)

lemma sample_output: "SequencePreviewOutput DefaultSequenceFormat (whole_time 2) = Inr sample_output"
proof -
  have valid: "rt_valid (whole_time k)" for k using whole_time_val [of "sint k"] by simp
  have count: "ceilRenderCount (whole_time 2) (whole_time 30) = Inr 60" "ceilRenderCount (whole_time 2) (whole_time 48000) = Inr 96000"
    using valid by (simp_all add: ceilRenderCount_Inr)
  have dimensions: "sequencePreviewDimensions DefaultSequenceFormat = Inr (1280, 720)"
    unfolding sequencePreviewDimensions_def using default_format
    by (simp add: DefaultSequenceFormat_def floorBigRatio_def minimumInt64_def evenFloor_def SequencePreviewMaximumLongEdge_def sdiv_nonneg smod_nonneg IsInt64_def)
  show ?thesis unfolding SequencePreviewOutput_def dimensions
    by (simp add: count MaximumPreviewVideoFrames_def MaximumPreviewAudioSamples_def sample_output_def DefaultSequenceFormat_def)
qed

lemma sample_plan_valid: "ValidateRenderPlanPayload bcp47 sample_plan = Inr ()"
proof -
  have "input_valid SourceProxyProfile sample_source"
    by (simp add: input_valid_def sample_source_def ID_IsZero_def sample_digest_valid validatePublishedRenderVideoInput_def rt_valid_def MaximumRenderDimension_def)
  moreover have "video_fits (inputs_by_id [sample_source]) sample_video"
    by (simp add: video_fits_def inputs_by_id_def sample_source_def sample_video_def ID_IsZero_def two_seconds_valid plain_placement_valid)
  moreover have "plan_head sample_plan"
    by (simp add: plan_head_def sample_plan_def ID_IsZero_def default_format rt_valid_def MaximumRenderPlanItems_def)
  ultimately show ?thesis unfolding validate_contract
    by (simp add: sample_plan_def plan_contract_def sample_output in_order_def tracks_apart_def sample_video_def sample_source_def two_seconds_valid)
qed

theorem overlay_keeps_plan_valid_witness:
  "\<exists>applied. Apply sample_plan \<lparr>ov_SequenceRevision = 5, ov_Placements = [\<lparr>cpo_ClipID = ''clip'', cpo_ClipRevision = 3,
      cpo_Placement = plain_placement\<lparr>rp_Opacity := 5000\<rparr>\<rparr>]\<rparr> = Inr applied \<and> ValidateRenderPlanPayload (\<lambda>_. None) applied = Inr () \<and>
    vi_Placement (pay_Video applied ! 0) = plain_placement\<lparr>rp_Opacity := 5000\<rparr> \<and> length (pay_Video applied) = 1"
proof -
  let ?overlay = "\<lparr>ov_SequenceRevision = 5, ov_Placements = [\<lparr>cpo_ClipID = ''clip'', cpo_ClipRevision = 3, cpo_Placement = plain_placement\<lparr>rp_Opacity := 5000\<rparr>\<rparr>]\<rparr>"
  have "validateRenderPlacement (plain_placement\<lparr>rp_Opacity := 5000\<rparr>)"
    by (simp add: validateRenderPlacement_def plain_placement_def ExactRational_Compare_def ExactRational_IsPositive_def)
  then have run: "Apply sample_plan ?overlay = Inr (sample_plan\<lparr>pay_Video := [sample_video\<lparr>vi_Placement := plain_placement\<lparr>rp_Opacity := 5000\<rparr>\<rparr>]\<rparr>)"
    by (simp add: Apply_def validateOverlay_def overlayOperation_def ValidateRenderPlacement_def ID_IsZero_def Overlay_IsEmpty_def sample_plan_def sample_video_def
      overlayTargets_def Let_def)
  show ?thesis by (rule exI, intro conjI, rule run, rule overlay_keeps_plan_valid [OF sample_plan_valid run, THEN conjunct1]) simp_all
qed

end
