(* ===== verification/Render_Theorems.thy ===== *)
theory Render_Theorems
  imports Render_Compile Draft_Overlay
begin

text \<open>
  The properties of the render plan compiler: its plans honour the contract and contain exactly the live clips and captions, and which stored placements
  can be rendered.
\<close>

section \<open>The instructions of a plan\<close>

lemma plan_instructions:
  assumes "compileSequenceRenderPlan bcp47 planDigest input purpose profile policy validate = Inr (plan, canonical)"
  shows "\<exists>tracks bindings font. normalizeRenderTracks (seq_Tracks (cmp_Sequence input)) = Inr tracks \<and> normalizeRenderBindings input tracks profile = Inr bindings \<and>
    mset (pay_Video (plan_Payload plan)) = image_mset (video_instruction tracks bindings) (filter_mset (plays tracks TrackVideo) (mset (cmp_Clips input))) \<and>
    mset (pay_Audio (plan_Payload plan)) = image_mset (audio_instruction tracks bindings) (filter_mset (plays tracks TrackAudio) (mset (cmp_Clips input))) \<and>
    mset (pay_Captions (plan_Payload plan)) = image_mset (captionInstruction tracks font) (filter_mset caption_live (mset (cmp_Captions input)))"
proof -
  obtain tracks bindings base duration payload where t: "normalizeRenderTracks (seq_Tracks (cmp_Sequence input)) = Inr tracks"
    and b: "normalizeRenderBindings input tracks profile = Inr bindings" and r: "compileRenderInstructions bcp47 base input tracks bindings = Inr (duration, payload)"
    and p: "pay_Video (plan_Payload plan) = pay_Video payload" "pay_Audio (plan_Payload plan) = pay_Audio payload" "pay_Captions (plan_Payload plan) = pay_Captions payload"
    using assms unfolding compileSequenceRenderPlan_def Let_def by (auto split: if_splits elim!: andThenE casePairE) blast
  let ?clips = "sort_slice (renderClipLess tracks) (cmp_Clips input)"
  obtain scan captionDuration fonts captions where
    scan: "forEach (compileClip tracks bindings) ?clips \<lparr>cs_duration = whole_time 0, cs_lastByTrack = [], cs_video = [], cs_audio = []\<rparr> = Inr scan"
    and caps: "compileRenderCaptions bcp47 input tracks = Inr (captionDuration, fonts, captions)"
    and payload: "pay_Video payload = cs_video scan" "pay_Audio payload = cs_audio scan" "pay_Captions payload = captions"
    using r by (auto simp: compileRenderInstructions_def Let_def elim!: andThenE casePairE)
  obtain font where font: "mset captions = image_mset (captionInstruction tracks font) (filter_mset caption_live (mset (cmp_Captions input)))"
    using captions_exact [OF caps] ..
  have "\<forall>clip \<in> set (cmp_Clips input). validateRenderClipHead clip (seq_ID (cmp_Sequence input)) tracks"
    using b index_clips(1) by (auto simp: normalizeRenderBindings_def elim!: andThenE)
  from compile_clips(1) [OF this scan] have "cs_video scan = map (video_instruction tracks bindings) (filter (plays tracks TrackVideo) ?clips)"
    "cs_audio scan = map (audio_instruction tracks bindings) (filter (plays tracks TrackAudio) ?clips)" by (simp_all add: compiled_def)
  then have "mset (cs_video scan) = image_mset (video_instruction tracks bindings) (filter_mset (plays tracks TrackVideo) (mset (cmp_Clips input)))"
    "mset (cs_audio scan) = image_mset (audio_instruction tracks bindings) (filter_mset (plays tracks TrackAudio) (mset (cmp_Clips input)))"
    by (simp_all only: mset_map mset_filter mset_sort_slice)
  then show ?thesis using t b font by (intro exI [of _ tracks] exI [of _ bindings] exI [of _ font]) (simp add: p payload)
qed

section \<open>Stored placements\<close>

lemma scale_render_iff:
  assumes "placement_scale_ok scale"
  shows "(case ExactRational_Compare scale (whole_rational 64) of Inl _ \<Rightarrow> False | Inr comparison \<Rightarrow> comparison \<le> 0 \<and> ExactRational_IsPositive scale) \<longleftrightarrow>
    sint (er_Value scale) \<le> 64 * sint (er_Scale scale)"
proof -
  obtain u where "ExactRational_Validate scale = Inr u" "0 < sint (er_Value scale)" using assms by (auto simp: placement_scale_ok_def isOk_iff)
  then show ?thesis by (auto simp: ExactRational_Compare_def ExactRational_IsPositive_def sgn_if Let_def)
qed

lemma translate_render:
  assumes "placement_translate_ok t"
  shows "(case ExactRational_Compare t (whole_rational (- 16)) of Inl _ \<Rightarrow> False | Inr lower \<Rightarrow> lower \<ge> 0) \<and>
    (case ExactRational_Compare t (whole_rational 16) of Inl _ \<Rightarrow> False | Inr upper \<Rightarrow> upper \<le> 0)"
proof -
  obtain u where u: "ExactRational_Validate t = Inr u" and bound: "\<not> absInt64 (er_Value t) > scast (er_Scale t) * 10" using assms by (auto simp: placement_translate_ok_def isOk_iff)
  have pos: "0 < sint (er_Scale t)" using u by (auto simp: ExactRational_Validate_def split: if_splits)
  have "sint (er_Scale t) < 2 ^ 31" using sint_lt [of "er_Scale t"] by simp
  then have "uint (scast (er_Scale t) * 10 :: uint64) = sint (er_Scale t) * 10" using pos by (simp add: uint_word_ariths uint_scast32)
  then have "\<bar>sint (er_Value t)\<bar> \<le> sint (er_Scale t) * 10" using bound by (simp add: word_less_def uint_absInt64)
  then show ?thesis using u pos by (auto simp: ExactRational_Compare_def sgn_if Let_def)
qed

lemma stored_placement_iff:
  assumes "ClipPlacement_Validate p = Inr ()" "clip_Placement clip = Some p"
  shows "validateRenderPlacement (renderPlacementForClip clip) \<longleftrightarrow>
    sint (er_Value (pl_ScaleX p)) \<le> 64 * sint (er_Scale (pl_ScaleX p)) \<and> sint (er_Value (pl_ScaleY p)) \<le> 64 * sint (er_Scale (pl_ScaleY p))"
proof -
  have p: "pl_CropWidth p \<noteq> 0" "pl_CropHeight p \<noteq> 0" "\<not> (ucast (pl_CropX p) + ucast (pl_CropWidth p) :: uint32) > 10000"
      "\<not> (ucast (pl_CropY p) + ucast (pl_CropHeight p) :: uint32) > 10000" "\<not> pl_Opacity p > 10000"
      "placement_scale_ok (pl_ScaleX p)" "placement_scale_ok (pl_ScaleY p)" "placement_translate_ok (pl_TranslateX p)" "placement_translate_ok (pl_TranslateY p)"
    using assms(1) by (auto simp: ClipPlacement_Validate_def split: if_splits)
  have ok: "isOk (ExactRational_Validate (pl_ScaleX p))" "isOk (ExactRational_Validate (pl_ScaleY p))" "isOk (ExactRational_Validate (pl_TranslateX p))"
      "isOk (ExactRational_Validate (pl_TranslateY p))" using p(6-9) by (auto simp: placement_scale_ok_def placement_translate_ok_def)
  show ?thesis unfolding validateRenderPlacement_def
    using p ok scale_render_iff [OF p(6)] scale_render_iff [OF p(7)] translate_render [OF p(8)] translate_render [OF p(9)]
    by (simp add: renderPlacementForClip_def defaultRenderPlacement_def assms(2))
qed

lemma compiled_placements:
  assumes run: "compileSequenceRenderPlan bcp47 planDigest input purpose profile policy validate = Inr (plan, canonical)"
    and validate: "\<And>payload. validate payload = Inr () \<Longrightarrow> plan_contract bcp47 profile policy payload"
    and tracks: "normalizeRenderTracks (seq_Tracks (cmp_Sequence input)) = Inr tracks"
    and clip: "clip \<in> set (cmp_Clips input)" "plays tracks TrackVideo clip"
  shows "validateRenderPlacement (renderPlacementForClip clip)"
proof -
  have contract: "plan_contract bcp47 profile policy (plan_Payload plan)"
    using run validate unfolding compileSequenceRenderPlan_def Let_def by (auto split: if_splits elim!: andThenE casePairE)
  obtain bindings where "mset (pay_Video (plan_Payload plan)) = image_mset (video_instruction tracks bindings) (filter_mset (plays tracks TrackVideo) (mset (cmp_Clips input)))"
    using plan_instructions [OF run] tracks by auto
  then have "video_instruction tracks bindings clip \<in># mset (pay_Video (plan_Payload plan))" using clip by auto
  then have "video_fits (inputs_by_id (pay_Inputs (plan_Payload plan))) (video_instruction tracks bindings clip)" using contract by (simp add: plan_contract_def)
  then show ?thesis by (simp add: video_fits_def video_instruction_def)
qed

lemma oversized_fails:
  assumes "\<not> validateRenderPlacement (renderPlacementForClip clip)" "normalizeRenderTracks (seq_Tracks (cmp_Sequence input)) = Inr tracks"
    "clip \<in> set (cmp_Clips input)" "plays tracks TrackVideo clip"
  shows "\<not> isOk (CompileSequencePreviewPlan bcp47 planDigest input)" "\<not> isOk (CompileSequenceExportPlan bcp47 planDigest input)"
proof -
  have preview: "plan_contract bcp47 SourceProxyProfile SequencePreviewOutput payload" if "ValidateSequencePreviewRenderPlanPayload bcp47 payload = Inr ()" for payload
    using that by (simp add: ValidateSequencePreviewRenderPlanPayload_def contract_iff split: if_splits)
  have export: "plan_contract bcp47 RenderInputProfile SequenceExportOutput payload" if "ValidateSequenceExportRenderPlanPayload bcp47 payload = Inr ()" for payload
    using that by (simp add: ValidateSequenceExportRenderPlanPayload_def contract_iff split: if_splits)
  show "\<not> isOk (CompileSequencePreviewPlan bcp47 planDigest input)"
    using assms(1) compiled_placements [OF _ preview assms(2-4)] unfolding CompileSequencePreviewPlan_def isOk_iff by fastforce
  show "\<not> isOk (CompileSequenceExportPlan bcp47 planDigest input)"
    using assms(1) compiled_placements [OF _ export assms(2-4)] unfolding CompileSequenceExportPlan_def isOk_iff by fastforce
qed

section \<open>A sample compilation\<close>

definition sample_clip :: clip_state where
  "sample_clip = \<lparr>clip_ID = ''clip'', clip_Revision = 3, clip_SequenceID = ''sequence'', clip_TrackID = ''track'', clip_AssetID = ''asset'',
    clip_SourceStreamID = ''stream'', clip_SourceRange = two_seconds, clip_TimelineRange = two_seconds, clip_Enabled = True, clip_LinkGroupID = None,
    clip_Placement = None, clip_Tombstoned = False\<rparr>"

definition sample_material :: render_material where
  "sample_material = \<lparr>rm_kind = ArtifactProxy, rm_assetID = ''asset'', rm_fingerprint = sample_digest, rm_producer = ''producer'', rm_profile = SourceProxyProfile,
    rm_sourceEpoch = whole_time 0, rm_mediaDigest = sample_digest, rm_manifestDigest = sample_digest, rm_byteSize = 7, rm_video = rin_Video sample_source, rm_audio = None\<rparr>"

definition sample_compile :: compile_input where
  "sample_compile = \<lparr>cmp_ProjectID = ''project'', cmp_ObservedProjectRevision = 9,
    cmp_Sequence = \<lparr>seq_ID = ''sequence'', seq_Revision = 5, seq_Name = ''Main'', seq_Role = ''main'', seq_Format = DefaultSequenceFormat,
      seq_Tracks = [\<lparr>tk_ID = ''track'', tk_Revision = 1, tk_Type = TrackVideo, tk_Label = ''V1'', tk_OrderKey = ''a''\<rparr>]\<rparr>,
    cmp_Clips = [sample_clip], cmp_Captions = [],
    cmp_Assets = Some [(''asset'', \<lparr>ras_ID = ''asset'', ras_Revision = 1, ras_AcceptedFingerprint = sample_digest, ras_Availability = ''online''\<rparr>)],
    cmp_Bindings = [\<lparr>cib_ClipID = ''clip'', cib_Artifact = \<lparr>asum_ID = ''artifact'', asum_Kind = ArtifactProxy, asum_ProducerVersion = ''producer'',
      asum_InputFingerprint = sample_digest, asum_State = ArtifactReady, asum_ByteSize = 7, asum_ContentDigest = sample_digest, asum_CreatedAt = 0\<rparr>,
      cib_Material = sample_material\<rparr>], cmp_FontResource = None\<rparr>"

definition sample_tracks :: "(string, render_track) gomap" where
  "sample_tracks = [(''track'', \<lparr>rtk_state = \<lparr>tk_ID = ''track'', tk_Revision = 1, tk_Type = TrackVideo, tk_Label = ''V1'', tk_OrderKey = ''a''\<rparr>, rtk_layer = 0\<rparr>)]"

lemma sample_steps:
  "validateRenderPlanHead sample_compile" "normalizeRenderTracks (seq_Tracks (cmp_Sequence sample_compile)) = Inr sample_tracks"
  "normalizeRenderBindings sample_compile sample_tracks SourceProxyProfile = Inr [(''clip'', sample_source)]"
  "uniqueRenderInputs [(''clip'', sample_source)] = Inr [sample_source]"
proof -
  show "validateRenderPlanHead sample_compile" by (simp add: validateRenderPlanHead_def sample_compile_def ID_IsZero_def default_format MaximumRenderPlanItems_def)
  show "normalizeRenderTracks (seq_Tracks (cmp_Sequence sample_compile)) = Inr sample_tracks"
    by (simp add: normalizeRenderTracks_def sample_compile_def sort_slice_def scanTrack_def ID_IsZero_def sample_tracks_def gm_set_def)
  have head: "validateRenderClipHead sample_clip ''sequence'' sample_tracks"
    by (simp add: validateRenderClipHead_def sample_clip_def sample_tracks_def ID_IsZero_def two_seconds_valid)
  have plan: "planInput sample_material \<lparr>asum_ID = ''artifact'', asum_Kind = ArtifactProxy, asum_ProducerVersion = ''producer'',
      asum_InputFingerprint = sample_digest, asum_State = ArtifactReady, asum_ByteSize = 7, asum_ContentDigest = sample_digest, asum_CreatedAt = 0\<rparr>
      \<lparr>ras_ID = ''asset'', ras_Revision = 1, ras_AcceptedFingerprint = sample_digest, ras_Availability = ''online''\<rparr> = Inr sample_source"
    by (simp add: planInput_def sample_material_def sample_source_def ID_IsZero_def)
  show "normalizeRenderBindings sample_compile sample_tracks SourceProxyProfile = Inr [(''clip'', sample_source)]"
    using head plan by (simp add: normalizeRenderBindings_def sample_compile_def indexClip_def bindClip_def validateRenderBinding_def sample_clip_def sample_tracks_def
      gm_set_def sample_material_def sample_source_def SourceProxyProfile_def)
  show "uniqueRenderInputs [(''clip'', sample_source)] = Inr [sample_source]"
    by (simp add: uniqueRenderInputs_def uniqueInput_def gm_entries_def gm_keys_def sort_slice_def gm_set_def)
qed

lemma sample_compiled: "CompileSequencePreviewPlan (\<lambda>_. None) (\<lambda>_. Some (''{}'', sample_digest)) sample_compile =
  Inr (\<lparr>plan_Payload = sample_plan, plan_Digest = sample_digest, plan_ObservedProjectRevision = 9\<rparr>, ''{}'')"
proof -
  have valid: "ValidateSequencePreviewRenderPlanPayload (\<lambda>_. None) sample_plan = Inr ()"
    using sample_plan_valid by (simp add: ValidateRenderPlanPayload_def sample_plan_def)
  have "RationalTime_Add (whole_time 0) (whole_time 2) = Inr (whole_time 2)" using whole_time_val [of 0] whole_time_val [of 2] by (simp add: Add_Inr IsInt64_def)
  then have "forEach (compileClip sample_tracks [(''clip'', sample_source)]) (sort_slice (renderClipLess sample_tracks) (cmp_Clips sample_compile))
      \<lparr>cs_duration = whole_time 0, cs_lastByTrack = [], cs_video = [], cs_audio = []\<rparr> =
      Inr \<lparr>cs_duration = whole_time 2, cs_lastByTrack = [(''track'', whole_time 2)], cs_video = [sample_video], cs_audio = []\<rparr>"
    by (simp add: sample_compile_def sort_slice_def compileClip_def sample_clip_def sample_tracks_def placeItem_def TimeRange_End_def two_seconds_def gm_set_def
      laterRenderTime_def sample_video_def sample_source_def renderPlacementForClip_def defaultRenderPlacement_def plain_placement_def)
  moreover have "compileRenderCaptions (\<lambda>_. None) sample_compile sample_tracks = Inr (whole_time 0, [], [])"
    by (simp add: compileRenderCaptions_def sample_compile_def sort_slice_def)
  ultimately have "compileRenderInstructions (\<lambda>_. None) plan sample_compile sample_tracks [(''clip'', sample_source)] =
      Inr (whole_time 2, plan\<lparr>pay_Video := [sample_video], pay_Audio := [], pay_FontResources := [], pay_Captions := []\<rparr>)" for plan
    by (simp add: compileRenderInstructions_def laterRenderTime_def)
  then show ?thesis unfolding CompileSequencePreviewPlan_def compileSequenceRenderPlan_def Let_def
    using sample_steps valid sample_output by (simp add: sample_compile_def sample_plan_def)
qed

text \<open>C29. The validator at the end of the compilers never refuses a plan: when the material comes from sound manifests, the placements of
  the live clips are within the render contract and the starts of the captions are canonical times, both compilers do what they would do without it.
  Every plan they build honours the contract of published plans, whatever the tracks, clips, captions and bindings.\<close>

theorem compilers_need_no_validation:
  assumes "input_sound input"
  shows "CompileSequencePreviewPlan bcp47 planDigest input =
      compileSequenceRenderPlan bcp47 planDigest input RenderPurposeSequencePreview SourceProxyProfile SequencePreviewOutput (\<lambda>_. Inr ()) \<and>
    CompileSequenceExportPlan bcp47 planDigest input =
      compileSequenceRenderPlan bcp47 planDigest input RenderPurposeExport RenderInputProfile SequenceExportOutput (\<lambda>_. Inr ())"
  unfolding CompileSequencePreviewPlan_def CompileSequenceExportPlan_def
  by (intro conjI compile_validates [OF assms] preview_validates export_validates)

text \<open>C30. A compiled plan contains one instruction for each live enabled clip of a video track, one for each of an audio track and one for
  each live caption, with the revision, track, layer, ranges and placement of that clip or caption, and nothing else.\<close>

theorem compiled_plan_exact:
  assumes "compileSequenceRenderPlan bcp47 planDigest input purpose profile policy validate = Inr (plan, canonical)"
  shows "\<exists>tracks bindings font. normalizeRenderTracks (seq_Tracks (cmp_Sequence input)) = Inr tracks \<and> normalizeRenderBindings input tracks profile = Inr bindings \<and>
    mset (pay_Video (plan_Payload plan)) = image_mset (video_instruction tracks bindings) (filter_mset (plays tracks TrackVideo) (mset (cmp_Clips input))) \<and>
    mset (pay_Audio (plan_Payload plan)) = image_mset (audio_instruction tracks bindings) (filter_mset (plays tracks TrackAudio) (mset (cmp_Clips input))) \<and>
    mset (pay_Captions (plan_Payload plan)) = image_mset (captionInstruction tracks font) (filter_mset caption_live (mset (cmp_Captions input)))"
  using assms by (rule plan_instructions)

text \<open>The conclusion is met by the sample: one video instruction for the one clip.\<close>

theorem compiled_plan_exact_witness:
  "pay_Video sample_plan = [sample_video] \<and> (\<exists>tracks bindings font. normalizeRenderTracks (seq_Tracks (cmp_Sequence sample_compile)) = Inr tracks \<and>
    normalizeRenderBindings sample_compile tracks SourceProxyProfile = Inr bindings \<and>
    mset (pay_Video sample_plan) = image_mset (video_instruction tracks bindings) (filter_mset (plays tracks TrackVideo) (mset (cmp_Clips sample_compile))) \<and>
    mset (pay_Audio sample_plan) = image_mset (audio_instruction tracks bindings) (filter_mset (plays tracks TrackAudio) (mset (cmp_Clips sample_compile))) \<and>
    mset (pay_Captions sample_plan) = image_mset (captionInstruction tracks font) (filter_mset caption_live (mset (cmp_Captions sample_compile))))"
proof
  show "pay_Video sample_plan = [sample_video]" by (simp add: sample_plan_def)
qed (use compiled_plan_exact [OF sample_compiled [unfolded CompileSequencePreviewPlan_def]] in simp)

theorem compilers_need_no_validation_witness:
  "input_sound sample_compile \<and> compileSequenceRenderPlan (\<lambda>_. None) (\<lambda>_. Some (''{}'', sample_digest)) sample_compile RenderPurposeSequencePreview
      SourceProxyProfile SequencePreviewOutput (\<lambda>_. Inr ()) =
    Inr (\<lparr>plan_Payload = sample_plan, plan_Digest = sample_digest, plan_ObservedProjectRevision = 9\<rparr>, ''{}'')"
proof
  have "renderPlacementForClip sample_clip = plain_placement" by (simp add: renderPlacementForClip_def sample_clip_def defaultRenderPlacement_def plain_placement_def)
  then show sound: "input_sound sample_compile"
    by (simp add: input_sound_def sample_compile_def plain_placement_valid material_sound_def sample_material_def sample_source_def sample_digest_valid
      validatePublishedRenderVideoInput_def ID_IsZero_def MaximumRenderDimension_def rt_valid_def)
  show "compileSequenceRenderPlan (\<lambda>_. None) (\<lambda>_. Some (''{}'', sample_digest)) sample_compile RenderPurposeSequencePreview
      SourceProxyProfile SequencePreviewOutput (\<lambda>_. Inr ()) =
    Inr (\<lparr>plan_Payload = sample_plan, plan_Digest = sample_digest, plan_ObservedProjectRevision = 9\<rparr>, ''{}'')"
    using compilers_need_no_validation [OF sound, of "\<lambda>_. None" "\<lambda>_. Some (''{}'', sample_digest)"] sample_compiled by simp
qed

text \<open>C31. A stored clip placement that passes its own check can be rendered exactly when both scales are at most 64. The check admits scales up to 100, so
  a live clip of a video track placed at a scale between 64 and 100 makes every compilation of its sequence fail, as a preview and as an export.\<close>

theorem stored_placement_limits:
  assumes "ClipPlacement_Validate p = Inr ()" "clip_Placement clip = Some p" "clip \<in> set (cmp_Clips input)"
    "normalizeRenderTracks (seq_Tracks (cmp_Sequence input)) = Inr tracks" "plays tracks TrackVideo clip"
  shows "(validateRenderPlacement (renderPlacementForClip clip) \<longleftrightarrow>
      sint (er_Value (pl_ScaleX p)) \<le> 64 * sint (er_Scale (pl_ScaleX p)) \<and> sint (er_Value (pl_ScaleY p)) \<le> 64 * sint (er_Scale (pl_ScaleY p))) \<and>
    (isOk (CompileSequencePreviewPlan bcp47 planDigest input) \<or> isOk (CompileSequenceExportPlan bcp47 planDigest input) \<longrightarrow>
      sint (er_Value (pl_ScaleX p)) \<le> 64 * sint (er_Scale (pl_ScaleX p)) \<and> sint (er_Value (pl_ScaleY p)) \<le> 64 * sint (er_Scale (pl_ScaleY p)))"
  using oversized_fails [OF _ assms(4,3,5), of bcp47 planDigest] stored_placement_iff [OF assms(1,2)] by blast

text \<open>A clip scaled up 65 times is accepted by the edit and refused by both compilers.\<close>

theorem stored_placement_limits_witness:
  "ClipPlacement_Validate (IdentityClipPlacement\<lparr>pl_ScaleX := whole_rational 65\<rparr>) = Inr () \<and>
    \<not> isOk (CompileSequencePreviewPlan (\<lambda>_. None) (\<lambda>_. Some (''{}'', sample_digest))
      (sample_compile\<lparr>cmp_Clips := [sample_clip\<lparr>clip_Placement := Some (IdentityClipPlacement\<lparr>pl_ScaleX := whole_rational 65\<rparr>)\<rparr>]\<rparr>))"
proof
  let ?p = "IdentityClipPlacement\<lparr>pl_ScaleX := whole_rational 65\<rparr>"
  show valid: "ClipPlacement_Validate ?p = Inr ()"
    by (simp add: ClipPlacement_Validate_def IdentityClipPlacement_def placement_scale_ok_def placement_translate_ok_def absInt64_def Let_def ExactRational_Validate_def
      gcd64.simps)
  have "normalizeRenderTracks (seq_Tracks (cmp_Sequence (sample_compile\<lparr>cmp_Clips := [sample_clip\<lparr>clip_Placement := Some ?p\<rparr>]\<rparr>))) = Inr sample_tracks"
    using sample_steps(2) by (simp add: sample_compile_def)
  then show "\<not> isOk (CompileSequencePreviewPlan (\<lambda>_. None) (\<lambda>_. Some (''{}'', sample_digest)) (sample_compile\<lparr>cmp_Clips := [sample_clip\<lparr>clip_Placement := Some ?p\<rparr>]\<rparr>))"
    using stored_placement_limits [OF valid, of "sample_clip\<lparr>clip_Placement := Some ?p\<rparr>" "sample_compile\<lparr>cmp_Clips := [sample_clip\<lparr>clip_Placement := Some ?p\<rparr>]\<rparr>" sample_tracks
      "\<lambda>_. None" "\<lambda>_. Some (''{}'', sample_digest)"]
    by (simp add: plays_def clip_live_def clip_track_def sample_clip_def sample_tracks_def whole_rational_simps)
qed

end
