(* ===== verification/Spec2Isabelle.thy ===== *)
theory Spec2Isabelle
  imports Order_Key Local_References Clip_Theorems Rough_Cut Activation Render_Theorems
begin

text \<open>
  \<^bold>\<open>Open Cut: editing, render plans and activation.\<close>

  Open Cut is a video editor whose edits, by a creator or by an agent, all pass one pipeline in
  \<^verbatim>\<open>src/product\<close>. A client sends a list of operations with the revisions it read and
  local names for what it creates. The request is validated on its own
  (\<^verbatim>\<open>application/edits_validation*.go\<close>), identifiers are allocated for the local
  names, the entities it needs are loaded, and \<^verbatim>\<open>NormalizeEditProposal\<close>
  (\<^verbatim>\<open>application/edit_normalize*.go\<close>) turns it into a proposal: the entities to write,
  each at its next revision, an inverse that undoes them, and the list of changed revisions. The
  repository applies the proposal when the revisions still hold. This development models that
  pipeline up to the returned proposal, with the value types of \<^verbatim>\<open>domain/\<close> below it. A second part models what becomes
  of the edited sequence: \<^verbatim>\<open>application/render_plan.go\<close> compiles the sequence, its clips and captions and the material bound
  to the clips into a render plan, \<^verbatim>\<open>rendercontract/\<close> validates published plans, and \<^verbatim>\<open>draftoverlay/\<close>
  substitutes the placements of a gesture in progress. A third part models how a new release becomes active on a machine:
  \<^verbatim>\<open>internal/release/version.go\<close> and \<^verbatim>\<open>internal/state/state.go\<close> as the installer (\<^verbatim>\<open>internal/update/\<close>) and the
  launcher (\<^verbatim>\<open>internal/launcher/launcher.go\<close>) use them, with every interleaving of their accesses to the state file.

  \<^bold>\<open>Theories, from the bottom.\<close>
  \<^item> \<open>Go_Prelude\<close>: results of fallible calls as sums with their inversion rules, loops over slices,
    Go maps as association lists, checked 64 bit arithmetic, stable sorting of slices.
  \<^item> \<open>Exact\<close> (\<^verbatim>\<open>domain/exact.go\<close>): integers and revisions with their decimal texts, exact
    rationals, rational times and ranges. Integers are kept in \<open>int\<close> with the 64 and 32 bit bounds of the
    code written out. The locale \<open>exact_time\<close> states what the arithmetic of times promises and is
    interpreted on the functions of the code.
  \<^item> \<open>Order_Key\<close> (\<^verbatim>\<open>domain/order_key.go\<close>), \<open>Go_Text\<close> (UTF-8 validity, trimming, character classes),
    \<open>Identity\<close> (\<^verbatim>\<open>domain/identity.go\<close>).
  \<^item> \<open>Edit_Domain\<close> (\<^verbatim>\<open>domain/edit.go\<close> and the parts of the other domain files it uses): one record per state
    type, one datatype per enumeration. \<open>Edit_Input\<close> (\<^verbatim>\<open>application/edits.go\<close>): the request.
    \<open>Edit_Validation\<close> (\<^verbatim>\<open>application/edits_validation*.go\<close>): its validation.
  \<^item> \<open>Edit_Log\<close>: the specification the normalizer is proved to implement, a step relation that writes each
    entity once, at its next revision and under a precondition, and logs the write with its inverse.
  \<^item> \<open>Normalizer_State\<close> and \<open>Normalizer_Log\<close> (\<^verbatim>\<open>edit_normalize_helpers.go\<close> and the state of
    \<^verbatim>\<open>edit_normalize.go\<close>): the record of the normalizer and its helpers, and the simulation relation
    \<open>running\<close> between it and the log.
  \<^item> \<open>Normalize_Captions\<close>, \<open>Normalize_Clips\<close>, \<open>Normalize_Narrative\<close>, \<open>Normalize_Transcript\<close>,
    \<open>Normalize_Derivation\<close>: the handlers of \<^verbatim>\<open>edit_normalize.go\<close>,
    \<^verbatim>\<open>edit_normalize_clips.go\<close>, \<^verbatim>\<open>edit_normalize_clip_mutations.go\<close>, \<^verbatim>\<open>edit_normalize_narrative.go\<close>,
    \<^verbatim>\<open>edit_normalize_transcript.go\<close>, \<^verbatim>\<open>edit_normalize_alignment_remap.go\<close>,
    \<^verbatim>\<open>edit_normalize_caption_derivation.go\<close> and \<^verbatim>\<open>edit_normalize_rough_cut.go\<close>, one definition
    per function, each with its simulation lemma.
  \<^item> \<open>Normalize_Frames\<close> shows which handlers leave which part of the state alone. \<open>Normalize\<close> and \<open>Proposals\<close> compose the
    handlers into \<^verbatim>\<open>NormalizeEditProposal\<close> and lift the simulation to it.
  \<^item> \<open>Time_Ranges\<close>, \<open>Timeline\<close>, \<open>Caption_Cues\<close>, \<open>Caption_Theorems\<close>: ranges as intervals of rationals, overlap
    on tracks, and the captions derived from a transcript.
  \<^item> \<open>Local_References\<close>: the search for cycles among the local names of a request against reachability.
    \<open>Validated_Requests\<close>: what the validation guarantees the normalizer about optional fields.
    \<open>Rough_Cut\<close>: the rough cut operation built from a list of excerpts. \<open>Clip_Soundness\<close> and \<open>Clip_Theorems\<close>:
    clips play their source at unit speed inside their stream, kept by every operation.
  \<^item> \<open>Release_Version\<close> (\<^verbatim>\<open>internal/release/version.go\<close>) and \<open>Runtime_State\<close> (\<^verbatim>\<open>internal/state/state.go\<close>,
    with the decisions of \<^verbatim>\<open>internal/launcher/launcher.go\<close>, \<^verbatim>\<open>internal/update/genesis.go\<close> and \<^verbatim>\<open>internal/update/journal.go\<close>): versions and
    their order, the runtime document as a record, its transitions, and when an update or a recovery is admitted. \<open>Activation\<close>: a step relation in which the launcher, the
    installations of broker and loop and the recoveries of starting processes load, save and journal in separate steps. Over all interleavings it
    shows that only a version held through its trial becomes active, and by a run that a concurrent recovery can undo an activation. With at most one installation at a
    time, the document refines an abstract history of activations, the active version never goes back, and every newer version can become active. The relation has more
    runs than the programs: an installation may end at any point and outlive the launcher's process.
  \<^item> \<open>Render_Domain\<close> (\<^verbatim>\<open>domain/render.go\<close> and the parts of \<^verbatim>\<open>project.go\<close> and \<^verbatim>\<open>media.go\<close> it uses):
    the records of a render plan. \<open>Render_Contract\<close> (\<^verbatim>\<open>rendercontract/\<close>): output policies and the validator, one
    definition per function. \<open>Render_Validation\<close>: the three loops over instructions share the locale \<open>instruction_loop\<close>, the two loops
    over inputs and fonts the locale \<open>keyed_loop\<close>; from their interpretations follows the contract \<open>plan_contract\<close>, stated without loops
    and hash maps. \<open>Draft_Overlay\<close> (\<^verbatim>\<open>draftoverlay/overlay.go\<close>).
  \<^item> \<open>Render_Plan\<close> (\<^verbatim>\<open>application/render_plan.go\<close>, \<^verbatim>\<open>render_material.go\<close>): the compiler.
    \<open>Render_Compile\<close> shows what each of its steps establishes (layers of tracks, bindings, placing, captions), and \<open>Render_Theorems\<close>
    that the plan honours the contract and contains exactly the live clips and captions.
  \<^item> \<open>Sample_Times\<close> and \<open>Sample_Edit\<close>: a concrete request on which the theorems are applied.

  \<^bold>\<open>Parameters.\<close> Code outside the repository is an argument: the record \<open>edit_env\<close> holds the canonical digest of a
  proposal (JCS and SHA-256), the count of grapheme clusters of a text (uniseg) and the parser of language tags
  (BCP 47). The only thing assumed of them is, in the reading limits of captions, that a text has at most as many
  graphemes as bytes. The digest of a render plan and the parser of language tags are arguments of the compiler and of the
  validator, and nothing is assumed of them.

  \<^bold>\<open>Conventions.\<close> A panic is a value of the error type (\<open>PanicNil\<close> for a nil pointer), so every early return and
  every panic of the handlers is a branch of the model. Go maps are association lists read by key; where the code ranges over
  one, the result of the model is sorted as the code sorts it. The walk over section parents carries the sections not
  yet visited and therefore ends; the loop over a rope of local references ends on the finite set of local names.

  \<^bold>\<open>Not modelled.\<close> The repository (\<^verbatim>\<open>apps/api/repository\<close>: SQL against SQLite), the HTTP controllers and services,
  media probing and transcoding, the jobs that run previews and exports, the render engine that executes a plan, the network, signatures, archives and started processes of installer and launcher,
  packaging and developer tools, and the TypeScript applications: they are input and output around the core, or call libraries whose behaviour is not in the sources. JSON decoding of requests
  is not modelled; the model starts from the decoded request. \<^verbatim>\<open>NarrativeNodeState.EvidenceStatus\<close> is a field that reads fill
  in and that the normalizer never looks at, and is left out.
\<close>

section \<open>Proposals of the normalizer\<close>

text \<open>C1. The normalizer implements the log machine: a proposal it returns is a run of the machine from
  the given state under the preconditions of the request. Its operations and its inverse preview,
  read backwards, are the writes of the log with their inverses, and its changes are those of the log
  and the aggregate revisions the log noted.\<close>

theorem normalizer_refines_log:
  assumes "proper_input input" "NormalizeEditProposal env input = Inr (p, canonical)"
  shows "\<exists>s. edit_steps (required input) (start_log (input_store (ni_State input))) s \<and>
    prop_Operations p = map fst (log_entries s) \<and> prop_InversePreview p = rev (map snd (log_entries s)) \<and>
    set (prop_Changes p) = set (log_changes s) \<union>
      {c. \<exists>k r. log_aggregates s k = Some r \<and> c = change_of k (Some r) (r + 1) False}"
  by (rule proposal_log [OF assms], intro exI conjI)

theorem normalizer_refines_log_witness:
  "\<exists>p canonical s. NormalizeEditProposal sample_env sample_input = Inr (p, canonical) \<and>
    edit_steps (required sample_input) (start_log (input_store (ni_State sample_input))) s \<and> prop_Operations p = map fst (log_entries s)"
proof (rule sample_proposal)
  fix p canonical
  assume run: "NormalizeEditProposal sample_env sample_input = Inr (p, canonical)"
  from normalizer_refines_log [OF sample_proper run] run show ?thesis by blast
qed

text \<open>C16. A proposal writes each entity at most once and at its next revision: revision one, live, for an
  entity that did not exist, and one more than the current revision otherwise. Replaying the
  operations gives every written entity and leaves the others as they were.\<close>

theorem proposal_writes_once:
  assumes "proper_input input" "NormalizeEditProposal env input = Inr (p, canonical)"
  defines "st0 \<equiv> input_store (ni_State input)"
  shows "distinct (map entity_key (prop_Operations p)) \<and>
    list_all (\<lambda>e. case st0 (entity_key e) of
      None \<Rightarrow> entity_revision e = 1 \<and> \<not> entity_dead e | Some cur \<Rightarrow> entity_revision e = entity_revision cur + 1) (prop_Operations p) \<and>
    list_all (\<lambda>e. replay st0 (prop_Operations p) (entity_key e) = Some e) (prop_Operations p) \<and>
    (\<forall>k. k \<notin> entity_key ` set (prop_Operations p) \<longrightarrow> replay st0 (prop_Operations p) k = st0 k)"
proof -
  from assms(1,2) obtain s where inv: "log_inv (required input) st0 s" and ops: "prop_Operations p = map fst (log_entries s)"
    unfolding st0_def by (rule proposal_log)
  have dist: "distinct (map entity_key (prop_Operations p))" using inv by (simp add: ops log_inv_def)
  have "case st0 (entity_key e) of None \<Rightarrow> entity_revision e = 1 \<and> \<not> entity_dead e | Some cur \<Rightarrow> entity_revision e = entity_revision cur + 1"
    if "e \<in> set (prop_Operations p)" for e
  proof -
    from that obtain undo where "(e, undo) \<in> set (log_entries s)" by (auto simp: ops)
    then have "entry_ok (required input) st0 (e, undo)" using inv by (auto simp: log_inv_def list_all_iff)
    then show ?thesis by (auto simp: entry_ok_def Revision_Next_Inr split: option.splits)
  qed
  then show ?thesis using dist ew.foldl_put_mem [OF dist] ew.foldl_put_other unfolding replay_def list_all_iff by metis
qed

theorem proposal_writes_once_witness:
  "\<exists>p canonical. NormalizeEditProposal sample_env sample_input = Inr (p, canonical) \<and> distinct (map entity_key (prop_Operations p))"
proof (rule sample_proposal)
  fix p canonical
  assume run: "NormalizeEditProposal sample_env sample_input = Inr (p, canonical)"
  from proposal_writes_once [OF sample_proper run] run show ?thesis by blast
qed

text \<open>C2. Undoing a proposal: replaying its inverse preview after its operations gives back every entity the
  state had, with its revision advanced by two, retires what the proposal created and leaves the
  rest of the state untouched.\<close>

theorem proposal_undo:
  assumes "proper_input input" "NormalizeEditProposal env input = Inr (p, canonical)"
  defines "st0 \<equiv> input_store (ni_State input)"
  shows "replay (replay st0 (prop_Operations p)) (prop_InversePreview p) k =
    (if k \<notin> entity_key ` set (prop_Operations p) then st0 k
     else case st0 k of
       Some cur \<Rightarrow> Some (entity_with_revision (entity_revision cur + 2) cur)
     | None \<Rightarrow> map_option (\<lambda>e. entity_with_revision 2 (entity_retire e)) (replay st0 (prop_Operations p) k))"
proof -
  from assms(1,2) obtain s where inv: "log_inv (required input) st0 s" and ops: "prop_Operations p = map fst (log_entries s)"
    "prop_InversePreview p = rev (map snd (log_entries s))"
    unfolding st0_def by (rule proposal_log)
  have wf: "store_wf st0" using assms(1) filed_store_wf by (simp add: st0_def proper_input_def)
  have store: "log_store s = replay st0 (prop_Operations p)" and touched: "log_touched s = entity_key ` set (prop_Operations p)"
    using inv by (simp_all add: log_inv_def ops image_comp comp_def)
  from fun_cong [OF log_inv_undo [OF wf inv], of k] show ?thesis
    unfolding store touched ops(2) [symmetric] undone_def by simp
qed

theorem proposal_undo_witness:
  "\<exists>p canonical. NormalizeEditProposal sample_env sample_input = Inr (p, canonical) \<and>
    replay (replay (input_store sample_state) (prop_Operations p)) (prop_InversePreview p) (EntityNarrativeNode, sample_id CHR ''5'') =
      Some (PutNarrativeNode (NoteNode (sample_note\<lparr>note_Revision := 9\<rparr>)))"
proof (rule sample_proposal)
  fix p canonical
  assume run: "NormalizeEditProposal sample_env sample_input = Inr (p, canonical)"
    and ops: "map entity_key (prop_Operations p) = [(EntityNarrativeNode, sample_id CHR ''6''), (EntityNarrativeNode, sample_id CHR ''5''),
      (EntityCaption, sample_id CHR ''b'')]"
  have "(EntityNarrativeNode, sample_id CHR ''5'') \<in> entity_key ` set (prop_Operations p)"
    using arg_cong [OF ops, of set] by simp
  moreover have "input_store sample_state (EntityNarrativeNode, sample_id CHR ''5'') = Some (PutNarrativeNode (NoteNode sample_note))"
    by (simp add: sample_state_def input_store_def store_of_maps_def node_of_maps_def)
  moreover have "ni_State sample_input = sample_state" "note_Revision sample_note = 7" by (simp_all add: sample_input_def sample_note_def)
  ultimately show ?thesis using run proposal_undo [OF sample_proper run, of "(EntityNarrativeNode, sample_id CHR ''5'')"] by auto
qed

text \<open>C3. Optimistic concurrency: a change of an entity that exists, a section or a track noted as aggregate
  included, advances exactly the revision that a precondition of the request names, and a change
  without a base revision creates an entity the state does not have.\<close>

theorem proposal_pins_revisions:
  assumes "proper_input input" "NormalizeEditProposal env input = Inr (p, canonical)" "c \<in> set (prop_Changes p)"
  shows "case chg_Before c of
      Some r \<Rightarrow> chg_After c = r + 1 \<and>
        (\<exists>pre \<in> set (prop_Preconditions p). pre_Kind pre = chg_Kind c \<and> pre_ID pre = chg_ID c \<and> pre_Revision pre = r)
    | None \<Rightarrow> chg_After c = 1 \<and> \<not> chg_Tombstoned c \<and> input_store (ni_State input) (chg_Kind c, chg_ID c) = None"
proof -
  from assms(1,2) have valid: "validateNormalizationInput env input = Inr ()"
    and pres: "prop_Preconditions p = sort_slice preconditionLess (in_Preconditions (ni_Input input))"
    by (rule proposal_normalizer, simp)+
  note pin = required_precondition [OF valid]
  from assms(1,2) obtain s where inv: "log_inv (required input) (input_store (ni_State input)) s"
    and changes: "set (prop_Changes p) = set (log_changes s) \<union> {c. \<exists>k r. log_aggregates s k = Some r \<and> c = change_of k (Some r) (r + 1) False}"
    by (rule proposal_log)
  show ?thesis
  proof (cases "c \<in> set (log_changes s)")
    case True
    then obtain e undo where entry: "(e, undo) \<in> set (log_entries s)" and c: "c = entry_change (input_store (ni_State input)) (e, undo)"
      using inv by (auto simp: log_inv_def)
    have "entry_ok (required input) (input_store (ni_State input)) (e, undo)" using inv entry by (auto simp: log_inv_def list_all_iff)
    then show ?thesis using pin [of "entity_key e"] unfolding c pres
      by (auto simp: entry_ok_def entry_change_def change_of_def Revision_Next_Inr split: option.splits)
  next
    case False
    then obtain k r where "log_aggregates s k = Some r" and c: "c = change_of k (Some r) (r + 1) False" using assms(3) changes by auto
    then have "required input k = Some r" using inv unfolding log_inv_def by metis
    then show ?thesis using pin [of k r] unfolding c pres by (auto simp: change_of_def)
  qed
qed

theorem proposal_pins_revisions_witness:
  "\<exists>p canonical. NormalizeEditProposal sample_env sample_input = Inr (p, canonical) \<and>
    (\<exists>pre \<in> set (prop_Preconditions p). pre_Kind pre = EntityNarrativeNode \<and> pre_ID pre = sample_id CHR ''5'' \<and> pre_Revision pre = 7)"
proof (rule sample_proposal)
  fix p canonical
  assume run: "NormalizeEditProposal sample_env sample_input = Inr (p, canonical)"
    and changes: "set (prop_Changes p) = {change_of (EntityNarrativeNode, sample_id CHR ''4'') (Some 3) 4 False,
      change_of (EntityNarrativeNode, sample_id CHR ''5'') (Some 7) 8 False, change_of (EntityNarrativeNode, sample_id CHR ''6'') None 1 False,
      change_of (EntityTrack, sample_id CHR ''7'') (Some 2) 3 False, change_of (EntityCaption, sample_id CHR ''b'') None 1 False}"
  have "change_of (EntityNarrativeNode, sample_id CHR ''5'') (Some 7) 8 False \<in> set (prop_Changes p)" by (simp add: changes)
  from proposal_pins_revisions [OF sample_proper run this] run show ?thesis by (auto simp: change_of_def)
qed

text \<open>C22. The changes of a proposal are listed in strictly increasing order of kind and identifier, so no entity
  is listed twice.\<close>

theorem proposal_changes_ordered:
  assumes "proper_input input" "NormalizeEditProposal env input = Inr (p, canonical)"
  shows "sorted_wrt (\<lambda>a b. (EditEntityKind_string (chg_Kind a), chg_ID a) < (EditEntityKind_string (chg_Kind b), chg_ID b)) (prop_Changes p)"
proof -
  from assms obtain n where "settled n" "prop_Changes p = sort_slice changeLess (all_changes n)"
    unfolding all_changes_def by (rule proposal_normalizer)
  then show ?thesis using settled_sorted unfolding change_order_def by simp
qed

theorem proposal_changes_ordered_witness:
  "\<exists>p canonical. NormalizeEditProposal sample_env sample_input = Inr (p, canonical) \<and>
    sorted_wrt (\<lambda>a b. (EditEntityKind_string (chg_Kind a), chg_ID a) < (EditEntityKind_string (chg_Kind b), chg_ID b)) (prop_Changes p)"
proof (rule sample_proposal)
  fix p canonical
  assume run: "NormalizeEditProposal sample_env sample_input = Inr (p, canonical)"
  from proposal_changes_ordered [OF sample_proper run] run show ?thesis by blast
qed

section \<open>The timeline and the document\<close>

text \<open>C5. The tracks stay free of overlap: when no two live captions of a track overlap, and no two live clips, the
  same holds after the operations of a proposal, although only the touched ones are checked.\<close>

theorem proposal_keeps_tracks_apart:
  assumes "proper_input input" "NormalizeEditProposal env input = Inr (p, canonical)"
    "captions_apart (input_store (ni_State input))" "clips_apart (input_store (ni_State input))"
  shows "captions_apart (replay (input_store (ni_State input)) (prop_Operations p)) \<and>
    clips_apart (replay (input_store (ni_State input)) (prop_Operations p))"
  using checked_timeline [OF assms] by blast

theorem proposal_keeps_tracks_apart_witness:
  "\<exists>p canonical. NormalizeEditProposal sample_env sample_input = Inr (p, canonical) \<and>
    captions_apart (replay (input_store sample_state) (prop_Operations p))"
proof (rule sample_proposal)
  fix p canonical
  assume run: "NormalizeEditProposal sample_env sample_input = Inr (p, canonical)"
  have state: "ni_State sample_input = sample_state" by (simp add: sample_input_def)
  have "captions_apart (input_store sample_state)" "clips_apart (input_store sample_state)"
    by (auto simp: captions_apart_def clips_apart_def apart_def caption_at_def clip_at_def input_store_def sample_state_def split: if_splits)
  with proposal_keeps_tracks_apart [OF sample_proper run] run show ?thesis by (simp add: state)
qed

text \<open>C4. The document stays a forest: when the nodes given to the normalizer form a forest whose child counts
  agree with the live children, counting those outside the given part, then so do the nodes after
  its operations; in particular no move closes a cycle and no section with children is removed.\<close>

theorem document_stays_forest:
  assumes "proper_input input" "newEditNormalizer input = Inr n" "forest hidden n" "normalizeOperations env n = Inr n'"
  shows "forest hidden n'"
  by (rule normalizeOperations_forest [OF assms(4) newEditNormalizer_running(1) [OF assms(1,2)] assms(3) newEditNormalizer_parsed [OF assms(2)]])

theorem document_stays_forest_witness:
  "forest (\<lambda>_. 0) sample_start \<and> (\<exists>n. normalizeOperations sample_env sample_start = Inr n \<and> forest (\<lambda>_. 0) n)"
proof -
  have nodes: "narrativeNode sample_start i = (if i = sample_id CHR ''4'' then Some (SectionNode sample_section)
      else if i = sample_id CHR ''5'' then Some (NoteNode sample_note) else None)" for i
    by (simp add: narrativeNode_def node_of_maps_def sample_start_def sample_state_def)
  have edges: "edges sample_start = {(sample_id CHR ''5'', sample_id CHR ''4'')}"
    by (auto simp: edges_def nodes sample_section_def sample_note_def split: if_splits)
  have "children sample_start p = (if p = sample_id CHR ''4'' then {sample_id CHR ''5''} else {})" for p
    by (simp add: children_def edges)
  moreover have "n_sectionChildren sample_start = [(sample_id CHR ''4'', 1)]" by (simp add: sample_start_def sample_state_def)
  moreover have "n_allocations sample_start = [(''note'', hd (ni_Allocation sample_input)), (''caption'', last (ni_Allocation sample_input))]"
    by (simp add: sample_start_def sample_input_def)
  ultimately have start: "forest (\<lambda>_. 0) sample_start"
    by (auto simp: forest_def nodes edges gm_get_def isSectionNode_def sample_input_def sample_section_def sample_note_def acyclic_insert wf_acyclic split: if_splits)
  from sample_proper sample_proposal obtain n where "normalizeOperations sample_env sample_start = Inr n"
    using proposal_normalizer sample_start by (metis sum.inject(2))
  with document_stays_forest [OF sample_proper sample_start start] start show ?thesis by blast
qed

text \<open>C21. When the sections do not already form a cycle, the walk of \<^verbatim>\<open>sectionDescendsFrom\<close> ends and answers exactly
  whether the ancestor is reached from the candidate by following parents.\<close>

theorem section_walk_exact:
  assumes "acyclic (parent_of (n_sections n))" "ancestor \<noteq> ''''"
  shows "sectionDescendsFrom candidate ancestor n \<longleftrightarrow> (candidate, ancestor) \<in> (parent_of (n_sections n))\<^sup>*"
  by (rule sectionDescendsFrom_iff [OF assms])

theorem section_walk_exact_witness:
  "sectionDescendsFrom ''b'' ''a'' (sample_start\<lparr>n_sections := [(''a'', sample_section), (''b'', sample_section\<lparr>sec_ParentID := Some ''a''\<rparr>)]\<rparr>)"
proof -
  let ?n = "sample_start\<lparr>n_sections := [(''a'', sample_section), (''b'', sample_section\<lparr>sec_ParentID := Some ''a''\<rparr>)]\<rparr>"
  have edge: "parent_of (n_sections ?n) = {(''b'', ''a'')}" by (auto simp: parent_of_def sample_section_def split: if_splits)
  then have "acyclic (parent_of (n_sections ?n))" by (simp add: acyclic_insert wf_acyclic)
  from section_walk_exact [OF this, of "''a''" "''b''"] show ?thesis unfolding edge by blast
qed

end
